theory Spec2Isabelle
  imports Main "HOL-Library.Word" "HOL-Library.State_Monad"
begin

section \<open>Output of the ATD writer\<close>

text \<open>
  The exporter (\<^verbatim>\<open>libtooling/ASTExporter.h\<close>) never writes bytes itself: it calls the
  primitives of an \<^verbatim>\<open>ATDWriter\<close>.  The model keeps the tree of these calls:
  \<^item> \<^verbatim>\<open>ObjectScope(OF, n)\<close> with the \<^verbatim>\<open>emitTag\<close>-ged values written while it is open;
  \<^item> \<^verbatim>\<open>ArrayScope(OF, n)\<close> / \<^verbatim>\<open>ArrayScope(OF)\<close> and \<^verbatim>\<open>TupleScope(OF, n)\<close> /
    \<^verbatim>\<open>TupleScope(OF)\<close> with the declared size, if one is passed, and the values written;
  \<^item> \<^verbatim>\<open>VariantScope(OF, tag)\<close> with its payload, \<^verbatim>\<open>emitSimpleVariant(tag)\<close> without one;
  \<^item> \<^verbatim>\<open>emitString\<close>, \<^verbatim>\<open>emitInteger\<close>, \<^verbatim>\<open>emitBoolean\<close>.
  The declared sizes are kept as passed, whether or not they match what is written.
\<close>

datatype atd =
    AObject nat "(string \<times> atd) list"
  | AArray "nat option" "atd list"
  | ATuple "nat option" "atd list"
  | AVariant string "atd option"
  | AString string
  | AInteger int
  | ABoolean bool

text \<open>
  Modelled from the spec: \<^verbatim>\<open>ATDWriter::emitFlag(name, value)\<close> (atdlib/ATDWriter.h is not
  among the sources) "writes the field only if value is true".
\<close>

definition emitFlag :: "string \<Rightarrow> bool \<Rightarrow> (string \<times> atd) list" where
  "emitFlag name v = (if v then [(name, ABoolean True)] else [])"

section \<open>Encoding state\<close>

type_synonym pointer = "64 word"

text \<open>
  \<^verbatim>\<open>pointerMap\<close> and \<^verbatim>\<open>pointerCounter\<close> are the two namespace-scope variables of the header
  (lines 397-398); \<^verbatim>\<open>LastLocFilename\<close> and \<^verbatim>\<open>LastLocLine\<close> are members of the exporter
  object.  \<^verbatim>\<open>int\<close> and \<^verbatim>\<open>unsigned\<close> are 32-bit words; \<^verbatim>\<open>%d\<close> reads the counter as a
  signed value.  The member \<^verbatim>\<open>FC\<close> is written by \<^verbatim>\<open>dumpFullComment\<close> and read nowhere, it is
  left out.
\<close>

record encoder_state =
  pointerMap :: "pointer \<rightharpoonup> 32 word"
  pointerCounter :: "32 word"
  LastLocFilename :: string
  LastLocLine :: "32 word"

text \<open>
  The state of the first exporter constructed in a process: the globals as initialised
  statically (an empty map, \<^verbatim>\<open>pointerCounter = 0\<close>), the members as the constructor sets them.
\<close>

definition initial_state :: encoder_state where
  "initial_state =
     \<lparr>pointerMap = Map.empty, pointerCounter = 0, LastLocFilename = '''', LastLocLine = - 1\<rparr>"

text \<open>
  The part of the constructor \<^verbatim>\<open>ASTExporter::ASTExporter\<close> (lines 161-177) that touches the
  state: \<^verbatim>\<open>LastLocFilename("")\<close>, \<^verbatim>\<open>LastLocLine(~0U)\<close>.  It does not mention the globals.
\<close>

definition ASTExporter_ctor :: "encoder_state \<Rightarrow> encoder_state" where
  "ASTExporter_ctor st = st\<lparr>LastLocFilename := '''', LastLocLine := - 1\<rparr>"

section \<open>Identity table: \<^verbatim>\<open>writePointer\<close>\<close>

text \<open>\<^verbatim>\<open>%d\<close> of \<^verbatim>\<open>printf\<close>: decimal digits, most significant first, \<^verbatim>\<open>-\<close> for negatives.\<close>

definition digit_char :: "nat \<Rightarrow> char" where
  "digit_char d = char_of (48 + d)"

fun dec_digits :: "nat \<Rightarrow> string" where
  "dec_digits n = (if n < 10 then [digit_char n] else dec_digits (n div 10) @ [digit_char (n mod 10)])"

declare dec_digits.simps [simp del]

definition printf_d :: "int \<Rightarrow> string" where
  "printf_d i = (if i < 0 then CHR ''-'' # dec_digits (nat (- i)) else dec_digits (nat i))"

text \<open>
  \<^verbatim>\<open>snprintf(str, 20, fmt, v)\<close> keeps at most 19 characters.  The rendering of \<^verbatim>\<open>%p\<close> is
  implementation-defined: it is the parameter \<open>printf_p\<close>.
\<close>

definition snprintf20 :: "string \<Rightarrow> string" where
  "snprintf20 s = take 19 s"

definition writePointer :: "(pointer \<Rightarrow> string) \<Rightarrow> bool \<Rightarrow> pointer \<Rightarrow> encoder_state \<Rightarrow> atd \<times> encoder_state" where
  "writePointer printf_p withPointers Ptr st =
     (if withPointers then (AString (snprintf20 (printf_p Ptr)), st)
      else (case pointerMap st Ptr of
              None \<Rightarrow>
                (AString (snprintf20 (printf_d (sint (pointerCounter st)))),
                 st\<lparr>pointerMap := (pointerMap st)(Ptr \<mapsto> pointerCounter st),
                    pointerCounter := pointerCounter st + 1\<rparr>)
            | Some v \<Rightarrow> (AString (snprintf20 (printf_d (sint v))), st)))"

text \<open>A run seen from the table: the pointers handed to \<^verbatim>\<open>writePointer\<close>, in order.\<close>

fun writePointers :: "(pointer \<Rightarrow> string) \<Rightarrow> bool \<Rightarrow> pointer list \<Rightarrow> encoder_state \<Rightarrow> atd list \<times> encoder_state" where
  "writePointers printf_p wp [] st = ([], st)"
| "writePointers printf_p wp (p # ps) st =
     (let (t, st1) = writePointer printf_p wp p st;
          (ts, st2) = writePointers printf_p wp ps st1
      in (t # ts, st2))"

text \<open>The identities of a sequence in the order in which they are first seen.\<close>

fun first_seen :: "'a list \<Rightarrow> 'a list \<Rightarrow> 'a list" where
  "first_seen seen [] = seen"
| "first_seen seen (p # ps) = first_seen (if p \<in> set seen then seen else seen @ [p]) ps"

fun index_of :: "'a list \<Rightarrow> 'a \<Rightarrow> nat" where
  "index_of [] p = 0"
| "index_of (q # qs) p = (if q = p then 0 else Suc (index_of qs p))"

section \<open>Location compressor: \<^verbatim>\<open>dumpSourceLocation\<close>\<close>

text \<open>
  \<^verbatim>\<open>SM.getPresumedLoc(SM.getSpellingLoc(Loc))\<close> is a query to clang: a source location is
  modelled by its answer, \<open>None\<close> when \<^verbatim>\<open>PLoc.isInvalid()\<close>.
\<close>

record PresumedLoc =
  getFilename :: string
  getLine :: "32 word"
  getColumn :: "32 word"

type_synonym SourceLocation = "PresumedLoc option"

text \<open>
  \<^verbatim>\<open>Options.normalizeSourcePath\<close> is defined in SimplePluginASTAction.h, which is not among
  the sources: it is the parameter \<open>normalizeSourcePath\<close>.
\<close>

definition dumpSourceLocation :: "(string \<Rightarrow> string) \<Rightarrow> SourceLocation \<Rightarrow> encoder_state \<Rightarrow> atd \<times> encoder_state" where
  "dumpSourceLocation normalizeSourcePath Loc st =
     (case Loc of
        None \<Rightarrow> (AObject 0 [], st)
      | Some PLoc \<Rightarrow>
          ((if getFilename PLoc \<noteq> LastLocFilename st then
              AObject 3 [(''file'', AString (normalizeSourcePath (getFilename PLoc))),
                         (''line'', AInteger (uint (getLine PLoc))),
                         (''column'', AInteger (uint (getColumn PLoc)))]
            else if getLine PLoc \<noteq> LastLocLine st then
              AObject 2 [(''line'', AInteger (uint (getLine PLoc))),
                         (''column'', AInteger (uint (getColumn PLoc)))]
            else
              AObject 1 [(''column'', AInteger (uint (getColumn PLoc)))]),
           st\<lparr>LastLocFilename := getFilename PLoc, LastLocLine := getLine PLoc\<rparr>))"

type_synonym SourceRange = "SourceLocation \<times> SourceLocation"

definition dumpSourceRange :: "(string \<Rightarrow> string) \<Rightarrow> SourceRange \<Rightarrow> encoder_state \<Rightarrow> atd \<times> encoder_state" where
  "dumpSourceRange normalizeSourcePath R st =
     (let (b, st1) = dumpSourceLocation normalizeSourcePath (fst R) st;
          (e, st2) = dumpSourceLocation normalizeSourcePath (snd R) st1
      in (ATuple (Some 2) [b, e], st2))"

text \<open>A run seen from the compressor: the locations handed to it, in order.\<close>

fun dumpSourceLocations :: "(string \<Rightarrow> string) \<Rightarrow> SourceLocation list \<Rightarrow> encoder_state \<Rightarrow> atd list \<times> encoder_state" where
  "dumpSourceLocations nsp [] st = ([], st)"
| "dumpSourceLocations nsp (l # ls) st =
     (let (r, st1) = dumpSourceLocation nsp l st;
          (rs, st2) = dumpSourceLocations nsp ls st1
      in (r # rs, st2))"

subsection \<open>The reconstruction rule of the specification\<close>

text \<open>
  The reader of the records carries the last file and the last line forward: a record
  without \<^verbatim>\<open>file\<close> (or without \<^verbatim>\<open>line\<close>) takes it from the record before.  An empty
  record stands for an invalid position and changes nothing.  A position is read back as
  (file, line, column).
\<close>

type_synonym position = "string \<times> int \<times> int"

definition replay_record :: "atd \<Rightarrow> string \<times> int \<Rightarrow> position option \<times> (string \<times> int)" where
  "replay_record r s =
     (case r of
        AObject n fs \<Rightarrow>
          (case map_of fs ''column'' of
             Some (AInteger c) \<Rightarrow>
               (let f = (case map_of fs ''file'' of Some (AString f) \<Rightarrow> f | _ \<Rightarrow> fst s);
                    l = (case map_of fs ''line'' of Some (AInteger l) \<Rightarrow> l | _ \<Rightarrow> snd s)
                in (Some (f, l, c), (f, l)))
           | _ \<Rightarrow> (None, s))
      | _ \<Rightarrow> (None, s))"

fun replay :: "atd list \<Rightarrow> string \<times> int \<Rightarrow> position option list" where
  "replay [] s = []"
| "replay (r # rs) s = (let (p, s1) = replay_record r s in p # replay rs s1)"

definition position_of :: "PresumedLoc \<Rightarrow> position" where
  "position_of PLoc = (getFilename PLoc, uint (getLine PLoc), uint (getColumn PLoc))"

definition normalized_position_of :: "(string \<Rightarrow> string) \<Rightarrow> PresumedLoc \<Rightarrow> position" where
  "normalized_position_of nsp PLoc = (nsp (getFilename PLoc), uint (getLine PLoc), uint (getColumn PLoc))"

section \<open>Names: \<^verbatim>\<open>dumpName\<close>\<close>

text \<open>
  \<^verbatim>\<open>std::string::find(token, pos)\<close>: the lowest index at or after \<open>pos\<close> where \<open>token\<close>
  occurs, \<open>None\<close> for \<^verbatim>\<open>npos\<close>.  \<^verbatim>\<open>substr(pos, n)\<close> is \<open>take n (drop pos s)\<close> and
  \<^verbatim>\<open>substr(pos)\<close> is \<open>drop pos s\<close>; both are called with \<open>pos \<le> length s\<close> only, see
  \<open>string_find_bounds\<close>, so they do not throw.
\<close>

function string_find :: "string \<Rightarrow> string \<Rightarrow> nat \<Rightarrow> nat option" where
  "string_find s token pos =
     (if length s < pos + length token then None
      else if take (length token) (drop pos s) = token then Some pos
      else string_find s token (Suc pos))"
  by pat_completeness auto
termination
  by (relation "measure (\<lambda>(s, token, pos). Suc (length s) - pos)") auto

declare string_find.simps [simp del]

text \<open>
  The \<^verbatim>\<open>while\<close> loop of \<^verbatim>\<open>dumpName\<close> (lines 533-541) with the \<^verbatim>\<open>push_back\<close> after it;
  \<^verbatim>\<open>token.length()\<close> is 2.
\<close>

function splitLoop :: "string \<Rightarrow> nat \<Rightarrow> string list \<Rightarrow> string list" where
  "splitLoop qualName firstChar splitted =
     (case string_find qualName ''::'' firstChar of
        None \<Rightarrow> splitted @ [drop firstChar qualName]
      | Some lastChar \<Rightarrow>
          splitLoop qualName (lastChar + 2)
            (splitted @ [take (lastChar - firstChar) (drop firstChar qualName)]))"
  by pat_completeness auto
termination
proof (relation "measure (\<lambda>(qualName, firstChar, splitted). Suc (length qualName) - firstChar)", goal_cases)
  case 1
  show ?case by simp
next
  case (2 qualName firstChar splitted lastChar)
  have "string_find s t pos = Some l \<Longrightarrow> pos \<le> l \<and> l + length t \<le> length s" for s t pos l
  proof (induction s t pos rule: string_find.induct)
    case (1 s token pos)
    from "1.prems" show ?case
      by (subst (asm) string_find.simps) (use "1.IH" in \<open>auto split: if_splits\<close>)
  qed
  from this [OF 2] show ?case by auto
qed

declare splitLoop.simps [simp del]

text \<open>
  The loop \<^verbatim>\<open>for (int i = splitted.size() - 1; i >= 0; i--) OF.emitString(splitted[i])\<close>.
\<close>

function emitReversed :: "string list \<Rightarrow> int \<Rightarrow> atd list" where
  "emitReversed splitted i =
     (if 0 \<le> i then AString (splitted ! nat i) # emitReversed splitted (i - 1) else [])"
  by pat_completeness auto
termination
  by (relation "measure (\<lambda>(splitted, i). nat (i + 1))") auto

declare emitReversed.simps [simp del]

text \<open>What \<^verbatim>\<open>dumpName\<close> and \<^verbatim>\<open>dumpDeclRef\<close> read from a \<^verbatim>\<open>NamedDecl\<close>.\<close>

record NamedDecl =
  getNameAsString :: string
  getQualifiedNameAsString :: string
  isHidden :: bool

definition dumpName :: "NamedDecl \<Rightarrow> atd" where
  "dumpName decl =
     (let splitted = splitLoop (getQualifiedNameAsString decl) 0 []
      in AObject 2
           [(''name'', AString (getNameAsString decl)),
            (''qual_name'',
               AArray (Some (length splitted)) (emitReversed splitted (int (length splitted) - 1)))])"

subsection \<open>The components of a qualified name, as the specification words them\<close>

text \<open>
  The \<^verbatim>\<open>::\<close>-separated components of a string, read from left to right: \<open>cur\<close> is the
  component being read.
\<close>

fun components :: "string \<Rightarrow> string \<Rightarrow> string list" where
  "components cur [] = [cur]"
| "components cur [c] = [cur @ [c]]"
| "components cur (c # d # s) =
     (if c = CHR '':'' \<and> d = CHR '':'' then cur # components [] s
      else components (cur @ [c]) (d # s))"

fun join_components :: "string list \<Rightarrow> string" where
  "join_components [] = []"
| "join_components [c] = c"
| "join_components (c # d # cs) = c @ ''::'' @ join_components (d # cs)"

section \<open>The exporter: options and shared utilities\<close>

text \<open>
  What the utilities read from \<^verbatim>\<open>Options\<close>.  \<^verbatim>\<open>normalizeSourcePath\<close> is a member function of
  the options (SimplePluginASTAction.h, not among the sources) and \<open>printf_p\<close> is the C
  library's rendering of \<^verbatim>\<open>%p\<close>: both are parameters.
\<close>

record Options =
  withPointers :: bool
  basePath :: string
  normalizeSourcePath :: "string \<Rightarrow> string"
  printf_p :: "pointer \<Rightarrow> string"

text \<open>
  The traversal threads the state through every call, in the order of the calls of the
  source.  \<open>'a M\<close> is a computation that returns an \<open>'a\<close> and the state after it.
\<close>

type_synonym 'a M = "(encoder_state, 'a) state"

abbreviation return :: "'a \<Rightarrow> 'a M" where
  "return \<equiv> State_Monad.return"

abbreviation sequence :: "'a M list \<Rightarrow> 'a list M" where
  "sequence \<equiv> State_Monad.traverse_list id"

definition dumpPointer :: "'x Options_scheme \<Rightarrow> pointer \<Rightarrow> atd M" where
  "dumpPointer Opts Ptr = State (writePointer (printf_p Opts) (withPointers Opts) Ptr)"

definition dumpSourceLocationM :: "'x Options_scheme \<Rightarrow> SourceLocation \<Rightarrow> atd M" where
  "dumpSourceLocationM Opts Loc = State (dumpSourceLocation (normalizeSourcePath Opts) Loc)"

definition dumpSourceRangeM :: "'x Options_scheme \<Rightarrow> SourceRange \<Rightarrow> atd M" where
  "dumpSourceRangeM Opts R = State (dumpSourceRange (normalizeSourcePath Opts) R)"

text \<open>
  \<^verbatim>\<open>dumpTypeOld(T)\<close> (lines 479-487) reads whether \<open>T\<close> is null and the string of its
  desugared type.
\<close>

definition dumpTypeOld :: "string option \<Rightarrow> atd" where
  "dumpTypeOld T = (case T of None \<Rightarrow> AVariant ''NoType'' None
                            | Some s \<Rightarrow> AVariant ''Type'' (Some (AString s)))"

text \<open>
  \<^verbatim>\<open>dumpQualType(T)\<close> (lines 495-514) reads the string of \<open>T\<close>, the string of its desugared
  type when \<open>T\<close> is not null and is sugared, and the type pointer.
\<close>

record QualType =
  getAsString :: string
  getDesugaredAsString :: "string option"
  getTypePtrOrNull :: pointer

definition dumpPointerToType :: "'x Options_scheme \<Rightarrow> pointer \<Rightarrow> atd M" where
  "dumpPointerToType Opts T = dumpPointer Opts T"

definition dumpQualType :: "'x Options_scheme \<Rightarrow> QualType \<Rightarrow> atd M" where
  "dumpQualType Opts T = do {
     let ShouldEmitDesugared = (getDesugaredAsString T \<noteq> None);
     p \<leftarrow> dumpPointerToType Opts (getTypePtrOrNull T);
     return (AObject (2 + of_bool ShouldEmitDesugared)
       ([(''raw'', AString (getAsString T))]
        @ (case getDesugaredAsString T of None \<Rightarrow> [] | Some d \<Rightarrow> [(''desugared'', AString d)])
        @ [(''type_ptr'', p)]))
   }"

subsection \<open>References to declarations: \<^verbatim>\<open>dumpDeclRef\<close>\<close>

text \<open>
  What \<^verbatim>\<open>dumpDeclRef(D)\<close> (lines 565-585) reads from the declaration it refers to: its
  kind name, its address, \<^verbatim>\<open>dyn_cast<NamedDecl>(&D)\<close> and, through
  \<^verbatim>\<open>dyn_cast<ValueDecl>(&D)\<close>, its type.  A reference does not descend into the declaration.
\<close>

record DeclRef =
  getDeclKindName :: string
  getDeclPointer :: pointer
  asNamedDecl :: "NamedDecl option"
  asValueDeclType :: "QualType option"

definition dumpDeclRef :: "'x Options_scheme \<Rightarrow> DeclRef \<Rightarrow> atd M" where
  "dumpDeclRef Opts D = do {
     let ND = asNamedDecl D;
     let VD = asValueDeclType D;
     let IsHidden = (case ND of None \<Rightarrow> False | Some nd \<Rightarrow> isHidden nd);
     p \<leftarrow> dumpPointer Opts (getDeclPointer D);
     qt \<leftarrow> (case VD of None \<Rightarrow> return []
                      | Some t \<Rightarrow> do { q \<leftarrow> dumpQualType Opts t; return [(''qual_type'', q)] });
     return (AObject (2 + of_bool (ND \<noteq> None) + of_bool (VD \<noteq> None) + of_bool IsHidden)
       ([(''kind'', AVariant (getDeclKindName D) None), (''decl_pointer'', p)]
        @ (case ND of None \<Rightarrow> []
                    | Some nd \<Rightarrow> [(''name'', dumpName nd)] @ emitFlag ''is_hidden'' IsHidden)
        @ qt))
   }"

subsection \<open>Attributes: \<^verbatim>\<open>dumpAttr\<close>\<close>

text \<open>
  What \<^verbatim>\<open>dumpAttr\<close> (lines 693-742) reads: the name \<open>X\<close> of the attribute kind (the tag is
  \<open>X\<close> followed by \<^verbatim>\<open>Attr\<close>), the address, the range, the parameters as the included
  \<^verbatim>\<open>AttrDump.inc\<close> prints them to the vector stream, and the two flags.
\<close>

record Attr =
  getAttrKindName :: string
  getAttrPointer :: pointer
  getRange :: SourceRange
  getContent :: "string list"
  isInherited :: bool
  isImplicitAttr :: bool

definition dumpAttr :: "'x Options_scheme \<Rightarrow> Attr \<Rightarrow> atd M" where
  "dumpAttr Opts Att = do {
     let IsInherited = isInherited Att;
     let IsImplicit = isImplicitAttr Att;
     p \<leftarrow> dumpPointer Opts (getAttrPointer Att);
     r \<leftarrow> dumpSourceRangeM Opts (getRange Att);
     return (AVariant (getAttrKindName Att @ ''Attr'')
       (Some (AObject (3 + of_bool IsInherited + of_bool IsImplicit)
         ([(''pointer'', p), (''source_range'', r),
           (''parameters'', AArray (Some (length (getContent Att))) (map AString (getContent Att)))]
          @ emitFlag ''is_inherited'' IsInherited
          @ emitFlag ''is_implicit'' IsImplicit))))
   }"

subsection \<open>Comments\<close>

text \<open>
  A comment node: \<^verbatim>\<open>TextComment\<close> is the one class with a visitor of its own; a node of any
  other class of \<^verbatim>\<open>CommentNodes.inc\<close> carries the name of its class and is visited by
  \<^verbatim>\<open>visitComment\<close>, the fallback of clang's \<^verbatim>\<open>CommentVisitor\<close>.  The children of a comment
  are never null.
\<close>

datatype Comment =
    TextComment pointer SourceRange "Comment list" string
  | OtherComment string pointer SourceRange "Comment list"

definition visitComment :: "'x Options_scheme \<Rightarrow> pointer \<Rightarrow> SourceRange \<Rightarrow> atd M list \<Rightarrow> atd list M" where
  "visitComment Opts C R children = do {
     p \<leftarrow> dumpPointer Opts C;
     r \<leftarrow> dumpSourceRangeM Opts R;
     cs \<leftarrow> sequence children;
     return [AObject 2 [(''parent_pointer'', p), (''source_range'', r)],
             AArray (Some (length children)) cs]
   }"

definition visitTextComment :: "'x Options_scheme \<Rightarrow> pointer \<Rightarrow> SourceRange \<Rightarrow> atd M list \<Rightarrow> string \<Rightarrow> atd list M" where
  "visitTextComment Opts C R children text = do {
     fs \<leftarrow> visitComment Opts C R children;
     return (fs @ [AString text])
   }"

text \<open>
  \<^verbatim>\<open>dumpComment(C)\<close> (lines 3725-3735) for a node of one of the classes: the tuple is opened
  without a size.
\<close>

primrec dumpCommentNode :: "'x Options_scheme \<Rightarrow> Comment \<Rightarrow> atd M" where
  "dumpCommentNode Opts (TextComment C R children text) = do {
     fs \<leftarrow> visitTextComment Opts C R (map (dumpCommentNode Opts) children) text;
     return (AVariant ''TextComment'' (Some (ATuple None fs)))
   }"
| "dumpCommentNode Opts (OtherComment kindName C R children) = do {
     fs \<leftarrow> visitComment Opts C R (map (dumpCommentNode Opts) children);
     return (AVariant kindName (Some (ATuple None fs)))
   }"

text \<open>
  \<^verbatim>\<open>dumpFullComment(C)\<close> (lines 3714-3718), called by \<^verbatim>\<open>VisitDecl\<close> on the comment of a
  declaration when there is one (lines 1123-1126).  \<^verbatim>\<open>dumpComment\<close> on a pointer, which
  may be null, is defined with the exporter, whose member \<^verbatim>\<open>NullPtrComment\<close> it uses.
\<close>

definition dumpFullComment :: "'x Options_scheme \<Rightarrow> Comment \<Rightarrow> atd M" where
  "dumpFullComment Opts C = dumpCommentNode Opts C"

subsection \<open>Types\<close>

text \<open>
  What \<^verbatim>\<open>VisitType(T)\<close> (lines 3923-3942) reads from a non-null type: its address, its
  string and the address of its unqualified desugared type.
\<close>

record Type_base =
  getTypePointer :: pointer
  getTypeAsString :: string
  getUnqualifiedDesugaredType :: pointer

text \<open>
  The classes of \<^verbatim>\<open>TypeNodes.def\<close> with a visitor of their own in the exporter, each with
  what its visitor reads (the type pointers of the types it refers to, the addresses of
  declarations).  \<open>T_Type\<close> stands for every class whose visitors fall back to
  \<^verbatim>\<open>VisitType\<close>.
\<close>

datatype Type_payload =
    T_Type
  | T_AdjustedType pointer
  | T_ArrayType pointer
  | T_ConstantArrayType pointer int
  | T_AtomicType pointer
  | T_BlockPointerType pointer
  | T_BuiltinType string
  | T_DecltypeType pointer
  | T_FunctionType pointer
  | T_FunctionProtoType pointer "pointer list"
  | T_MemberPointerType pointer
  | T_ObjCObjectPointerType pointer
  | T_ObjCObjectType pointer "pointer list"
  | T_ObjCInterfaceType pointer
  | T_ParenType pointer
  | T_PointerType pointer
  | T_ReferenceType pointer
  | T_TagType pointer
  | T_TypedefType pointer pointer

text \<open>
  A type node: the name of its class (\<^verbatim>\<open>getTypeClassName()\<close>), the data of the base class
  and of the visitor that clang's \<^verbatim>\<open>TypeVisitor\<close> dispatches it to.
\<close>

datatype Type = Type string Type_base Type_payload

text \<open>\<^verbatim>\<open>QualType(nullptr, 0).getAsString()\<close>, as clang's type printer gives it.\<close>

definition null_type_string :: string where
  "null_type_string = ''NULL TYPE''"

definition VisitType :: "'x Options_scheme \<Rightarrow> Type_base option \<Rightarrow> atd list M" where
  "VisitType Opts T = do {
     let HasDesugaredType = (case T of None \<Rightarrow> False
                                     | Some t \<Rightarrow> getUnqualifiedDesugaredType t \<noteq> getTypePointer t);
     p \<leftarrow> dumpPointer Opts (case T of None \<Rightarrow> 0 | Some t \<Rightarrow> getTypePointer t);
     d \<leftarrow> (case T of
             None \<Rightarrow> return []
           | Some t \<Rightarrow>
               if HasDesugaredType
               then do { q \<leftarrow> dumpPointerToType Opts (getUnqualifiedDesugaredType t);
                         return [(''desugared_type'', q)] }
               else return []);
     return [AObject (2 + of_bool HasDesugaredType)
       ([(''pointer'', p),
         (''raw'', AString (case T of None \<Rightarrow> null_type_string | Some t \<Rightarrow> getTypeAsString t))]
        @ d)]
   }"

definition type_with_child :: "'x Options_scheme \<Rightarrow> Type_base \<Rightarrow> pointer \<Rightarrow> atd list M" where
  "type_with_child Opts T child = do {
     fs \<leftarrow> VisitType Opts (Some T);
     c \<leftarrow> dumpPointerToType Opts child;
     return (fs @ [c])
   }"

definition VisitArrayType :: "'x Options_scheme \<Rightarrow> Type_base \<Rightarrow> pointer \<Rightarrow> atd list M" where
  "VisitArrayType Opts T elementType = type_with_child Opts T elementType"

definition VisitConstantArrayType :: "'x Options_scheme \<Rightarrow> Type_base \<Rightarrow> pointer \<Rightarrow> int \<Rightarrow> atd list M" where
  "VisitConstantArrayType Opts T elementType getSize = do {
     fs \<leftarrow> VisitArrayType Opts T elementType;
     return (fs @ [AInteger getSize])
   }"

definition VisitBuiltinType :: "'x Options_scheme \<Rightarrow> Type_base \<Rightarrow> string \<Rightarrow> atd list M" where
  "VisitBuiltinType Opts T type_name = do {
     fs \<leftarrow> VisitType Opts (Some T);
     return (fs @ [AVariant type_name None])
   }"

definition VisitFunctionType :: "'x Options_scheme \<Rightarrow> Type_base \<Rightarrow> pointer \<Rightarrow> atd list M" where
  "VisitFunctionType Opts T returnType = do {
     fs \<leftarrow> VisitType Opts (Some T);
     r \<leftarrow> dumpPointerToType Opts returnType;
     return (fs @ [AObject 1 [(''return_type'', r)]])
   }"

definition VisitFunctionProtoType :: "'x Options_scheme \<Rightarrow> Type_base \<Rightarrow> pointer \<Rightarrow> pointer list \<Rightarrow> atd list M" where
  "VisitFunctionProtoType Opts T returnType paramTypes = do {
     fs \<leftarrow> VisitFunctionType Opts T returnType;
     let HasParamsType = (0 < length paramTypes);
     ps \<leftarrow> (if HasParamsType
            then do { xs \<leftarrow> sequence (map (dumpPointerToType Opts) paramTypes);
                      return [(''params_type'', AArray (Some (length paramTypes)) xs)] }
            else return []);
     return (fs @ [AObject (0 + of_bool HasParamsType) ps])
   }"

definition VisitObjCObjectType :: "'x Options_scheme \<Rightarrow> Type_base \<Rightarrow> pointer \<Rightarrow> pointer list \<Rightarrow> atd list M" where
  "VisitObjCObjectType Opts T baseType protocols = do {
     fs \<leftarrow> VisitType Opts (Some T);
     let numProtocols = length protocols;
     let HasProtocols = (0 < numProtocols);
     b \<leftarrow> dumpPointerToType Opts baseType;
     ps \<leftarrow> (if HasProtocols
            then do { xs \<leftarrow> sequence (map (dumpPointer Opts) protocols);
                      return [(''protocol_decls_ptr'', AArray (Some numProtocols) xs)] }
            else return []);
     return (fs @ [AObject (1 + of_bool HasProtocols) ([(''base_type'', b)] @ ps)])
   }"

text \<open>
  \<^verbatim>\<open>VisitObjCInterfaceType\<close> (lines 4094-4099): "skip VisitObjCObjectType deliberately",
  although \<^verbatim>\<open>ObjCObjectType\<close> is the parent class of \<^verbatim>\<open>ObjCInterfaceType\<close>.
\<close>

definition VisitObjCInterfaceType :: "'x Options_scheme \<Rightarrow> Type_base \<Rightarrow> pointer \<Rightarrow> atd list M" where
  "VisitObjCInterfaceType Opts T decl = do {
     fs \<leftarrow> VisitType Opts (Some T);
     d \<leftarrow> dumpPointer Opts decl;
     return (fs @ [d])
   }"

definition VisitTagType :: "'x Options_scheme \<Rightarrow> Type_base \<Rightarrow> pointer \<Rightarrow> atd list M" where
  "VisitTagType Opts T decl = do {
     fs \<leftarrow> VisitType Opts (Some T);
     d \<leftarrow> dumpPointer Opts decl;
     return (fs @ [d])
   }"

definition VisitTypedefType :: "'x Options_scheme \<Rightarrow> Type_base \<Rightarrow> pointer \<Rightarrow> pointer \<Rightarrow> atd list M" where
  "VisitTypedefType Opts T desugar decl = do {
     fs \<leftarrow> VisitType Opts (Some T);
     c \<leftarrow> dumpPointerToType Opts desugar;
     d \<leftarrow> dumpPointer Opts decl;
     return (fs @ [AObject 2 [(''child_type'', c), (''decl_ptr'', d)]])
   }"

text \<open>\<^verbatim>\<open>TypeVisitor::Visit(T)\<close>: the visitor of the class of the node.\<close>

definition TypeVisitor_Visit :: "'x Options_scheme \<Rightarrow> Type_base \<Rightarrow> Type_payload \<Rightarrow> atd list M" where
  "TypeVisitor_Visit Opts T p =
     (case p of
        T_Type \<Rightarrow> VisitType Opts (Some T)
      | T_AdjustedType t \<Rightarrow> type_with_child Opts T t
      | T_ArrayType t \<Rightarrow> VisitArrayType Opts T t
      | T_ConstantArrayType t n \<Rightarrow> VisitConstantArrayType Opts T t n
      | T_AtomicType t \<Rightarrow> type_with_child Opts T t
      | T_BlockPointerType t \<Rightarrow> type_with_child Opts T t
      | T_BuiltinType n \<Rightarrow> VisitBuiltinType Opts T n
      | T_DecltypeType t \<Rightarrow> type_with_child Opts T t
      | T_FunctionType r \<Rightarrow> VisitFunctionType Opts T r
      | T_FunctionProtoType r ps \<Rightarrow> VisitFunctionProtoType Opts T r ps
      | T_MemberPointerType t \<Rightarrow> type_with_child Opts T t
      | T_ObjCObjectPointerType t \<Rightarrow> type_with_child Opts T t
      | T_ObjCObjectType b ps \<Rightarrow> VisitObjCObjectType Opts T b ps
      | T_ObjCInterfaceType d \<Rightarrow> VisitObjCInterfaceType Opts T d
      | T_ParenType t \<Rightarrow> type_with_child Opts T t
      | T_PointerType t \<Rightarrow> type_with_child Opts T t
      | T_ReferenceType t \<Rightarrow> type_with_child Opts T t
      | T_TagType d \<Rightarrow> VisitTagType Opts T d
      | T_TypedefType c d \<Rightarrow> VisitTypedefType Opts T c d)"

text \<open>\<^verbatim>\<open>dumpType(T)\<close> (lines 3891-3905): the tuple is opened without a size.\<close>

definition dumpType :: "'x Options_scheme \<Rightarrow> Type option \<Rightarrow> atd M" where
  "dumpType Opts T =
     (case T of
        None \<Rightarrow> do {
          fs \<leftarrow> VisitType Opts None;
          return (AVariant (''None'' @ ''Type'') (Some (ATuple None fs)))
        }
      | Some (Type typeClassName b p) \<Rightarrow> do {
          fs \<leftarrow> TypeVisitor_Visit Opts b p;
          return (AVariant (typeClassName @ ''Type'') (Some (ATuple None fs)))
        })"

section \<open>Declarations and statements: the nodes\<close>

text \<open>
  The exporter reads its input through clang's accessors.  A node of the model holds what
  the visitors of the exporter read from it, under the accessors' names.  Enumerations of
  clang are datatypes with the enumerators that the \<^verbatim>\<open>switch\<close>es of the source list.
\<close>

subsection \<open>What \<^verbatim>\<open>VisitDecl\<close> reads (lines 1079-1128)\<close>

text \<open>
  \<open>getDeclContextIfNotLexical\<close> is the address of \<^verbatim>\<open>cast<Decl>(D->getDeclContext())\<close> when
  \<^verbatim>\<open>D->getLexicalDeclContext() != D->getDeclContext()\<close>, \<open>getOwningModule\<close> the full name of
  the module when there is one, \<open>getLocalComment\<close> the result of
  \<^verbatim>\<open>getLocalCommentForDeclUncached(D)\<close>.
\<close>

record Decl_base =
  getPointer :: pointer
  getDeclContextIfNotLexical :: "pointer option"
  getSourceRange :: SourceRange
  getOwningModule :: "string option"
  isImplicit :: bool
  isUsed :: bool
  isThisDeclarationReferenced :: bool
  isInvalidDecl :: bool
  getAttrs :: "Attr list"
  getLocalComment :: "Comment option"

subsection \<open>Enumerations\<close>

datatype ObjCAccessControl = AC_None | AC_Private | AC_Protected | AC_Public | AC_Package

datatype TLSKind = TLS_None | TLS_Static | TLS_Dynamic

datatype PropertyControl = PC_None | PC_Required | PC_Optional

datatype PropertyImplementation = Synthesize | Dynamic

datatype ExprValueKind = VK_RValue | VK_LValue | VK_XValue

datatype ExprObjectKind =
  OK_Ordinary | OK_BitField | OK_ObjCProperty | OK_ObjCSubscript | OK_VectorComponent

datatype IdentType =
  Func | Function | LFunction | FuncDName | FuncSig | PrettyFunction | PrettyFunctionNoVirtual

datatype UnaryOperatorKind =
  UO_PostInc | UO_PostDec | UO_PreInc | UO_PreDec | UO_AddrOf | UO_Deref | UO_Plus
  | UO_Minus | UO_Not | UO_LNot | UO_Real | UO_Imag | UO_Extension

datatype UnaryExprOrTypeTrait = UETT_SizeOf | UETT_AlignOf | UETT_VecStep

datatype BinaryOperatorKind =
  BO_PtrMemD | BO_PtrMemI | BO_Mul | BO_Div | BO_Rem | BO_Add | BO_Sub | BO_Shl | BO_Shr
  | BO_LT | BO_GT | BO_LE | BO_GE | BO_EQ | BO_NE | BO_And | BO_Xor | BO_Or | BO_LAnd | BO_LOr
  | BO_Assign | BO_MulAssign | BO_DivAssign | BO_RemAssign | BO_AddAssign | BO_SubAssign
  | BO_ShlAssign | BO_ShrAssign | BO_AndAssign | BO_XorAssign | BO_OrAssign | BO_Comma

datatype NameKind =
  Identifier | ObjCZeroArgSelector | ObjCOneArgSelector | ObjCMultiArgSelector
  | CXXConstructorName | CXXDestructorName | CXXConversionFunctionName | CXXOperatorName
  | CXXLiteralOperatorName | CXXUsingDirective

text \<open>
  A nested name specifier with what \<^verbatim>\<open>dumpNestedNameSpecifierLoc\<close> reads: its kind and,
  for a namespace or a namespace alias, the declaration.
\<close>

datatype NestedNameSpecifier =
    NNS_Identifier
  | NNS_Namespace DeclRef
  | NNS_NamespaceAlias DeclRef
  | NNS_TypeSpec
  | NNS_TypeSpecWithTemplate
  | NNS_Global
  | NNS_Super

datatype ReceiverKind = RK_Instance | RK_Class QualType | RK_SuperInstance | RK_SuperClass

subsection \<open>Data of the declaration classes\<close>

record NamespaceDecl_info =
  isInline :: bool
  getOriginalNamespaceIfOther :: "DeclRef option"

text \<open>\<open>None\<close>: \<^verbatim>\<open>getTypeForDecl()\<close> is null; else the string of the desugared type and the address.\<close>

type_synonym TypeForDecl = "(string \<times> pointer) option"

record EnumDecl_info =
  isScoped :: bool
  isScopedUsingClassTag :: bool
  isModulePrivateEnum :: bool

record RecordDecl_info =
  isModulePrivateRecord :: bool
  isCompleteDefinition :: bool

text \<open>
  \<open>getStorageClassString\<close> is \<open>None\<close> for \<^verbatim>\<open>SC_None\<close>, else the specifier's string;
  \<open>isCXXConstructorDecl\<close> is \<^verbatim>\<open>dyn_cast<CXXConstructorDecl>(D)\<close> being non-null.
\<close>

record FunctionDecl_info =
  getStorageClassString :: "string option"
  isInlineSpecified :: bool
  isVirtualAsWritten :: bool
  isModulePrivateFunction :: bool
  isPure :: bool
  isDeletedAsWritten :: bool
  isCXXConstructorDecl :: bool
  doesThisDeclarationHaveABody :: bool

record FieldDecl_info =
  isMutable :: bool
  isModulePrivateField :: bool

record VarDecl_info =
  getVarStorageClassString :: "string option"
  getTLSKind :: TLSKind
  isModulePrivateVar :: bool
  isNRVOVariable :: bool

record UsingDirectiveDecl_info =
  getUsingLoc :: SourceLocation
  getNamespaceKeyLocation :: SourceLocation
  getQualifierLocUD :: "NestedNameSpecifier list"
  getNominatedNamespace :: "DeclRef option"

record NamespaceAliasDecl_info =
  getNamespaceLoc :: SourceLocation
  getTargetNameLoc :: SourceLocation
  getQualifierLocNA :: "NestedNameSpecifier list"
  getNamespace :: DeclRef

text \<open>A base specifier of \<^verbatim>\<open>D->bases()\<close>: \<^verbatim>\<open>isVirtual()\<close> and the type pointer of its type.\<close>

record CXXRecordDecl_info =
  bases :: "(bool \<times> pointer) list"
  isCLike :: bool

record ObjCIvarDecl_info =
  getSynthesize :: bool
  getAccessControl :: ObjCAccessControl

record ObjCMethodDecl_info =
  isInstanceMethod :: bool
  getReturnType :: QualType
  isVariadicMethod :: bool

record ObjCCategoryDecl_info =
  getClassInterfaceC :: "DeclRef option"
  getImplementationC :: "DeclRef option"
  protocolsC :: "DeclRef list"

record ObjCCategoryImplDecl_info =
  getClassInterfaceCI :: "DeclRef option"
  getCategoryDecl :: "DeclRef option"

record ObjCInterfaceDecl_info =
  getSuperClassI :: "DeclRef option"
  getImplementationI :: "DeclRef option"
  protocolsI :: "DeclRef list"

record ObjCImplementationDecl_info =
  getSuperClassM :: "DeclRef option"
  getClassInterfaceM :: "DeclRef option"

text \<open>
  \<open>hasPropertyAttributes\<close> is \<^verbatim>\<open>Attrs != OBJC_PR_noattr\<close>; the twelve flags are the bits of
  \<^verbatim>\<open>Attrs\<close> that the source tests.
\<close>

record ObjCPropertyDecl_info =
  getPropertyType :: QualType
  getPropertyControl :: PropertyControl
  hasPropertyAttributes :: bool
  pr_readonly :: bool
  pr_assign :: bool
  pr_readwrite :: bool
  pr_retain :: bool
  pr_copy :: bool
  pr_nonatomic :: bool
  pr_atomic :: bool
  pr_weak :: bool
  pr_strong :: bool
  pr_unsafe_unretained :: bool
  pr_getter :: bool
  pr_setter :: bool
  getGetterMethodDecl :: DeclRef
  getSetterMethodDecl :: DeclRef

record ObjCPropertyImplDecl_info =
  getPropertyImplementation :: PropertyImplementation
  getPropertyDecl :: "DeclRef option"
  getPropertyIvarDecl :: "DeclRef option"

record BlockDecl_info =
  isVariadicBlock :: bool
  capturesCXXThis :: bool

text \<open>
  A constructor initialiser as \<^verbatim>\<open>dumpCXXCtorInitializer\<close> (lines 821-846) reads it: the
  member (\<^verbatim>\<open>getAnyMember()\<close>), else whether it delegates, with the type written, and the
  initialising expression, which may be null.
\<close>

datatype CtorSubject = Member DeclRef | Delegating QualType | BaseClass QualType bool

datatype 's CXXCtorInitializer = CXXCtorInitializer CtorSubject "'s option"

text \<open>A capture of a block: \<^verbatim>\<open>isByRef\<close>, \<^verbatim>\<open>isNested\<close>, the variable, the copy expression.\<close>

datatype 's Capture = Capture bool bool "DeclRef option" "'s option"

text \<open>
  A \<^verbatim>\<open>DeclContext\<close>: its member declarations \<^verbatim>\<open>decls()\<close> and the two storage flags.
\<close>

type_synonym 'd DeclContext = "'d list \<times> bool \<times> bool"

text \<open>
  The declaration classes with a visitor of their own in the exporter (the
  \<^verbatim>\<open>DECLARE_VISITOR\<close> lines 217-286), each with what its visitor and the visitors of its
  base classes read beyond \<open>Decl_base\<close>.  \<open>'d\<close> and \<open>'s\<close> stand for the declarations and the
  statements below the node.  A child that the source hands to \<^verbatim>\<open>dumpDecl\<close> or \<^verbatim>\<open>dumpStmt\<close>
  unchecked is an option, \<open>None\<close> for a null pointer.
\<close>

datatype ('d, 's) Decl_payload =
    P_Decl
  | P_CapturedDecl "'d DeclContext"
  | P_LinkageSpecDecl "'d DeclContext"
  | P_NamedDecl NamedDecl
  | P_NamespaceDecl NamedDecl "'d DeclContext" NamespaceDecl_info
  | P_ObjCContainerDecl NamedDecl "'d DeclContext"
  | P_TypeDecl NamedDecl TypeForDecl
  | P_TagDecl NamedDecl TypeForDecl "'d DeclContext"
  | P_ValueDecl NamedDecl QualType
  | P_TranslationUnitDecl "'d DeclContext"
  | P_TypedefDecl NamedDecl TypeForDecl bool
  | P_EnumDecl NamedDecl TypeForDecl "'d DeclContext" EnumDecl_info
  | P_RecordDecl NamedDecl TypeForDecl "'d DeclContext" RecordDecl_info
  | P_CXXRecordDecl NamedDecl TypeForDecl "'d DeclContext" RecordDecl_info CXXRecordDecl_info
  | P_EnumConstantDecl NamedDecl QualType "'s option"
  | P_IndirectFieldDecl NamedDecl QualType "DeclRef list"
  | P_FunctionDecl NamedDecl QualType FunctionDecl_info "'d list" "'d list"
      "'s CXXCtorInitializer list" "'s option"
  | P_FieldDecl NamedDecl QualType FieldDecl_info "'s option" "'s option"
  | P_ObjCIvarDecl NamedDecl QualType FieldDecl_info "'s option" "'s option" ObjCIvarDecl_info
  | P_VarDecl NamedDecl QualType VarDecl_info "'s option"
  | P_FileScopeAsmDecl string
  | P_ImportDecl string
  | P_UsingDirectiveDecl NamedDecl UsingDirectiveDecl_info
  | P_NamespaceAliasDecl NamedDecl NamespaceAliasDecl_info
  | P_ObjCMethodDecl NamedDecl ObjCMethodDecl_info "'d list" "'s option"
  | P_ObjCCategoryDecl NamedDecl "'d DeclContext" ObjCCategoryDecl_info
  | P_ObjCCategoryImplDecl NamedDecl "'d DeclContext" ObjCCategoryImplDecl_info
  | P_ObjCProtocolDecl NamedDecl "'d DeclContext" "DeclRef list"
  | P_ObjCInterfaceDecl NamedDecl "'d DeclContext" ObjCInterfaceDecl_info
  | P_ObjCImplementationDecl NamedDecl "'d DeclContext" ObjCImplementationDecl_info
      "'s CXXCtorInitializer list"
  | P_ObjCCompatibleAliasDecl NamedDecl "DeclRef option"
  | P_ObjCPropertyDecl NamedDecl ObjCPropertyDecl_info
  | P_ObjCPropertyImplDecl ObjCPropertyImplDecl_info
  | P_BlockDecl "'d DeclContext" BlockDecl_info "'d list" "'s Capture list" "'s option"

subsection \<open>Data of the statement classes\<close>

record Stmt_base =
  getStmtPointer :: pointer
  getStmtSourceRange :: SourceRange

record Expr_info =
  getType :: QualType
  getValueKind :: ExprValueKind
  getObjectKind :: ExprObjectKind

text \<open>A base specifier of a cast path: the name of its record and \<^verbatim>\<open>isVirtual()\<close>.\<close>

record CastExpr_info =
  getCastKindName :: string
  path :: "(string \<times> bool) list"

record DeclRefExpr_info =
  getDecl :: "DeclRef option"
  getFoundDecl :: "DeclRef option"

record OverloadExpr_info =
  decls :: "DeclRef list"
  getNameKind :: NameKind
  getNameAsStringO :: string

record UnresolvedLookupExpr_info =
  requiresADL :: bool
  isOverloaded :: bool
  getNamingClass :: "DeclRef option"

record IntegerLiteral_info =
  isSignedIntegerType :: bool
  getBitWidth :: int
  toString10 :: string

record MemberExpr_info =
  isArrow :: bool
  getMemberDeclName :: NamedDecl
  getMemberDecl :: DeclRef

record CXXConstructExpr_info =
  getConstructorType :: QualType
  isElidable :: bool
  requiresZeroInitialization :: bool

text \<open>
  \<open>getArraySize\<close> and \<open>getInitializer\<close>: the address of the expression; the first is
  \<open>None\<close> for a null pointer, the second when \<^verbatim>\<open>hasInitializer()\<close> is false.
\<close>

record CXXNewExpr_info =
  isArray :: bool
  getArraySize :: "pointer option"
  getInitializer :: "pointer option"

text \<open>
  \<open>getReceiverInterface\<close>: \<open>None\<close> when null, else the results of
  \<^verbatim>\<open>lookupPrivateMethod(selector, IsInst)\<close> and of \<^verbatim>\<open>lookupMethod(selector, IsInst)\<close> on it,
  each the address of a method or \<open>None\<close>.
\<close>

record ObjCMessageExpr_info =
  getSelectorAsString :: string
  getReceiverInterface :: "(pointer option \<times> pointer option) option"
  getReceiverKind :: ReceiverKind

text \<open>
  \<open>Inl\<close>: \<^verbatim>\<open>isImplicitProperty()\<close>, with the selectors of the implicit getter and setter when
  they exist; \<open>Inr\<close>: the explicit property.
\<close>

record ObjCPropertyRefExpr_info =
  isSuperReceiver :: bool
  isMessagingGetter :: bool
  isMessagingSetter :: bool
  getProperty :: "(string option \<times> string option) + DeclRef"

record ObjCSubscriptRefExpr_info =
  isArraySubscriptRefExpr :: bool
  getAtIndexMethodSelector :: "string option"
  setAtIndexMethodSelector :: "string option"

text \<open>
  The statement classes with a visitor of their own in the exporter (lines 289-341), each
  with what its visitor and those of its base classes read beyond \<open>Stmt_base\<close> and the
  children.
\<close>

datatype ('d, 's) Stmt_payload =
    S_Stmt
  | S_DeclStmt "'d list"
  | S_AttributedStmt "Attr list"
  | S_LabelStmt string
  | S_GotoStmt string pointer
  | S_CXXCatchStmt "'d option"
  | S_ObjCAtCatchStmt "'d option"
  | S_Expr Expr_info
  | S_CastExpr Expr_info CastExpr_info
  | S_ExplicitCastExpr Expr_info CastExpr_info QualType
  | S_CXXNamedCastExpr Expr_info CastExpr_info QualType string
  | S_DeclRefExpr Expr_info DeclRefExpr_info
  | S_OverloadExpr Expr_info OverloadExpr_info
  | S_UnresolvedLookupExpr Expr_info OverloadExpr_info UnresolvedLookupExpr_info
  | S_ObjCIvarRefExpr Expr_info DeclRef bool
  | S_PredefinedExpr Expr_info IdentType
  | S_CharacterLiteral Expr_info int
  | S_IntegerLiteral Expr_info IntegerLiteral_info
  | S_FloatingLiteral Expr_info string
  | S_StringLiteral Expr_info string
  | S_UnaryOperator Expr_info UnaryOperatorKind bool
  | S_UnaryExprOrTypeTraitExpr Expr_info UnaryExprOrTypeTrait "QualType option"
  | S_MemberExpr Expr_info MemberExpr_info
  | S_ExtVectorElementExpr Expr_info string
  | S_BinaryOperator Expr_info BinaryOperatorKind
  | S_CompoundAssignOperator Expr_info BinaryOperatorKind QualType QualType
  | S_BlockExpr Expr_info "'d option"
  | S_OpaqueValueExpr Expr_info "'s option"
  | S_AddrLabelExpr Expr_info string pointer
  | S_CXXBoolLiteralExpr Expr_info bool
  | S_CXXConstructExpr Expr_info CXXConstructExpr_info
  | S_CXXBindTemporaryExpr Expr_info pointer
  | S_MaterializeTemporaryExpr Expr_info "DeclRef option"
  | S_ExprWithCleanups Expr_info "DeclRef list" "'s option"
  | S_LambdaExpr Expr_info "'d option"
  | S_CXXNewExpr Expr_info CXXNewExpr_info
  | S_CXXDeleteExpr Expr_info bool
  | S_ObjCMessageExpr Expr_info ObjCMessageExpr_info
  | S_ObjCBoxedExpr Expr_info string
  | S_ObjCEncodeExpr Expr_info QualType
  | S_ObjCSelectorExpr Expr_info string
  | S_ObjCProtocolExpr Expr_info DeclRef
  | S_ObjCPropertyRefExpr Expr_info ObjCPropertyRefExpr_info
  | S_ObjCSubscriptRefExpr Expr_info ObjCSubscriptRefExpr_info
  | S_ObjCBoolLiteralExpr Expr_info bool

subsection \<open>The trees\<close>

text \<open>
  A node carries the names of the classes of \<^verbatim>\<open>DeclNodes.inc\<close> (\<^verbatim>\<open>StmtNodes.inc\<close>) that lie
  between its own class and the first class with a visitor of its own in the exporter,
  its own class first: \<^verbatim>\<open>["CXXConstructor", "CXXMethod"]\<close> over the data of a
  \<^verbatim>\<open>FunctionDecl\<close>, the empty list for a \<^verbatim>\<open>FunctionDecl\<close> itself.  These are the classes for
  which the macros of \<^verbatim>\<open>TupleSizeBase\<close> and of clang's visitors generate the fallback to the
  base class.  The children of a statement are \<^verbatim>\<open>S->children()\<close>, null pointers included.
\<close>

datatype Decl = Decl "string list" Decl_base "(Decl, Stmt) Decl_payload"
  and Stmt = Stmt "string list" Stmt_base "Stmt option list" "(Decl, Stmt) Stmt_payload"

section \<open>The exporter object\<close>

text \<open>
  The members of \<^verbatim>\<open>ASTExporter\<close> that do not change during a run, beyond the options:
  \<^item> \<open>deduplicationService\<close>: \<^verbatim>\<open>Options.deduplicationService\<close>, \<open>None\<close> for \<^verbatim>\<open>nullptr\<close>.
    \<^verbatim>\<open>FileUtils::shouldTraverseDeclFile\<close> is not among the sources: a configured service is
    the predicate that answers for it, given \<^verbatim>\<open>Options.basePath\<close> and the declaration;
  \<^item> the addresses of the three nodes that the constructor makes for null pointers;
  \<^item> \<^verbatim>\<open>Context.getTypes()\<close>, from which the constructor fills \<^verbatim>\<open>types\<close>.
\<close>

record ASTExporter = Options +
  deduplicationService :: "(string \<Rightarrow> Decl \<Rightarrow> bool) option"
  NullPtrStmt :: pointer
  NullPtrDecl :: pointer
  NullPtrComment :: pointer
  Context_getTypes :: "Type list"

text \<open>The constructor, lines 172-176: the types of the context, then \<^verbatim>\<open>nullptr\<close>.\<close>

definition types :: "ASTExporter \<Rightarrow> Type option list" where
  "types E = map Some (Context_getTypes E) @ [None]"

text \<open>
  Below a node, a declaration is the pair of the node and the computation \<^verbatim>\<open>dumpDecl\<close> of
  it, a statement is the computation \<^verbatim>\<open>dumpStmt\<close> of it.
\<close>

type_synonym DeclT = "Decl \<times> atd M"
type_synonym StmtT = "atd M"

subsection \<open>Writing the fields of an object\<close>

definition field :: "string \<Rightarrow> atd M \<Rightarrow> (string \<times> atd) list M" where
  "field tag m = do { x \<leftarrow> m; return [(tag, x)] }"

definition opt_field :: "string \<Rightarrow> ('a \<Rightarrow> atd M) \<Rightarrow> 'a option \<Rightarrow> (string \<times> atd) list M" where
  "opt_field tag f v = (case v of None \<Rightarrow> return [] | Some x \<Rightarrow> field tag (f x))"

definition flag :: "string \<Rightarrow> bool \<Rightarrow> (string \<times> atd) list M" where
  "flag tag v = return (emitFlag tag v)"

definition fields :: "(string \<times> atd) list M list \<Rightarrow> (string \<times> atd) list M" where
  "fields ms = do { xs \<leftarrow> sequence ms; return (concat xs) }"

definition object :: "nat \<Rightarrow> (string \<times> atd) list M list \<Rightarrow> atd M" where
  "object n ms = do { fs \<leftarrow> fields ms; return (AObject n fs) }"

definition array_of :: "('a \<Rightarrow> atd M) \<Rightarrow> 'a list \<Rightarrow> atd M" where
  "array_of f xs = do { ys \<leftarrow> sequence (map f xs); return (AArray (Some (length xs)) ys) }"

definition variant :: "string \<Rightarrow> atd M \<Rightarrow> atd M" where
  "variant tag m = do { x \<leftarrow> m; return (AVariant tag (Some x)) }"

definition simple_variant :: "string \<Rightarrow> atd M" where
  "simple_variant tag = return (AVariant tag None)"

definition is_some :: "'a option \<Rightarrow> bool" where
  "is_some v = (v \<noteq> None)"

section \<open>The resolver of tuple sizes: \<^verbatim>\<open>TupleSizeBase\<close> and the \<^verbatim>\<open>TupleSize\<close> members\<close>

text \<open>
  The members \<^verbatim>\<open>NAME##TupleSize()\<close> that the exporter defines itself, with the lines of the
  source.  \<^verbatim>\<open>DeclaratorDeclTupleSize\<close>, \<^verbatim>\<open>TypedefNameDeclTupleSize\<close> and
  \<^verbatim>\<open>ObjCImplDeclTupleSize\<close> are generated by the macro \<^verbatim>\<open>DECL(DERIVED, BASE)\<close> of
  \<^verbatim>\<open>TupleSizeBase\<close> (lines 78-81) from the entries of clang's \<^verbatim>\<open>DeclNodes.inc\<close>:
  \<^verbatim>\<open>DeclaratorDecl\<close> derives from \<^verbatim>\<open>ValueDecl\<close>, \<^verbatim>\<open>TypedefNameDecl\<close> from \<^verbatim>\<open>TypeDecl\<close>,
  \<^verbatim>\<open>ObjCImplDecl\<close> from \<^verbatim>\<open>ObjCContainerDecl\<close>.
\<close>

definition DeclTupleSize :: nat where "DeclTupleSize = 1"
definition DeclContextTupleSize :: nat where "DeclContextTupleSize = 2"
definition NamedDeclTupleSize :: nat where "NamedDeclTupleSize = DeclTupleSize + 1"
definition CapturedDeclTupleSize :: nat where "CapturedDeclTupleSize = DeclTupleSize + DeclContextTupleSize"
definition LinkageSpecDeclTupleSize :: nat where "LinkageSpecDeclTupleSize = DeclTupleSize + DeclContextTupleSize"
definition NamespaceDeclTupleSize :: nat where "NamespaceDeclTupleSize = NamedDeclTupleSize + DeclContextTupleSize + 1"
definition ObjCContainerDeclTupleSize :: nat where "ObjCContainerDeclTupleSize = NamedDeclTupleSize + DeclContextTupleSize"
definition TypeDeclTupleSize :: nat where "TypeDeclTupleSize = NamedDeclTupleSize + 1 + 1"
definition TagDeclTupleSize :: nat where "TagDeclTupleSize = TypeDeclTupleSize + DeclContextTupleSize"
definition ValueDeclTupleSize :: nat where "ValueDeclTupleSize = NamedDeclTupleSize + 1"
definition TranslationUnitDeclTupleSize :: nat where "TranslationUnitDeclTupleSize = DeclTupleSize + DeclContextTupleSize + 1"
definition TypedefNameDeclTupleSize :: nat where "TypedefNameDeclTupleSize = TypeDeclTupleSize"
definition TypedefDeclTupleSize :: nat where "TypedefDeclTupleSize = TypedefNameDeclTupleSize + 1"
definition EnumDeclTupleSize :: nat where "EnumDeclTupleSize = TagDeclTupleSize + 1"
definition RecordDeclTupleSize :: nat where "RecordDeclTupleSize = TagDeclTupleSize + 1"
definition EnumConstantDeclTupleSize :: nat where "EnumConstantDeclTupleSize = ValueDeclTupleSize + 1"
definition IndirectFieldDeclTupleSize :: nat where "IndirectFieldDeclTupleSize = ValueDeclTupleSize + 1"
definition DeclaratorDeclTupleSize :: nat where "DeclaratorDeclTupleSize = ValueDeclTupleSize"
definition FunctionDeclTupleSize :: nat where "FunctionDeclTupleSize = DeclaratorDeclTupleSize + 1"
definition FieldDeclTupleSize :: nat where "FieldDeclTupleSize = DeclaratorDeclTupleSize + 1"
definition VarDeclTupleSize :: nat where "VarDeclTupleSize = DeclaratorDeclTupleSize + 1"
definition FileScopeAsmDeclTupleSize :: nat where "FileScopeAsmDeclTupleSize = DeclTupleSize + 1"
definition ImportDeclTupleSize :: nat where "ImportDeclTupleSize = DeclTupleSize + 1"
definition UsingDirectiveDeclTupleSize :: nat where "UsingDirectiveDeclTupleSize = NamedDeclTupleSize + 1"
definition NamespaceAliasDeclTupleSize :: nat where "NamespaceAliasDeclTupleSize = NamedDeclTupleSize + 1"
definition CXXRecordDeclTupleSize :: nat where "CXXRecordDeclTupleSize = RecordDeclTupleSize + 1"
definition ObjCIvarDeclTupleSize :: nat where "ObjCIvarDeclTupleSize = FieldDeclTupleSize + 1"
definition ObjCMethodDeclTupleSize :: nat where "ObjCMethodDeclTupleSize = NamedDeclTupleSize + 1"
definition ObjCCategoryDeclTupleSize :: nat where "ObjCCategoryDeclTupleSize = ObjCContainerDeclTupleSize + 1"
definition ObjCImplDeclTupleSize :: nat where "ObjCImplDeclTupleSize = ObjCContainerDeclTupleSize"
definition ObjCCategoryImplDeclTupleSize :: nat where "ObjCCategoryImplDeclTupleSize = ObjCImplDeclTupleSize + 1"
definition ObjCProtocolDeclTupleSize :: nat where "ObjCProtocolDeclTupleSize = ObjCContainerDeclTupleSize + 1"
definition ObjCInterfaceDeclTupleSize :: nat where "ObjCInterfaceDeclTupleSize = ObjCContainerDeclTupleSize + 1"
definition ObjCImplementationDeclTupleSize :: nat where "ObjCImplementationDeclTupleSize = ObjCImplDeclTupleSize + 1"
definition ObjCCompatibleAliasDeclTupleSize :: nat where "ObjCCompatibleAliasDeclTupleSize = NamedDeclTupleSize + 1"
definition ObjCPropertyDeclTupleSize :: nat where "ObjCPropertyDeclTupleSize = NamedDeclTupleSize + 1"
definition ObjCPropertyImplDeclTupleSize :: nat where "ObjCPropertyImplDeclTupleSize = DeclTupleSize + 1"
definition BlockDeclTupleSize :: nat where "BlockDeclTupleSize = DeclTupleSize + DeclContextTupleSize + 1"

definition StmtTupleSize :: nat where "StmtTupleSize = 2"
definition DeclStmtTupleSize :: nat where "DeclStmtTupleSize = StmtTupleSize + 1"
definition AttributedStmtTupleSize :: nat where "AttributedStmtTupleSize = StmtTupleSize + 1"
definition LabelStmtTupleSize :: nat where "LabelStmtTupleSize = StmtTupleSize + 1"
definition GotoStmtTupleSize :: nat where "GotoStmtTupleSize = StmtTupleSize + 1"
definition CXXCatchStmtTupleSize :: nat where "CXXCatchStmtTupleSize = StmtTupleSize + 1"
definition ObjCAtCatchStmtTupleSize :: nat where "ObjCAtCatchStmtTupleSize = StmtTupleSize + 1"
definition ExprTupleSize :: nat where "ExprTupleSize = StmtTupleSize + 1"
definition CastExprTupleSize :: nat where "CastExprTupleSize = ExprTupleSize + 1"
definition ExplicitCastExprTupleSize :: nat where "ExplicitCastExprTupleSize = CastExprTupleSize + 1"
definition CXXNamedCastExprTupleSize :: nat where "CXXNamedCastExprTupleSize = ExplicitCastExprTupleSize + 1"
definition DeclRefExprTupleSize :: nat where "DeclRefExprTupleSize = ExprTupleSize + 1"
definition OverloadExprTupleSize :: nat where "OverloadExprTupleSize = ExprTupleSize + 1"
definition UnresolvedLookupExprTupleSize :: nat where "UnresolvedLookupExprTupleSize = OverloadExprTupleSize + 1"
definition ObjCIvarRefExprTupleSize :: nat where "ObjCIvarRefExprTupleSize = ExprTupleSize + 1"
definition PredefinedExprTupleSize :: nat where "PredefinedExprTupleSize = ExprTupleSize + 1"
definition CharacterLiteralTupleSize :: nat where "CharacterLiteralTupleSize = ExprTupleSize + 1"
definition IntegerLiteralTupleSize :: nat where "IntegerLiteralTupleSize = ExprTupleSize + 1"
definition FloatingLiteralTupleSize :: nat where "FloatingLiteralTupleSize = ExprTupleSize + 1"
definition StringLiteralTupleSize :: nat where "StringLiteralTupleSize = ExprTupleSize + 1"
definition UnaryOperatorTupleSize :: nat where "UnaryOperatorTupleSize = ExprTupleSize + 1"
definition UnaryExprOrTypeTraitExprTupleSize :: nat where "UnaryExprOrTypeTraitExprTupleSize = ExprTupleSize + 1"
definition MemberExprTupleSize :: nat where "MemberExprTupleSize = ExprTupleSize + 1"
definition ExtVectorElementExprTupleSize :: nat where "ExtVectorElementExprTupleSize = ExprTupleSize + 1"
definition BinaryOperatorTupleSize :: nat where "BinaryOperatorTupleSize = ExprTupleSize + 1"
definition CompoundAssignOperatorTupleSize :: nat where "CompoundAssignOperatorTupleSize = BinaryOperatorTupleSize + 1"
definition BlockExprTupleSize :: nat where "BlockExprTupleSize = ExprTupleSize + DeclTupleSize"
definition OpaqueValueExprTupleSize :: nat where "OpaqueValueExprTupleSize = ExprTupleSize + 1"
definition AddrLabelExprTupleSize :: nat where "AddrLabelExprTupleSize = ExprTupleSize + 1"
definition CXXBoolLiteralExprTupleSize :: nat where "CXXBoolLiteralExprTupleSize = ExprTupleSize + 1"
definition CXXConstructExprTupleSize :: nat where "CXXConstructExprTupleSize = ExprTupleSize + 1"
definition CXXBindTemporaryExprTupleSize :: nat where "CXXBindTemporaryExprTupleSize = ExprTupleSize + 1"
definition MaterializeTemporaryExprTupleSize :: nat where "MaterializeTemporaryExprTupleSize = ExprTupleSize + 1"
definition ExprWithCleanupsTupleSize :: nat where "ExprWithCleanupsTupleSize = ExprTupleSize + 1"
definition LambdaExprTupleSize :: nat where "LambdaExprTupleSize = ExprTupleSize + DeclTupleSize"
definition CXXNewExprTupleSize :: nat where "CXXNewExprTupleSize = ExprTupleSize + 1"
definition CXXDeleteExprTupleSize :: nat where "CXXDeleteExprTupleSize = ExprTupleSize + 1"
definition ObjCMessageExprTupleSize :: nat where "ObjCMessageExprTupleSize = ExprTupleSize + 1"
definition ObjCBoxedExprTupleSize :: nat where "ObjCBoxedExprTupleSize = ExprTupleSize + 1"
definition ObjCEncodeExprTupleSize :: nat where "ObjCEncodeExprTupleSize = ExprTupleSize + 1"
definition ObjCSelectorExprTupleSize :: nat where "ObjCSelectorExprTupleSize = ExprTupleSize + 1"
definition ObjCProtocolExprTupleSize :: nat where "ObjCProtocolExprTupleSize = ExprTupleSize + 1"
definition ObjCPropertyRefExprTupleSize :: nat where "ObjCPropertyRefExprTupleSize = ExprTupleSize + 1"
definition ObjCSubscriptRefExprTupleSize :: nat where "ObjCSubscriptRefExprTupleSize = ExprTupleSize + 1"
definition ObjCBoolLiteralExprTupleSize :: nat where "ObjCBoolLiteralExprTupleSize = ExprTupleSize + 1"

text \<open>
  The kinds.  A class of \<^verbatim>\<open>DeclNodes.inc\<close> (\<^verbatim>\<open>StmtNodes.inc\<close>) is either one for which the
  exporter declares \<^verbatim>\<open>TupleSize\<close> and \<^verbatim>\<open>Visit\<close> itself, or an entry
  \<^verbatim>\<open>DECL(DERIVED, BASE)\<close> (\<^verbatim>\<open>STMT(CLASS, PARENT)\<close>) for which the macro of \<^verbatim>\<open>TupleSizeBase\<close>
  generates \<^verbatim>\<open>DERIVED##DeclTupleSize() { return BASE##TupleSize(); }\<close>: \<open>Inherits name base\<close>.
\<close>

datatype DeclVisitor =
    C_Decl | C_CapturedDecl | C_LinkageSpecDecl | C_NamedDecl | C_NamespaceDecl
  | C_ObjCContainerDecl | C_TypeDecl | C_TagDecl | C_ValueDecl | C_TranslationUnitDecl
  | C_TypedefDecl | C_EnumDecl | C_RecordDecl | C_CXXRecordDecl | C_EnumConstantDecl
  | C_IndirectFieldDecl | C_FunctionDecl | C_FieldDecl | C_ObjCIvarDecl | C_VarDecl
  | C_FileScopeAsmDecl | C_ImportDecl | C_UsingDirectiveDecl | C_NamespaceAliasDecl
  | C_ObjCMethodDecl | C_ObjCCategoryDecl | C_ObjCCategoryImplDecl | C_ObjCProtocolDecl
  | C_ObjCInterfaceDecl | C_ObjCImplementationDecl | C_ObjCCompatibleAliasDecl
  | C_ObjCPropertyDecl | C_ObjCPropertyImplDecl | C_BlockDecl

datatype StmtVisitor =
    C_Stmt | C_DeclStmt | C_AttributedStmt | C_LabelStmt | C_GotoStmt | C_CXXCatchStmt
  | C_ObjCAtCatchStmt | C_Expr | C_CastExpr | C_ExplicitCastExpr | C_CXXNamedCastExpr
  | C_DeclRefExpr | C_OverloadExpr | C_UnresolvedLookupExpr | C_ObjCIvarRefExpr
  | C_PredefinedExpr | C_CharacterLiteral | C_IntegerLiteral | C_FloatingLiteral
  | C_StringLiteral | C_UnaryOperator | C_UnaryExprOrTypeTraitExpr | C_MemberExpr
  | C_ExtVectorElementExpr | C_BinaryOperator | C_CompoundAssignOperator | C_BlockExpr
  | C_OpaqueValueExpr | C_AddrLabelExpr | C_CXXBoolLiteralExpr | C_CXXConstructExpr
  | C_CXXBindTemporaryExpr | C_MaterializeTemporaryExpr | C_ExprWithCleanups | C_LambdaExpr
  | C_CXXNewExpr | C_CXXDeleteExpr | C_ObjCMessageExpr | C_ObjCBoxedExpr | C_ObjCEncodeExpr
  | C_ObjCSelectorExpr | C_ObjCProtocolExpr | C_ObjCPropertyRefExpr
  | C_ObjCSubscriptRefExpr | C_ObjCBoolLiteralExpr

datatype 'c Kind = Own 'c | Inherits string "'c Kind"

definition DeclVisitor_TupleSize :: "DeclVisitor \<Rightarrow> nat" where
  "DeclVisitor_TupleSize c =
     (case c of
        C_Decl \<Rightarrow> DeclTupleSize | C_CapturedDecl \<Rightarrow> CapturedDeclTupleSize
      | C_LinkageSpecDecl \<Rightarrow> LinkageSpecDeclTupleSize | C_NamedDecl \<Rightarrow> NamedDeclTupleSize
      | C_NamespaceDecl \<Rightarrow> NamespaceDeclTupleSize
      | C_ObjCContainerDecl \<Rightarrow> ObjCContainerDeclTupleSize | C_TypeDecl \<Rightarrow> TypeDeclTupleSize
      | C_TagDecl \<Rightarrow> TagDeclTupleSize | C_ValueDecl \<Rightarrow> ValueDeclTupleSize
      | C_TranslationUnitDecl \<Rightarrow> TranslationUnitDeclTupleSize
      | C_TypedefDecl \<Rightarrow> TypedefDeclTupleSize | C_EnumDecl \<Rightarrow> EnumDeclTupleSize
      | C_RecordDecl \<Rightarrow> RecordDeclTupleSize | C_CXXRecordDecl \<Rightarrow> CXXRecordDeclTupleSize
      | C_EnumConstantDecl \<Rightarrow> EnumConstantDeclTupleSize
      | C_IndirectFieldDecl \<Rightarrow> IndirectFieldDeclTupleSize
      | C_FunctionDecl \<Rightarrow> FunctionDeclTupleSize | C_FieldDecl \<Rightarrow> FieldDeclTupleSize
      | C_ObjCIvarDecl \<Rightarrow> ObjCIvarDeclTupleSize | C_VarDecl \<Rightarrow> VarDeclTupleSize
      | C_FileScopeAsmDecl \<Rightarrow> FileScopeAsmDeclTupleSize | C_ImportDecl \<Rightarrow> ImportDeclTupleSize
      | C_UsingDirectiveDecl \<Rightarrow> UsingDirectiveDeclTupleSize
      | C_NamespaceAliasDecl \<Rightarrow> NamespaceAliasDeclTupleSize
      | C_ObjCMethodDecl \<Rightarrow> ObjCMethodDeclTupleSize
      | C_ObjCCategoryDecl \<Rightarrow> ObjCCategoryDeclTupleSize
      | C_ObjCCategoryImplDecl \<Rightarrow> ObjCCategoryImplDeclTupleSize
      | C_ObjCProtocolDecl \<Rightarrow> ObjCProtocolDeclTupleSize
      | C_ObjCInterfaceDecl \<Rightarrow> ObjCInterfaceDeclTupleSize
      | C_ObjCImplementationDecl \<Rightarrow> ObjCImplementationDeclTupleSize
      | C_ObjCCompatibleAliasDecl \<Rightarrow> ObjCCompatibleAliasDeclTupleSize
      | C_ObjCPropertyDecl \<Rightarrow> ObjCPropertyDeclTupleSize
      | C_ObjCPropertyImplDecl \<Rightarrow> ObjCPropertyImplDeclTupleSize
      | C_BlockDecl \<Rightarrow> BlockDeclTupleSize)"

definition StmtVisitor_TupleSize :: "StmtVisitor \<Rightarrow> nat" where
  "StmtVisitor_TupleSize c =
     (case c of
        C_Stmt \<Rightarrow> StmtTupleSize | C_DeclStmt \<Rightarrow> DeclStmtTupleSize
      | C_AttributedStmt \<Rightarrow> AttributedStmtTupleSize | C_LabelStmt \<Rightarrow> LabelStmtTupleSize
      | C_GotoStmt \<Rightarrow> GotoStmtTupleSize | C_CXXCatchStmt \<Rightarrow> CXXCatchStmtTupleSize
      | C_ObjCAtCatchStmt \<Rightarrow> ObjCAtCatchStmtTupleSize | C_Expr \<Rightarrow> ExprTupleSize
      | C_CastExpr \<Rightarrow> CastExprTupleSize | C_ExplicitCastExpr \<Rightarrow> ExplicitCastExprTupleSize
      | C_CXXNamedCastExpr \<Rightarrow> CXXNamedCastExprTupleSize | C_DeclRefExpr \<Rightarrow> DeclRefExprTupleSize
      | C_OverloadExpr \<Rightarrow> OverloadExprTupleSize
      | C_UnresolvedLookupExpr \<Rightarrow> UnresolvedLookupExprTupleSize
      | C_ObjCIvarRefExpr \<Rightarrow> ObjCIvarRefExprTupleSize
      | C_PredefinedExpr \<Rightarrow> PredefinedExprTupleSize
      | C_CharacterLiteral \<Rightarrow> CharacterLiteralTupleSize
      | C_IntegerLiteral \<Rightarrow> IntegerLiteralTupleSize
      | C_FloatingLiteral \<Rightarrow> FloatingLiteralTupleSize
      | C_StringLiteral \<Rightarrow> StringLiteralTupleSize | C_UnaryOperator \<Rightarrow> UnaryOperatorTupleSize
      | C_UnaryExprOrTypeTraitExpr \<Rightarrow> UnaryExprOrTypeTraitExprTupleSize
      | C_MemberExpr \<Rightarrow> MemberExprTupleSize
      | C_ExtVectorElementExpr \<Rightarrow> ExtVectorElementExprTupleSize
      | C_BinaryOperator \<Rightarrow> BinaryOperatorTupleSize
      | C_CompoundAssignOperator \<Rightarrow> CompoundAssignOperatorTupleSize
      | C_BlockExpr \<Rightarrow> BlockExprTupleSize | C_OpaqueValueExpr \<Rightarrow> OpaqueValueExprTupleSize
      | C_AddrLabelExpr \<Rightarrow> AddrLabelExprTupleSize
      | C_CXXBoolLiteralExpr \<Rightarrow> CXXBoolLiteralExprTupleSize
      | C_CXXConstructExpr \<Rightarrow> CXXConstructExprTupleSize
      | C_CXXBindTemporaryExpr \<Rightarrow> CXXBindTemporaryExprTupleSize
      | C_MaterializeTemporaryExpr \<Rightarrow> MaterializeTemporaryExprTupleSize
      | C_ExprWithCleanups \<Rightarrow> ExprWithCleanupsTupleSize | C_LambdaExpr \<Rightarrow> LambdaExprTupleSize
      | C_CXXNewExpr \<Rightarrow> CXXNewExprTupleSize | C_CXXDeleteExpr \<Rightarrow> CXXDeleteExprTupleSize
      | C_ObjCMessageExpr \<Rightarrow> ObjCMessageExprTupleSize
      | C_ObjCBoxedExpr \<Rightarrow> ObjCBoxedExprTupleSize | C_ObjCEncodeExpr \<Rightarrow> ObjCEncodeExprTupleSize
      | C_ObjCSelectorExpr \<Rightarrow> ObjCSelectorExprTupleSize
      | C_ObjCProtocolExpr \<Rightarrow> ObjCProtocolExprTupleSize
      | C_ObjCPropertyRefExpr \<Rightarrow> ObjCPropertyRefExprTupleSize
      | C_ObjCSubscriptRefExpr \<Rightarrow> ObjCSubscriptRefExprTupleSize
      | C_ObjCBoolLiteralExpr \<Rightarrow> ObjCBoolLiteralExprTupleSize)"

text \<open>\<^verbatim>\<open>tupleSizeOfDeclKind\<close> (lines 85-94) and \<^verbatim>\<open>tupleSizeOfStmtClass\<close> (lines 105-115).\<close>

primrec tupleSizeOfDeclKind :: "DeclVisitor Kind \<Rightarrow> nat" where
  "tupleSizeOfDeclKind (Own c) = DeclVisitor_TupleSize c"
| "tupleSizeOfDeclKind (Inherits DERIVED BASE) = tupleSizeOfDeclKind BASE"

primrec tupleSizeOfStmtClass :: "StmtVisitor Kind \<Rightarrow> nat" where
  "tupleSizeOfStmtClass (Own c) = StmtVisitor_TupleSize c"
| "tupleSizeOfStmtClass (Inherits CLASS PARENT) = tupleSizeOfStmtClass PARENT"

section \<open>The visitors of declarations\<close>

text \<open>
  \<^verbatim>\<open>dumpPreviousDeclOptionallyWithTag\<close> (lines 775-785) calls
  \<^verbatim>\<open>dumpPreviousDeclImpl(OF, cast<DERIVED##Decl>(D))\<close> with two arguments.  The overloads for
  \<^verbatim>\<open>Mergeable\<close> and \<^verbatim>\<open>Redeclarable\<close> take three, so the call resolves to the overload
  \<^verbatim>\<open>(ATDWriter &OF, bool withPointers, ...)\<close> with the empty body: nothing is written.
\<close>

definition dumpPreviousDeclOptionallyWithTag :: "(string \<times> atd) list M" where
  "dumpPreviousDeclOptionallyWithTag = return []"

text \<open>\<^verbatim>\<open>VisitDecl(D)\<close>; \<open>ND\<close> is \<^verbatim>\<open>dyn_cast<NamedDecl>(D)\<close>.\<close>

definition VisitDecl :: "ASTExporter \<Rightarrow> Decl_base \<Rightarrow> NamedDecl option \<Rightarrow> atd list M" where
  "VisitDecl E D ND = do {
     let ShouldEmitParentPointer = is_some (getDeclContextIfNotLexical D);
     let M = getOwningModule D;
     let IsNDHidden = (case ND of None \<Rightarrow> False | Some nd \<Rightarrow> isHidden nd);
     let IsDImplicit = isImplicit D;
     let IsDUsed = isUsed D;
     let IsDReferenced = isThisDeclarationReferenced D;
     let IsDInvalid = isInvalidDecl D;
     let Comment = getLocalComment D;
     let maxSize = 4 + of_bool ShouldEmitParentPointer + of_bool (is_some M) + of_bool IsNDHidden
          + of_bool IsDImplicit + of_bool IsDUsed + of_bool IsDReferenced + of_bool IsDInvalid
          + of_bool (is_some Comment);
     x \<leftarrow> object maxSize
       [field ''pointer'' (dumpPointer E (getPointer D)),
        opt_field ''parent_pointer'' (dumpPointer E) (getDeclContextIfNotLexical D),
        dumpPreviousDeclOptionallyWithTag,
        field ''source_range'' (dumpSourceRangeM E (getSourceRange D)),
        opt_field ''owning_module'' (\<lambda>m. return (AString m)) M,
        flag ''is_hidden'' IsNDHidden,
        flag ''is_implicit'' IsDImplicit,
        flag ''is_used'' IsDUsed,
        flag ''is_this_declaration_referenced'' IsDReferenced,
        flag ''is_invalid_decl'' IsDInvalid,
        field ''attributes'' (array_of (dumpAttr E) (getAttrs D)),
        opt_field ''full_comment'' (dumpFullComment E) Comment];
     return [x]
   }"

text \<open>
  \<^verbatim>\<open>VisitDeclContext(DC)\<close> (lines 595-626).  The members are filtered first, then the array
  is opened with the number of members kept, then each of them is dumped by value.
\<close>

definition VisitDeclContext :: "ASTExporter \<Rightarrow> DeclT DeclContext option \<Rightarrow> atd list M" where
  "VisitDeclContext E DC =
     (case DC of
        None \<Rightarrow> return [AArray (Some 0) [], AObject 0 []]
      | Some (members, HasExternalLexicalStorage, HasExternalVisibleStorage) \<Rightarrow> do {
          let declsToDump =
            filter (\<lambda>I. case deduplicationService E of
                           None \<Rightarrow> True
                         | Some shouldTraverseDeclFile \<Rightarrow> shouldTraverseDeclFile (basePath E) (fst I))
                   members;
          a \<leftarrow> array_of snd declsToDump;
          b \<leftarrow> object (0 + of_bool HasExternalLexicalStorage + of_bool HasExternalVisibleStorage)
                 [flag ''has_external_lexical_storage'' HasExternalLexicalStorage,
                  flag ''has_external_visible_storage'' HasExternalVisibleStorage];
          return [a, b]
        })"

definition VisitCapturedDecl :: "ASTExporter \<Rightarrow> Decl_base \<Rightarrow> DeclT DeclContext \<Rightarrow> atd list M" where
  "VisitCapturedDecl E D DC = do {
     a \<leftarrow> VisitDecl E D None;
     b \<leftarrow> VisitDeclContext E (Some DC);
     return (a @ b)
   }"

definition VisitLinkageSpecDecl :: "ASTExporter \<Rightarrow> Decl_base \<Rightarrow> DeclT DeclContext \<Rightarrow> atd list M" where
  "VisitLinkageSpecDecl E D DC = do {
     a \<leftarrow> VisitDecl E D None;
     b \<leftarrow> VisitDeclContext E (Some DC);
     return (a @ b)
   }"

text \<open>\<^verbatim>\<open>VisitNamedDecl\<close> (lines 1253-1257): \<^verbatim>\<open>VisitDecl(D); dumpName(*D);\<close>\<close>

definition VisitNamedDecl :: "ASTExporter \<Rightarrow> Decl_base \<Rightarrow> NamedDecl \<Rightarrow> atd list M" where
  "VisitNamedDecl E D N = do {
     a \<leftarrow> VisitDecl E D (Some N);
     return (a @ [dumpName N])
   }"

definition VisitNamespaceDecl :: "ASTExporter \<Rightarrow> Decl_base \<Rightarrow> NamedDecl \<Rightarrow> DeclT DeclContext \<Rightarrow> NamespaceDecl_info \<Rightarrow> atd list M" where
  "VisitNamespaceDecl E D N DC I = do {
     a \<leftarrow> VisitNamedDecl E D N;
     b \<leftarrow> VisitDeclContext E (Some DC);
     let IsInline = isInline I;
     let IsOriginalNamespace = \<not> is_some (getOriginalNamespaceIfOther I);
     c \<leftarrow> object (0 + of_bool IsInline + of_bool (\<not> IsOriginalNamespace))
            [flag ''is_inline'' IsInline,
             opt_field ''original_namespace'' (dumpDeclRef E) (getOriginalNamespaceIfOther I)];
     return (a @ b @ [c])
   }"

definition VisitObjCContainerDecl :: "ASTExporter \<Rightarrow> Decl_base \<Rightarrow> NamedDecl \<Rightarrow> DeclT DeclContext \<Rightarrow> atd list M" where
  "VisitObjCContainerDecl E D N DC = do {
     a \<leftarrow> VisitNamedDecl E D N;
     b \<leftarrow> VisitDeclContext E (Some DC);
     return (a @ b)
   }"

definition VisitTypeDecl :: "ASTExporter \<Rightarrow> Decl_base \<Rightarrow> NamedDecl \<Rightarrow> TypeForDecl \<Rightarrow> atd list M" where
  "VisitTypeDecl E D N T = do {
     a \<leftarrow> VisitNamedDecl E D N;
     p \<leftarrow> dumpPointer E (case T of None \<Rightarrow> 0 | Some t \<Rightarrow> snd t);
     return (a @ [dumpTypeOld (map_option fst T), p])
   }"

definition VisitTagDecl :: "ASTExporter \<Rightarrow> Decl_base \<Rightarrow> NamedDecl \<Rightarrow> TypeForDecl \<Rightarrow> DeclT DeclContext \<Rightarrow> atd list M" where
  "VisitTagDecl E D N T DC = do {
     a \<leftarrow> VisitTypeDecl E D N T;
     b \<leftarrow> VisitDeclContext E (Some DC);
     return (a @ b)
   }"

definition VisitValueDecl :: "ASTExporter \<Rightarrow> Decl_base \<Rightarrow> NamedDecl \<Rightarrow> QualType \<Rightarrow> atd list M" where
  "VisitValueDecl E D N T = do {
     a \<leftarrow> VisitNamedDecl E D N;
     q \<leftarrow> dumpQualType E T;
     return (a @ [q])
   }"

definition VisitTranslationUnitDecl :: "ASTExporter \<Rightarrow> Decl_base \<Rightarrow> DeclT DeclContext \<Rightarrow> atd list M" where
  "VisitTranslationUnitDecl E D DC = do {
     a \<leftarrow> VisitDecl E D None;
     b \<leftarrow> VisitDeclContext E (Some DC);
     c \<leftarrow> array_of (dumpType E) (types E);
     return (a @ b @ [c])
   }"

text \<open>
  \<^verbatim>\<open>VisitTypedefNameDecl\<close>, \<^verbatim>\<open>VisitDeclaratorDecl\<close> and \<^verbatim>\<open>VisitObjCImplDecl\<close> are not defined
  by the exporter: they are the fallbacks of clang's \<^verbatim>\<open>DeclVisitor\<close> to the base class.
\<close>

definition VisitTypedefNameDecl :: "ASTExporter \<Rightarrow> Decl_base \<Rightarrow> NamedDecl \<Rightarrow> TypeForDecl \<Rightarrow> atd list M" where
  "VisitTypedefNameDecl = VisitTypeDecl"

definition VisitDeclaratorDecl :: "ASTExporter \<Rightarrow> Decl_base \<Rightarrow> NamedDecl \<Rightarrow> QualType \<Rightarrow> atd list M" where
  "VisitDeclaratorDecl = VisitValueDecl"

definition VisitObjCImplDecl :: "ASTExporter \<Rightarrow> Decl_base \<Rightarrow> NamedDecl \<Rightarrow> DeclT DeclContext \<Rightarrow> atd list M" where
  "VisitObjCImplDecl = VisitObjCContainerDecl"

definition VisitTypedefDecl :: "ASTExporter \<Rightarrow> Decl_base \<Rightarrow> NamedDecl \<Rightarrow> TypeForDecl \<Rightarrow> bool \<Rightarrow> atd list M" where
  "VisitTypedefDecl E D N T IsModulePrivate = do {
     a \<leftarrow> VisitTypedefNameDecl E D N T;
     c \<leftarrow> object (0 + of_bool IsModulePrivate) [flag ''is_module_private'' IsModulePrivate];
     return (a @ [c])
   }"

definition VisitEnumDecl :: "ASTExporter \<Rightarrow> Decl_base \<Rightarrow> NamedDecl \<Rightarrow> TypeForDecl \<Rightarrow> DeclT DeclContext \<Rightarrow> EnumDecl_info \<Rightarrow> atd list M" where
  "VisitEnumDecl E D N T DC I = do {
     a \<leftarrow> VisitTagDecl E D N T DC;
     let IsScoped = isScoped I;
     let IsModulePrivate = isModulePrivateEnum I;
     c \<leftarrow> object (0 + of_bool IsScoped + of_bool IsModulePrivate)
            [if IsScoped
             then field ''scope'' (if isScopedUsingClassTag I then simple_variant ''Class''
                                   else simple_variant ''Struct'')
             else return [],
             flag ''is_module_private'' IsModulePrivate];
     return (a @ [c])
   }"

definition VisitRecordDecl :: "ASTExporter \<Rightarrow> Decl_base \<Rightarrow> NamedDecl \<Rightarrow> TypeForDecl \<Rightarrow> DeclT DeclContext \<Rightarrow> RecordDecl_info \<Rightarrow> atd list M" where
  "VisitRecordDecl E D N T DC I = do {
     a \<leftarrow> VisitTagDecl E D N T DC;
     let IsModulePrivate = isModulePrivateRecord I;
     let IsCompleteDefinition = isCompleteDefinition I;
     c \<leftarrow> object (0 + of_bool IsModulePrivate + of_bool IsCompleteDefinition)
            [flag ''is_module_private'' IsModulePrivate,
             flag ''is_complete_definition'' IsCompleteDefinition];
     return (a @ [c])
   }"

definition VisitCXXRecordDecl :: "ASTExporter \<Rightarrow> Decl_base \<Rightarrow> NamedDecl \<Rightarrow> TypeForDecl \<Rightarrow> DeclT DeclContext \<Rightarrow> RecordDecl_info \<Rightarrow> CXXRecordDecl_info \<Rightarrow> atd list M" where
  "VisitCXXRecordDecl E D N T DC I X = do {
     a \<leftarrow> VisitRecordDecl E D N T DC I;
     if \<not> isCompleteDefinition I then return (a @ [AObject 0 []])
     else do {
       let vBases = filter fst (bases X);
       let nonVBases = filter (\<lambda>base. \<not> fst base) (bases X);
       let HasVBases = (0 < length vBases);
       let HasNonVBases = (0 < length nonVBases);
       let IsCLike = isCLike X;
       c \<leftarrow> object (0 + of_bool HasNonVBases + of_bool HasVBases + of_bool IsCLike)
              [if HasNonVBases
               then field ''bases'' (array_of (\<lambda>base. dumpPointerToType E (snd base)) nonVBases)
               else return [],
               if HasVBases
               then field ''vbases'' (array_of (\<lambda>base. dumpPointerToType E (snd base)) vBases)
               else return [],
               flag ''is_c_like'' IsCLike];
       return (a @ [c])
     }
   }"

definition VisitEnumConstantDecl :: "ASTExporter \<Rightarrow> Decl_base \<Rightarrow> NamedDecl \<Rightarrow> QualType \<Rightarrow> StmtT option \<Rightarrow> atd list M" where
  "VisitEnumConstantDecl E D N T Init = do {
     a \<leftarrow> VisitValueDecl E D N T;
     c \<leftarrow> object (0 + of_bool (is_some Init)) [opt_field ''init_expr'' id Init];
     return (a @ [c])
   }"

definition VisitIndirectFieldDecl :: "ASTExporter \<Rightarrow> Decl_base \<Rightarrow> NamedDecl \<Rightarrow> QualType \<Rightarrow> DeclRef list \<Rightarrow> atd list M" where
  "VisitIndirectFieldDecl E D N T chain = do {
     a \<leftarrow> VisitValueDecl E D N T;
     c \<leftarrow> array_of (dumpDeclRef E) chain;
     return (a @ [c])
   }"

text \<open>\<^verbatim>\<open>dumpCXXCtorInitializer\<close> (lines 821-846); \<open>dumpStmt\<close> resolves a pointer to a statement.\<close>

definition dumpCXXCtorInitializer :: "ASTExporter \<Rightarrow> StmtT CXXCtorInitializer \<Rightarrow> atd M" where
  "dumpCXXCtorInitializer E Init =
     (case Init of CXXCtorInitializer subject init \<Rightarrow>
        object (1 + of_bool (is_some init))
          [field ''subject''
             (case subject of
                Member FD \<Rightarrow> variant ''Member'' (dumpDeclRef E FD)
              | Delegating T \<Rightarrow> variant ''Delegating'' (dumpQualType E T)
              | BaseClass T isBaseVirtual \<Rightarrow>
                  variant ''BaseClass'' (do {
                    q \<leftarrow> dumpQualType E T;
                    return (ATuple (Some 2) [q, ABoolean isBaseVirtual])
                  })),
           opt_field ''init_expr'' id init])"

definition VisitFunctionDecl :: "ASTExporter \<Rightarrow> Decl_base \<Rightarrow> NamedDecl \<Rightarrow> QualType \<Rightarrow> FunctionDecl_info \<Rightarrow> DeclT list \<Rightarrow> DeclT list \<Rightarrow> StmtT CXXCtorInitializer list \<Rightarrow> StmtT option \<Rightarrow> atd list M" where
  "VisitFunctionDecl E D N T I declsInPrototypeScope params inits Body = do {
     a \<leftarrow> VisitDeclaratorDecl E D N T;
     let HasStorageClass = is_some (getStorageClassString I);
     let IsInlineSpecified = isInlineSpecified I;
     let IsVirtualAsWritten = isVirtualAsWritten I;
     let IsModulePrivate = isModulePrivateFunction I;
     let IsPure = isPure I;
     let IsDeletedAsWritten = isDeletedAsWritten I;
     let HasCtorInitializers = (isCXXConstructorDecl I \<and> inits \<noteq> []);
     let HasDeclarationBody = doesThisDeclarationHaveABody I;
     let size = 2 + of_bool HasStorageClass + of_bool IsInlineSpecified + of_bool IsVirtualAsWritten
          + of_bool IsModulePrivate + of_bool IsPure + of_bool IsDeletedAsWritten
          + of_bool HasCtorInitializers + of_bool HasDeclarationBody;
     c \<leftarrow> object size
            [opt_field ''storage_class'' (\<lambda>s. return (AString s)) (getStorageClassString I),
             flag ''is_inline'' IsInlineSpecified,
             flag ''is_virtual'' IsVirtualAsWritten,
             flag ''is_module_private'' IsModulePrivate,
             flag ''is_pure'' IsPure,
             flag ''is_delete_as_written'' IsDeletedAsWritten,
             if declsInPrototypeScope \<noteq> []
             then field ''decls_in_prototype_scope'' (array_of snd declsInPrototypeScope)
             else return [],
             if params \<noteq> [] then field ''parameters'' (array_of snd params) else return [],
             if HasCtorInitializers
             then field ''cxx_ctor_initializers'' (array_of (dumpCXXCtorInitializer E) inits)
             else return [],
             if HasDeclarationBody then opt_field ''body'' id Body else return []];
     return (a @ [c])
   }"

definition VisitFieldDecl :: "ASTExporter \<Rightarrow> Decl_base \<Rightarrow> NamedDecl \<Rightarrow> QualType \<Rightarrow> FieldDecl_info \<Rightarrow> StmtT option \<Rightarrow> StmtT option \<Rightarrow> atd list M" where
  "VisitFieldDecl E D N T I BitWidth Init = do {
     a \<leftarrow> VisitDeclaratorDecl E D N T;
     let IsMutable = isMutable I;
     let IsModulePrivate = isModulePrivateField I;
     let HasBitWidth = is_some BitWidth;
     c \<leftarrow> object (0 + of_bool IsMutable + of_bool IsModulePrivate + of_bool HasBitWidth
                   + of_bool (is_some Init))
            [flag ''is_mutable'' IsMutable,
             flag ''is_module_private'' IsModulePrivate,
             opt_field ''bit_width_expr'' id BitWidth,
             opt_field ''init_expr'' id Init];
     return (a @ [c])
   }"

definition VisitObjCIvarDecl :: "ASTExporter \<Rightarrow> Decl_base \<Rightarrow> NamedDecl \<Rightarrow> QualType \<Rightarrow> FieldDecl_info \<Rightarrow> StmtT option \<Rightarrow> StmtT option \<Rightarrow> ObjCIvarDecl_info \<Rightarrow> atd list M" where
  "VisitObjCIvarDecl E D N T I BitWidth Init X = do {
     a \<leftarrow> VisitFieldDecl E D N T I BitWidth Init;
     let IsSynthesize = getSynthesize X;
     c \<leftarrow> object (1 + of_bool IsSynthesize)
            [flag ''is_synthesize'' IsSynthesize,
             case getAccessControl X of
               AC_None \<Rightarrow> return []
             | AC_Private \<Rightarrow> field ''access_control'' (simple_variant ''Private'')
             | AC_Protected \<Rightarrow> field ''access_control'' (simple_variant ''Protected'')
             | AC_Public \<Rightarrow> field ''access_control'' (simple_variant ''Public'')
             | AC_Package \<Rightarrow> field ''access_control'' (simple_variant ''Package'')];
     return (a @ [c])
   }"

definition VisitVarDecl :: "ASTExporter \<Rightarrow> Decl_base \<Rightarrow> NamedDecl \<Rightarrow> QualType \<Rightarrow> VarDecl_info \<Rightarrow> StmtT option \<Rightarrow> atd list M" where
  "VisitVarDecl E D N T I Init = do {
     a \<leftarrow> VisitDeclaratorDecl E D N T;
     let HasStorageClass = is_some (getVarStorageClassString I);
     let IsModulePrivate = isModulePrivateVar I;
     let IsNRVOVariable = isNRVOVariable I;
     let HasInit = is_some Init;
     c \<leftarrow> object (1 + of_bool HasStorageClass + of_bool IsModulePrivate + of_bool IsNRVOVariable
                   + of_bool HasInit)
            [opt_field ''storage_class'' (\<lambda>s. return (AString s)) (getVarStorageClassString I),
             case getTLSKind I of
               TLS_None \<Rightarrow> return []
             | TLS_Static \<Rightarrow> field ''tls_kind'' (simple_variant ''Tls_static'')
             | TLS_Dynamic \<Rightarrow> field ''tls_kind'' (simple_variant ''Tls_dynamic''),
             flag ''is_module_private'' IsModulePrivate,
             flag ''is_nrvo_variable'' IsNRVOVariable,
             opt_field ''init_expr'' id Init];
     return (a @ [c])
   }"

definition VisitFileScopeAsmDecl :: "ASTExporter \<Rightarrow> Decl_base \<Rightarrow> string \<Rightarrow> atd list M" where
  "VisitFileScopeAsmDecl E D asmString = do {
     a \<leftarrow> VisitDecl E D None;
     return (a @ [AString asmString])
   }"

definition VisitImportDecl :: "ASTExporter \<Rightarrow> Decl_base \<Rightarrow> string \<Rightarrow> atd list M" where
  "VisitImportDecl E D moduleName = do {
     a \<leftarrow> VisitDecl E D None;
     return (a @ [AString moduleName])
   }"

text \<open>
  \<^verbatim>\<open>dumpNestedNameSpecifierLoc\<close> (lines 918-959).  \<open>NNS\<close> is the chain of \<^verbatim>\<open>getPrefix()\<close>,
  the specifier itself first; the second loop pops from the back.
\<close>

definition dumpNestedNameSpecifierLoc :: "ASTExporter \<Rightarrow> NestedNameSpecifier list \<Rightarrow> atd M" where
  "dumpNestedNameSpecifierLoc E NNS = do {
     let NestedNames = NNS;
     xs \<leftarrow> sequence (map (\<lambda>Kind.
             object 2
               (case Kind of
                  NNS_Identifier \<Rightarrow> [field ''kind'' (simple_variant ''Identifier'')]
                | NNS_Namespace ns \<Rightarrow>
                    [field ''kind'' (simple_variant ''Namespace''), field ''ref'' (dumpDeclRef E ns)]
                | NNS_NamespaceAlias ns \<Rightarrow>
                    [field ''kind'' (simple_variant ''NamespaceAlias''), field ''ref'' (dumpDeclRef E ns)]
                | NNS_TypeSpec \<Rightarrow> [field ''kind'' (simple_variant ''TypeSpec'')]
                | NNS_TypeSpecWithTemplate \<Rightarrow> [field ''kind'' (simple_variant ''TypeSpecWithTemplate'')]
                | NNS_Global \<Rightarrow> [field ''kind'' (simple_variant ''Global'')]
                | NNS_Super \<Rightarrow> [field ''kind'' (simple_variant ''Super'')]))
           (rev NestedNames));
     return (AArray (Some (length NestedNames)) xs)
   }"

definition VisitUsingDirectiveDecl :: "ASTExporter \<Rightarrow> Decl_base \<Rightarrow> NamedDecl \<Rightarrow> UsingDirectiveDecl_info \<Rightarrow> atd list M" where
  "VisitUsingDirectiveDecl E D N I = do {
     a \<leftarrow> VisitNamedDecl E D N;
     let HasNominatedNamespace = is_some (getNominatedNamespace I);
     c \<leftarrow> object (3 + of_bool HasNominatedNamespace)
            [field ''using_location'' (dumpSourceLocationM E (getUsingLoc I)),
             field ''namespace_key_location'' (dumpSourceLocationM E (getNamespaceKeyLocation I)),
             field ''nested_name_specifier_locs'' (dumpNestedNameSpecifierLoc E (getQualifierLocUD I)),
             opt_field ''nominated_namespace'' (dumpDeclRef E) (getNominatedNamespace I)];
     return (a @ [c])
   }"

definition VisitNamespaceAliasDecl :: "ASTExporter \<Rightarrow> Decl_base \<Rightarrow> NamedDecl \<Rightarrow> NamespaceAliasDecl_info \<Rightarrow> atd list M" where
  "VisitNamespaceAliasDecl E D N I = do {
     a \<leftarrow> VisitNamedDecl E D N;
     c \<leftarrow> object 4
            [field ''namespace_loc'' (dumpSourceLocationM E (getNamespaceLoc I)),
             field ''target_name_loc'' (dumpSourceLocationM E (getTargetNameLoc I)),
             field ''nested_name_specifier_locs'' (dumpNestedNameSpecifierLoc E (getQualifierLocNA I)),
             field ''namespace'' (dumpDeclRef E (getNamespace I))];
     return (a @ [c])
   }"

text \<open>\<^verbatim>\<open>VisitObjCMethodDecl\<close> and \<^verbatim>\<open>VisitFunctionDecl\<close>: "We purposedly do not call VisitDeclContext(D)".\<close>

definition VisitObjCMethodDecl :: "ASTExporter \<Rightarrow> Decl_base \<Rightarrow> NamedDecl \<Rightarrow> ObjCMethodDecl_info \<Rightarrow> DeclT list \<Rightarrow> StmtT option \<Rightarrow> atd list M" where
  "VisitObjCMethodDecl E D N I params Body = do {
     a \<leftarrow> VisitNamedDecl E D N;
     let IsInstanceMethod = isInstanceMethod I;
     let HasParameters = (params \<noteq> []);
     let IsVariadic = isVariadicMethod I;
     c \<leftarrow> object (1 + of_bool IsInstanceMethod + of_bool HasParameters + of_bool IsVariadic
                   + of_bool (is_some Body))
            [flag ''is_instance_method'' IsInstanceMethod,
             field ''result_type'' (dumpQualType E (getReturnType I)),
             if HasParameters then field ''parameters'' (array_of snd params) else return [],
             flag ''is_variadic'' IsVariadic,
             opt_field ''body'' id Body];
     return (a @ [c])
   }"

definition dumpProtocols :: "ASTExporter \<Rightarrow> DeclRef list \<Rightarrow> (string \<times> atd) list M" where
  "dumpProtocols E protocols =
     (if protocols \<noteq> [] then field ''protocols'' (array_of (dumpDeclRef E) protocols) else return [])"

definition VisitObjCCategoryDecl :: "ASTExporter \<Rightarrow> Decl_base \<Rightarrow> NamedDecl \<Rightarrow> DeclT DeclContext \<Rightarrow> ObjCCategoryDecl_info \<Rightarrow> atd list M" where
  "VisitObjCCategoryDecl E D N DC I = do {
     a \<leftarrow> VisitObjCContainerDecl E D N DC;
     let CI = getClassInterfaceC I;
     let Impl = getImplementationC I;
     let HasProtocols = (protocolsC I \<noteq> []);
     c \<leftarrow> object (0 + of_bool (is_some CI) + of_bool (is_some Impl) + of_bool HasProtocols)
            [opt_field ''class_interface'' (dumpDeclRef E) CI,
             opt_field ''implementation'' (dumpDeclRef E) Impl,
             dumpProtocols E (protocolsC I)];
     return (a @ [c])
   }"

definition VisitObjCCategoryImplDecl :: "ASTExporter \<Rightarrow> Decl_base \<Rightarrow> NamedDecl \<Rightarrow> DeclT DeclContext \<Rightarrow> ObjCCategoryImplDecl_info \<Rightarrow> atd list M" where
  "VisitObjCCategoryImplDecl E D N DC I = do {
     a \<leftarrow> VisitObjCImplDecl E D N DC;
     let CI = getClassInterfaceCI I;
     let CD = getCategoryDecl I;
     c \<leftarrow> object (0 + of_bool (is_some CI) + of_bool (is_some CD))
            [opt_field ''class_interface'' (dumpDeclRef E) CI,
             opt_field ''category_decl'' (dumpDeclRef E) CD];
     return (a @ [c])
   }"

definition VisitObjCProtocolDecl :: "ASTExporter \<Rightarrow> Decl_base \<Rightarrow> NamedDecl \<Rightarrow> DeclT DeclContext \<Rightarrow> DeclRef list \<Rightarrow> atd list M" where
  "VisitObjCProtocolDecl E D N DC protocols = do {
     a \<leftarrow> VisitObjCContainerDecl E D N DC;
     let HasProtocols = (protocols \<noteq> []);
     c \<leftarrow> object (0 + of_bool HasProtocols) [dumpProtocols E protocols];
     return (a @ [c])
   }"

definition VisitObjCInterfaceDecl :: "ASTExporter \<Rightarrow> Decl_base \<Rightarrow> NamedDecl \<Rightarrow> DeclT DeclContext \<Rightarrow> ObjCInterfaceDecl_info \<Rightarrow> atd list M" where
  "VisitObjCInterfaceDecl E D N DC I = do {
     a \<leftarrow> VisitObjCContainerDecl E D N DC;
     let SC = getSuperClassI I;
     let Impl = getImplementationI I;
     let HasProtocols = (protocolsI I \<noteq> []);
     c \<leftarrow> object (0 + of_bool (is_some SC) + of_bool (is_some Impl) + of_bool HasProtocols)
            [opt_field ''super'' (dumpDeclRef E) SC,
             opt_field ''implementation'' (dumpDeclRef E) Impl,
             dumpProtocols E (protocolsI I)];
     return (a @ [c])
   }"

definition VisitObjCImplementationDecl :: "ASTExporter \<Rightarrow> Decl_base \<Rightarrow> NamedDecl \<Rightarrow> DeclT DeclContext \<Rightarrow> ObjCImplementationDecl_info \<Rightarrow> StmtT CXXCtorInitializer list \<Rightarrow> atd list M" where
  "VisitObjCImplementationDecl E D N DC I inits = do {
     a \<leftarrow> VisitObjCImplDecl E D N DC;
     let SC = getSuperClassM I;
     let CI = getClassInterfaceM I;
     let HasInitializers = (inits \<noteq> []);
     c \<leftarrow> object (0 + of_bool (is_some SC) + of_bool (is_some CI) + of_bool HasInitializers)
            [opt_field ''super'' (dumpDeclRef E) SC,
             opt_field ''class_interface'' (dumpDeclRef E) CI,
             if HasInitializers
             then field ''ivar_initializers'' (array_of (dumpCXXCtorInitializer E) inits)
             else return []];
     return (a @ [c])
   }"

definition VisitObjCCompatibleAliasDecl :: "ASTExporter \<Rightarrow> Decl_base \<Rightarrow> NamedDecl \<Rightarrow> DeclRef option \<Rightarrow> atd list M" where
  "VisitObjCCompatibleAliasDecl E D N CI = do {
     a \<leftarrow> VisitNamedDecl E D N;
     c \<leftarrow> object (0 + of_bool (is_some CI)) [opt_field ''class_interface'' (dumpDeclRef E) CI];
     return (a @ [c])
   }"

definition VisitObjCPropertyDecl :: "ASTExporter \<Rightarrow> Decl_base \<Rightarrow> NamedDecl \<Rightarrow> ObjCPropertyDecl_info \<Rightarrow> atd list M" where
  "VisitObjCPropertyDecl E D N I = do {
     a \<leftarrow> VisitNamedDecl E D N;
     let PC = getPropertyControl I;
     let HasPropertyControl = (PC \<noteq> PC_None);
     let HasPropertyAttributes = hasPropertyAttributes I;
     let toEmit = of_bool (pr_readonly I) + of_bool (pr_assign I) + of_bool (pr_readwrite I)
          + of_bool (pr_retain I) + of_bool (pr_copy I) + of_bool (pr_nonatomic I)
          + of_bool (pr_atomic I) + of_bool (pr_weak I) + of_bool (pr_strong I)
          + of_bool (pr_unsafe_unretained I) + of_bool (pr_getter I) + of_bool (pr_setter I);
     c \<leftarrow> object (1 + of_bool HasPropertyControl + of_bool HasPropertyAttributes)
            [field ''qual_type'' (dumpQualType E (getPropertyType I)),
             case PC of
               PC_None \<Rightarrow> return []
             | PC_Required \<Rightarrow> field ''property_control'' (simple_variant ''Required'')
             | PC_Optional \<Rightarrow> field ''property_control'' (simple_variant ''Optional''),
             if HasPropertyAttributes
             then field ''property_attributes'' (do {
                    xs \<leftarrow> sequence
                      ((if pr_readonly I then [simple_variant ''Readonly''] else [])
                       @ (if pr_assign I then [simple_variant ''Assign''] else [])
                       @ (if pr_readwrite I then [simple_variant ''Readwrite''] else [])
                       @ (if pr_retain I then [simple_variant ''Retain''] else [])
                       @ (if pr_copy I then [simple_variant ''Copy''] else [])
                       @ (if pr_nonatomic I then [simple_variant ''Nonatomic''] else [])
                       @ (if pr_atomic I then [simple_variant ''Atomic''] else [])
                       @ (if pr_weak I then [simple_variant ''Weak''] else [])
                       @ (if pr_strong I then [simple_variant ''Strong''] else [])
                       @ (if pr_unsafe_unretained I then [simple_variant ''Unsafe_unretained''] else [])
                       @ (if pr_getter I
                          then [variant ''Getter'' (dumpDeclRef E (getGetterMethodDecl I))] else [])
                       @ (if pr_setter I
                          then [variant ''Setter'' (dumpDeclRef E (getSetterMethodDecl I))] else []));
                    return (AArray (Some toEmit) xs)
                  })
             else return []];
     return (a @ [c])
   }"

definition VisitObjCPropertyImplDecl :: "ASTExporter \<Rightarrow> Decl_base \<Rightarrow> ObjCPropertyImplDecl_info \<Rightarrow> atd list M" where
  "VisitObjCPropertyImplDecl E D I = do {
     a \<leftarrow> VisitDecl E D None;
     let PD = getPropertyDecl I;
     let ID = getPropertyIvarDecl I;
     c \<leftarrow> object (1 + of_bool (is_some PD) + of_bool (is_some ID))
            [field ''implementation''
               (case getPropertyImplementation I of
                  Synthesize \<Rightarrow> simple_variant ''Synthesize''
                | Dynamic \<Rightarrow> simple_variant ''Dynamic''),
             opt_field ''property_decl'' (dumpDeclRef E) PD,
             opt_field ''ivar_decl'' (dumpDeclRef E) ID];
     return (a @ [c])
   }"

definition dumpCapture :: "ASTExporter \<Rightarrow> StmtT Capture \<Rightarrow> atd M" where
  "dumpCapture E CII =
     (case CII of Capture IsByRef IsNested Variable CopyExpr \<Rightarrow>
        object (0 + of_bool IsByRef + of_bool IsNested + of_bool (is_some Variable)
                + of_bool (is_some CopyExpr))
          [flag ''is_by_ref'' IsByRef,
           flag ''is_nested'' IsNested,
           opt_field ''variable'' (dumpDeclRef E) Variable,
           opt_field ''copy_expr'' id CopyExpr])"

definition VisitBlockDecl :: "ASTExporter \<Rightarrow> Decl_base \<Rightarrow> DeclT DeclContext \<Rightarrow> BlockDecl_info \<Rightarrow> DeclT list \<Rightarrow> StmtT Capture list \<Rightarrow> StmtT option \<Rightarrow> atd list M" where
  "VisitBlockDecl E D DC I params captures Body = do {
     a \<leftarrow> VisitDecl E D None;
     b \<leftarrow> VisitDeclContext E (Some DC);
     let HasParameters = (params \<noteq> []);
     let IsVariadic = isVariadicBlock I;
     let CapturesCXXThis = capturesCXXThis I;
     let HasCapturedVariables = (captures \<noteq> []);
     let size = 0 + of_bool HasParameters + of_bool IsVariadic + of_bool CapturesCXXThis
          + of_bool HasCapturedVariables + of_bool (is_some Body);
     c \<leftarrow> object size
            [if HasParameters then field ''parameters'' (array_of snd params) else return [],
             flag ''is_variadic'' IsVariadic,
             flag ''captures_cxx_this'' CapturesCXXThis,
             if HasCapturedVariables
             then field ''captured_variables'' (array_of (dumpCapture E) captures)
             else return [],
             opt_field ''body'' id Body];
     return (a @ b @ [c])
   }"

section \<open>The visitors of statements\<close>

text \<open>
  \<^verbatim>\<open>VisitStmt(S)\<close> (lines 2468-2483).  \<open>children\<close> are the computations \<^verbatim>\<open>dumpStmt(*CI)\<close> of
  the children, in order.
\<close>

definition VisitStmt :: "ASTExporter \<Rightarrow> Stmt_base \<Rightarrow> StmtT list \<Rightarrow> atd list M" where
  "VisitStmt E S children = do {
     a \<leftarrow> object 2
            [field ''pointer'' (dumpPointer E (getStmtPointer S)),
             field ''source_range'' (dumpSourceRangeM E (getStmtSourceRange S))];
     b \<leftarrow> array_of id children;
     return [a, b]
   }"

definition VisitDeclStmt :: "ASTExporter \<Rightarrow> Stmt_base \<Rightarrow> StmtT list \<Rightarrow> DeclT list \<Rightarrow> atd list M" where
  "VisitDeclStmt E S children ds = do {
     a \<leftarrow> VisitStmt E S children;
     c \<leftarrow> array_of snd ds;
     return (a @ [c])
   }"

definition VisitAttributedStmt :: "ASTExporter \<Rightarrow> Stmt_base \<Rightarrow> StmtT list \<Rightarrow> Attr list \<Rightarrow> atd list M" where
  "VisitAttributedStmt E S children attrs = do {
     a \<leftarrow> VisitStmt E S children;
     c \<leftarrow> array_of (dumpAttr E) attrs;
     return (a @ [c])
   }"

definition VisitLabelStmt :: "ASTExporter \<Rightarrow> Stmt_base \<Rightarrow> StmtT list \<Rightarrow> string \<Rightarrow> atd list M" where
  "VisitLabelStmt E S children name = do {
     a \<leftarrow> VisitStmt E S children;
     return (a @ [AString name])
   }"

definition VisitGotoStmt :: "ASTExporter \<Rightarrow> Stmt_base \<Rightarrow> StmtT list \<Rightarrow> string \<Rightarrow> pointer \<Rightarrow> atd list M" where
  "VisitGotoStmt E S children labelName label = do {
     a \<leftarrow> VisitStmt E S children;
     c \<leftarrow> object 2
            [field ''label'' (return (AString labelName)),
             field ''pointer'' (dumpPointer E label)];
     return (a @ [c])
   }"

definition VisitCXXCatchStmt :: "ASTExporter \<Rightarrow> Stmt_base \<Rightarrow> StmtT list \<Rightarrow> DeclT option \<Rightarrow> atd list M" where
  "VisitCXXCatchStmt E S children decl = do {
     a \<leftarrow> VisitStmt E S children;
     c \<leftarrow> object (0 + of_bool (is_some decl)) [opt_field ''variable'' snd decl];
     return (a @ [c])
   }"

definition VisitObjCAtCatchStmt :: "ASTExporter \<Rightarrow> Stmt_base \<Rightarrow> StmtT list \<Rightarrow> DeclT option \<Rightarrow> atd list M" where
  "VisitObjCAtCatchStmt E S children CatchParam = do {
     a \<leftarrow> VisitStmt E S children;
     c \<leftarrow> (case CatchParam of
             Some d \<Rightarrow> variant ''CatchParam'' (snd d)
           | None \<Rightarrow> simple_variant ''CatchAll'');
     return (a @ [c])
   }"

definition VisitExpr :: "ASTExporter \<Rightarrow> Stmt_base \<Rightarrow> StmtT list \<Rightarrow> Expr_info \<Rightarrow> atd list M" where
  "VisitExpr E S children Node = do {
     a \<leftarrow> VisitStmt E S children;
     let VK = getValueKind Node;
     let HasNonDefaultValueKind = (VK \<noteq> VK_RValue);
     let OK = getObjectKind Node;
     let HasNonDefaultObjectKind = (OK \<noteq> OK_Ordinary);
     c \<leftarrow> object (1 + of_bool HasNonDefaultValueKind + of_bool HasNonDefaultObjectKind)
            [field ''qual_type'' (dumpQualType E (getType Node)),
             case VK of
               VK_RValue \<Rightarrow> return []
             | VK_LValue \<Rightarrow> field ''value_kind'' (simple_variant ''LValue'')
             | VK_XValue \<Rightarrow> field ''value_kind'' (simple_variant ''XValue''),
             case OK of
               OK_Ordinary \<Rightarrow> return []
             | OK_BitField \<Rightarrow> field ''object_kind'' (simple_variant ''BitField'')
             | OK_ObjCProperty \<Rightarrow> field ''object_kind'' (simple_variant ''ObjCProperty'')
             | OK_ObjCSubscript \<Rightarrow> field ''object_kind'' (simple_variant ''ObjCSubscript'')
             | OK_VectorComponent \<Rightarrow> field ''object_kind'' (simple_variant ''VectorComponent'')];
     return (a @ [c])
   }"

definition dumpCXXBaseSpecifier :: "string \<times> bool \<Rightarrow> atd M" where
  "dumpCXXBaseSpecifier Base = do {
     let IsVirtual = snd Base;
     object (1 + of_bool IsVirtual)
       [field ''name'' (return (AString (fst Base))),
        flag ''virtual'' IsVirtual]
   }"

definition VisitCastExpr :: "ASTExporter \<Rightarrow> Stmt_base \<Rightarrow> StmtT list \<Rightarrow> Expr_info \<Rightarrow> CastExpr_info \<Rightarrow> atd list M" where
  "VisitCastExpr E S children Node C = do {
     a \<leftarrow> VisitExpr E S children Node;
     c \<leftarrow> object 2
            [field ''cast_kind'' (simple_variant (getCastKindName C)),
             field ''base_path'' (array_of dumpCXXBaseSpecifier (path C))];
     return (a @ [c])
   }"

definition VisitExplicitCastExpr :: "ASTExporter \<Rightarrow> Stmt_base \<Rightarrow> StmtT list \<Rightarrow> Expr_info \<Rightarrow> CastExpr_info \<Rightarrow> QualType \<Rightarrow> atd list M" where
  "VisitExplicitCastExpr E S children Node C TypeAsWritten = do {
     a \<leftarrow> VisitCastExpr E S children Node C;
     q \<leftarrow> dumpQualType E TypeAsWritten;
     return (a @ [q])
   }"

definition VisitCXXNamedCastExpr :: "ASTExporter \<Rightarrow> Stmt_base \<Rightarrow> StmtT list \<Rightarrow> Expr_info \<Rightarrow> CastExpr_info \<Rightarrow> QualType \<Rightarrow> string \<Rightarrow> atd list M" where
  "VisitCXXNamedCastExpr E S children Node C TypeAsWritten CastName = do {
     a \<leftarrow> VisitExplicitCastExpr E S children Node C TypeAsWritten;
     return (a @ [AString CastName])
   }"

text \<open>\<^verbatim>\<open>HasFoundDeclRef = FD && D != FD\<close> compares the two addresses.\<close>

definition VisitDeclRefExpr :: "ASTExporter \<Rightarrow> Stmt_base \<Rightarrow> StmtT list \<Rightarrow> Expr_info \<Rightarrow> DeclRefExpr_info \<Rightarrow> atd list M" where
  "VisitDeclRefExpr E S children Node I = do {
     a \<leftarrow> VisitExpr E S children Node;
     let D = getDecl I;
     let FD = getFoundDecl I;
     let HasFoundDeclRef =
       (case FD of None \<Rightarrow> False
        | Some fd \<Rightarrow> map_option getDeclPointer D \<noteq> Some (getDeclPointer fd));
     c \<leftarrow> object (0 + of_bool (is_some D) + of_bool HasFoundDeclRef)
            [opt_field ''decl_ref'' (dumpDeclRef E) D,
             if HasFoundDeclRef then opt_field ''found_decl_ref'' (dumpDeclRef E) FD else return []];
     return (a @ [c])
   }"

definition dumpDeclarationName :: "NameKind \<Rightarrow> string \<Rightarrow> atd M" where
  "dumpDeclarationName K name =
     object 2
       [field ''kind''
          (case K of
             Identifier \<Rightarrow> simple_variant ''Identifier''
           | ObjCZeroArgSelector \<Rightarrow> simple_variant ''ObjCZeroArgSelector''
           | ObjCOneArgSelector \<Rightarrow> simple_variant ''ObjCOneArgSelector''
           | ObjCMultiArgSelector \<Rightarrow> simple_variant ''ObjCMultiArgSelector''
           | CXXConstructorName \<Rightarrow> simple_variant ''CXXConstructorName''
           | CXXDestructorName \<Rightarrow> simple_variant ''CXXDestructorName''
           | CXXConversionFunctionName \<Rightarrow> simple_variant ''CXXConversionFunctionName''
           | CXXOperatorName \<Rightarrow> simple_variant ''CXXOperatorName''
           | CXXLiteralOperatorName \<Rightarrow> simple_variant ''CXXLiteralOperatorName''
           | CXXUsingDirective \<Rightarrow> simple_variant ''CXXUsingDirective''),
        field ''name'' (return (AString name))]"

definition VisitOverloadExpr :: "ASTExporter \<Rightarrow> Stmt_base \<Rightarrow> StmtT list \<Rightarrow> Expr_info \<Rightarrow> OverloadExpr_info \<Rightarrow> atd list M" where
  "VisitOverloadExpr E S children Node I = do {
     a \<leftarrow> VisitExpr E S children Node;
     c \<leftarrow> object 2
            [if 0 < length (decls I)
             then field ''decls'' (array_of (dumpDeclRef E) (decls I))
             else return [],
             field ''name'' (dumpDeclarationName (getNameKind I) (getNameAsStringO I))];
     return (a @ [c])
   }"

definition VisitUnresolvedLookupExpr :: "ASTExporter \<Rightarrow> Stmt_base \<Rightarrow> StmtT list \<Rightarrow> Expr_info \<Rightarrow> OverloadExpr_info \<Rightarrow> UnresolvedLookupExpr_info \<Rightarrow> atd list M" where
  "VisitUnresolvedLookupExpr E S children Node I U = do {
     a \<leftarrow> VisitOverloadExpr E S children Node I;
     let RequiresADL = requiresADL U;
     let IsOverloaded = isOverloaded U;
     let HasNamingClass = is_some (getNamingClass U);
     c \<leftarrow> object (0 + of_bool RequiresADL + of_bool IsOverloaded + of_bool HasNamingClass)
            [flag ''requires_ADL'' RequiresADL,
             flag ''is_overloaded'' IsOverloaded,
             opt_field ''naming_class'' (dumpDeclRef E) (getNamingClass U)];
     return (a @ [c])
   }"

definition VisitObjCIvarRefExpr :: "ASTExporter \<Rightarrow> Stmt_base \<Rightarrow> StmtT list \<Rightarrow> Expr_info \<Rightarrow> DeclRef \<Rightarrow> bool \<Rightarrow> atd list M" where
  "VisitObjCIvarRefExpr E S children Node D IsFreeIvar = do {
     a \<leftarrow> VisitExpr E S children Node;
     c \<leftarrow> object (2 + of_bool IsFreeIvar)
            [field ''decl_ref'' (dumpDeclRef E D),
             field ''pointer'' (dumpPointer E (getDeclPointer D)),
             flag ''is_free_ivar'' IsFreeIvar];
     return (a @ [c])
   }"

definition VisitPredefinedExpr :: "ASTExporter \<Rightarrow> Stmt_base \<Rightarrow> StmtT list \<Rightarrow> Expr_info \<Rightarrow> IdentType \<Rightarrow> atd list M" where
  "VisitPredefinedExpr E S children Node IT = do {
     a \<leftarrow> VisitExpr E S children Node;
     c \<leftarrow> (case IT of
             Func \<Rightarrow> simple_variant ''Func''
           | Function \<Rightarrow> simple_variant ''Function''
           | LFunction \<Rightarrow> simple_variant ''LFunction''
           | FuncDName \<Rightarrow> simple_variant ''FuncDName''
           | FuncSig \<Rightarrow> simple_variant ''FuncSig''
           | PrettyFunction \<Rightarrow> simple_variant ''PrettyFunction''
           | PrettyFunctionNoVirtual \<Rightarrow> simple_variant ''PrettyFunctionNoVirtual'');
     return (a @ [c])
   }"

definition VisitCharacterLiteral :: "ASTExporter \<Rightarrow> Stmt_base \<Rightarrow> StmtT list \<Rightarrow> Expr_info \<Rightarrow> int \<Rightarrow> atd list M" where
  "VisitCharacterLiteral E S children Node v = do {
     a \<leftarrow> VisitExpr E S children Node;
     return (a @ [AInteger v])
   }"

definition VisitIntegerLiteral :: "ASTExporter \<Rightarrow> Stmt_base \<Rightarrow> StmtT list \<Rightarrow> Expr_info \<Rightarrow> IntegerLiteral_info \<Rightarrow> atd list M" where
  "VisitIntegerLiteral E S children Node I = do {
     a \<leftarrow> VisitExpr E S children Node;
     let IsSigned = isSignedIntegerType I;
     c \<leftarrow> object (2 + of_bool IsSigned)
            [flag ''is_signed'' IsSigned,
             field ''bitwidth'' (return (AInteger (getBitWidth I))),
             field ''value'' (return (AString (toString10 I)))];
     return (a @ [c])
   }"

definition VisitFloatingLiteral :: "ASTExporter \<Rightarrow> Stmt_base \<Rightarrow> StmtT list \<Rightarrow> Expr_info \<Rightarrow> string \<Rightarrow> atd list M" where
  "VisitFloatingLiteral E S children Node buf = do {
     a \<leftarrow> VisitExpr E S children Node;
     return (a @ [AString buf])
   }"

definition VisitStringLiteral :: "ASTExporter \<Rightarrow> Stmt_base \<Rightarrow> StmtT list \<Rightarrow> Expr_info \<Rightarrow> string \<Rightarrow> atd list M" where
  "VisitStringLiteral E S children Str bytes = do {
     a \<leftarrow> VisitExpr E S children Str;
     return (a @ [AString bytes])
   }"

definition VisitUnaryOperator :: "ASTExporter \<Rightarrow> Stmt_base \<Rightarrow> StmtT list \<Rightarrow> Expr_info \<Rightarrow> UnaryOperatorKind \<Rightarrow> bool \<Rightarrow> atd list M" where
  "VisitUnaryOperator E S children Node Opcode IsPostfix = do {
     a \<leftarrow> VisitExpr E S children Node;
     c \<leftarrow> object (1 + of_bool IsPostfix)
            [field ''kind''
               (case Opcode of
                  UO_PostInc \<Rightarrow> simple_variant ''PostInc''
                | UO_PostDec \<Rightarrow> simple_variant ''PostDec''
                | UO_PreInc \<Rightarrow> simple_variant ''PreInc''
                | UO_PreDec \<Rightarrow> simple_variant ''PreDec''
                | UO_AddrOf \<Rightarrow> simple_variant ''AddrOf''
                | UO_Deref \<Rightarrow> simple_variant ''Deref''
                | UO_Plus \<Rightarrow> simple_variant ''Plus''
                | UO_Minus \<Rightarrow> simple_variant ''Minus''
                | UO_Not \<Rightarrow> simple_variant ''Not''
                | UO_LNot \<Rightarrow> simple_variant ''LNot''
                | UO_Real \<Rightarrow> simple_variant ''Real''
                | UO_Imag \<Rightarrow> simple_variant ''Imag''
                | UO_Extension \<Rightarrow> simple_variant ''Extension''),
             flag ''is_postfix'' IsPostfix];
     return (a @ [c])
   }"

text \<open>The argument type is \<open>Some\<close> exactly when \<^verbatim>\<open>isArgumentType()\<close>.\<close>

definition VisitUnaryExprOrTypeTraitExpr :: "ASTExporter \<Rightarrow> Stmt_base \<Rightarrow> StmtT list \<Rightarrow> Expr_info \<Rightarrow> UnaryExprOrTypeTrait \<Rightarrow> QualType option \<Rightarrow> atd list M" where
  "VisitUnaryExprOrTypeTraitExpr E S children Node K ArgumentType = do {
     a \<leftarrow> VisitExpr E S children Node;
     let HasQualType = is_some ArgumentType;
     c \<leftarrow> object (1 + of_bool HasQualType)
            [field ''kind''
               (case K of
                  UETT_SizeOf \<Rightarrow> simple_variant ''SizeOf''
                | UETT_AlignOf \<Rightarrow> simple_variant ''AlignOf''
                | UETT_VecStep \<Rightarrow> simple_variant ''VecStep''),
             opt_field ''qual_type'' (dumpQualType E) ArgumentType];
     return (a @ [c])
   }"

definition VisitMemberExpr :: "ASTExporter \<Rightarrow> Stmt_base \<Rightarrow> StmtT list \<Rightarrow> Expr_info \<Rightarrow> MemberExpr_info \<Rightarrow> atd list M" where
  "VisitMemberExpr E S children Node I = do {
     a \<leftarrow> VisitExpr E S children Node;
     let IsArrow = isArrow I;
     c \<leftarrow> object (2 + of_bool IsArrow)
            [flag ''is_arrow'' IsArrow,
             field ''name'' (return (dumpName (getMemberDeclName I))),
             field ''decl_ref'' (dumpDeclRef E (getMemberDecl I))];
     return (a @ [c])
   }"

definition VisitExtVectorElementExpr :: "ASTExporter \<Rightarrow> Stmt_base \<Rightarrow> StmtT list \<Rightarrow> Expr_info \<Rightarrow> string \<Rightarrow> atd list M" where
  "VisitExtVectorElementExpr E S children Node accessor = do {
     a \<leftarrow> VisitExpr E S children Node;
     return (a @ [AString accessor])
   }"

definition VisitBinaryOperator :: "ASTExporter \<Rightarrow> Stmt_base \<Rightarrow> StmtT list \<Rightarrow> Expr_info \<Rightarrow> BinaryOperatorKind \<Rightarrow> atd list M" where
  "VisitBinaryOperator E S children Node Opcode = do {
     a \<leftarrow> VisitExpr E S children Node;
     c \<leftarrow> object 1
            [field ''kind''
               (case Opcode of
                  BO_PtrMemD \<Rightarrow> simple_variant ''PtrMemD''
                | BO_PtrMemI \<Rightarrow> simple_variant ''PtrMemI''
                | BO_Mul \<Rightarrow> simple_variant ''Mul''
                | BO_Div \<Rightarrow> simple_variant ''Div''
                | BO_Rem \<Rightarrow> simple_variant ''Rem''
                | BO_Add \<Rightarrow> simple_variant ''Add''
                | BO_Sub \<Rightarrow> simple_variant ''Sub''
                | BO_Shl \<Rightarrow> simple_variant ''Shl''
                | BO_Shr \<Rightarrow> simple_variant ''Shr''
                | BO_LT \<Rightarrow> simple_variant ''LT''
                | BO_GT \<Rightarrow> simple_variant ''GT''
                | BO_LE \<Rightarrow> simple_variant ''LE''
                | BO_GE \<Rightarrow> simple_variant ''GE''
                | BO_EQ \<Rightarrow> simple_variant ''EQ''
                | BO_NE \<Rightarrow> simple_variant ''NE''
                | BO_And \<Rightarrow> simple_variant ''And''
                | BO_Xor \<Rightarrow> simple_variant ''Xor''
                | BO_Or \<Rightarrow> simple_variant ''Or''
                | BO_LAnd \<Rightarrow> simple_variant ''LAnd''
                | BO_LOr \<Rightarrow> simple_variant ''LOr''
                | BO_Assign \<Rightarrow> simple_variant ''Assign''
                | BO_MulAssign \<Rightarrow> simple_variant ''MulAssign''
                | BO_DivAssign \<Rightarrow> simple_variant ''DivAssign''
                | BO_RemAssign \<Rightarrow> simple_variant ''RemAssign''
                | BO_AddAssign \<Rightarrow> simple_variant ''AddAssign''
                | BO_SubAssign \<Rightarrow> simple_variant ''SubAssign''
                | BO_ShlAssign \<Rightarrow> simple_variant ''ShlAssign''
                | BO_ShrAssign \<Rightarrow> simple_variant ''ShrAssign''
                | BO_AndAssign \<Rightarrow> simple_variant ''AndAssign''
                | BO_XorAssign \<Rightarrow> simple_variant ''XorAssign''
                | BO_OrAssign \<Rightarrow> simple_variant ''OrAssign''
                | BO_Comma \<Rightarrow> simple_variant ''Comma'')];
     return (a @ [c])
   }"

definition VisitCompoundAssignOperator :: "ASTExporter \<Rightarrow> Stmt_base \<Rightarrow> StmtT list \<Rightarrow> Expr_info \<Rightarrow> BinaryOperatorKind \<Rightarrow> QualType \<Rightarrow> QualType \<Rightarrow> atd list M" where
  "VisitCompoundAssignOperator E S children Node Opcode LHSType ResultType = do {
     a \<leftarrow> VisitBinaryOperator E S children Node Opcode;
     c \<leftarrow> object 2
            [field ''lhs_type'' (dumpQualType E LHSType),
             field ''result_type'' (dumpQualType E ResultType)];
     return (a @ [c])
   }"

text \<open>\<open>BlockDecl\<close> is the computation \<^verbatim>\<open>dumpDecl(Node->getBlockDecl())\<close>.\<close>

definition VisitBlockExpr :: "ASTExporter \<Rightarrow> Stmt_base \<Rightarrow> StmtT list \<Rightarrow> Expr_info \<Rightarrow> atd M \<Rightarrow> atd list M" where
  "VisitBlockExpr E S children Node BlockDecl = do {
     a \<leftarrow> VisitExpr E S children Node;
     d \<leftarrow> BlockDecl;
     return (a @ [d])
   }"

definition VisitOpaqueValueExpr :: "ASTExporter \<Rightarrow> Stmt_base \<Rightarrow> StmtT list \<Rightarrow> Expr_info \<Rightarrow> StmtT option \<Rightarrow> atd list M" where
  "VisitOpaqueValueExpr E S children Node Source = do {
     a \<leftarrow> VisitExpr E S children Node;
     c \<leftarrow> object (0 + of_bool (is_some Source)) [opt_field ''source_expr'' id Source];
     return (a @ [c])
   }"

definition VisitAddrLabelExpr :: "ASTExporter \<Rightarrow> Stmt_base \<Rightarrow> StmtT list \<Rightarrow> Expr_info \<Rightarrow> string \<Rightarrow> pointer \<Rightarrow> atd list M" where
  "VisitAddrLabelExpr E S children Node labelName label = do {
     a \<leftarrow> VisitExpr E S children Node;
     c \<leftarrow> object 2
            [field ''label'' (return (AString labelName)),
             field ''pointer'' (dumpPointer E label)];
     return (a @ [c])
   }"

definition VisitCXXBoolLiteralExpr :: "ASTExporter \<Rightarrow> Stmt_base \<Rightarrow> StmtT list \<Rightarrow> Expr_info \<Rightarrow> bool \<Rightarrow> atd list M" where
  "VisitCXXBoolLiteralExpr E S children Node v = do {
     a \<leftarrow> VisitExpr E S children Node;
     return (a @ [AInteger (of_bool v)])
   }"

definition VisitCXXConstructExpr :: "ASTExporter \<Rightarrow> Stmt_base \<Rightarrow> StmtT list \<Rightarrow> Expr_info \<Rightarrow> CXXConstructExpr_info \<Rightarrow> atd list M" where
  "VisitCXXConstructExpr E S children Node I = do {
     a \<leftarrow> VisitExpr E S children Node;
     let IsElidable = isElidable I;
     let RequiresZeroInitialization = requiresZeroInitialization I;
     c \<leftarrow> object (1 + of_bool IsElidable + of_bool RequiresZeroInitialization)
            [field ''qual_type'' (dumpQualType E (getConstructorType I)),
             flag ''is_elidable'' IsElidable,
             flag ''requires_zero_initialization'' RequiresZeroInitialization];
     return (a @ [c])
   }"

definition dumpCXXTemporary :: "ASTExporter \<Rightarrow> pointer \<Rightarrow> atd M" where
  "dumpCXXTemporary E Temporary = dumpPointer E Temporary"

definition VisitCXXBindTemporaryExpr :: "ASTExporter \<Rightarrow> Stmt_base \<Rightarrow> StmtT list \<Rightarrow> Expr_info \<Rightarrow> pointer \<Rightarrow> atd list M" where
  "VisitCXXBindTemporaryExpr E S children Node Temporary = do {
     a \<leftarrow> VisitExpr E S children Node;
     c \<leftarrow> object 1 [field ''cxx_temporary'' (dumpCXXTemporary E Temporary)];
     return (a @ [c])
   }"

definition VisitMaterializeTemporaryExpr :: "ASTExporter \<Rightarrow> Stmt_base \<Rightarrow> StmtT list \<Rightarrow> Expr_info \<Rightarrow> DeclRef option \<Rightarrow> atd list M" where
  "VisitMaterializeTemporaryExpr E S children Node VD = do {
     a \<leftarrow> VisitExpr E S children Node;
     c \<leftarrow> object (0 + of_bool (is_some VD)) [opt_field ''decl_ref'' (dumpDeclRef E) VD];
     return (a @ [c])
   }"

text \<open>\<open>SubExpr\<close> is the computation \<^verbatim>\<open>dumpStmt(Node->getSubExpr())\<close>.\<close>

definition VisitExprWithCleanups :: "ASTExporter \<Rightarrow> Stmt_base \<Rightarrow> StmtT list \<Rightarrow> Expr_info \<Rightarrow> DeclRef list \<Rightarrow> StmtT \<Rightarrow> atd list M" where
  "VisitExprWithCleanups E S children Node objects SubExpr = do {
     a \<leftarrow> VisitExpr E S children Node;
     let HasDeclRefs = (0 < length objects);
     c \<leftarrow> object (1 + of_bool HasDeclRefs)
            [if HasDeclRefs then field ''decl_refs'' (array_of (dumpDeclRef E) objects) else return [],
             field ''sub_expr'' SubExpr];
     return (a @ [c])
   }"

text \<open>\<open>LambdaClass\<close> is the computation \<^verbatim>\<open>dumpDecl(Node->getLambdaClass())\<close>.\<close>

definition VisitLambdaExpr :: "ASTExporter \<Rightarrow> Stmt_base \<Rightarrow> StmtT list \<Rightarrow> Expr_info \<Rightarrow> atd M \<Rightarrow> atd list M" where
  "VisitLambdaExpr E S children Node LambdaClass = do {
     a \<leftarrow> VisitExpr E S children Node;
     d \<leftarrow> LambdaClass;
     return (a @ [d])
   }"

definition VisitCXXNewExpr :: "ASTExporter \<Rightarrow> Stmt_base \<Rightarrow> StmtT list \<Rightarrow> Expr_info \<Rightarrow> CXXNewExpr_info \<Rightarrow> atd list M" where
  "VisitCXXNewExpr E S children Node I = do {
     a \<leftarrow> VisitExpr E S children Node;
     let IsArray = isArray I;
     let HasArraySize = is_some (getArraySize I);
     let HasInitializer = is_some (getInitializer I);
     c \<leftarrow> object (0 + of_bool IsArray + of_bool HasArraySize + of_bool HasInitializer)
            [flag ''is_array'' IsArray,
             opt_field ''array_size_expr'' (dumpPointer E) (getArraySize I),
             opt_field ''initializer_expr'' (dumpPointer E) (getInitializer I)];
     return (a @ [c])
   }"

definition VisitCXXDeleteExpr :: "ASTExporter \<Rightarrow> Stmt_base \<Rightarrow> StmtT list \<Rightarrow> Expr_info \<Rightarrow> bool \<Rightarrow> atd list M" where
  "VisitCXXDeleteExpr E S children Node IsArray = do {
     a \<leftarrow> VisitExpr E S children Node;
     c \<leftarrow> object (0 + of_bool IsArray) [flag ''is_array'' IsArray];
     return (a @ [c])
   }"

definition VisitObjCMessageExpr :: "ASTExporter \<Rightarrow> Stmt_base \<Rightarrow> StmtT list \<Rightarrow> Expr_info \<Rightarrow> ObjCMessageExpr_info \<Rightarrow> atd list M" where
  "VisitObjCMessageExpr E S children Node I = do {
     a \<leftarrow> VisitExpr E S children Node;
     let (m_decl, IsDefinitionFound) =
       (case getReceiverInterface I of
          None \<Rightarrow> (None, False)
        | Some receiver \<Rightarrow>
            (case fst receiver of
               Some m \<Rightarrow> (Some m, True)
             | None \<Rightarrow> (snd receiver, False)));
     let RK = getReceiverKind I;
     let HasNonDefaultReceiverKind = (RK \<noteq> RK_Instance);
     c \<leftarrow> object (1 + of_bool IsDefinitionFound + of_bool (is_some m_decl)
                   + of_bool HasNonDefaultReceiverKind)
            [field ''selector'' (return (AString (getSelectorAsString I))),
             case m_decl of
               None \<Rightarrow> return []
             | Some m \<Rightarrow>
                 fields [flag ''is_definition_found'' IsDefinitionFound,
                         field ''decl_pointer'' (dumpPointer E m)],
             case RK of
               RK_Instance \<Rightarrow> return []
             | RK_Class T \<Rightarrow> field ''receiver_kind'' (variant ''Class'' (dumpQualType E T))
             | RK_SuperInstance \<Rightarrow> field ''receiver_kind'' (simple_variant ''SuperInstance'')
             | RK_SuperClass \<Rightarrow> field ''receiver_kind'' (simple_variant ''SuperClass'')];
     return (a @ [c])
   }"

definition dumpSelector :: "string \<Rightarrow> atd M" where
  "dumpSelector sel = return (AString sel)"

definition VisitObjCBoxedExpr :: "ASTExporter \<Rightarrow> Stmt_base \<Rightarrow> StmtT list \<Rightarrow> Expr_info \<Rightarrow> string \<Rightarrow> atd list M" where
  "VisitObjCBoxedExpr E S children Node sel = do {
     a \<leftarrow> VisitExpr E S children Node;
     c \<leftarrow> dumpSelector sel;
     return (a @ [c])
   }"

definition VisitObjCEncodeExpr :: "ASTExporter \<Rightarrow> Stmt_base \<Rightarrow> StmtT list \<Rightarrow> Expr_info \<Rightarrow> QualType \<Rightarrow> atd list M" where
  "VisitObjCEncodeExpr E S children Node EncodedType = do {
     a \<leftarrow> VisitExpr E S children Node;
     c \<leftarrow> dumpQualType E EncodedType;
     return (a @ [c])
   }"

definition VisitObjCSelectorExpr :: "ASTExporter \<Rightarrow> Stmt_base \<Rightarrow> StmtT list \<Rightarrow> Expr_info \<Rightarrow> string \<Rightarrow> atd list M" where
  "VisitObjCSelectorExpr E S children Node sel = do {
     a \<leftarrow> VisitExpr E S children Node;
     c \<leftarrow> dumpSelector sel;
     return (a @ [c])
   }"

definition VisitObjCProtocolExpr :: "ASTExporter \<Rightarrow> Stmt_base \<Rightarrow> StmtT list \<Rightarrow> Expr_info \<Rightarrow> DeclRef \<Rightarrow> atd list M" where
  "VisitObjCProtocolExpr E S children Node Protocol = do {
     a \<leftarrow> VisitExpr E S children Node;
     c \<leftarrow> dumpDeclRef E Protocol;
     return (a @ [c])
   }"

definition VisitObjCPropertyRefExpr :: "ASTExporter \<Rightarrow> Stmt_base \<Rightarrow> StmtT list \<Rightarrow> Expr_info \<Rightarrow> ObjCPropertyRefExpr_info \<Rightarrow> atd list M" where
  "VisitObjCPropertyRefExpr E S children Node I = do {
     a \<leftarrow> VisitExpr E S children Node;
     let IsSuperReceiver = isSuperReceiver I;
     let IsMessagingGetter = isMessagingGetter I;
     let IsMessagingSetter = isMessagingSetter I;
     c \<leftarrow> object (1 + of_bool IsSuperReceiver + of_bool IsMessagingGetter + of_bool IsMessagingSetter)
            [field ''kind''
               (case getProperty I of
                  Inl implicit \<Rightarrow>
                    variant ''MethodRef''
                      (object (0 + of_bool (is_some (fst implicit)) + of_bool (is_some (snd implicit)))
                         [opt_field ''getter'' dumpSelector (fst implicit),
                          opt_field ''setter'' dumpSelector (snd implicit)])
                | Inr explicit \<Rightarrow> variant ''PropertyRef'' (dumpDeclRef E explicit)),
             flag ''is_super_receiver'' IsSuperReceiver,
             flag ''is_messaging_getter'' IsMessagingGetter,
             flag ''is_messaging_setter'' IsMessagingSetter];
     return (a @ [c])
   }"

definition VisitObjCSubscriptRefExpr :: "ASTExporter \<Rightarrow> Stmt_base \<Rightarrow> StmtT list \<Rightarrow> Expr_info \<Rightarrow> ObjCSubscriptRefExpr_info \<Rightarrow> atd list M" where
  "VisitObjCSubscriptRefExpr E S children Node I = do {
     a \<leftarrow> VisitExpr E S children Node;
     let HasGetter = is_some (getAtIndexMethodSelector I);
     let HasSetter = is_some (setAtIndexMethodSelector I);
     c \<leftarrow> object (1 + of_bool HasGetter + of_bool HasSetter)
            [field ''kind''
               (if isArraySubscriptRefExpr I then simple_variant ''ArraySubscript''
                else simple_variant ''DictionarySubscript''),
             opt_field ''getter'' dumpSelector (getAtIndexMethodSelector I),
             opt_field ''setter'' dumpSelector (setAtIndexMethodSelector I)];
     return (a @ [c])
   }"

definition VisitObjCBoolLiteralExpr :: "ASTExporter \<Rightarrow> Stmt_base \<Rightarrow> StmtT list \<Rightarrow> Expr_info \<Rightarrow> bool \<Rightarrow> atd list M" where
  "VisitObjCBoolLiteralExpr E S children Node v = do {
     a \<leftarrow> VisitExpr E S children Node;
     return (a @ [AInteger (of_bool v)])
   }"

section \<open>Dispatch and the entry points \<^verbatim>\<open>dumpDecl\<close> and \<^verbatim>\<open>dumpStmt\<close>\<close>

text \<open>
  The class of the exporter's visitor that clang's \<^verbatim>\<open>ConstDeclVisitor::Visit\<close>
  (\<^verbatim>\<open>ConstStmtVisitor::Visit\<close>) reaches for a node: the class of the node's data.
\<close>

definition DeclVisitor_of :: "('d, 's) Decl_payload \<Rightarrow> DeclVisitor" where
  "DeclVisitor_of P =
     (case P of
        P_Decl \<Rightarrow> C_Decl
      | P_CapturedDecl x1 \<Rightarrow> C_CapturedDecl
      | P_LinkageSpecDecl x1 \<Rightarrow> C_LinkageSpecDecl
      | P_NamedDecl x1 \<Rightarrow> C_NamedDecl
      | P_NamespaceDecl x1 x2 x3 \<Rightarrow> C_NamespaceDecl
      | P_ObjCContainerDecl x1 x2 \<Rightarrow> C_ObjCContainerDecl
      | P_TypeDecl x1 x2 \<Rightarrow> C_TypeDecl
      | P_TagDecl x1 x2 x3 \<Rightarrow> C_TagDecl
      | P_ValueDecl x1 x2 \<Rightarrow> C_ValueDecl
      | P_TranslationUnitDecl x1 \<Rightarrow> C_TranslationUnitDecl
      | P_TypedefDecl x1 x2 x3 \<Rightarrow> C_TypedefDecl
      | P_EnumDecl x1 x2 x3 x4 \<Rightarrow> C_EnumDecl
      | P_RecordDecl x1 x2 x3 x4 \<Rightarrow> C_RecordDecl
      | P_CXXRecordDecl x1 x2 x3 x4 x5 \<Rightarrow> C_CXXRecordDecl
      | P_EnumConstantDecl x1 x2 x3 \<Rightarrow> C_EnumConstantDecl
      | P_IndirectFieldDecl x1 x2 x3 \<Rightarrow> C_IndirectFieldDecl
      | P_FunctionDecl x1 x2 x3 x4 x5 x6 x7 \<Rightarrow> C_FunctionDecl
      | P_FieldDecl x1 x2 x3 x4 x5 \<Rightarrow> C_FieldDecl
      | P_ObjCIvarDecl x1 x2 x3 x4 x5 x6 \<Rightarrow> C_ObjCIvarDecl
      | P_VarDecl x1 x2 x3 x4 \<Rightarrow> C_VarDecl
      | P_FileScopeAsmDecl x1 \<Rightarrow> C_FileScopeAsmDecl
      | P_ImportDecl x1 \<Rightarrow> C_ImportDecl
      | P_UsingDirectiveDecl x1 x2 \<Rightarrow> C_UsingDirectiveDecl
      | P_NamespaceAliasDecl x1 x2 \<Rightarrow> C_NamespaceAliasDecl
      | P_ObjCMethodDecl x1 x2 x3 x4 \<Rightarrow> C_ObjCMethodDecl
      | P_ObjCCategoryDecl x1 x2 x3 \<Rightarrow> C_ObjCCategoryDecl
      | P_ObjCCategoryImplDecl x1 x2 x3 \<Rightarrow> C_ObjCCategoryImplDecl
      | P_ObjCProtocolDecl x1 x2 x3 \<Rightarrow> C_ObjCProtocolDecl
      | P_ObjCInterfaceDecl x1 x2 x3 \<Rightarrow> C_ObjCInterfaceDecl
      | P_ObjCImplementationDecl x1 x2 x3 x4 \<Rightarrow> C_ObjCImplementationDecl
      | P_ObjCCompatibleAliasDecl x1 x2 \<Rightarrow> C_ObjCCompatibleAliasDecl
      | P_ObjCPropertyDecl x1 x2 \<Rightarrow> C_ObjCPropertyDecl
      | P_ObjCPropertyImplDecl x1 \<Rightarrow> C_ObjCPropertyImplDecl
      | P_BlockDecl x1 x2 x3 x4 x5 \<Rightarrow> C_BlockDecl)"

definition StmtVisitor_of :: "('d, 's) Stmt_payload \<Rightarrow> StmtVisitor" where
  "StmtVisitor_of P =
     (case P of
        S_Stmt \<Rightarrow> C_Stmt
      | S_DeclStmt x1 \<Rightarrow> C_DeclStmt
      | S_AttributedStmt x1 \<Rightarrow> C_AttributedStmt
      | S_LabelStmt x1 \<Rightarrow> C_LabelStmt
      | S_GotoStmt x1 x2 \<Rightarrow> C_GotoStmt
      | S_CXXCatchStmt x1 \<Rightarrow> C_CXXCatchStmt
      | S_ObjCAtCatchStmt x1 \<Rightarrow> C_ObjCAtCatchStmt
      | S_Expr x1 \<Rightarrow> C_Expr
      | S_CastExpr x1 x2 \<Rightarrow> C_CastExpr
      | S_ExplicitCastExpr x1 x2 x3 \<Rightarrow> C_ExplicitCastExpr
      | S_CXXNamedCastExpr x1 x2 x3 x4 \<Rightarrow> C_CXXNamedCastExpr
      | S_DeclRefExpr x1 x2 \<Rightarrow> C_DeclRefExpr
      | S_OverloadExpr x1 x2 \<Rightarrow> C_OverloadExpr
      | S_UnresolvedLookupExpr x1 x2 x3 \<Rightarrow> C_UnresolvedLookupExpr
      | S_ObjCIvarRefExpr x1 x2 x3 \<Rightarrow> C_ObjCIvarRefExpr
      | S_PredefinedExpr x1 x2 \<Rightarrow> C_PredefinedExpr
      | S_CharacterLiteral x1 x2 \<Rightarrow> C_CharacterLiteral
      | S_IntegerLiteral x1 x2 \<Rightarrow> C_IntegerLiteral
      | S_FloatingLiteral x1 x2 \<Rightarrow> C_FloatingLiteral
      | S_StringLiteral x1 x2 \<Rightarrow> C_StringLiteral
      | S_UnaryOperator x1 x2 x3 \<Rightarrow> C_UnaryOperator
      | S_UnaryExprOrTypeTraitExpr x1 x2 x3 \<Rightarrow> C_UnaryExprOrTypeTraitExpr
      | S_MemberExpr x1 x2 \<Rightarrow> C_MemberExpr
      | S_ExtVectorElementExpr x1 x2 \<Rightarrow> C_ExtVectorElementExpr
      | S_BinaryOperator x1 x2 \<Rightarrow> C_BinaryOperator
      | S_CompoundAssignOperator x1 x2 x3 x4 \<Rightarrow> C_CompoundAssignOperator
      | S_BlockExpr x1 x2 \<Rightarrow> C_BlockExpr
      | S_OpaqueValueExpr x1 x2 \<Rightarrow> C_OpaqueValueExpr
      | S_AddrLabelExpr x1 x2 x3 \<Rightarrow> C_AddrLabelExpr
      | S_CXXBoolLiteralExpr x1 x2 \<Rightarrow> C_CXXBoolLiteralExpr
      | S_CXXConstructExpr x1 x2 \<Rightarrow> C_CXXConstructExpr
      | S_CXXBindTemporaryExpr x1 x2 \<Rightarrow> C_CXXBindTemporaryExpr
      | S_MaterializeTemporaryExpr x1 x2 \<Rightarrow> C_MaterializeTemporaryExpr
      | S_ExprWithCleanups x1 x2 x3 \<Rightarrow> C_ExprWithCleanups
      | S_LambdaExpr x1 x2 \<Rightarrow> C_LambdaExpr
      | S_CXXNewExpr x1 x2 \<Rightarrow> C_CXXNewExpr
      | S_CXXDeleteExpr x1 x2 \<Rightarrow> C_CXXDeleteExpr
      | S_ObjCMessageExpr x1 x2 \<Rightarrow> C_ObjCMessageExpr
      | S_ObjCBoxedExpr x1 x2 \<Rightarrow> C_ObjCBoxedExpr
      | S_ObjCEncodeExpr x1 x2 \<Rightarrow> C_ObjCEncodeExpr
      | S_ObjCSelectorExpr x1 x2 \<Rightarrow> C_ObjCSelectorExpr
      | S_ObjCProtocolExpr x1 x2 \<Rightarrow> C_ObjCProtocolExpr
      | S_ObjCPropertyRefExpr x1 x2 \<Rightarrow> C_ObjCPropertyRefExpr
      | S_ObjCSubscriptRefExpr x1 x2 \<Rightarrow> C_ObjCSubscriptRefExpr
      | S_ObjCBoolLiteralExpr x1 x2 \<Rightarrow> C_ObjCBoolLiteralExpr)"

text \<open>
  \<^verbatim>\<open>getDeclKindName()\<close> and \<^verbatim>\<open>getStmtClassName()\<close> for the classes with a visitor of their
  own.
\<close>

definition DeclVisitor_name :: "DeclVisitor \<Rightarrow> string" where
  "DeclVisitor_name c =
     (case c of
        C_Decl \<Rightarrow> ''''
      | C_CapturedDecl \<Rightarrow> ''Captured''
      | C_LinkageSpecDecl \<Rightarrow> ''LinkageSpec''
      | C_NamedDecl \<Rightarrow> ''Named''
      | C_NamespaceDecl \<Rightarrow> ''Namespace''
      | C_ObjCContainerDecl \<Rightarrow> ''ObjCContainer''
      | C_TypeDecl \<Rightarrow> ''Type''
      | C_TagDecl \<Rightarrow> ''Tag''
      | C_ValueDecl \<Rightarrow> ''Value''
      | C_TranslationUnitDecl \<Rightarrow> ''TranslationUnit''
      | C_TypedefDecl \<Rightarrow> ''Typedef''
      | C_EnumDecl \<Rightarrow> ''Enum''
      | C_RecordDecl \<Rightarrow> ''Record''
      | C_CXXRecordDecl \<Rightarrow> ''CXXRecord''
      | C_EnumConstantDecl \<Rightarrow> ''EnumConstant''
      | C_IndirectFieldDecl \<Rightarrow> ''IndirectField''
      | C_FunctionDecl \<Rightarrow> ''Function''
      | C_FieldDecl \<Rightarrow> ''Field''
      | C_ObjCIvarDecl \<Rightarrow> ''ObjCIvar''
      | C_VarDecl \<Rightarrow> ''Var''
      | C_FileScopeAsmDecl \<Rightarrow> ''FileScopeAsm''
      | C_ImportDecl \<Rightarrow> ''Import''
      | C_UsingDirectiveDecl \<Rightarrow> ''UsingDirective''
      | C_NamespaceAliasDecl \<Rightarrow> ''NamespaceAlias''
      | C_ObjCMethodDecl \<Rightarrow> ''ObjCMethod''
      | C_ObjCCategoryDecl \<Rightarrow> ''ObjCCategory''
      | C_ObjCCategoryImplDecl \<Rightarrow> ''ObjCCategoryImpl''
      | C_ObjCProtocolDecl \<Rightarrow> ''ObjCProtocol''
      | C_ObjCInterfaceDecl \<Rightarrow> ''ObjCInterface''
      | C_ObjCImplementationDecl \<Rightarrow> ''ObjCImplementation''
      | C_ObjCCompatibleAliasDecl \<Rightarrow> ''ObjCCompatibleAlias''
      | C_ObjCPropertyDecl \<Rightarrow> ''ObjCProperty''
      | C_ObjCPropertyImplDecl \<Rightarrow> ''ObjCPropertyImpl''
      | C_BlockDecl \<Rightarrow> ''Block'')"

definition StmtVisitor_name :: "StmtVisitor \<Rightarrow> string" where
  "StmtVisitor_name c =
     (case c of
        C_Stmt \<Rightarrow> ''Stmt''
      | C_DeclStmt \<Rightarrow> ''DeclStmt''
      | C_AttributedStmt \<Rightarrow> ''AttributedStmt''
      | C_LabelStmt \<Rightarrow> ''LabelStmt''
      | C_GotoStmt \<Rightarrow> ''GotoStmt''
      | C_CXXCatchStmt \<Rightarrow> ''CXXCatchStmt''
      | C_ObjCAtCatchStmt \<Rightarrow> ''ObjCAtCatchStmt''
      | C_Expr \<Rightarrow> ''Expr''
      | C_CastExpr \<Rightarrow> ''CastExpr''
      | C_ExplicitCastExpr \<Rightarrow> ''ExplicitCastExpr''
      | C_CXXNamedCastExpr \<Rightarrow> ''CXXNamedCastExpr''
      | C_DeclRefExpr \<Rightarrow> ''DeclRefExpr''
      | C_OverloadExpr \<Rightarrow> ''OverloadExpr''
      | C_UnresolvedLookupExpr \<Rightarrow> ''UnresolvedLookupExpr''
      | C_ObjCIvarRefExpr \<Rightarrow> ''ObjCIvarRefExpr''
      | C_PredefinedExpr \<Rightarrow> ''PredefinedExpr''
      | C_CharacterLiteral \<Rightarrow> ''CharacterLiteral''
      | C_IntegerLiteral \<Rightarrow> ''IntegerLiteral''
      | C_FloatingLiteral \<Rightarrow> ''FloatingLiteral''
      | C_StringLiteral \<Rightarrow> ''StringLiteral''
      | C_UnaryOperator \<Rightarrow> ''UnaryOperator''
      | C_UnaryExprOrTypeTraitExpr \<Rightarrow> ''UnaryExprOrTypeTraitExpr''
      | C_MemberExpr \<Rightarrow> ''MemberExpr''
      | C_ExtVectorElementExpr \<Rightarrow> ''ExtVectorElementExpr''
      | C_BinaryOperator \<Rightarrow> ''BinaryOperator''
      | C_CompoundAssignOperator \<Rightarrow> ''CompoundAssignOperator''
      | C_BlockExpr \<Rightarrow> ''BlockExpr''
      | C_OpaqueValueExpr \<Rightarrow> ''OpaqueValueExpr''
      | C_AddrLabelExpr \<Rightarrow> ''AddrLabelExpr''
      | C_CXXBoolLiteralExpr \<Rightarrow> ''CXXBoolLiteralExpr''
      | C_CXXConstructExpr \<Rightarrow> ''CXXConstructExpr''
      | C_CXXBindTemporaryExpr \<Rightarrow> ''CXXBindTemporaryExpr''
      | C_MaterializeTemporaryExpr \<Rightarrow> ''MaterializeTemporaryExpr''
      | C_ExprWithCleanups \<Rightarrow> ''ExprWithCleanups''
      | C_LambdaExpr \<Rightarrow> ''LambdaExpr''
      | C_CXXNewExpr \<Rightarrow> ''CXXNewExpr''
      | C_CXXDeleteExpr \<Rightarrow> ''CXXDeleteExpr''
      | C_ObjCMessageExpr \<Rightarrow> ''ObjCMessageExpr''
      | C_ObjCBoxedExpr \<Rightarrow> ''ObjCBoxedExpr''
      | C_ObjCEncodeExpr \<Rightarrow> ''ObjCEncodeExpr''
      | C_ObjCSelectorExpr \<Rightarrow> ''ObjCSelectorExpr''
      | C_ObjCProtocolExpr \<Rightarrow> ''ObjCProtocolExpr''
      | C_ObjCPropertyRefExpr \<Rightarrow> ''ObjCPropertyRefExpr''
      | C_ObjCSubscriptRefExpr \<Rightarrow> ''ObjCSubscriptRefExpr''
      | C_ObjCBoolLiteralExpr \<Rightarrow> ''ObjCBoolLiteralExpr'')"

text \<open>
  \<^verbatim>\<open>D->getKind()\<close> and \<^verbatim>\<open>D->getDeclKindName()\<close> of a declaration, \<^verbatim>\<open>S->getStmtClass()\<close> and
  \<^verbatim>\<open>S->getStmtClassName()\<close> of a statement.
\<close>

definition Decl_getKind :: "Decl \<Rightarrow> DeclVisitor Kind" where
  "Decl_getKind D =
     (case D of Decl derived B P \<Rightarrow> foldr Inherits derived (Own (DeclVisitor_of P)))"

definition Decl_getDeclKindName :: "Decl \<Rightarrow> string" where
  "Decl_getDeclKindName D =
     (case D of Decl derived B P \<Rightarrow>
        (case derived of [] \<Rightarrow> DeclVisitor_name (DeclVisitor_of P) | name # _ \<Rightarrow> name))"

definition Stmt_getStmtClass :: "Stmt \<Rightarrow> StmtVisitor Kind" where
  "Stmt_getStmtClass S =
     (case S of Stmt derived B children P \<Rightarrow> foldr Inherits derived (Own (StmtVisitor_of P)))"

definition Stmt_getStmtClassName :: "Stmt \<Rightarrow> string" where
  "Stmt_getStmtClassName S =
     (case S of Stmt derived B children P \<Rightarrow>
        (case derived of [] \<Rightarrow> StmtVisitor_name (StmtVisitor_of P) | name # _ \<Rightarrow> name))"

text \<open>
  The body of \<^verbatim>\<open>dumpDecl\<close> (lines 1054-1058) and of \<^verbatim>\<open>dumpStmt\<close> (lines 2450-2454) around
  the call of the visitor: the variant named after the kind, and in it the tuple opened
  with the size that the resolver gives for the kind.
\<close>

definition dumpDecl_scopes :: "string \<Rightarrow> DeclVisitor Kind \<Rightarrow> atd list M \<Rightarrow> atd M" where
  "dumpDecl_scopes kindName kind Visit = do {
     fs \<leftarrow> Visit;
     return (AVariant (kindName @ ''Decl'') (Some (ATuple (Some (tupleSizeOfDeclKind kind)) fs)))
   }"

definition dumpStmt_scopes :: "string \<Rightarrow> StmtVisitor Kind \<Rightarrow> atd list M \<Rightarrow> atd M" where
  "dumpStmt_scopes className stmtClass Visit = do {
     fs \<leftarrow> Visit;
     return (AVariant className (Some (ATuple (Some (tupleSizeOfStmtClass stmtClass)) fs)))
   }"

text \<open>
  The two nodes that the constructor makes for null pointers (lines 166-167):
  \<^verbatim>\<open>NullStmt(SourceLocation())\<close>, a statement of the class \<^verbatim>\<open>NullStmt\<close> with no children and
  an invalid location, and \<^verbatim>\<open>EmptyDecl::Create(Context, Context.getTranslationUnitDecl(),
  SourceLocation())\<close>, a declaration of the kind \<^verbatim>\<open>Empty\<close> with an invalid location, whose
  lexical context is its context, with no attribute and no comment.  The exporter has no
  visitor for either class: they are visited by \<^verbatim>\<open>VisitStmt\<close> and \<^verbatim>\<open>VisitDecl\<close>.
\<close>

definition NullPtrStmt_base :: "ASTExporter \<Rightarrow> Stmt_base" where
  "NullPtrStmt_base E = \<lparr>getStmtPointer = NullPtrStmt E, getStmtSourceRange = (None, None)\<rparr>"

definition NullPtrDecl_base :: "ASTExporter \<Rightarrow> Decl_base" where
  "NullPtrDecl_base E =
     \<lparr>getPointer = NullPtrDecl E, getDeclContextIfNotLexical = None,
      getSourceRange = (None, None), getOwningModule = None, isImplicit = False,
      isUsed = False, isThisDeclarationReferenced = False, isInvalidDecl = False,
      getAttrs = [], getLocalComment = None\<rparr>"

definition NullPtrStmt_node :: "ASTExporter \<Rightarrow> Stmt" where
  "NullPtrStmt_node E = Stmt [''NullStmt''] (NullPtrStmt_base E) [] S_Stmt"

definition NullPtrDecl_node :: "ASTExporter \<Rightarrow> Decl" where
  "NullPtrDecl_node E = Decl [''Empty''] (NullPtrDecl_base E) P_Decl"

text \<open>\<^verbatim>\<open>dumpStmt(nullptr)\<close> and \<^verbatim>\<open>dumpDecl(nullptr)\<close>.\<close>

definition dumpStmt_null :: "ASTExporter \<Rightarrow> atd M" where
  "dumpStmt_null E =
     dumpStmt_scopes (Stmt_getStmtClassName (NullPtrStmt_node E)) (Stmt_getStmtClass (NullPtrStmt_node E))
       (VisitStmt E (NullPtrStmt_base E) [])"

definition dumpDecl_null :: "ASTExporter \<Rightarrow> atd M" where
  "dumpDecl_null E =
     dumpDecl_scopes (Decl_getDeclKindName (NullPtrDecl_node E)) (Decl_getKind (NullPtrDecl_node E))
       (VisitDecl E (NullPtrDecl_base E) None)"

text \<open>\<^verbatim>\<open>dumpStmt\<close> and \<^verbatim>\<open>dumpDecl\<close> on a pointer below a node.\<close>

definition dumpStmt_ptr :: "ASTExporter \<Rightarrow> StmtT option \<Rightarrow> atd M" where
  "dumpStmt_ptr E S = (case S of None \<Rightarrow> dumpStmt_null E | Some s \<Rightarrow> s)"

definition dumpDecl_ptr :: "ASTExporter \<Rightarrow> DeclT option \<Rightarrow> atd M" where
  "dumpDecl_ptr E D = (case D of None \<Rightarrow> dumpDecl_null E | Some d \<Rightarrow> snd d)"

text \<open>\<^verbatim>\<open>ConstDeclVisitor::Visit(D)\<close> and \<^verbatim>\<open>ConstStmtVisitor::Visit(S)\<close>.\<close>

definition ConstDeclVisitor_Visit :: "ASTExporter \<Rightarrow> Decl_base \<Rightarrow> (DeclT, StmtT) Decl_payload \<Rightarrow> atd list M" where
  "ConstDeclVisitor_Visit E D P =
     (case P of
        P_Decl \<Rightarrow> VisitDecl E D None
      | P_CapturedDecl x1 \<Rightarrow> VisitCapturedDecl E D x1
      | P_LinkageSpecDecl x1 \<Rightarrow> VisitLinkageSpecDecl E D x1
      | P_NamedDecl x1 \<Rightarrow> VisitNamedDecl E D x1
      | P_NamespaceDecl x1 x2 x3 \<Rightarrow> VisitNamespaceDecl E D x1 x2 x3
      | P_ObjCContainerDecl x1 x2 \<Rightarrow> VisitObjCContainerDecl E D x1 x2
      | P_TypeDecl x1 x2 \<Rightarrow> VisitTypeDecl E D x1 x2
      | P_TagDecl x1 x2 x3 \<Rightarrow> VisitTagDecl E D x1 x2 x3
      | P_ValueDecl x1 x2 \<Rightarrow> VisitValueDecl E D x1 x2
      | P_TranslationUnitDecl x1 \<Rightarrow> VisitTranslationUnitDecl E D x1
      | P_TypedefDecl x1 x2 x3 \<Rightarrow> VisitTypedefDecl E D x1 x2 x3
      | P_EnumDecl x1 x2 x3 x4 \<Rightarrow> VisitEnumDecl E D x1 x2 x3 x4
      | P_RecordDecl x1 x2 x3 x4 \<Rightarrow> VisitRecordDecl E D x1 x2 x3 x4
      | P_CXXRecordDecl x1 x2 x3 x4 x5 \<Rightarrow> VisitCXXRecordDecl E D x1 x2 x3 x4 x5
      | P_EnumConstantDecl x1 x2 x3 \<Rightarrow> VisitEnumConstantDecl E D x1 x2 x3
      | P_IndirectFieldDecl x1 x2 x3 \<Rightarrow> VisitIndirectFieldDecl E D x1 x2 x3
      | P_FunctionDecl x1 x2 x3 x4 x5 x6 x7 \<Rightarrow> VisitFunctionDecl E D x1 x2 x3 x4 x5 x6 x7
      | P_FieldDecl x1 x2 x3 x4 x5 \<Rightarrow> VisitFieldDecl E D x1 x2 x3 x4 x5
      | P_ObjCIvarDecl x1 x2 x3 x4 x5 x6 \<Rightarrow> VisitObjCIvarDecl E D x1 x2 x3 x4 x5 x6
      | P_VarDecl x1 x2 x3 x4 \<Rightarrow> VisitVarDecl E D x1 x2 x3 x4
      | P_FileScopeAsmDecl x1 \<Rightarrow> VisitFileScopeAsmDecl E D x1
      | P_ImportDecl x1 \<Rightarrow> VisitImportDecl E D x1
      | P_UsingDirectiveDecl x1 x2 \<Rightarrow> VisitUsingDirectiveDecl E D x1 x2
      | P_NamespaceAliasDecl x1 x2 \<Rightarrow> VisitNamespaceAliasDecl E D x1 x2
      | P_ObjCMethodDecl x1 x2 x3 x4 \<Rightarrow> VisitObjCMethodDecl E D x1 x2 x3 x4
      | P_ObjCCategoryDecl x1 x2 x3 \<Rightarrow> VisitObjCCategoryDecl E D x1 x2 x3
      | P_ObjCCategoryImplDecl x1 x2 x3 \<Rightarrow> VisitObjCCategoryImplDecl E D x1 x2 x3
      | P_ObjCProtocolDecl x1 x2 x3 \<Rightarrow> VisitObjCProtocolDecl E D x1 x2 x3
      | P_ObjCInterfaceDecl x1 x2 x3 \<Rightarrow> VisitObjCInterfaceDecl E D x1 x2 x3
      | P_ObjCImplementationDecl x1 x2 x3 x4 \<Rightarrow> VisitObjCImplementationDecl E D x1 x2 x3 x4
      | P_ObjCCompatibleAliasDecl x1 x2 \<Rightarrow> VisitObjCCompatibleAliasDecl E D x1 x2
      | P_ObjCPropertyDecl x1 x2 \<Rightarrow> VisitObjCPropertyDecl E D x1 x2
      | P_ObjCPropertyImplDecl x1 \<Rightarrow> VisitObjCPropertyImplDecl E D x1
      | P_BlockDecl x1 x2 x3 x4 x5 \<Rightarrow> VisitBlockDecl E D x1 x2 x3 x4 x5)"

definition ConstStmtVisitor_Visit :: "ASTExporter \<Rightarrow> Stmt_base \<Rightarrow> StmtT list \<Rightarrow> (DeclT, StmtT) Stmt_payload \<Rightarrow> atd list M" where
  "ConstStmtVisitor_Visit E S children P =
     (case P of
        S_Stmt \<Rightarrow> VisitStmt E S children
      | S_DeclStmt x1 \<Rightarrow> VisitDeclStmt E S children x1
      | S_AttributedStmt x1 \<Rightarrow> VisitAttributedStmt E S children x1
      | S_LabelStmt x1 \<Rightarrow> VisitLabelStmt E S children x1
      | S_GotoStmt x1 x2 \<Rightarrow> VisitGotoStmt E S children x1 x2
      | S_CXXCatchStmt x1 \<Rightarrow> VisitCXXCatchStmt E S children x1
      | S_ObjCAtCatchStmt x1 \<Rightarrow> VisitObjCAtCatchStmt E S children x1
      | S_Expr x1 \<Rightarrow> VisitExpr E S children x1
      | S_CastExpr x1 x2 \<Rightarrow> VisitCastExpr E S children x1 x2
      | S_ExplicitCastExpr x1 x2 x3 \<Rightarrow> VisitExplicitCastExpr E S children x1 x2 x3
      | S_CXXNamedCastExpr x1 x2 x3 x4 \<Rightarrow> VisitCXXNamedCastExpr E S children x1 x2 x3 x4
      | S_DeclRefExpr x1 x2 \<Rightarrow> VisitDeclRefExpr E S children x1 x2
      | S_OverloadExpr x1 x2 \<Rightarrow> VisitOverloadExpr E S children x1 x2
      | S_UnresolvedLookupExpr x1 x2 x3 \<Rightarrow> VisitUnresolvedLookupExpr E S children x1 x2 x3
      | S_ObjCIvarRefExpr x1 x2 x3 \<Rightarrow> VisitObjCIvarRefExpr E S children x1 x2 x3
      | S_PredefinedExpr x1 x2 \<Rightarrow> VisitPredefinedExpr E S children x1 x2
      | S_CharacterLiteral x1 x2 \<Rightarrow> VisitCharacterLiteral E S children x1 x2
      | S_IntegerLiteral x1 x2 \<Rightarrow> VisitIntegerLiteral E S children x1 x2
      | S_FloatingLiteral x1 x2 \<Rightarrow> VisitFloatingLiteral E S children x1 x2
      | S_StringLiteral x1 x2 \<Rightarrow> VisitStringLiteral E S children x1 x2
      | S_UnaryOperator x1 x2 x3 \<Rightarrow> VisitUnaryOperator E S children x1 x2 x3
      | S_UnaryExprOrTypeTraitExpr x1 x2 x3 \<Rightarrow> VisitUnaryExprOrTypeTraitExpr E S children x1 x2 x3
      | S_MemberExpr x1 x2 \<Rightarrow> VisitMemberExpr E S children x1 x2
      | S_ExtVectorElementExpr x1 x2 \<Rightarrow> VisitExtVectorElementExpr E S children x1 x2
      | S_BinaryOperator x1 x2 \<Rightarrow> VisitBinaryOperator E S children x1 x2
      | S_CompoundAssignOperator x1 x2 x3 x4 \<Rightarrow> VisitCompoundAssignOperator E S children x1 x2 x3 x4
      | S_BlockExpr x1 x2 \<Rightarrow> VisitBlockExpr E S children x1 (dumpDecl_ptr E x2)
      | S_OpaqueValueExpr x1 x2 \<Rightarrow> VisitOpaqueValueExpr E S children x1 x2
      | S_AddrLabelExpr x1 x2 x3 \<Rightarrow> VisitAddrLabelExpr E S children x1 x2 x3
      | S_CXXBoolLiteralExpr x1 x2 \<Rightarrow> VisitCXXBoolLiteralExpr E S children x1 x2
      | S_CXXConstructExpr x1 x2 \<Rightarrow> VisitCXXConstructExpr E S children x1 x2
      | S_CXXBindTemporaryExpr x1 x2 \<Rightarrow> VisitCXXBindTemporaryExpr E S children x1 x2
      | S_MaterializeTemporaryExpr x1 x2 \<Rightarrow> VisitMaterializeTemporaryExpr E S children x1 x2
      | S_ExprWithCleanups x1 x2 x3 \<Rightarrow> VisitExprWithCleanups E S children x1 x2 (dumpStmt_ptr E x3)
      | S_LambdaExpr x1 x2 \<Rightarrow> VisitLambdaExpr E S children x1 (dumpDecl_ptr E x2)
      | S_CXXNewExpr x1 x2 \<Rightarrow> VisitCXXNewExpr E S children x1 x2
      | S_CXXDeleteExpr x1 x2 \<Rightarrow> VisitCXXDeleteExpr E S children x1 x2
      | S_ObjCMessageExpr x1 x2 \<Rightarrow> VisitObjCMessageExpr E S children x1 x2
      | S_ObjCBoxedExpr x1 x2 \<Rightarrow> VisitObjCBoxedExpr E S children x1 x2
      | S_ObjCEncodeExpr x1 x2 \<Rightarrow> VisitObjCEncodeExpr E S children x1 x2
      | S_ObjCSelectorExpr x1 x2 \<Rightarrow> VisitObjCSelectorExpr E S children x1 x2
      | S_ObjCProtocolExpr x1 x2 \<Rightarrow> VisitObjCProtocolExpr E S children x1 x2
      | S_ObjCPropertyRefExpr x1 x2 \<Rightarrow> VisitObjCPropertyRefExpr E S children x1 x2
      | S_ObjCSubscriptRefExpr x1 x2 \<Rightarrow> VisitObjCSubscriptRefExpr E S children x1 x2
      | S_ObjCBoolLiteralExpr x1 x2 \<Rightarrow> VisitObjCBoolLiteralExpr E S children x1 x2)"

text \<open>
  \<^verbatim>\<open>dumpDecl(D)\<close> and \<^verbatim>\<open>dumpStmt(S)\<close> for nodes, by recursion over the tree: the children are
  handed to the visitors as the computations that dump them.
\<close>

primrec dumpDeclNode :: "ASTExporter \<Rightarrow> Decl \<Rightarrow> atd M"
  and dumpStmtNode :: "ASTExporter \<Rightarrow> Stmt \<Rightarrow> atd M" where
  "dumpDeclNode E (Decl derived D P) =
     dumpDecl_scopes (Decl_getDeclKindName (Decl derived D P)) (Decl_getKind (Decl derived D P))
       (ConstDeclVisitor_Visit E D
          (map_Decl_payload (\<lambda>d. (d, dumpDeclNode E d)) (dumpStmtNode E) P))"
| "dumpStmtNode E (Stmt derived S children P) =
     dumpStmt_scopes (Stmt_getStmtClassName (Stmt derived S children P))
       (Stmt_getStmtClass (Stmt derived S children P))
       (ConstStmtVisitor_Visit E S
          (map (dumpStmt_ptr E) (map (map_option (dumpStmtNode E)) children))
          (map_Stmt_payload (\<lambda>d. (d, dumpDeclNode E d)) (dumpStmtNode E) P))"

text \<open>The entry points on pointers: a null pointer stands for the node made for it.\<close>

definition dumpDecl :: "ASTExporter \<Rightarrow> Decl option \<Rightarrow> atd M" where
  "dumpDecl E D = dumpDeclNode E (case D of None \<Rightarrow> NullPtrDecl_node E | Some d \<Rightarrow> d)"

definition dumpStmt :: "ASTExporter \<Rightarrow> Stmt option \<Rightarrow> atd M" where
  "dumpStmt E S = dumpStmtNode E (case S of None \<Rightarrow> NullPtrStmt_node E | Some s \<Rightarrow> s)"


subsection \<open>Comments behind a pointer\<close>

text \<open>
  A run that cannot go on: \<^verbatim>\<open>llvm_unreachable(msg)\<close> ends it.  A failure keeps the scopes of
  the writer that were open at that moment, the outermost first.
\<close>

datatype error = llvm_unreachable string

datatype scope = VariantScope string | TupleScope "nat option"

type_synonym failure = "scope list \<times> error"

text \<open>
  What the \<^verbatim>\<open>const Comment *\<close> of \<^verbatim>\<open>dumpComment\<close> points to: a node of one of the classes of
  \<^verbatim>\<open>CommentNodes.inc\<close>, or a bare \<^verbatim>\<open>Comment\<close> of the kind \<^verbatim>\<open>Comment::NoCommentKind\<close>, which is
  none of these classes.  The constructor makes one such node for null pointers (line 168),
  \<^verbatim>\<open>new (Context) Comment(Comment::NoCommentKind, SourceLocation(), SourceLocation())\<close>, with
  an invalid range.
\<close>

datatype CommentPointee = ClassComment Comment | NoCommentKind pointer SourceRange

definition NullPtrComment_node :: "ASTExporter \<Rightarrow> CommentPointee" where
  "NullPtrComment_node E = NoCommentKind (NullPtrComment E) (None, None)"

text \<open>
  \<^verbatim>\<open>C->getCommentKindName()\<close>: the name of the class of the node, and the name of the kind
  for the kind that is no class.
\<close>

definition getCommentKindName :: "CommentPointee \<Rightarrow> string" where
  "getCommentKindName C =
     (case C of
        ClassComment c \<Rightarrow>
          (case c of
             TextComment p R children text \<Rightarrow> ''TextComment''
           | OtherComment kindName p R children \<Rightarrow> kindName)
      | NoCommentKind p R \<Rightarrow> ''NoCommentKind'')"

text \<open>
  \<^verbatim>\<open>ConstCommentVisitor<ASTExporter<ATDWriter>>::visit(C)\<close>, the \<^verbatim>\<open>switch\<close> on the kind of clang's
  \<^verbatim>\<open>CommentVisitor.h\<close>.  It has one case for each class of \<^verbatim>\<open>CommentNodes.inc\<close>, which ends in
  \<^verbatim>\<open>visitTextComment\<close> for a \<^verbatim>\<open>TextComment\<close> and in \<^verbatim>\<open>visitComment\<close> for a node of any other
  class.  What it does for a kind that is no class is its \<^verbatim>\<open>default\<close> case, which is not
  part of this file: the parameter \<open>unknown_kind\<close>, which fails or gives the fields that it
  writes.
\<close>

definition ConstCommentVisitor_visit ::
  "ASTExporter \<Rightarrow> (CommentPointee \<Rightarrow> (failure + atd list) M) \<Rightarrow> CommentPointee \<Rightarrow> (failure + atd list) M" where
  "ConstCommentVisitor_visit E unknown_kind C =
     (case C of
        ClassComment c \<Rightarrow>
          (case c of
             TextComment p R children text \<Rightarrow> do {
               fs \<leftarrow> visitTextComment E p R (map (dumpCommentNode E) children) text;
               return (Inr fs)
             }
           | OtherComment kindName p R children \<Rightarrow> do {
               fs \<leftarrow> visitComment E p R (map (dumpCommentNode E) children);
               return (Inr fs)
             })
      | NoCommentKind p R \<Rightarrow> unknown_kind C)"

text \<open>
  \<^verbatim>\<open>dumpComment(C)\<close> (lines 3725-3735) on a pointer: a null pointer is replaced by
  \<^verbatim>\<open>NullPtrComment\<close>, the variant is opened under the name of the kind of the node, in it the
  tuple with no size, and in the tuple the visitor is called.  When the visitor fails, the
  two scopes are open.
\<close>

definition dumpComment ::
  "ASTExporter \<Rightarrow> (CommentPointee \<Rightarrow> (failure + atd list) M) \<Rightarrow> CommentPointee option \<Rightarrow> (failure + atd) M" where
  "dumpComment E unknown_kind C0 = do {
     let C = (case C0 of None \<Rightarrow> NullPtrComment_node E | Some c \<Rightarrow> c);
     r \<leftarrow> ConstCommentVisitor_visit E unknown_kind C;
     return (case r of
        Inl (scopes, e) \<Rightarrow>
          Inl (VariantScope (getCommentKindName C) # TupleScope None # scopes, e)
      | Inr fs \<Rightarrow> Inr (AVariant (getCommentKindName C) (Some (ATuple None fs))))
   }"
text \<open>A path normaliser that makes paths relative to the root \<^verbatim>\<open>/repo/\<close>.\<close>

definition relative_to_repo :: "string \<Rightarrow> string" where
  "relative_to_repo s = (if take 6 s = ''/repo/'' then drop 6 s else s)"

section \<open>Definitions used in the proofs\<close>

text \<open>
  The value of a decimal numeral, and the shape of the identity table after the pointers
  \<open>seen\<close> have been tokenised in this order.
\<close>

definition dec_value :: "string \<Rightarrow> nat" where
  "dec_value s = foldl (\<lambda>a c. 10 * a + (of_char c - 48)) 0 s"

definition table_inv :: "pointer list \<Rightarrow> encoder_state \<Rightarrow> bool" where
  "table_inv seen st \<longleftrightarrow>
     distinct seen \<and> length seen < 2 ^ 31 \<and> pointerCounter st = of_nat (length seen) \<and>
     (\<forall>p. pointerMap st p = (if p \<in> set seen then Some (of_nat (index_of seen p)) else None))"

text \<open>
  What an encoded node shows of its tuple: the tag of the variant, the size with which
  the tuple was opened, and the fields written into it.
\<close>

definition opened :: "atd \<Rightarrow> (string \<times> nat option \<times> atd list) option" where
  "opened x = (case x of AVariant tag (Some (ATuple n fs)) \<Rightarrow> Some (tag, n, fs) | _ \<Rightarrow> None)"

definition arity_written :: "atd \<Rightarrow> (nat option \<times> nat) option" where
  "arity_written x = map_option (\<lambda>t. (fst (snd t), length (snd (snd t)))) (opened x)"

text \<open>
  The members of a \<^verbatim>\<open>DeclContext\<close> that the test of \<^verbatim>\<open>VisitDeclContext\<close> (lines 599-605)
  keeps, and the data of a declaration with the listing of its \<^verbatim>\<open>DeclContext\<close> reduced to
  them.  Parameters, declarations in prototype scope and the children of statements are
  not part of this listing.
\<close>

definition retained :: "ASTExporter \<Rightarrow> (Decl \<times> 'a) list \<Rightarrow> (Decl \<times> 'a) list" where
  "retained E members =
     filter (\<lambda>I. case deduplicationService E of
                    None \<Rightarrow> True
                  | Some shouldTraverseDeclFile \<Rightarrow> shouldTraverseDeclFile (basePath E) (fst I))
            members"

definition retain_in_context :: "ASTExporter \<Rightarrow> (Decl \<times> 'a) DeclContext \<Rightarrow> (Decl \<times> 'a) DeclContext" where
  "retain_in_context E DC = (retained E (fst DC), snd DC)"

definition retain_listed :: "ASTExporter \<Rightarrow> (Decl \<times> 'a, 's) Decl_payload \<Rightarrow> (Decl \<times> 'a, 's) Decl_payload" where
  "retain_listed E P =
     (case P of
        P_Decl \<Rightarrow> P_Decl
      | P_CapturedDecl x1 \<Rightarrow> P_CapturedDecl (retain_in_context E x1)
      | P_LinkageSpecDecl x1 \<Rightarrow> P_LinkageSpecDecl (retain_in_context E x1)
      | P_NamedDecl x1 \<Rightarrow> P_NamedDecl x1
      | P_NamespaceDecl x1 x2 x3 \<Rightarrow> P_NamespaceDecl x1 (retain_in_context E x2) x3
      | P_ObjCContainerDecl x1 x2 \<Rightarrow> P_ObjCContainerDecl x1 (retain_in_context E x2)
      | P_TypeDecl x1 x2 \<Rightarrow> P_TypeDecl x1 x2
      | P_TagDecl x1 x2 x3 \<Rightarrow> P_TagDecl x1 x2 (retain_in_context E x3)
      | P_ValueDecl x1 x2 \<Rightarrow> P_ValueDecl x1 x2
      | P_TranslationUnitDecl x1 \<Rightarrow> P_TranslationUnitDecl (retain_in_context E x1)
      | P_TypedefDecl x1 x2 x3 \<Rightarrow> P_TypedefDecl x1 x2 x3
      | P_EnumDecl x1 x2 x3 x4 \<Rightarrow> P_EnumDecl x1 x2 (retain_in_context E x3) x4
      | P_RecordDecl x1 x2 x3 x4 \<Rightarrow> P_RecordDecl x1 x2 (retain_in_context E x3) x4
      | P_CXXRecordDecl x1 x2 x3 x4 x5 \<Rightarrow> P_CXXRecordDecl x1 x2 (retain_in_context E x3) x4 x5
      | P_EnumConstantDecl x1 x2 x3 \<Rightarrow> P_EnumConstantDecl x1 x2 x3
      | P_IndirectFieldDecl x1 x2 x3 \<Rightarrow> P_IndirectFieldDecl x1 x2 x3
      | P_FunctionDecl x1 x2 x3 x4 x5 x6 x7 \<Rightarrow> P_FunctionDecl x1 x2 x3 x4 x5 x6 x7
      | P_FieldDecl x1 x2 x3 x4 x5 \<Rightarrow> P_FieldDecl x1 x2 x3 x4 x5
      | P_ObjCIvarDecl x1 x2 x3 x4 x5 x6 \<Rightarrow> P_ObjCIvarDecl x1 x2 x3 x4 x5 x6
      | P_VarDecl x1 x2 x3 x4 \<Rightarrow> P_VarDecl x1 x2 x3 x4
      | P_FileScopeAsmDecl x1 \<Rightarrow> P_FileScopeAsmDecl x1
      | P_ImportDecl x1 \<Rightarrow> P_ImportDecl x1
      | P_UsingDirectiveDecl x1 x2 \<Rightarrow> P_UsingDirectiveDecl x1 x2
      | P_NamespaceAliasDecl x1 x2 \<Rightarrow> P_NamespaceAliasDecl x1 x2
      | P_ObjCMethodDecl x1 x2 x3 x4 \<Rightarrow> P_ObjCMethodDecl x1 x2 x3 x4
      | P_ObjCCategoryDecl x1 x2 x3 \<Rightarrow> P_ObjCCategoryDecl x1 (retain_in_context E x2) x3
      | P_ObjCCategoryImplDecl x1 x2 x3 \<Rightarrow> P_ObjCCategoryImplDecl x1 (retain_in_context E x2) x3
      | P_ObjCProtocolDecl x1 x2 x3 \<Rightarrow> P_ObjCProtocolDecl x1 (retain_in_context E x2) x3
      | P_ObjCInterfaceDecl x1 x2 x3 \<Rightarrow> P_ObjCInterfaceDecl x1 (retain_in_context E x2) x3
      | P_ObjCImplementationDecl x1 x2 x3 x4 \<Rightarrow> P_ObjCImplementationDecl x1 (retain_in_context E x2) x3 x4
      | P_ObjCCompatibleAliasDecl x1 x2 \<Rightarrow> P_ObjCCompatibleAliasDecl x1 x2
      | P_ObjCPropertyDecl x1 x2 \<Rightarrow> P_ObjCPropertyDecl x1 x2
      | P_ObjCPropertyImplDecl x1 \<Rightarrow> P_ObjCPropertyImplDecl x1
      | P_BlockDecl x1 x2 x3 x4 x5 \<Rightarrow> P_BlockDecl (retain_in_context E x1) x2 x3 x4 x5)"

text \<open>
  \<^verbatim>\<open>ConstDeclVisitor::Visit(D)\<close> and \<^verbatim>\<open>ConstStmtVisitor::Visit(S)\<close> on a node of the tree.
\<close>

definition Decl_Visit :: "ASTExporter \<Rightarrow> Decl \<Rightarrow> atd list M" where
  "Decl_Visit E N =
     (case N of Decl derived D P \<Rightarrow>
        ConstDeclVisitor_Visit E D
          (map_Decl_payload (\<lambda>d. (d, dumpDeclNode E d)) (dumpStmtNode E) P))"

definition Stmt_Visit :: "ASTExporter \<Rightarrow> Stmt \<Rightarrow> atd list M" where
  "Stmt_Visit E N =
     (case N of Stmt derived S children P \<Rightarrow>
        ConstStmtVisitor_Visit E S
          (map (dumpStmt_ptr E) (map (map_option (dumpStmtNode E)) children))
          (map_Stmt_payload (\<lambda>d. (d, dumpDeclNode E d)) (dumpStmtNode E) P))"

text \<open>
  The call of the visitor of the base class with which the visitor of a class begins, for
  each class; \<open>None\<close> for \<^verbatim>\<open>VisitDecl\<close> and \<^verbatim>\<open>VisitStmt\<close>, which call no other visitor.
\<close>

definition Decl_base_Visit :: "ASTExporter \<Rightarrow> Decl_base \<Rightarrow> (DeclT, StmtT) Decl_payload \<Rightarrow> atd list M option" where
  "Decl_base_Visit E D P =
     (case P of
        P_Decl \<Rightarrow> None
      | P_CapturedDecl DC \<Rightarrow> Some (VisitDecl E D None)
      | P_LinkageSpecDecl DC \<Rightarrow> Some (VisitDecl E D None)
      | P_NamedDecl N \<Rightarrow> Some (VisitDecl E D (Some N))
      | P_NamespaceDecl N DC I \<Rightarrow> Some (VisitNamedDecl E D N)
      | P_ObjCContainerDecl N DC \<Rightarrow> Some (VisitNamedDecl E D N)
      | P_TypeDecl N T \<Rightarrow> Some (VisitNamedDecl E D N)
      | P_TagDecl N T DC \<Rightarrow> Some (VisitTypeDecl E D N T)
      | P_ValueDecl N T \<Rightarrow> Some (VisitNamedDecl E D N)
      | P_TranslationUnitDecl DC \<Rightarrow> Some (VisitDecl E D None)
      | P_TypedefDecl N T IsModulePrivate \<Rightarrow> Some (VisitTypedefNameDecl E D N T)
      | P_EnumDecl N T DC I \<Rightarrow> Some (VisitTagDecl E D N T DC)
      | P_RecordDecl N T DC I \<Rightarrow> Some (VisitTagDecl E D N T DC)
      | P_CXXRecordDecl N T DC I X \<Rightarrow> Some (VisitRecordDecl E D N T DC I)
      | P_EnumConstantDecl N T Init \<Rightarrow> Some (VisitValueDecl E D N T)
      | P_IndirectFieldDecl N T chain \<Rightarrow> Some (VisitValueDecl E D N T)
      | P_FunctionDecl N T I declsInPrototypeScope params inits Body \<Rightarrow> Some (VisitDeclaratorDecl E D N T)
      | P_FieldDecl N T I BitWidth Init \<Rightarrow> Some (VisitDeclaratorDecl E D N T)
      | P_ObjCIvarDecl N T I BitWidth Init X \<Rightarrow> Some (VisitFieldDecl E D N T I BitWidth Init)
      | P_VarDecl N T I Init \<Rightarrow> Some (VisitDeclaratorDecl E D N T)
      | P_FileScopeAsmDecl asmString \<Rightarrow> Some (VisitDecl E D None)
      | P_ImportDecl moduleName \<Rightarrow> Some (VisitDecl E D None)
      | P_UsingDirectiveDecl N I \<Rightarrow> Some (VisitNamedDecl E D N)
      | P_NamespaceAliasDecl N I \<Rightarrow> Some (VisitNamedDecl E D N)
      | P_ObjCMethodDecl N I params Body \<Rightarrow> Some (VisitNamedDecl E D N)
      | P_ObjCCategoryDecl N DC I \<Rightarrow> Some (VisitObjCContainerDecl E D N DC)
      | P_ObjCCategoryImplDecl N DC I \<Rightarrow> Some (VisitObjCImplDecl E D N DC)
      | P_ObjCProtocolDecl N DC protocols \<Rightarrow> Some (VisitObjCContainerDecl E D N DC)
      | P_ObjCInterfaceDecl N DC I \<Rightarrow> Some (VisitObjCContainerDecl E D N DC)
      | P_ObjCImplementationDecl N DC I inits \<Rightarrow> Some (VisitObjCImplDecl E D N DC)
      | P_ObjCCompatibleAliasDecl N CI \<Rightarrow> Some (VisitNamedDecl E D N)
      | P_ObjCPropertyDecl N I \<Rightarrow> Some (VisitNamedDecl E D N)
      | P_ObjCPropertyImplDecl I \<Rightarrow> Some (VisitDecl E D None)
      | P_BlockDecl DC I params captures Body \<Rightarrow> Some (VisitDecl E D None))"

definition Stmt_base_Visit :: "ASTExporter \<Rightarrow> Stmt_base \<Rightarrow> StmtT list \<Rightarrow> (DeclT, StmtT) Stmt_payload \<Rightarrow> atd list M option" where
  "Stmt_base_Visit E S children P =
     (case P of
        S_Stmt \<Rightarrow> None
      | S_DeclStmt ds \<Rightarrow> Some (VisitStmt E S children)
      | S_AttributedStmt attrs \<Rightarrow> Some (VisitStmt E S children)
      | S_LabelStmt name \<Rightarrow> Some (VisitStmt E S children)
      | S_GotoStmt labelName label \<Rightarrow> Some (VisitStmt E S children)
      | S_CXXCatchStmt decl \<Rightarrow> Some (VisitStmt E S children)
      | S_ObjCAtCatchStmt CatchParam \<Rightarrow> Some (VisitStmt E S children)
      | S_Expr Node \<Rightarrow> Some (VisitStmt E S children)
      | S_CastExpr Node C \<Rightarrow> Some (VisitExpr E S children Node)
      | S_ExplicitCastExpr Node C TypeAsWritten \<Rightarrow> Some (VisitCastExpr E S children Node C)
      | S_CXXNamedCastExpr Node C TypeAsWritten CastName \<Rightarrow> Some (VisitExplicitCastExpr E S children Node C TypeAsWritten)
      | S_DeclRefExpr Node I \<Rightarrow> Some (VisitExpr E S children Node)
      | S_OverloadExpr Node I \<Rightarrow> Some (VisitExpr E S children Node)
      | S_UnresolvedLookupExpr Node I U \<Rightarrow> Some (VisitOverloadExpr E S children Node I)
      | S_ObjCIvarRefExpr Node D IsFreeIvar \<Rightarrow> Some (VisitExpr E S children Node)
      | S_PredefinedExpr Node IT \<Rightarrow> Some (VisitExpr E S children Node)
      | S_CharacterLiteral Node v \<Rightarrow> Some (VisitExpr E S children Node)
      | S_IntegerLiteral Node I \<Rightarrow> Some (VisitExpr E S children Node)
      | S_FloatingLiteral Node buf \<Rightarrow> Some (VisitExpr E S children Node)
      | S_StringLiteral Str bytes \<Rightarrow> Some (VisitExpr E S children Str)
      | S_UnaryOperator Node Opcode IsPostfix \<Rightarrow> Some (VisitExpr E S children Node)
      | S_UnaryExprOrTypeTraitExpr Node K ArgumentType \<Rightarrow> Some (VisitExpr E S children Node)
      | S_MemberExpr Node I \<Rightarrow> Some (VisitExpr E S children Node)
      | S_ExtVectorElementExpr Node accessor \<Rightarrow> Some (VisitExpr E S children Node)
      | S_BinaryOperator Node Opcode \<Rightarrow> Some (VisitExpr E S children Node)
      | S_CompoundAssignOperator Node Opcode LHSType ResultType \<Rightarrow> Some (VisitBinaryOperator E S children Node Opcode)
      | S_BlockExpr x1 x2 \<Rightarrow> Some (VisitExpr E S children x1)
      | S_OpaqueValueExpr Node Source \<Rightarrow> Some (VisitExpr E S children Node)
      | S_AddrLabelExpr Node labelName label \<Rightarrow> Some (VisitExpr E S children Node)
      | S_CXXBoolLiteralExpr Node v \<Rightarrow> Some (VisitExpr E S children Node)
      | S_CXXConstructExpr Node I \<Rightarrow> Some (VisitExpr E S children Node)
      | S_CXXBindTemporaryExpr Node Temporary \<Rightarrow> Some (VisitExpr E S children Node)
      | S_MaterializeTemporaryExpr Node VD \<Rightarrow> Some (VisitExpr E S children Node)
      | S_ExprWithCleanups x1 x2 x3 \<Rightarrow> Some (VisitExpr E S children x1)
      | S_LambdaExpr x1 x2 \<Rightarrow> Some (VisitExpr E S children x1)
      | S_CXXNewExpr Node I \<Rightarrow> Some (VisitExpr E S children Node)
      | S_CXXDeleteExpr Node IsArray \<Rightarrow> Some (VisitExpr E S children Node)
      | S_ObjCMessageExpr Node I \<Rightarrow> Some (VisitExpr E S children Node)
      | S_ObjCBoxedExpr Node sel \<Rightarrow> Some (VisitExpr E S children Node)
      | S_ObjCEncodeExpr Node EncodedType \<Rightarrow> Some (VisitExpr E S children Node)
      | S_ObjCSelectorExpr Node sel \<Rightarrow> Some (VisitExpr E S children Node)
      | S_ObjCProtocolExpr Node Protocol \<Rightarrow> Some (VisitExpr E S children Node)
      | S_ObjCPropertyRefExpr Node I \<Rightarrow> Some (VisitExpr E S children Node)
      | S_ObjCSubscriptRefExpr Node I \<Rightarrow> Some (VisitExpr E S children Node)
      | S_ObjCBoolLiteralExpr Node v \<Rightarrow> Some (VisitExpr E S children Node))"

subsection \<open>Sample inputs\<close>

text \<open>
  An exporter in anonymized mode without deduplication service, and the nodes of the
  translation unit \<^verbatim>\<open>void f() { int y; }\<close>, with locations left invalid.
\<close>

definition sample_exporter :: ASTExporter where
  "sample_exporter =
     \<lparr>withPointers = False, basePath = ''/repo/'', normalizeSourcePath = relative_to_repo,
      printf_p = (\<lambda>p. ''0x0''), deduplicationService = None,
      NullPtrStmt = 1, NullPtrDecl = 2, NullPtrComment = 3, Context_getTypes = []\<rparr>"

definition sample_Decl_base :: "pointer \<Rightarrow> Decl_base" where
  "sample_Decl_base p =
     \<lparr>getPointer = p, getDeclContextIfNotLexical = None, getSourceRange = (None, None),
      getOwningModule = None, isImplicit = False, isUsed = False,
      isThisDeclarationReferenced = False, isInvalidDecl = False, getAttrs = [],
      getLocalComment = None\<rparr>"

definition sample_Stmt_base :: "pointer \<Rightarrow> Stmt_base" where
  "sample_Stmt_base p = \<lparr>getStmtPointer = p, getStmtSourceRange = (None, None)\<rparr>"

definition sample_NamedDecl :: "string \<Rightarrow> NamedDecl" where
  "sample_NamedDecl n =
     \<lparr>getNameAsString = n, getQualifiedNameAsString = n, isHidden = False\<rparr>"

definition sample_QualType :: "string \<Rightarrow> pointer \<Rightarrow> QualType" where
  "sample_QualType s p =
     \<lparr>getAsString = s, getDesugaredAsString = None, getTypePtrOrNull = p\<rparr>"

definition sample_VarDecl_info :: VarDecl_info where
  "sample_VarDecl_info =
     \<lparr>getVarStorageClassString = None, getTLSKind = TLS_None, isModulePrivateVar = False,
      isNRVOVariable = False\<rparr>"

definition sample_y :: Decl where
  "sample_y =
     Decl [] (sample_Decl_base 12)
       (P_VarDecl (sample_NamedDecl ''y'') (sample_QualType ''int'' 20) sample_VarDecl_info None)"

definition sample_body :: Stmt where
  "sample_body =
     Stmt [''CompoundStmt''] (sample_Stmt_base 13)
       [Some (Stmt [] (sample_Stmt_base 14) [] (S_DeclStmt [sample_y]))] S_Stmt"

definition sample_f :: Decl where
  "sample_f =
     Decl [] (sample_Decl_base 11)
       (P_FunctionDecl (sample_NamedDecl ''f'') (sample_QualType ''void ()'' 21)
          \<lparr>getStorageClassString = None, isInlineSpecified = False, isVirtualAsWritten = False,
           isModulePrivateFunction = False, isPure = False, isDeletedAsWritten = False,
           isCXXConstructorDecl = False, doesThisDeclarationHaveABody = True\<rparr>
          [] [] [] (Some sample_body))"

definition sample_tu :: Decl where
  "sample_tu =
     Decl [] (sample_Decl_base 10) (P_TranslationUnitDecl ([sample_f], False, False))"

text \<open>
  A later state of the identity table: every entry of \<open>st\<close> is an entry of \<open>st'\<close>.  A
  computation keeps the table when it leads from every state to a later one.
\<close>

definition table_extends :: "encoder_state \<Rightarrow> encoder_state \<Rightarrow> bool" where
  "table_extends st st' \<longleftrightarrow> (\<forall>p v. pointerMap st p = Some v \<longrightarrow> pointerMap st' p = Some v)"

definition keeps :: "'a M \<Rightarrow> bool" where
  "keeps m \<longleftrightarrow> (\<forall>st. table_extends st (snd (run_state m st)))"

text \<open>
  A computation that begins with the computation \<open>m0\<close>.
\<close>

definition starts_with :: "'b M \<Rightarrow> 'a M \<Rightarrow> bool" where
  "starts_with m0 m \<longleftrightarrow> (\<exists>f. m = m0 \<bind> f)"

text \<open>
  The field \<open>name\<close> of an object, and the \<^verbatim>\<open>pointer\<close> field of the first field of the tuple
  of an encoded declaration: the token of a declaration that is written by value.
\<close>

definition field_of :: "string \<Rightarrow> atd \<Rightarrow> atd option" where
  "field_of name x = (case x of AObject n fs \<Rightarrow> map_of fs name | _ \<Rightarrow> None)"

definition by_value_pointer :: "atd \<Rightarrow> atd option" where
  "by_value_pointer x =
     (case opened x of
        Some t \<Rightarrow> (case snd (snd t) of [] \<Rightarrow> None | info # _ \<Rightarrow> field_of ''pointer'' info)
      | None \<Rightarrow> None)"

definition Decl_getPointer :: "Decl \<Rightarrow> pointer" where
  "Decl_getPointer N = (case N of Decl derived D P \<Rightarrow> getPointer D)"

text \<open>A reference to the declaration \<open>y\<close> of the sample.\<close>

definition sample_y_ref :: DeclRef where
  "sample_y_ref =
     \<lparr>getDeclKindName = ''Var'', getDeclPointer = 12,
      asNamedDecl = Some (sample_NamedDecl ''y''),
      asValueDeclType = Some (sample_QualType ''int'' 20)\<rparr>"

section \<open>Theorems\<close>

subsection \<open>Location compressor\<close>

text \<open>
  C2, as stated, fails: the empty record is not chosen by the previous position.  The first
  position of a run (nothing encoded before) gets all three fields; an invalid position
  gets the empty record whatever came before; and a valid position after an invalid one is
  compared with the last valid position, here it gets the column only.
\<close>

theorem dumpSourceLocation_first_position:
  "fst (dumpSourceLocation (\<lambda>s. s) (Some \<lparr>getFilename = ''a.c'', getLine = 1, getColumn = 1\<rparr>) initial_state)
     = AObject 3 [(''file'', AString ''a.c''), (''line'', AInteger 1), (''column'', AInteger 1)]
   \<and> dumpSourceLocation (\<lambda>s. s) None (initial_state\<lparr>LastLocFilename := ''a.c'', LastLocLine := 1\<rparr>)
     = (AObject 0 [], initial_state\<lparr>LastLocFilename := ''a.c'', LastLocLine := 1\<rparr>)
   \<and> fst (dumpSourceLocation (\<lambda>s. s) (Some \<lparr>getFilename = ''a.c'', getLine = 1, getColumn = 5\<rparr>)
        (snd (dumpSourceLocation (\<lambda>s. s) None (initial_state\<lparr>LastLocFilename := ''a.c'', LastLocLine := 1\<rparr>))))
     = AObject 1 [(''column'', AInteger 5)]"
  by (simp add: dumpSourceLocation_def initial_state_def)

text \<open>
  C2, amended: the record has one of four shapes.  It is empty when the position being
  encoded is itself invalid, and the state is then left as it is.  Otherwise the position
  is compared with the last valid position encoded by this exporter (initially the file
  name \<^verbatim>\<open>""\<close> and the line \<^verbatim>\<open>~0U\<close>): file, line and column when the file name differs;
  line and column when the file name is the same and the line differs; the column alone
  when both are the same.  The file written is the normalised path.
\<close>

theorem dumpSourceLocation_shapes:
  "dumpSourceLocation nsp Loc st = (r, st') \<Longrightarrow>
     (Loc = None \<longrightarrow> r = AObject 0 [] \<and> st' = st) \<and>
     (\<forall>P. Loc = Some P \<longrightarrow>
        st' = st\<lparr>LastLocFilename := getFilename P, LastLocLine := getLine P\<rparr> \<and>
        (getFilename P \<noteq> LastLocFilename st \<longrightarrow>
           r = AObject 3 [(''file'', AString (nsp (getFilename P))),
                          (''line'', AInteger (uint (getLine P))),
                          (''column'', AInteger (uint (getColumn P)))]) \<and>
        (getFilename P = LastLocFilename st \<and> getLine P \<noteq> LastLocLine st \<longrightarrow>
           r = AObject 2 [(''line'', AInteger (uint (getLine P))),
                          (''column'', AInteger (uint (getColumn P)))]) \<and>
        (getFilename P = LastLocFilename st \<and> getLine P = LastLocLine st \<longrightarrow>
           r = AObject 1 [(''column'', AInteger (uint (getColumn P)))]))"
  by (auto simp: dumpSourceLocation_def split: option.splits if_splits)

theorem dumpSourceLocation_shapes_witness:
  "dumpSourceLocation relative_to_repo (Some \<lparr>getFilename = ''/repo/a.c'', getLine = 3, getColumn = 7\<rparr>) initial_state
     = (AObject 3 [(''file'', AString ''a.c''), (''line'', AInteger 3), (''column'', AInteger 7)],
        initial_state\<lparr>LastLocFilename := ''/repo/a.c'', LastLocLine := 3\<rparr>)"
proof -
  obtain r st' where eq: "dumpSourceLocation relative_to_repo (Some \<lparr>getFilename = ''/repo/a.c'', getLine = 3, getColumn = 7\<rparr>) initial_state = (r, st')"
    by (cases "dumpSourceLocation relative_to_repo (Some \<lparr>getFilename = ''/repo/a.c'', getLine = 3, getColumn = 7\<rparr>) initial_state")
  from dumpSourceLocation_shapes [OF eq] show ?thesis
    unfolding eq by (simp add: initial_state_def relative_to_repo_def)
qed

lemma replay_dumpSourceLocation:
  "dumpSourceLocation nsp l st = (r, st1) \<Longrightarrow>
   replay_record r (nsp (LastLocFilename st), uint (LastLocLine st)) =
     (map_option (normalized_position_of nsp) l, (nsp (LastLocFilename st1), uint (LastLocLine st1)))"
  by (auto simp: dumpSourceLocation_def replay_record_def normalized_position_of_def Let_def
           split: option.splits if_splits)

text \<open>
  C7, as stated, fails where \<^verbatim>\<open>normalizeSourcePath\<close> changes a file name: the records carry
  the normalised path, so the replay gives \<^verbatim>\<open>a.c\<close> for the position in \<^verbatim>\<open>/repo/a.c\<close>.
\<close>

theorem replay_normalized_path:
  "replay (fst (dumpSourceLocations relative_to_repo
             [Some \<lparr>getFilename = ''/repo/a.c'', getLine = 1, getColumn = 1\<rparr>] initial_state))
          (relative_to_repo (LastLocFilename initial_state), uint (LastLocLine initial_state))
     = [Some (''a.c'', 1, 1)]
   \<and> map (map_option position_of) [Some \<lparr>getFilename = ''/repo/a.c'', getLine = 1, getColumn = 1\<rparr>]
     = [Some (''/repo/a.c'', 1, 1)]"
  by (simp add: dumpSourceLocation_def replay_record_def initial_state_def relative_to_repo_def position_of_def Let_def)

text \<open>
  C7, amended: for any sequence of locations encoded in order from any state of the
  exporter, replaying the records (starting from the normalised last file and the last
  line of that state) gives back, for each valid position, its normalised file name, its
  line and its column, and "invalid" for each invalid position.
\<close>

theorem replay_dumpSourceLocations:
  "replay (fst (dumpSourceLocations nsp ls st)) (nsp (LastLocFilename st), uint (LastLocLine st))
     = map (map_option (normalized_position_of nsp)) ls"
proof (induction ls arbitrary: st)
  case Nil
  show ?case by simp
next
  case (Cons l ls)
  obtain r st1 where r: "dumpSourceLocation nsp l st = (r, st1)"
    by (cases "dumpSourceLocation nsp l st")
  obtain rs st2 where rs: "dumpSourceLocations nsp ls st1 = (rs, st2)"
    by (cases "dumpSourceLocations nsp ls st1")
  have IH: "replay rs (nsp (LastLocFilename st1), uint (LastLocLine st1))
              = map (map_option (normalized_position_of nsp)) ls"
    using Cons.IH [of st1] by (simp add: rs)
  show ?case
    by (simp add: r rs replay_dumpSourceLocation [OF r] IH)
qed

subsection \<open>Identity table\<close>

lemma dec_digits_small:
  "dec_digits 0 = ''0''" "dec_digits 1 = ''1''" "dec_digits (Suc 0) = ''1''" "dec_digits 2 = ''2''"
  by code_simp+

lemma of_char_digit_char: "d < 10 \<Longrightarrow> of_char (digit_char d) = (48 + d :: nat)"
  by (simp add: digit_char_def)

lemma dec_value_dec_digits: "dec_value (dec_digits n) = n"
proof (induction n rule: dec_digits.induct)
  case (1 n)
  show ?case
  proof (cases "n < 10")
    case True
    then show ?thesis
      by (subst dec_digits.simps) (simp add: dec_value_def of_char_digit_char)
  next
    case False
    with 1 have "dec_value (dec_digits (n div 10)) = n div 10" by simp
    with False show ?thesis
      by (subst dec_digits.simps) (simp add: dec_value_def of_char_digit_char)
  qed
qed

lemma dec_digits_inj: "dec_digits m = dec_digits n \<Longrightarrow> m = n"
  by (metis dec_value_dec_digits)

lemma length_dec_digits: "n < 10 ^ k \<Longrightarrow> 0 < k \<Longrightarrow> length (dec_digits n) \<le> k"
proof (induction n arbitrary: k rule: dec_digits.induct)
  case (1 n)
  show ?case
  proof (cases "n < 10")
    case True
    with 1 show ?thesis by (subst dec_digits.simps) simp
  next
    case False
    from 1(2,3) obtain k' where k: "k = Suc k'" by (cases k) auto
    with False 1(2) have "0 < k'" by (cases k') auto
    moreover from k 1(2) have "n div 10 < 10 ^ k'" by (simp add: less_mult_imp_div_less mult.commute)
    ultimately have "length (dec_digits (n div 10)) \<le> k'" using 1(1) False by simp
    with False k show ?thesis by (subst dec_digits.simps) simp
  qed
qed

lemma snprintf20_dec_digits: "n < 2 ^ 31 \<Longrightarrow> snprintf20 (dec_digits n) = dec_digits n"
proof -
  assume "n < 2 ^ 31"
  then have "n < 10 ^ 10" by simp
  then have "length (dec_digits n) \<le> 10" by (rule length_dec_digits) simp
  then show ?thesis by (simp add: snprintf20_def)
qed

lemma sint_of_nat_small: "n < 2 ^ 31 \<Longrightarrow> sint (of_nat n :: 32 word) = int n"
proof -
  assume n: "n < 2 ^ 31"
  have "sint (of_nat n :: 32 word) = sint (word_of_int (int n) :: 32 word)" by simp
  also have "\<dots> = signed_take_bit 31 (int n)" by (simp only: sint_sbintrunc') simp
  also have "\<dots> = int n" using n by (simp add: signed_take_bit_int_eq_self_iff)
  finally show ?thesis .
qed

lemma of_nat_inj_32: "m < 2 ^ 31 \<Longrightarrow> n < 2 ^ 31 \<Longrightarrow> (of_nat m :: 32 word) = of_nat n \<Longrightarrow> m = n"
  by (metis sint_of_nat_small of_nat_eq_iff)

lemma index_of_less: "p \<in> set xs \<Longrightarrow> index_of xs p < length xs"
  by (induction xs) auto

lemma index_of_append: "p \<in> set xs \<Longrightarrow> index_of (xs @ ys) p = index_of xs p"
  by (induction xs) auto

lemma index_of_new: "p \<notin> set xs \<Longrightarrow> index_of (xs @ [p]) p = length xs"
  by (induction xs) auto

lemma index_of_inj: "p \<in> set xs \<Longrightarrow> q \<in> set xs \<Longrightarrow> index_of xs p = index_of xs q \<Longrightarrow> p = q"
  by (induction xs) (auto split: if_splits)

lemma first_seen_prefix: "\<exists>ys. first_seen seen ps = seen @ ys"
  by (induction ps arbitrary: seen) (auto, metis append.assoc)

lemma first_seen_set: "set (first_seen seen ps) = set seen \<union> set ps"
  by (induction ps arbitrary: seen) auto

lemma first_seen_distinct: "distinct seen \<Longrightarrow> distinct (first_seen seen ps)"
  by (induction ps arbitrary: seen) auto

lemma first_seen_length_mono: "length seen \<le> length (first_seen seen ps)"
  by (metis first_seen_prefix length_append le_add1)

lemma index_of_first_seen: "p \<in> set seen \<Longrightarrow> index_of (first_seen seen ps) p = index_of seen p"
  by (metis first_seen_prefix index_of_append)

lemma token_of_index: "n < 2 ^ 31 \<Longrightarrow> snprintf20 (printf_d (sint (of_nat n :: 32 word))) = dec_digits n"
  by (simp add: sint_of_nat_small printf_d_def snprintf20_dec_digits)

lemma writePointer_step:
  assumes inv: "table_inv seen st"
    and bound: "length (if p \<in> set seen then seen else seen @ [p]) < 2 ^ 31"
  shows "fst (writePointer pp False p st)
           = AString (dec_digits (index_of (if p \<in> set seen then seen else seen @ [p]) p))"
    and "table_inv (if p \<in> set seen then seen else seen @ [p]) (snd (writePointer pp False p st))"
proof -
  show "fst (writePointer pp False p st)
           = AString (dec_digits (index_of (if p \<in> set seen then seen else seen @ [p]) p))"
  proof (cases "p \<in> set seen")
    case True
    then have "pointerMap st p = Some (of_nat (index_of seen p))" using inv by (simp add: table_inv_def)
    moreover have "index_of seen p < 2 ^ 31" using index_of_less [OF True] inv by (simp add: table_inv_def)
    ultimately show ?thesis using True by (simp add: writePointer_def token_of_index)
  next
    case False
    then have "pointerMap st p = None" using inv by (simp add: table_inv_def)
    moreover have "pointerCounter st = of_nat (length seen)" using inv by (simp add: table_inv_def)
    moreover have "length seen < 2 ^ 31" using inv by (simp add: table_inv_def)
    ultimately show ?thesis using False by (simp add: writePointer_def token_of_index index_of_new)
  qed
  show "table_inv (if p \<in> set seen then seen else seen @ [p]) (snd (writePointer pp False p st))"
  proof (cases "p \<in> set seen")
    case True
    then have "pointerMap st p = Some (of_nat (index_of seen p))" using inv by (simp add: table_inv_def)
    then show ?thesis using True inv by (simp add: writePointer_def)
  next
    case False
    then have "pointerMap st p = None" using inv by (simp add: table_inv_def)
    then show ?thesis using False inv bound
      by (auto simp: writePointer_def table_inv_def index_of_new index_of_append)
  qed
qed

lemma writePointers_run:
  "table_inv seen st \<Longrightarrow> length (first_seen seen ps) < 2 ^ 31 \<Longrightarrow>
   fst (writePointers pp False ps st)
     = map (\<lambda>p. AString (dec_digits (index_of (first_seen seen ps) p))) ps
   \<and> table_inv (first_seen seen ps) (snd (writePointers pp False ps st))"
proof (induction ps arbitrary: seen st)
  case Nil
  then show ?case by simp
next
  case (Cons p ps)
  let ?seen1 = "if p \<in> set seen then seen else seen @ [p]"
  have b1: "length ?seen1 < 2 ^ 31"
    using Cons.prems(2) first_seen_length_mono [of ?seen1 ps] by simp
  note step = writePointer_step [OF Cons.prems(1) b1, of pp]
  have b2: "length (first_seen ?seen1 ps) < 2 ^ 31" using Cons.prems(2) by simp
  note IH = Cons.IH [OF step(2) b2]
  have mem: "p \<in> set ?seen1" by simp
  have "index_of (first_seen ?seen1 ps) p = index_of ?seen1 p"
    by (rule index_of_first_seen [OF mem])
  with step(1) IH show ?case
    by (simp add: split_def Let_def)
qed

lemma table_inv_initial: "table_inv [] initial_state"
  by (simp add: table_inv_def initial_state_def)

lemma first_seen_rank_inj:
  assumes "p \<in> set ps" "q \<in> set ps"
    and "index_of (first_seen [] ps) p = index_of (first_seen [] ps) q"
  shows "p = q"
  using assms index_of_inj [of p "first_seen [] ps" q] by (simp add: first_seen_set)

text \<open>
  C3: in anonymised mode (\<^verbatim>\<open>withPointers = false\<close>), in a run that starts with the empty
  table and tokenises fewer than \<open>2^31\<close> distinct pointers (the counter is an \<^verbatim>\<open>int\<close>),
  two tokens are equal if and only if the pointers are; in particular a pointer gets the
  same token each time.  The token of a pointer is the decimal numeral of its rank among
  the distinct pointers in the order in which they are first seen: 0, 1, 2, ...
\<close>

theorem anonymized_tokens:
  assumes bound: "length (first_seen [] ps) < 2 ^ 31"
    and i: "i < length ps" and j: "j < length ps"
  shows "(fst (writePointers fmt_p False ps initial_state) ! i
            = fst (writePointers fmt_p False ps initial_state) ! j
          \<longleftrightarrow> ps ! i = ps ! j)
       \<and> fst (writePointers fmt_p False ps initial_state) ! i
            = AString (dec_digits (index_of (first_seen [] ps) (ps ! i)))
       \<and> distinct (first_seen [] ps) \<and> set (first_seen [] ps) = set ps"
proof -
  note run = writePointers_run [OF table_inv_initial bound, of fmt_p, THEN conjunct1]
  have ti: "fst (writePointers fmt_p False ps initial_state) ! i
              = AString (dec_digits (index_of (first_seen [] ps) (ps ! i)))"
    using i by (simp add: run)
  have tj: "fst (writePointers fmt_p False ps initial_state) ! j
              = AString (dec_digits (index_of (first_seen [] ps) (ps ! j)))"
    using j by (simp add: run)
  have "ps ! i = ps ! j"
    if "dec_digits (index_of (first_seen [] ps) (ps ! i)) = dec_digits (index_of (first_seen [] ps) (ps ! j))"
    using that i j by (intro first_seen_rank_inj [of _ ps] dec_digits_inj) simp_all
  then show ?thesis
    unfolding ti tj using first_seen_distinct [of "[]" ps] first_seen_set [of "[]" ps] by auto
qed

theorem anonymized_tokens_witness:
  "fst (writePointers (\<lambda>p. []) False [5, 9, 5] initial_state) ! 0
     = fst (writePointers (\<lambda>p. []) False [5, 9, 5] initial_state) ! 2
   \<and> fst (writePointers (\<lambda>p. []) False [5, 9, 5] initial_state) ! 1 = AString ''1''"
proof -
  have b: "length (first_seen [] [5, 9, 5 :: pointer]) < 2 ^ 31" by simp
  from anonymized_tokens [OF b, of 0 2 "\<lambda>p. []"] anonymized_tokens [OF b, of 1 1 "\<lambda>p. []"]
  show ?thesis by (simp add: dec_digits_small)
qed

subsection \<open>Names\<close>

lemma string_find_bounds:
  "string_find s t pos = Some l \<Longrightarrow> pos \<le> l \<and> l + length t \<le> length s"
proof (induction s t pos rule: string_find.induct)
  case (1 s token pos)
  from "1.prems" show ?case
    by (subst (asm) string_find.simps) (use "1.IH" in \<open>auto split: if_splits\<close>)
qed

lemma string_find_Cons:
  "string_find (c # s) t (Suc pos) = map_option Suc (string_find s t pos)"
proof (induction s t pos rule: string_find.induct)
  case (1 s token pos)
  show ?case
    by (subst string_find.simps, subst (2) string_find.simps) (use 1 in auto)
qed

lemma string_find_drop:
  "pos \<le> length s \<Longrightarrow> string_find s t pos = map_option (\<lambda>k. pos + k) (string_find (drop pos s) t 0)"
proof (induction pos arbitrary: s)
  case 0
  show ?case by (simp add: option.map_ident)
next
  case (Suc pos)
  then obtain c s' where s: "s = c # s'" by (cases s) auto
  with Suc have "string_find s' t pos = map_option (\<lambda>k. pos + k) (string_find (drop pos s') t 0)" by simp
  then show ?case by (simp add: s string_find_Cons option.map_comp comp_def)
qed

lemma components_find:
  "components cur s =
     (case string_find s ''::'' 0 of
        None \<Rightarrow> [cur @ s]
      | Some k \<Rightarrow> (cur @ take k s) # components [] (drop (k + 2) s))"
proof (induction cur s rule: components.induct)
  case (1 cur)
  show ?case by (simp add: string_find.simps)
next
  case (2 cur c)
  show ?case by (simp add: string_find.simps)
next
  case (3 cur c d s)
  show ?case
  proof (cases "c = CHR '':'' \<and> d = CHR '':''")
    case True
    then have "string_find (c # d # s) ''::'' 0 = Some 0" by (simp add: string_find.simps)
    with True show ?thesis by simp
  next
    case False
    then have f: "string_find (c # d # s) ''::'' 0 = map_option Suc (string_find (d # s) ''::'' 0)"
      by (subst string_find.simps) (auto simp: string_find_Cons)
    have c: "components cur (c # d # s) = components (cur @ [c]) (d # s)" using False by auto
    note IH = 3(2) [OF False]
    show ?thesis unfolding c IH f by (simp split: option.splits)
  qed
qed

lemma splitLoop_components:
  "firstChar \<le> length q \<Longrightarrow> splitLoop q firstChar splitted = splitted @ components [] (drop firstChar q)"
proof (induction q firstChar splitted rule: splitLoop.induct)
  case (1 q firstChar splitted)
  show ?case
  proof (cases "string_find q ''::'' firstChar")
    case None
    then have "string_find (drop firstChar q) ''::'' 0 = None"
      using string_find_drop [OF "1.prems", of "''::''"] by simp
    with None show ?thesis
      by (subst splitLoop.simps, subst components_find) simp
  next
    case (Some l)
    from string_find_bounds [OF Some] have b: "firstChar \<le> l" "l + 2 \<le> length q" by simp_all
    from Some obtain k where k: "string_find (drop firstChar q) ''::'' 0 = Some k" "l = firstChar + k"
      using string_find_drop [OF "1.prems", of "''::''"] by auto
    have "splitLoop q (l + 2) (splitted @ [take (l - firstChar) (drop firstChar q)])
            = (splitted @ [take (l - firstChar) (drop firstChar q)]) @ components [] (drop (l + 2) q)"
      using "1.IH" [OF Some] b by simp
    with Some k show ?thesis
      by (subst splitLoop.simps, subst components_find) (simp add: add.commute add.left_commute)
  qed
qed

lemma emitReversed_rev:
  "emitReversed (xs @ ys) (int (length xs) - 1) = map AString (rev xs)"
proof (induction xs arbitrary: ys rule: rev_induct)
  case Nil
  show ?case by (subst emitReversed.simps) simp
next
  case (snoc x xs)
  have "emitReversed ((xs @ [x]) @ ys) (int (length (xs @ [x])) - 1)
          = AString x # emitReversed (xs @ ([x] @ ys)) (int (length xs) - 1)"
    by (subst emitReversed.simps) (simp add: nth_append)
  with snoc [of "[x] @ ys"] show ?case by simp
qed

lemma join_components_go:
  "join_components (components cur s) = cur @ s"
proof (induction cur s rule: components.induct)
  case (3 cur c d s)
  then show ?case
    by (cases "components [] s") auto
qed auto

lemma components_nonempty: "components cur s \<noteq> []"
  by (induction cur s rule: components.induct) auto

text \<open>
  C10: \<^verbatim>\<open>dumpName\<close> writes an object declared with two fields: \<^verbatim>\<open>name\<close>, the name of the
  declaration, and \<^verbatim>\<open>qual_name\<close>, an array whose declared length is the number of
  \<^verbatim>\<open>::\<close>-separated components of the qualified name and whose elements are these components
  in reverse order.  Joined with \<^verbatim>\<open>::\<close>, the components give the qualified name back.
\<close>

theorem dumpName_qual_name:
  "dumpName decl =
     AObject 2
       [(''name'', AString (getNameAsString decl)),
        (''qual_name'',
           AArray (Some (length (components [] (getQualifiedNameAsString decl))))
                  (map AString (rev (components [] (getQualifiedNameAsString decl)))))]
   \<and> join_components (components [] (getQualifiedNameAsString decl)) = getQualifiedNameAsString decl"
  using emitReversed_rev [of "components [] (getQualifiedNameAsString decl)" "[]"]
  by (simp add: dumpName_def Let_def splitLoop_components join_components_go)


subsection \<open>Node encoder: tuple sizes\<close>

lemma length_VisitDecl [simp]:
  "length (fst (run_state (VisitDecl E D ND) st)) = DeclTupleSize"
  by (simp add: VisitDecl_def DeclTupleSize_def split_beta Let_def)

lemma length_VisitDeclContext [simp]:
  "length (fst (run_state (VisitDeclContext E DC) st)) = DeclContextTupleSize"
  by (cases DC) (simp_all add: VisitDeclContext_def DeclContextTupleSize_def split_beta Let_def)

lemma length_VisitCapturedDecl [simp]:
  "length (fst (run_state (VisitCapturedDecl x1 x2 x3) st)) = CapturedDeclTupleSize"
  by (simp add: VisitCapturedDecl_def CapturedDeclTupleSize_def split_beta Let_def)

lemma length_VisitLinkageSpecDecl [simp]:
  "length (fst (run_state (VisitLinkageSpecDecl x1 x2 x3) st)) = LinkageSpecDeclTupleSize"
  by (simp add: VisitLinkageSpecDecl_def LinkageSpecDeclTupleSize_def split_beta Let_def)

lemma length_VisitNamedDecl [simp]:
  "length (fst (run_state (VisitNamedDecl x1 x2 x3) st)) = NamedDeclTupleSize"
  by (simp add: VisitNamedDecl_def NamedDeclTupleSize_def split_beta Let_def)

lemma length_VisitNamespaceDecl [simp]:
  "length (fst (run_state (VisitNamespaceDecl x1 x2 x3 x4 x5) st)) = NamespaceDeclTupleSize"
  by (simp add: VisitNamespaceDecl_def NamespaceDeclTupleSize_def split_beta Let_def)

lemma length_VisitObjCContainerDecl [simp]:
  "length (fst (run_state (VisitObjCContainerDecl x1 x2 x3 x4) st)) = ObjCContainerDeclTupleSize"
  by (simp add: VisitObjCContainerDecl_def ObjCContainerDeclTupleSize_def split_beta Let_def)

lemma length_VisitTypeDecl [simp]:
  "length (fst (run_state (VisitTypeDecl x1 x2 x3 x4) st)) = TypeDeclTupleSize"
  by (simp add: VisitTypeDecl_def TypeDeclTupleSize_def split_beta Let_def)

lemma length_VisitTagDecl [simp]:
  "length (fst (run_state (VisitTagDecl x1 x2 x3 x4 x5) st)) = TagDeclTupleSize"
  by (simp add: VisitTagDecl_def TagDeclTupleSize_def split_beta Let_def)

lemma length_VisitValueDecl [simp]:
  "length (fst (run_state (VisitValueDecl x1 x2 x3 x4) st)) = ValueDeclTupleSize"
  by (simp add: VisitValueDecl_def ValueDeclTupleSize_def split_beta Let_def)

lemma length_VisitTranslationUnitDecl [simp]:
  "length (fst (run_state (VisitTranslationUnitDecl x1 x2 x3) st)) = TranslationUnitDeclTupleSize"
  by (simp add: VisitTranslationUnitDecl_def TranslationUnitDeclTupleSize_def split_beta Let_def)

lemma length_VisitTypedefNameDecl [simp]:
  "length (fst (run_state (VisitTypedefNameDecl x1 x2 x3 x4) st)) = TypedefNameDeclTupleSize"
  by (simp add: VisitTypedefNameDecl_def TypedefNameDeclTupleSize_def split_beta Let_def)

lemma length_VisitDeclaratorDecl [simp]:
  "length (fst (run_state (VisitDeclaratorDecl x1 x2 x3 x4) st)) = DeclaratorDeclTupleSize"
  by (simp add: VisitDeclaratorDecl_def DeclaratorDeclTupleSize_def split_beta Let_def)

lemma length_VisitObjCImplDecl [simp]:
  "length (fst (run_state (VisitObjCImplDecl x1 x2 x3 x4) st)) = ObjCImplDeclTupleSize"
  by (simp add: VisitObjCImplDecl_def ObjCImplDeclTupleSize_def split_beta Let_def)

lemma length_VisitTypedefDecl [simp]:
  "length (fst (run_state (VisitTypedefDecl x1 x2 x3 x4 x5) st)) = TypedefDeclTupleSize"
  by (simp add: VisitTypedefDecl_def TypedefDeclTupleSize_def split_beta Let_def)

lemma length_VisitEnumDecl [simp]:
  "length (fst (run_state (VisitEnumDecl x1 x2 x3 x4 x5 x6) st)) = EnumDeclTupleSize"
  by (simp add: VisitEnumDecl_def EnumDeclTupleSize_def split_beta Let_def)

lemma length_VisitRecordDecl [simp]:
  "length (fst (run_state (VisitRecordDecl x1 x2 x3 x4 x5 x6) st)) = RecordDeclTupleSize"
  by (simp add: VisitRecordDecl_def RecordDeclTupleSize_def split_beta Let_def)

lemma length_VisitCXXRecordDecl [simp]:
  "length (fst (run_state (VisitCXXRecordDecl x1 x2 x3 x4 x5 x6 x7) st)) = CXXRecordDeclTupleSize"
  by (simp add: VisitCXXRecordDecl_def CXXRecordDeclTupleSize_def split_beta Let_def)

lemma length_VisitEnumConstantDecl [simp]:
  "length (fst (run_state (VisitEnumConstantDecl x1 x2 x3 x4 x5) st)) = EnumConstantDeclTupleSize"
  by (simp add: VisitEnumConstantDecl_def EnumConstantDeclTupleSize_def split_beta Let_def)

lemma length_VisitIndirectFieldDecl [simp]:
  "length (fst (run_state (VisitIndirectFieldDecl x1 x2 x3 x4 x5) st)) = IndirectFieldDeclTupleSize"
  by (simp add: VisitIndirectFieldDecl_def IndirectFieldDeclTupleSize_def split_beta Let_def)

lemma length_VisitFunctionDecl [simp]:
  "length (fst (run_state (VisitFunctionDecl x1 x2 x3 x4 x5 x6 x7 x8 x9) st)) = FunctionDeclTupleSize"
  by (simp add: VisitFunctionDecl_def FunctionDeclTupleSize_def split_beta Let_def)

lemma length_VisitFieldDecl [simp]:
  "length (fst (run_state (VisitFieldDecl x1 x2 x3 x4 x5 x6 x7) st)) = FieldDeclTupleSize"
  by (simp add: VisitFieldDecl_def FieldDeclTupleSize_def split_beta Let_def)

lemma length_VisitObjCIvarDecl [simp]:
  "length (fst (run_state (VisitObjCIvarDecl x1 x2 x3 x4 x5 x6 x7 x8) st)) = ObjCIvarDeclTupleSize"
  by (simp add: VisitObjCIvarDecl_def ObjCIvarDeclTupleSize_def split_beta Let_def)

lemma length_VisitVarDecl [simp]:
  "length (fst (run_state (VisitVarDecl x1 x2 x3 x4 x5 x6) st)) = VarDeclTupleSize"
  by (simp add: VisitVarDecl_def VarDeclTupleSize_def split_beta Let_def)

lemma length_VisitFileScopeAsmDecl [simp]:
  "length (fst (run_state (VisitFileScopeAsmDecl x1 x2 x3) st)) = FileScopeAsmDeclTupleSize"
  by (simp add: VisitFileScopeAsmDecl_def FileScopeAsmDeclTupleSize_def split_beta Let_def)

lemma length_VisitImportDecl [simp]:
  "length (fst (run_state (VisitImportDecl x1 x2 x3) st)) = ImportDeclTupleSize"
  by (simp add: VisitImportDecl_def ImportDeclTupleSize_def split_beta Let_def)

lemma length_VisitUsingDirectiveDecl [simp]:
  "length (fst (run_state (VisitUsingDirectiveDecl x1 x2 x3 x4) st)) = UsingDirectiveDeclTupleSize"
  by (simp add: VisitUsingDirectiveDecl_def UsingDirectiveDeclTupleSize_def split_beta Let_def)

lemma length_VisitNamespaceAliasDecl [simp]:
  "length (fst (run_state (VisitNamespaceAliasDecl x1 x2 x3 x4) st)) = NamespaceAliasDeclTupleSize"
  by (simp add: VisitNamespaceAliasDecl_def NamespaceAliasDeclTupleSize_def split_beta Let_def)

lemma length_VisitObjCMethodDecl [simp]:
  "length (fst (run_state (VisitObjCMethodDecl x1 x2 x3 x4 x5 x6) st)) = ObjCMethodDeclTupleSize"
  by (simp add: VisitObjCMethodDecl_def ObjCMethodDeclTupleSize_def split_beta Let_def)

lemma length_VisitObjCCategoryDecl [simp]:
  "length (fst (run_state (VisitObjCCategoryDecl x1 x2 x3 x4 x5) st)) = ObjCCategoryDeclTupleSize"
  by (simp add: VisitObjCCategoryDecl_def ObjCCategoryDeclTupleSize_def split_beta Let_def)

lemma length_VisitObjCCategoryImplDecl [simp]:
  "length (fst (run_state (VisitObjCCategoryImplDecl x1 x2 x3 x4 x5) st)) = ObjCCategoryImplDeclTupleSize"
  by (simp add: VisitObjCCategoryImplDecl_def ObjCCategoryImplDeclTupleSize_def split_beta Let_def)

lemma length_VisitObjCProtocolDecl [simp]:
  "length (fst (run_state (VisitObjCProtocolDecl x1 x2 x3 x4 x5) st)) = ObjCProtocolDeclTupleSize"
  by (simp add: VisitObjCProtocolDecl_def ObjCProtocolDeclTupleSize_def split_beta Let_def)

lemma length_VisitObjCInterfaceDecl [simp]:
  "length (fst (run_state (VisitObjCInterfaceDecl x1 x2 x3 x4 x5) st)) = ObjCInterfaceDeclTupleSize"
  by (simp add: VisitObjCInterfaceDecl_def ObjCInterfaceDeclTupleSize_def split_beta Let_def)

lemma length_VisitObjCImplementationDecl [simp]:
  "length (fst (run_state (VisitObjCImplementationDecl x1 x2 x3 x4 x5 x6) st)) = ObjCImplementationDeclTupleSize"
  by (simp add: VisitObjCImplementationDecl_def ObjCImplementationDeclTupleSize_def split_beta Let_def)

lemma length_VisitObjCCompatibleAliasDecl [simp]:
  "length (fst (run_state (VisitObjCCompatibleAliasDecl x1 x2 x3 x4) st)) = ObjCCompatibleAliasDeclTupleSize"
  by (simp add: VisitObjCCompatibleAliasDecl_def ObjCCompatibleAliasDeclTupleSize_def split_beta Let_def)

lemma length_VisitObjCPropertyDecl [simp]:
  "length (fst (run_state (VisitObjCPropertyDecl x1 x2 x3 x4) st)) = ObjCPropertyDeclTupleSize"
  by (simp add: VisitObjCPropertyDecl_def ObjCPropertyDeclTupleSize_def split_beta Let_def)

lemma length_VisitObjCPropertyImplDecl [simp]:
  "length (fst (run_state (VisitObjCPropertyImplDecl x1 x2 x3) st)) = ObjCPropertyImplDeclTupleSize"
  by (simp add: VisitObjCPropertyImplDecl_def ObjCPropertyImplDeclTupleSize_def split_beta Let_def)

lemma length_VisitBlockDecl [simp]:
  "length (fst (run_state (VisitBlockDecl x1 x2 x3 x4 x5 x6 x7) st)) = BlockDeclTupleSize"
  by (simp add: VisitBlockDecl_def BlockDeclTupleSize_def split_beta Let_def)

lemma length_VisitStmt [simp]:
  "length (fst (run_state (VisitStmt x1 x2 x3) st)) = StmtTupleSize"
  by (simp add: VisitStmt_def StmtTupleSize_def split_beta Let_def)

lemma length_VisitDeclStmt [simp]:
  "length (fst (run_state (VisitDeclStmt x1 x2 x3 x4) st)) = DeclStmtTupleSize"
  by (simp add: VisitDeclStmt_def DeclStmtTupleSize_def split_beta Let_def)

lemma length_VisitAttributedStmt [simp]:
  "length (fst (run_state (VisitAttributedStmt x1 x2 x3 x4) st)) = AttributedStmtTupleSize"
  by (simp add: VisitAttributedStmt_def AttributedStmtTupleSize_def split_beta Let_def)

lemma length_VisitLabelStmt [simp]:
  "length (fst (run_state (VisitLabelStmt x1 x2 x3 x4) st)) = LabelStmtTupleSize"
  by (simp add: VisitLabelStmt_def LabelStmtTupleSize_def split_beta Let_def)

lemma length_VisitGotoStmt [simp]:
  "length (fst (run_state (VisitGotoStmt x1 x2 x3 x4 x5) st)) = GotoStmtTupleSize"
  by (simp add: VisitGotoStmt_def GotoStmtTupleSize_def split_beta Let_def)

lemma length_VisitCXXCatchStmt [simp]:
  "length (fst (run_state (VisitCXXCatchStmt x1 x2 x3 x4) st)) = CXXCatchStmtTupleSize"
  by (simp add: VisitCXXCatchStmt_def CXXCatchStmtTupleSize_def split_beta Let_def)

lemma length_VisitObjCAtCatchStmt [simp]:
  "length (fst (run_state (VisitObjCAtCatchStmt x1 x2 x3 x4) st)) = ObjCAtCatchStmtTupleSize"
  by (simp add: VisitObjCAtCatchStmt_def ObjCAtCatchStmtTupleSize_def split_beta Let_def)

lemma length_VisitExpr [simp]:
  "length (fst (run_state (VisitExpr x1 x2 x3 x4) st)) = ExprTupleSize"
  by (simp add: VisitExpr_def ExprTupleSize_def split_beta Let_def)

lemma length_VisitCastExpr [simp]:
  "length (fst (run_state (VisitCastExpr x1 x2 x3 x4 x5) st)) = CastExprTupleSize"
  by (simp add: VisitCastExpr_def CastExprTupleSize_def split_beta Let_def)

lemma length_VisitExplicitCastExpr [simp]:
  "length (fst (run_state (VisitExplicitCastExpr x1 x2 x3 x4 x5 x6) st)) = ExplicitCastExprTupleSize"
  by (simp add: VisitExplicitCastExpr_def ExplicitCastExprTupleSize_def split_beta Let_def)

lemma length_VisitCXXNamedCastExpr [simp]:
  "length (fst (run_state (VisitCXXNamedCastExpr x1 x2 x3 x4 x5 x6 x7) st)) = CXXNamedCastExprTupleSize"
  by (simp add: VisitCXXNamedCastExpr_def CXXNamedCastExprTupleSize_def split_beta Let_def)

lemma length_VisitDeclRefExpr [simp]:
  "length (fst (run_state (VisitDeclRefExpr x1 x2 x3 x4 x5) st)) = DeclRefExprTupleSize"
  by (simp add: VisitDeclRefExpr_def DeclRefExprTupleSize_def split_beta Let_def)

lemma length_VisitOverloadExpr [simp]:
  "length (fst (run_state (VisitOverloadExpr x1 x2 x3 x4 x5) st)) = OverloadExprTupleSize"
  by (simp add: VisitOverloadExpr_def OverloadExprTupleSize_def split_beta Let_def)

lemma length_VisitUnresolvedLookupExpr [simp]:
  "length (fst (run_state (VisitUnresolvedLookupExpr x1 x2 x3 x4 x5 x6) st)) = UnresolvedLookupExprTupleSize"
  by (simp add: VisitUnresolvedLookupExpr_def UnresolvedLookupExprTupleSize_def split_beta Let_def)

lemma length_VisitObjCIvarRefExpr [simp]:
  "length (fst (run_state (VisitObjCIvarRefExpr x1 x2 x3 x4 x5 x6) st)) = ObjCIvarRefExprTupleSize"
  by (simp add: VisitObjCIvarRefExpr_def ObjCIvarRefExprTupleSize_def split_beta Let_def)

lemma length_VisitPredefinedExpr [simp]:
  "length (fst (run_state (VisitPredefinedExpr x1 x2 x3 x4 x5) st)) = PredefinedExprTupleSize"
  by (simp add: VisitPredefinedExpr_def PredefinedExprTupleSize_def split_beta Let_def)

lemma length_VisitCharacterLiteral [simp]:
  "length (fst (run_state (VisitCharacterLiteral x1 x2 x3 x4 x5) st)) = CharacterLiteralTupleSize"
  by (simp add: VisitCharacterLiteral_def CharacterLiteralTupleSize_def split_beta Let_def)

lemma length_VisitIntegerLiteral [simp]:
  "length (fst (run_state (VisitIntegerLiteral x1 x2 x3 x4 x5) st)) = IntegerLiteralTupleSize"
  by (simp add: VisitIntegerLiteral_def IntegerLiteralTupleSize_def split_beta Let_def)

lemma length_VisitFloatingLiteral [simp]:
  "length (fst (run_state (VisitFloatingLiteral x1 x2 x3 x4 x5) st)) = FloatingLiteralTupleSize"
  by (simp add: VisitFloatingLiteral_def FloatingLiteralTupleSize_def split_beta Let_def)

lemma length_VisitStringLiteral [simp]:
  "length (fst (run_state (VisitStringLiteral x1 x2 x3 x4 x5) st)) = StringLiteralTupleSize"
  by (simp add: VisitStringLiteral_def StringLiteralTupleSize_def split_beta Let_def)

lemma length_VisitUnaryOperator [simp]:
  "length (fst (run_state (VisitUnaryOperator x1 x2 x3 x4 x5 x6) st)) = UnaryOperatorTupleSize"
  by (simp add: VisitUnaryOperator_def UnaryOperatorTupleSize_def split_beta Let_def)

lemma length_VisitUnaryExprOrTypeTraitExpr [simp]:
  "length (fst (run_state (VisitUnaryExprOrTypeTraitExpr x1 x2 x3 x4 x5 x6) st)) = UnaryExprOrTypeTraitExprTupleSize"
  by (simp add: VisitUnaryExprOrTypeTraitExpr_def UnaryExprOrTypeTraitExprTupleSize_def split_beta Let_def)

lemma length_VisitMemberExpr [simp]:
  "length (fst (run_state (VisitMemberExpr x1 x2 x3 x4 x5) st)) = MemberExprTupleSize"
  by (simp add: VisitMemberExpr_def MemberExprTupleSize_def split_beta Let_def)

lemma length_VisitExtVectorElementExpr [simp]:
  "length (fst (run_state (VisitExtVectorElementExpr x1 x2 x3 x4 x5) st)) = ExtVectorElementExprTupleSize"
  by (simp add: VisitExtVectorElementExpr_def ExtVectorElementExprTupleSize_def split_beta Let_def)

lemma length_VisitBinaryOperator [simp]:
  "length (fst (run_state (VisitBinaryOperator x1 x2 x3 x4 x5) st)) = BinaryOperatorTupleSize"
  by (simp add: VisitBinaryOperator_def BinaryOperatorTupleSize_def split_beta Let_def)

lemma length_VisitCompoundAssignOperator [simp]:
  "length (fst (run_state (VisitCompoundAssignOperator x1 x2 x3 x4 x5 x6 x7) st)) = CompoundAssignOperatorTupleSize"
  by (simp add: VisitCompoundAssignOperator_def CompoundAssignOperatorTupleSize_def split_beta Let_def)

lemma length_VisitBlockExpr [simp]:
  "length (fst (run_state (VisitBlockExpr x1 x2 x3 x4 x5) st)) = BlockExprTupleSize"
  by (simp add: VisitBlockExpr_def BlockExprTupleSize_def DeclTupleSize_def split_beta Let_def)

lemma length_VisitOpaqueValueExpr [simp]:
  "length (fst (run_state (VisitOpaqueValueExpr x1 x2 x3 x4 x5) st)) = OpaqueValueExprTupleSize"
  by (simp add: VisitOpaqueValueExpr_def OpaqueValueExprTupleSize_def split_beta Let_def)

lemma length_VisitAddrLabelExpr [simp]:
  "length (fst (run_state (VisitAddrLabelExpr x1 x2 x3 x4 x5 x6) st)) = AddrLabelExprTupleSize"
  by (simp add: VisitAddrLabelExpr_def AddrLabelExprTupleSize_def split_beta Let_def)

lemma length_VisitCXXBoolLiteralExpr [simp]:
  "length (fst (run_state (VisitCXXBoolLiteralExpr x1 x2 x3 x4 x5) st)) = CXXBoolLiteralExprTupleSize"
  by (simp add: VisitCXXBoolLiteralExpr_def CXXBoolLiteralExprTupleSize_def split_beta Let_def)

lemma length_VisitCXXConstructExpr [simp]:
  "length (fst (run_state (VisitCXXConstructExpr x1 x2 x3 x4 x5) st)) = CXXConstructExprTupleSize"
  by (simp add: VisitCXXConstructExpr_def CXXConstructExprTupleSize_def split_beta Let_def)

lemma length_VisitCXXBindTemporaryExpr [simp]:
  "length (fst (run_state (VisitCXXBindTemporaryExpr x1 x2 x3 x4 x5) st)) = CXXBindTemporaryExprTupleSize"
  by (simp add: VisitCXXBindTemporaryExpr_def CXXBindTemporaryExprTupleSize_def split_beta Let_def)

lemma length_VisitMaterializeTemporaryExpr [simp]:
  "length (fst (run_state (VisitMaterializeTemporaryExpr x1 x2 x3 x4 x5) st)) = MaterializeTemporaryExprTupleSize"
  by (simp add: VisitMaterializeTemporaryExpr_def MaterializeTemporaryExprTupleSize_def split_beta Let_def)

lemma length_VisitExprWithCleanups [simp]:
  "length (fst (run_state (VisitExprWithCleanups x1 x2 x3 x4 x5 x6) st)) = ExprWithCleanupsTupleSize"
  by (simp add: VisitExprWithCleanups_def ExprWithCleanupsTupleSize_def split_beta Let_def)

lemma length_VisitLambdaExpr [simp]:
  "length (fst (run_state (VisitLambdaExpr x1 x2 x3 x4 x5) st)) = LambdaExprTupleSize"
  by (simp add: VisitLambdaExpr_def LambdaExprTupleSize_def DeclTupleSize_def split_beta Let_def)

lemma length_VisitCXXNewExpr [simp]:
  "length (fst (run_state (VisitCXXNewExpr x1 x2 x3 x4 x5) st)) = CXXNewExprTupleSize"
  by (simp add: VisitCXXNewExpr_def CXXNewExprTupleSize_def split_beta Let_def)

lemma length_VisitCXXDeleteExpr [simp]:
  "length (fst (run_state (VisitCXXDeleteExpr x1 x2 x3 x4 x5) st)) = CXXDeleteExprTupleSize"
  by (simp add: VisitCXXDeleteExpr_def CXXDeleteExprTupleSize_def split_beta Let_def)

lemma length_VisitObjCMessageExpr [simp]:
  "length (fst (run_state (VisitObjCMessageExpr x1 x2 x3 x4 x5) st)) = ObjCMessageExprTupleSize"
  by (simp add: VisitObjCMessageExpr_def ObjCMessageExprTupleSize_def split_beta Let_def)

lemma length_VisitObjCBoxedExpr [simp]:
  "length (fst (run_state (VisitObjCBoxedExpr x1 x2 x3 x4 x5) st)) = ObjCBoxedExprTupleSize"
  by (simp add: VisitObjCBoxedExpr_def ObjCBoxedExprTupleSize_def split_beta Let_def)

lemma length_VisitObjCEncodeExpr [simp]:
  "length (fst (run_state (VisitObjCEncodeExpr x1 x2 x3 x4 x5) st)) = ObjCEncodeExprTupleSize"
  by (simp add: VisitObjCEncodeExpr_def ObjCEncodeExprTupleSize_def split_beta Let_def)

lemma length_VisitObjCSelectorExpr [simp]:
  "length (fst (run_state (VisitObjCSelectorExpr x1 x2 x3 x4 x5) st)) = ObjCSelectorExprTupleSize"
  by (simp add: VisitObjCSelectorExpr_def ObjCSelectorExprTupleSize_def split_beta Let_def)

lemma length_VisitObjCProtocolExpr [simp]:
  "length (fst (run_state (VisitObjCProtocolExpr x1 x2 x3 x4 x5) st)) = ObjCProtocolExprTupleSize"
  by (simp add: VisitObjCProtocolExpr_def ObjCProtocolExprTupleSize_def split_beta Let_def)

lemma length_VisitObjCPropertyRefExpr [simp]:
  "length (fst (run_state (VisitObjCPropertyRefExpr x1 x2 x3 x4 x5) st)) = ObjCPropertyRefExprTupleSize"
  by (simp add: VisitObjCPropertyRefExpr_def ObjCPropertyRefExprTupleSize_def split_beta Let_def)

lemma length_VisitObjCSubscriptRefExpr [simp]:
  "length (fst (run_state (VisitObjCSubscriptRefExpr x1 x2 x3 x4 x5) st)) = ObjCSubscriptRefExprTupleSize"
  by (simp add: VisitObjCSubscriptRefExpr_def ObjCSubscriptRefExprTupleSize_def split_beta Let_def)

lemma length_VisitObjCBoolLiteralExpr [simp]:
  "length (fst (run_state (VisitObjCBoolLiteralExpr x1 x2 x3 x4 x5) st)) = ObjCBoolLiteralExprTupleSize"
  by (simp add: VisitObjCBoolLiteralExpr_def ObjCBoolLiteralExprTupleSize_def split_beta Let_def)

lemma DeclVisitor_of_map [simp]: "DeclVisitor_of (map_Decl_payload f g P) = DeclVisitor_of P"
  by (cases P) (simp_all add: DeclVisitor_of_def)

lemma StmtVisitor_of_map [simp]: "StmtVisitor_of (map_Stmt_payload f g P) = StmtVisitor_of P"
  by (cases P) (simp_all add: StmtVisitor_of_def)

lemma tupleSizeOfDeclKind_foldr [simp]:
  "tupleSizeOfDeclKind (foldr Inherits derived k) = tupleSizeOfDeclKind k"
  by (induction derived) simp_all

lemma tupleSizeOfStmtClass_foldr [simp]:
  "tupleSizeOfStmtClass (foldr Inherits derived k) = tupleSizeOfStmtClass k"
  by (induction derived) simp_all

lemma length_ConstDeclVisitor_Visit:
  "length (fst (run_state (ConstDeclVisitor_Visit E D P) st)) = DeclVisitor_TupleSize (DeclVisitor_of P)"
  by (cases P) (simp_all add: ConstDeclVisitor_Visit_def DeclVisitor_of_def DeclVisitor_TupleSize_def)

lemma length_ConstStmtVisitor_Visit:
  "length (fst (run_state (ConstStmtVisitor_Visit E S children P) st)) = StmtVisitor_TupleSize (StmtVisitor_of P)"
  by (cases P) (simp_all add: ConstStmtVisitor_Visit_def StmtVisitor_of_def StmtVisitor_TupleSize_def)

lemma opened_dumpDecl_scopes:
  "opened (fst (run_state (dumpDecl_scopes name k V) st))
     = Some (name @ ''Decl'', Some (tupleSizeOfDeclKind k), fst (run_state V st))"
  by (simp add: dumpDecl_scopes_def opened_def split_beta)

lemma opened_dumpStmt_scopes:
  "opened (fst (run_state (dumpStmt_scopes name k V) st))
     = Some (name, Some (tupleSizeOfStmtClass k), fst (run_state V st))"
  by (simp add: dumpStmt_scopes_def opened_def split_beta)

text \<open>
  C1.  For every declaration and every statement, in every state of the encoder, the
  node is written as a variant holding a tuple; the tuple is opened with the size that
  \<^verbatim>\<open>tupleSizeOfDeclKind\<close> (\<^verbatim>\<open>tupleSizeOfStmtClass\<close>) resolves for the kind of the node, and the
  visitors of the kind and of its base classes write exactly this number of fields into
  it.  These are the two families for which the exporter has a resolver.
\<close>

theorem arity_invariant:
  "arity_written (fst (run_state (dumpDeclNode E D) st))
     = Some (Some (tupleSizeOfDeclKind (Decl_getKind D)), tupleSizeOfDeclKind (Decl_getKind D))
   \<and> arity_written (fst (run_state (dumpStmtNode E S) st'))
     = Some (Some (tupleSizeOfStmtClass (Stmt_getStmtClass S)), tupleSizeOfStmtClass (Stmt_getStmtClass S))"
proof
  show "arity_written (fst (run_state (dumpDeclNode E D) st))
     = Some (Some (tupleSizeOfDeclKind (Decl_getKind D)), tupleSizeOfDeclKind (Decl_getKind D))"
    by (cases D)
       (simp add: arity_written_def opened_dumpDecl_scopes Decl_getKind_def
          length_ConstDeclVisitor_Visit)
  show "arity_written (fst (run_state (dumpStmtNode E S) st'))
     = Some (Some (tupleSizeOfStmtClass (Stmt_getStmtClass S)), tupleSizeOfStmtClass (Stmt_getStmtClass S))"
    by (cases S)
       (simp add: arity_written_def opened_dumpStmt_scopes Stmt_getStmtClass_def
          length_ConstStmtVisitor_Visit)
qed

subsection \<open>The file-membership filter\<close>

lemma dumpPointer_service [simp]:
  "dumpPointer (E\<lparr>deduplicationService := s\<rparr>) = dumpPointer E"
  by (simp add: fun_eq_iff dumpPointer_def Let_def cong: if_cong option.case_cong sum.case_cong prod.case_cong CtorSubject.case_cong CXXCtorInitializer.case_cong Capture.case_cong NestedNameSpecifier.case_cong ReceiverKind.case_cong Type_payload.case_cong Type.case_cong)

lemma dumpSourceLocationM_service [simp]:
  "dumpSourceLocationM (E\<lparr>deduplicationService := s\<rparr>) = dumpSourceLocationM E"
  by (simp add: fun_eq_iff dumpSourceLocationM_def Let_def cong: if_cong option.case_cong sum.case_cong prod.case_cong CtorSubject.case_cong CXXCtorInitializer.case_cong Capture.case_cong NestedNameSpecifier.case_cong ReceiverKind.case_cong Type_payload.case_cong Type.case_cong)

lemma dumpSourceRangeM_service [simp]:
  "dumpSourceRangeM (E\<lparr>deduplicationService := s\<rparr>) = dumpSourceRangeM E"
  by (simp add: fun_eq_iff dumpSourceRangeM_def Let_def cong: if_cong option.case_cong sum.case_cong prod.case_cong CtorSubject.case_cong CXXCtorInitializer.case_cong Capture.case_cong NestedNameSpecifier.case_cong ReceiverKind.case_cong Type_payload.case_cong Type.case_cong)

lemma dumpPointerToType_service [simp]:
  "dumpPointerToType (E\<lparr>deduplicationService := s\<rparr>) = dumpPointerToType E"
  by (simp add: fun_eq_iff dumpPointerToType_def Let_def cong: if_cong option.case_cong sum.case_cong prod.case_cong CtorSubject.case_cong CXXCtorInitializer.case_cong Capture.case_cong NestedNameSpecifier.case_cong ReceiverKind.case_cong Type_payload.case_cong Type.case_cong)

lemma dumpQualType_service [simp]:
  "dumpQualType (E\<lparr>deduplicationService := s\<rparr>) = dumpQualType E"
  by (simp add: fun_eq_iff dumpQualType_def Let_def cong: if_cong option.case_cong sum.case_cong prod.case_cong CtorSubject.case_cong CXXCtorInitializer.case_cong Capture.case_cong NestedNameSpecifier.case_cong ReceiverKind.case_cong Type_payload.case_cong Type.case_cong)

lemma dumpDeclRef_service [simp]:
  "dumpDeclRef (E\<lparr>deduplicationService := s\<rparr>) = dumpDeclRef E"
  by (simp add: fun_eq_iff dumpDeclRef_def Let_def cong: if_cong option.case_cong sum.case_cong prod.case_cong CtorSubject.case_cong CXXCtorInitializer.case_cong Capture.case_cong NestedNameSpecifier.case_cong ReceiverKind.case_cong Type_payload.case_cong Type.case_cong)

lemma dumpAttr_service [simp]:
  "dumpAttr (E\<lparr>deduplicationService := s\<rparr>) = dumpAttr E"
  by (simp add: fun_eq_iff dumpAttr_def Let_def cong: if_cong option.case_cong sum.case_cong prod.case_cong CtorSubject.case_cong CXXCtorInitializer.case_cong Capture.case_cong NestedNameSpecifier.case_cong ReceiverKind.case_cong Type_payload.case_cong Type.case_cong)

lemma visitComment_service [simp]:
  "visitComment (E\<lparr>deduplicationService := s\<rparr>) = visitComment E"
  by (simp add: fun_eq_iff visitComment_def Let_def cong: if_cong option.case_cong sum.case_cong prod.case_cong CtorSubject.case_cong CXXCtorInitializer.case_cong Capture.case_cong NestedNameSpecifier.case_cong ReceiverKind.case_cong Type_payload.case_cong Type.case_cong)

lemma visitTextComment_service [simp]:
  "visitTextComment (E\<lparr>deduplicationService := s\<rparr>) = visitTextComment E"
  by (simp add: fun_eq_iff visitTextComment_def Let_def cong: if_cong option.case_cong sum.case_cong prod.case_cong CtorSubject.case_cong CXXCtorInitializer.case_cong Capture.case_cong NestedNameSpecifier.case_cong ReceiverKind.case_cong Type_payload.case_cong Type.case_cong)

lemma dumpCommentNode_service [simp]:
  "dumpCommentNode (E\<lparr>deduplicationService := s\<rparr>) C = dumpCommentNode E C"
  by (induction C) (simp_all cong: map_cong)

lemma dumpFullComment_service [simp]:
  "dumpFullComment (E\<lparr>deduplicationService := s\<rparr>) = dumpFullComment E"
  by (simp add: fun_eq_iff dumpFullComment_def Let_def cong: if_cong option.case_cong sum.case_cong prod.case_cong CtorSubject.case_cong CXXCtorInitializer.case_cong Capture.case_cong NestedNameSpecifier.case_cong ReceiverKind.case_cong Type_payload.case_cong Type.case_cong)

lemma VisitType_service [simp]:
  "VisitType (E\<lparr>deduplicationService := s\<rparr>) = VisitType E"
  by (simp add: fun_eq_iff VisitType_def Let_def cong: if_cong option.case_cong sum.case_cong prod.case_cong CtorSubject.case_cong CXXCtorInitializer.case_cong Capture.case_cong NestedNameSpecifier.case_cong ReceiverKind.case_cong Type_payload.case_cong Type.case_cong)

lemma type_with_child_service [simp]:
  "type_with_child (E\<lparr>deduplicationService := s\<rparr>) = type_with_child E"
  by (simp add: fun_eq_iff type_with_child_def Let_def cong: if_cong option.case_cong sum.case_cong prod.case_cong CtorSubject.case_cong CXXCtorInitializer.case_cong Capture.case_cong NestedNameSpecifier.case_cong ReceiverKind.case_cong Type_payload.case_cong Type.case_cong)

lemma VisitArrayType_service [simp]:
  "VisitArrayType (E\<lparr>deduplicationService := s\<rparr>) = VisitArrayType E"
  by (simp add: fun_eq_iff VisitArrayType_def Let_def cong: if_cong option.case_cong sum.case_cong prod.case_cong CtorSubject.case_cong CXXCtorInitializer.case_cong Capture.case_cong NestedNameSpecifier.case_cong ReceiverKind.case_cong Type_payload.case_cong Type.case_cong)

lemma VisitConstantArrayType_service [simp]:
  "VisitConstantArrayType (E\<lparr>deduplicationService := s\<rparr>) = VisitConstantArrayType E"
  by (simp add: fun_eq_iff VisitConstantArrayType_def Let_def cong: if_cong option.case_cong sum.case_cong prod.case_cong CtorSubject.case_cong CXXCtorInitializer.case_cong Capture.case_cong NestedNameSpecifier.case_cong ReceiverKind.case_cong Type_payload.case_cong Type.case_cong)

lemma VisitBuiltinType_service [simp]:
  "VisitBuiltinType (E\<lparr>deduplicationService := s\<rparr>) = VisitBuiltinType E"
  by (simp add: fun_eq_iff VisitBuiltinType_def Let_def cong: if_cong option.case_cong sum.case_cong prod.case_cong CtorSubject.case_cong CXXCtorInitializer.case_cong Capture.case_cong NestedNameSpecifier.case_cong ReceiverKind.case_cong Type_payload.case_cong Type.case_cong)

lemma VisitFunctionType_service [simp]:
  "VisitFunctionType (E\<lparr>deduplicationService := s\<rparr>) = VisitFunctionType E"
  by (simp add: fun_eq_iff VisitFunctionType_def Let_def cong: if_cong option.case_cong sum.case_cong prod.case_cong CtorSubject.case_cong CXXCtorInitializer.case_cong Capture.case_cong NestedNameSpecifier.case_cong ReceiverKind.case_cong Type_payload.case_cong Type.case_cong)

lemma VisitFunctionProtoType_service [simp]:
  "VisitFunctionProtoType (E\<lparr>deduplicationService := s\<rparr>) = VisitFunctionProtoType E"
  by (simp add: fun_eq_iff VisitFunctionProtoType_def Let_def cong: if_cong option.case_cong sum.case_cong prod.case_cong CtorSubject.case_cong CXXCtorInitializer.case_cong Capture.case_cong NestedNameSpecifier.case_cong ReceiverKind.case_cong Type_payload.case_cong Type.case_cong)

lemma VisitObjCObjectType_service [simp]:
  "VisitObjCObjectType (E\<lparr>deduplicationService := s\<rparr>) = VisitObjCObjectType E"
  by (simp add: fun_eq_iff VisitObjCObjectType_def Let_def cong: if_cong option.case_cong sum.case_cong prod.case_cong CtorSubject.case_cong CXXCtorInitializer.case_cong Capture.case_cong NestedNameSpecifier.case_cong ReceiverKind.case_cong Type_payload.case_cong Type.case_cong)

lemma VisitObjCInterfaceType_service [simp]:
  "VisitObjCInterfaceType (E\<lparr>deduplicationService := s\<rparr>) = VisitObjCInterfaceType E"
  by (simp add: fun_eq_iff VisitObjCInterfaceType_def Let_def cong: if_cong option.case_cong sum.case_cong prod.case_cong CtorSubject.case_cong CXXCtorInitializer.case_cong Capture.case_cong NestedNameSpecifier.case_cong ReceiverKind.case_cong Type_payload.case_cong Type.case_cong)

lemma VisitTagType_service [simp]:
  "VisitTagType (E\<lparr>deduplicationService := s\<rparr>) = VisitTagType E"
  by (simp add: fun_eq_iff VisitTagType_def Let_def cong: if_cong option.case_cong sum.case_cong prod.case_cong CtorSubject.case_cong CXXCtorInitializer.case_cong Capture.case_cong NestedNameSpecifier.case_cong ReceiverKind.case_cong Type_payload.case_cong Type.case_cong)

lemma VisitTypedefType_service [simp]:
  "VisitTypedefType (E\<lparr>deduplicationService := s\<rparr>) = VisitTypedefType E"
  by (simp add: fun_eq_iff VisitTypedefType_def Let_def cong: if_cong option.case_cong sum.case_cong prod.case_cong CtorSubject.case_cong CXXCtorInitializer.case_cong Capture.case_cong NestedNameSpecifier.case_cong ReceiverKind.case_cong Type_payload.case_cong Type.case_cong)

lemma TypeVisitor_Visit_service [simp]:
  "TypeVisitor_Visit (E\<lparr>deduplicationService := s\<rparr>) = TypeVisitor_Visit E"
  by (simp add: fun_eq_iff TypeVisitor_Visit_def Let_def cong: if_cong option.case_cong sum.case_cong prod.case_cong CtorSubject.case_cong CXXCtorInitializer.case_cong Capture.case_cong NestedNameSpecifier.case_cong ReceiverKind.case_cong Type_payload.case_cong Type.case_cong)

lemma dumpType_service [simp]:
  "dumpType (E\<lparr>deduplicationService := s\<rparr>) = dumpType E"
  by (simp add: fun_eq_iff dumpType_def Let_def cong: if_cong option.case_cong sum.case_cong prod.case_cong CtorSubject.case_cong CXXCtorInitializer.case_cong Capture.case_cong NestedNameSpecifier.case_cong ReceiverKind.case_cong Type_payload.case_cong Type.case_cong)

lemma types_service [simp]:
  "types (E\<lparr>deduplicationService := s\<rparr>) = types E"
  by (simp add: fun_eq_iff types_def Let_def cong: if_cong option.case_cong sum.case_cong prod.case_cong CtorSubject.case_cong CXXCtorInitializer.case_cong Capture.case_cong NestedNameSpecifier.case_cong ReceiverKind.case_cong Type_payload.case_cong Type.case_cong)

lemma filter_True_lambda: "filter (\<lambda>x. True) xs = xs"
  by simp

lemma VisitDeclContext_retained [simp]:
  "VisitDeclContext (E\<lparr>deduplicationService := None\<rparr>) (Some (retain_in_context E DC))
     = VisitDeclContext E (Some DC)"
  by (cases DC) (simp add: VisitDeclContext_def retain_in_context_def retained_def)

lemma VisitDecl_service [simp]:
  "VisitDecl (E\<lparr>deduplicationService := s\<rparr>) = VisitDecl E"
  by (simp add: fun_eq_iff VisitDecl_def Let_def cong: if_cong option.case_cong sum.case_cong prod.case_cong CtorSubject.case_cong CXXCtorInitializer.case_cong Capture.case_cong NestedNameSpecifier.case_cong ReceiverKind.case_cong Type_payload.case_cong Type.case_cong)

lemma VisitCapturedDecl_retained [simp]:
  "VisitCapturedDecl (E\<lparr>deduplicationService := None\<rparr>) x1 (retain_in_context E x2)
     = VisitCapturedDecl E x1 x2"
  by (simp add: VisitCapturedDecl_def Let_def cong: if_cong option.case_cong sum.case_cong prod.case_cong CtorSubject.case_cong CXXCtorInitializer.case_cong Capture.case_cong NestedNameSpecifier.case_cong ReceiverKind.case_cong Type_payload.case_cong Type.case_cong)

lemma VisitLinkageSpecDecl_retained [simp]:
  "VisitLinkageSpecDecl (E\<lparr>deduplicationService := None\<rparr>) x1 (retain_in_context E x2)
     = VisitLinkageSpecDecl E x1 x2"
  by (simp add: VisitLinkageSpecDecl_def Let_def cong: if_cong option.case_cong sum.case_cong prod.case_cong CtorSubject.case_cong CXXCtorInitializer.case_cong Capture.case_cong NestedNameSpecifier.case_cong ReceiverKind.case_cong Type_payload.case_cong Type.case_cong)

lemma VisitNamedDecl_service [simp]:
  "VisitNamedDecl (E\<lparr>deduplicationService := s\<rparr>) = VisitNamedDecl E"
  by (simp add: fun_eq_iff VisitNamedDecl_def Let_def cong: if_cong option.case_cong sum.case_cong prod.case_cong CtorSubject.case_cong CXXCtorInitializer.case_cong Capture.case_cong NestedNameSpecifier.case_cong ReceiverKind.case_cong Type_payload.case_cong Type.case_cong)

lemma VisitNamespaceDecl_retained [simp]:
  "VisitNamespaceDecl (E\<lparr>deduplicationService := None\<rparr>) x1 x2 (retain_in_context E x3) x4
     = VisitNamespaceDecl E x1 x2 x3 x4"
  by (simp add: VisitNamespaceDecl_def Let_def cong: if_cong option.case_cong sum.case_cong prod.case_cong CtorSubject.case_cong CXXCtorInitializer.case_cong Capture.case_cong NestedNameSpecifier.case_cong ReceiverKind.case_cong Type_payload.case_cong Type.case_cong)

lemma VisitObjCContainerDecl_retained [simp]:
  "VisitObjCContainerDecl (E\<lparr>deduplicationService := None\<rparr>) x1 x2 (retain_in_context E x3)
     = VisitObjCContainerDecl E x1 x2 x3"
  by (simp add: VisitObjCContainerDecl_def Let_def cong: if_cong option.case_cong sum.case_cong prod.case_cong CtorSubject.case_cong CXXCtorInitializer.case_cong Capture.case_cong NestedNameSpecifier.case_cong ReceiverKind.case_cong Type_payload.case_cong Type.case_cong)

lemma VisitTypeDecl_service [simp]:
  "VisitTypeDecl (E\<lparr>deduplicationService := s\<rparr>) = VisitTypeDecl E"
  by (simp add: fun_eq_iff VisitTypeDecl_def Let_def cong: if_cong option.case_cong sum.case_cong prod.case_cong CtorSubject.case_cong CXXCtorInitializer.case_cong Capture.case_cong NestedNameSpecifier.case_cong ReceiverKind.case_cong Type_payload.case_cong Type.case_cong)

lemma VisitTagDecl_retained [simp]:
  "VisitTagDecl (E\<lparr>deduplicationService := None\<rparr>) x1 x2 x3 (retain_in_context E x4)
     = VisitTagDecl E x1 x2 x3 x4"
  by (simp add: VisitTagDecl_def Let_def cong: if_cong option.case_cong sum.case_cong prod.case_cong CtorSubject.case_cong CXXCtorInitializer.case_cong Capture.case_cong NestedNameSpecifier.case_cong ReceiverKind.case_cong Type_payload.case_cong Type.case_cong)

lemma VisitValueDecl_service [simp]:
  "VisitValueDecl (E\<lparr>deduplicationService := s\<rparr>) = VisitValueDecl E"
  by (simp add: fun_eq_iff VisitValueDecl_def Let_def cong: if_cong option.case_cong sum.case_cong prod.case_cong CtorSubject.case_cong CXXCtorInitializer.case_cong Capture.case_cong NestedNameSpecifier.case_cong ReceiverKind.case_cong Type_payload.case_cong Type.case_cong)

lemma VisitTranslationUnitDecl_retained [simp]:
  "VisitTranslationUnitDecl (E\<lparr>deduplicationService := None\<rparr>) x1 (retain_in_context E x2)
     = VisitTranslationUnitDecl E x1 x2"
  by (simp add: VisitTranslationUnitDecl_def Let_def cong: if_cong option.case_cong sum.case_cong prod.case_cong CtorSubject.case_cong CXXCtorInitializer.case_cong Capture.case_cong NestedNameSpecifier.case_cong ReceiverKind.case_cong Type_payload.case_cong Type.case_cong)

lemma VisitTypedefNameDecl_service [simp]:
  "VisitTypedefNameDecl (E\<lparr>deduplicationService := s\<rparr>) = VisitTypedefNameDecl E"
  by (simp add: fun_eq_iff VisitTypedefNameDecl_def Let_def cong: if_cong option.case_cong sum.case_cong prod.case_cong CtorSubject.case_cong CXXCtorInitializer.case_cong Capture.case_cong NestedNameSpecifier.case_cong ReceiverKind.case_cong Type_payload.case_cong Type.case_cong)

lemma VisitDeclaratorDecl_service [simp]:
  "VisitDeclaratorDecl (E\<lparr>deduplicationService := s\<rparr>) = VisitDeclaratorDecl E"
  by (simp add: fun_eq_iff VisitDeclaratorDecl_def Let_def cong: if_cong option.case_cong sum.case_cong prod.case_cong CtorSubject.case_cong CXXCtorInitializer.case_cong Capture.case_cong NestedNameSpecifier.case_cong ReceiverKind.case_cong Type_payload.case_cong Type.case_cong)

lemma VisitObjCImplDecl_retained [simp]:
  "VisitObjCImplDecl (E\<lparr>deduplicationService := None\<rparr>) x1 x2 (retain_in_context E x3)
     = VisitObjCImplDecl E x1 x2 x3"
  by (simp add: VisitObjCImplDecl_def Let_def cong: if_cong option.case_cong sum.case_cong prod.case_cong CtorSubject.case_cong CXXCtorInitializer.case_cong Capture.case_cong NestedNameSpecifier.case_cong ReceiverKind.case_cong Type_payload.case_cong Type.case_cong)

lemma VisitTypedefDecl_service [simp]:
  "VisitTypedefDecl (E\<lparr>deduplicationService := s\<rparr>) = VisitTypedefDecl E"
  by (simp add: fun_eq_iff VisitTypedefDecl_def Let_def cong: if_cong option.case_cong sum.case_cong prod.case_cong CtorSubject.case_cong CXXCtorInitializer.case_cong Capture.case_cong NestedNameSpecifier.case_cong ReceiverKind.case_cong Type_payload.case_cong Type.case_cong)

lemma VisitEnumDecl_retained [simp]:
  "VisitEnumDecl (E\<lparr>deduplicationService := None\<rparr>) x1 x2 x3 (retain_in_context E x4) x5
     = VisitEnumDecl E x1 x2 x3 x4 x5"
  by (simp add: VisitEnumDecl_def Let_def cong: if_cong option.case_cong sum.case_cong prod.case_cong CtorSubject.case_cong CXXCtorInitializer.case_cong Capture.case_cong NestedNameSpecifier.case_cong ReceiverKind.case_cong Type_payload.case_cong Type.case_cong)

lemma VisitRecordDecl_retained [simp]:
  "VisitRecordDecl (E\<lparr>deduplicationService := None\<rparr>) x1 x2 x3 (retain_in_context E x4) x5
     = VisitRecordDecl E x1 x2 x3 x4 x5"
  by (simp add: VisitRecordDecl_def Let_def cong: if_cong option.case_cong sum.case_cong prod.case_cong CtorSubject.case_cong CXXCtorInitializer.case_cong Capture.case_cong NestedNameSpecifier.case_cong ReceiverKind.case_cong Type_payload.case_cong Type.case_cong)

lemma VisitCXXRecordDecl_retained [simp]:
  "VisitCXXRecordDecl (E\<lparr>deduplicationService := None\<rparr>) x1 x2 x3 (retain_in_context E x4) x5 x6
     = VisitCXXRecordDecl E x1 x2 x3 x4 x5 x6"
  by (simp add: VisitCXXRecordDecl_def Let_def cong: if_cong option.case_cong sum.case_cong prod.case_cong CtorSubject.case_cong CXXCtorInitializer.case_cong Capture.case_cong NestedNameSpecifier.case_cong ReceiverKind.case_cong Type_payload.case_cong Type.case_cong)

lemma VisitEnumConstantDecl_service [simp]:
  "VisitEnumConstantDecl (E\<lparr>deduplicationService := s\<rparr>) = VisitEnumConstantDecl E"
  by (simp add: fun_eq_iff VisitEnumConstantDecl_def Let_def cong: if_cong option.case_cong sum.case_cong prod.case_cong CtorSubject.case_cong CXXCtorInitializer.case_cong Capture.case_cong NestedNameSpecifier.case_cong ReceiverKind.case_cong Type_payload.case_cong Type.case_cong)

lemma VisitIndirectFieldDecl_service [simp]:
  "VisitIndirectFieldDecl (E\<lparr>deduplicationService := s\<rparr>) = VisitIndirectFieldDecl E"
  by (simp add: fun_eq_iff VisitIndirectFieldDecl_def Let_def cong: if_cong option.case_cong sum.case_cong prod.case_cong CtorSubject.case_cong CXXCtorInitializer.case_cong Capture.case_cong NestedNameSpecifier.case_cong ReceiverKind.case_cong Type_payload.case_cong Type.case_cong)

lemma dumpCXXCtorInitializer_service [simp]:
  "dumpCXXCtorInitializer (E\<lparr>deduplicationService := s\<rparr>) = dumpCXXCtorInitializer E"
  by (simp add: fun_eq_iff dumpCXXCtorInitializer_def Let_def cong: if_cong option.case_cong sum.case_cong prod.case_cong CtorSubject.case_cong CXXCtorInitializer.case_cong Capture.case_cong NestedNameSpecifier.case_cong ReceiverKind.case_cong Type_payload.case_cong Type.case_cong)

lemma VisitFunctionDecl_service [simp]:
  "VisitFunctionDecl (E\<lparr>deduplicationService := s\<rparr>) = VisitFunctionDecl E"
  by (simp add: fun_eq_iff VisitFunctionDecl_def Let_def cong: if_cong option.case_cong sum.case_cong prod.case_cong CtorSubject.case_cong CXXCtorInitializer.case_cong Capture.case_cong NestedNameSpecifier.case_cong ReceiverKind.case_cong Type_payload.case_cong Type.case_cong)

lemma VisitFieldDecl_service [simp]:
  "VisitFieldDecl (E\<lparr>deduplicationService := s\<rparr>) = VisitFieldDecl E"
  by (simp add: fun_eq_iff VisitFieldDecl_def Let_def cong: if_cong option.case_cong sum.case_cong prod.case_cong CtorSubject.case_cong CXXCtorInitializer.case_cong Capture.case_cong NestedNameSpecifier.case_cong ReceiverKind.case_cong Type_payload.case_cong Type.case_cong)

lemma VisitObjCIvarDecl_service [simp]:
  "VisitObjCIvarDecl (E\<lparr>deduplicationService := s\<rparr>) = VisitObjCIvarDecl E"
  by (simp add: fun_eq_iff VisitObjCIvarDecl_def Let_def cong: if_cong option.case_cong sum.case_cong prod.case_cong CtorSubject.case_cong CXXCtorInitializer.case_cong Capture.case_cong NestedNameSpecifier.case_cong ReceiverKind.case_cong Type_payload.case_cong Type.case_cong)

lemma VisitVarDecl_service [simp]:
  "VisitVarDecl (E\<lparr>deduplicationService := s\<rparr>) = VisitVarDecl E"
  by (simp add: fun_eq_iff VisitVarDecl_def Let_def cong: if_cong option.case_cong sum.case_cong prod.case_cong CtorSubject.case_cong CXXCtorInitializer.case_cong Capture.case_cong NestedNameSpecifier.case_cong ReceiverKind.case_cong Type_payload.case_cong Type.case_cong)

lemma VisitFileScopeAsmDecl_service [simp]:
  "VisitFileScopeAsmDecl (E\<lparr>deduplicationService := s\<rparr>) = VisitFileScopeAsmDecl E"
  by (simp add: fun_eq_iff VisitFileScopeAsmDecl_def Let_def cong: if_cong option.case_cong sum.case_cong prod.case_cong CtorSubject.case_cong CXXCtorInitializer.case_cong Capture.case_cong NestedNameSpecifier.case_cong ReceiverKind.case_cong Type_payload.case_cong Type.case_cong)

lemma VisitImportDecl_service [simp]:
  "VisitImportDecl (E\<lparr>deduplicationService := s\<rparr>) = VisitImportDecl E"
  by (simp add: fun_eq_iff VisitImportDecl_def Let_def cong: if_cong option.case_cong sum.case_cong prod.case_cong CtorSubject.case_cong CXXCtorInitializer.case_cong Capture.case_cong NestedNameSpecifier.case_cong ReceiverKind.case_cong Type_payload.case_cong Type.case_cong)

lemma dumpNestedNameSpecifierLoc_service [simp]:
  "dumpNestedNameSpecifierLoc (E\<lparr>deduplicationService := s\<rparr>) = dumpNestedNameSpecifierLoc E"
  by (simp add: fun_eq_iff dumpNestedNameSpecifierLoc_def Let_def cong: if_cong option.case_cong sum.case_cong prod.case_cong CtorSubject.case_cong CXXCtorInitializer.case_cong Capture.case_cong NestedNameSpecifier.case_cong ReceiverKind.case_cong Type_payload.case_cong Type.case_cong)

lemma VisitUsingDirectiveDecl_service [simp]:
  "VisitUsingDirectiveDecl (E\<lparr>deduplicationService := s\<rparr>) = VisitUsingDirectiveDecl E"
  by (simp add: fun_eq_iff VisitUsingDirectiveDecl_def Let_def cong: if_cong option.case_cong sum.case_cong prod.case_cong CtorSubject.case_cong CXXCtorInitializer.case_cong Capture.case_cong NestedNameSpecifier.case_cong ReceiverKind.case_cong Type_payload.case_cong Type.case_cong)

lemma VisitNamespaceAliasDecl_service [simp]:
  "VisitNamespaceAliasDecl (E\<lparr>deduplicationService := s\<rparr>) = VisitNamespaceAliasDecl E"
  by (simp add: fun_eq_iff VisitNamespaceAliasDecl_def Let_def cong: if_cong option.case_cong sum.case_cong prod.case_cong CtorSubject.case_cong CXXCtorInitializer.case_cong Capture.case_cong NestedNameSpecifier.case_cong ReceiverKind.case_cong Type_payload.case_cong Type.case_cong)

lemma VisitObjCMethodDecl_service [simp]:
  "VisitObjCMethodDecl (E\<lparr>deduplicationService := s\<rparr>) = VisitObjCMethodDecl E"
  by (simp add: fun_eq_iff VisitObjCMethodDecl_def Let_def cong: if_cong option.case_cong sum.case_cong prod.case_cong CtorSubject.case_cong CXXCtorInitializer.case_cong Capture.case_cong NestedNameSpecifier.case_cong ReceiverKind.case_cong Type_payload.case_cong Type.case_cong)

lemma dumpProtocols_service [simp]:
  "dumpProtocols (E\<lparr>deduplicationService := s\<rparr>) = dumpProtocols E"
  by (simp add: fun_eq_iff dumpProtocols_def Let_def cong: if_cong option.case_cong sum.case_cong prod.case_cong CtorSubject.case_cong CXXCtorInitializer.case_cong Capture.case_cong NestedNameSpecifier.case_cong ReceiverKind.case_cong Type_payload.case_cong Type.case_cong)

lemma VisitObjCCategoryDecl_retained [simp]:
  "VisitObjCCategoryDecl (E\<lparr>deduplicationService := None\<rparr>) x1 x2 (retain_in_context E x3) x4
     = VisitObjCCategoryDecl E x1 x2 x3 x4"
  by (simp add: VisitObjCCategoryDecl_def Let_def cong: if_cong option.case_cong sum.case_cong prod.case_cong CtorSubject.case_cong CXXCtorInitializer.case_cong Capture.case_cong NestedNameSpecifier.case_cong ReceiverKind.case_cong Type_payload.case_cong Type.case_cong)

lemma VisitObjCCategoryImplDecl_retained [simp]:
  "VisitObjCCategoryImplDecl (E\<lparr>deduplicationService := None\<rparr>) x1 x2 (retain_in_context E x3) x4
     = VisitObjCCategoryImplDecl E x1 x2 x3 x4"
  by (simp add: VisitObjCCategoryImplDecl_def Let_def cong: if_cong option.case_cong sum.case_cong prod.case_cong CtorSubject.case_cong CXXCtorInitializer.case_cong Capture.case_cong NestedNameSpecifier.case_cong ReceiverKind.case_cong Type_payload.case_cong Type.case_cong)

lemma VisitObjCProtocolDecl_retained [simp]:
  "VisitObjCProtocolDecl (E\<lparr>deduplicationService := None\<rparr>) x1 x2 (retain_in_context E x3) x4
     = VisitObjCProtocolDecl E x1 x2 x3 x4"
  by (simp add: VisitObjCProtocolDecl_def Let_def cong: if_cong option.case_cong sum.case_cong prod.case_cong CtorSubject.case_cong CXXCtorInitializer.case_cong Capture.case_cong NestedNameSpecifier.case_cong ReceiverKind.case_cong Type_payload.case_cong Type.case_cong)

lemma VisitObjCInterfaceDecl_retained [simp]:
  "VisitObjCInterfaceDecl (E\<lparr>deduplicationService := None\<rparr>) x1 x2 (retain_in_context E x3) x4
     = VisitObjCInterfaceDecl E x1 x2 x3 x4"
  by (simp add: VisitObjCInterfaceDecl_def Let_def cong: if_cong option.case_cong sum.case_cong prod.case_cong CtorSubject.case_cong CXXCtorInitializer.case_cong Capture.case_cong NestedNameSpecifier.case_cong ReceiverKind.case_cong Type_payload.case_cong Type.case_cong)

lemma VisitObjCImplementationDecl_retained [simp]:
  "VisitObjCImplementationDecl (E\<lparr>deduplicationService := None\<rparr>) x1 x2 (retain_in_context E x3) x4 x5
     = VisitObjCImplementationDecl E x1 x2 x3 x4 x5"
  by (simp add: VisitObjCImplementationDecl_def Let_def cong: if_cong option.case_cong sum.case_cong prod.case_cong CtorSubject.case_cong CXXCtorInitializer.case_cong Capture.case_cong NestedNameSpecifier.case_cong ReceiverKind.case_cong Type_payload.case_cong Type.case_cong)

lemma VisitObjCCompatibleAliasDecl_service [simp]:
  "VisitObjCCompatibleAliasDecl (E\<lparr>deduplicationService := s\<rparr>) = VisitObjCCompatibleAliasDecl E"
  by (simp add: fun_eq_iff VisitObjCCompatibleAliasDecl_def Let_def cong: if_cong option.case_cong sum.case_cong prod.case_cong CtorSubject.case_cong CXXCtorInitializer.case_cong Capture.case_cong NestedNameSpecifier.case_cong ReceiverKind.case_cong Type_payload.case_cong Type.case_cong)

lemma VisitObjCPropertyDecl_service [simp]:
  "VisitObjCPropertyDecl (E\<lparr>deduplicationService := s\<rparr>) = VisitObjCPropertyDecl E"
  by (simp add: fun_eq_iff VisitObjCPropertyDecl_def Let_def cong: if_cong option.case_cong sum.case_cong prod.case_cong CtorSubject.case_cong CXXCtorInitializer.case_cong Capture.case_cong NestedNameSpecifier.case_cong ReceiverKind.case_cong Type_payload.case_cong Type.case_cong)

lemma VisitObjCPropertyImplDecl_service [simp]:
  "VisitObjCPropertyImplDecl (E\<lparr>deduplicationService := s\<rparr>) = VisitObjCPropertyImplDecl E"
  by (simp add: fun_eq_iff VisitObjCPropertyImplDecl_def Let_def cong: if_cong option.case_cong sum.case_cong prod.case_cong CtorSubject.case_cong CXXCtorInitializer.case_cong Capture.case_cong NestedNameSpecifier.case_cong ReceiverKind.case_cong Type_payload.case_cong Type.case_cong)

lemma dumpCapture_service [simp]:
  "dumpCapture (E\<lparr>deduplicationService := s\<rparr>) = dumpCapture E"
  by (simp add: fun_eq_iff dumpCapture_def Let_def cong: if_cong option.case_cong sum.case_cong prod.case_cong CtorSubject.case_cong CXXCtorInitializer.case_cong Capture.case_cong NestedNameSpecifier.case_cong ReceiverKind.case_cong Type_payload.case_cong Type.case_cong)

lemma VisitBlockDecl_retained [simp]:
  "VisitBlockDecl (E\<lparr>deduplicationService := None\<rparr>) x1 (retain_in_context E x2) x3 x4 x5 x6
     = VisitBlockDecl E x1 x2 x3 x4 x5 x6"
  by (simp add: VisitBlockDecl_def Let_def cong: if_cong option.case_cong sum.case_cong prod.case_cong CtorSubject.case_cong CXXCtorInitializer.case_cong Capture.case_cong NestedNameSpecifier.case_cong ReceiverKind.case_cong Type_payload.case_cong Type.case_cong)

lemma VisitStmt_service [simp]:
  "VisitStmt (E\<lparr>deduplicationService := s\<rparr>) = VisitStmt E"
  by (simp add: fun_eq_iff VisitStmt_def Let_def cong: if_cong option.case_cong sum.case_cong prod.case_cong CtorSubject.case_cong CXXCtorInitializer.case_cong Capture.case_cong NestedNameSpecifier.case_cong ReceiverKind.case_cong Type_payload.case_cong Type.case_cong)

lemma VisitDeclStmt_service [simp]:
  "VisitDeclStmt (E\<lparr>deduplicationService := s\<rparr>) = VisitDeclStmt E"
  by (simp add: fun_eq_iff VisitDeclStmt_def Let_def cong: if_cong option.case_cong sum.case_cong prod.case_cong CtorSubject.case_cong CXXCtorInitializer.case_cong Capture.case_cong NestedNameSpecifier.case_cong ReceiverKind.case_cong Type_payload.case_cong Type.case_cong)

lemma VisitAttributedStmt_service [simp]:
  "VisitAttributedStmt (E\<lparr>deduplicationService := s\<rparr>) = VisitAttributedStmt E"
  by (simp add: fun_eq_iff VisitAttributedStmt_def Let_def cong: if_cong option.case_cong sum.case_cong prod.case_cong CtorSubject.case_cong CXXCtorInitializer.case_cong Capture.case_cong NestedNameSpecifier.case_cong ReceiverKind.case_cong Type_payload.case_cong Type.case_cong)

lemma VisitLabelStmt_service [simp]:
  "VisitLabelStmt (E\<lparr>deduplicationService := s\<rparr>) = VisitLabelStmt E"
  by (simp add: fun_eq_iff VisitLabelStmt_def Let_def cong: if_cong option.case_cong sum.case_cong prod.case_cong CtorSubject.case_cong CXXCtorInitializer.case_cong Capture.case_cong NestedNameSpecifier.case_cong ReceiverKind.case_cong Type_payload.case_cong Type.case_cong)

lemma VisitGotoStmt_service [simp]:
  "VisitGotoStmt (E\<lparr>deduplicationService := s\<rparr>) = VisitGotoStmt E"
  by (simp add: fun_eq_iff VisitGotoStmt_def Let_def cong: if_cong option.case_cong sum.case_cong prod.case_cong CtorSubject.case_cong CXXCtorInitializer.case_cong Capture.case_cong NestedNameSpecifier.case_cong ReceiverKind.case_cong Type_payload.case_cong Type.case_cong)

lemma VisitCXXCatchStmt_service [simp]:
  "VisitCXXCatchStmt (E\<lparr>deduplicationService := s\<rparr>) = VisitCXXCatchStmt E"
  by (simp add: fun_eq_iff VisitCXXCatchStmt_def Let_def cong: if_cong option.case_cong sum.case_cong prod.case_cong CtorSubject.case_cong CXXCtorInitializer.case_cong Capture.case_cong NestedNameSpecifier.case_cong ReceiverKind.case_cong Type_payload.case_cong Type.case_cong)

lemma VisitObjCAtCatchStmt_service [simp]:
  "VisitObjCAtCatchStmt (E\<lparr>deduplicationService := s\<rparr>) = VisitObjCAtCatchStmt E"
  by (simp add: fun_eq_iff VisitObjCAtCatchStmt_def Let_def cong: if_cong option.case_cong sum.case_cong prod.case_cong CtorSubject.case_cong CXXCtorInitializer.case_cong Capture.case_cong NestedNameSpecifier.case_cong ReceiverKind.case_cong Type_payload.case_cong Type.case_cong)

lemma VisitExpr_service [simp]:
  "VisitExpr (E\<lparr>deduplicationService := s\<rparr>) = VisitExpr E"
  by (simp add: fun_eq_iff VisitExpr_def Let_def cong: if_cong option.case_cong sum.case_cong prod.case_cong CtorSubject.case_cong CXXCtorInitializer.case_cong Capture.case_cong NestedNameSpecifier.case_cong ReceiverKind.case_cong Type_payload.case_cong Type.case_cong)

lemma VisitCastExpr_service [simp]:
  "VisitCastExpr (E\<lparr>deduplicationService := s\<rparr>) = VisitCastExpr E"
  by (simp add: fun_eq_iff VisitCastExpr_def Let_def cong: if_cong option.case_cong sum.case_cong prod.case_cong CtorSubject.case_cong CXXCtorInitializer.case_cong Capture.case_cong NestedNameSpecifier.case_cong ReceiverKind.case_cong Type_payload.case_cong Type.case_cong)

lemma VisitExplicitCastExpr_service [simp]:
  "VisitExplicitCastExpr (E\<lparr>deduplicationService := s\<rparr>) = VisitExplicitCastExpr E"
  by (simp add: fun_eq_iff VisitExplicitCastExpr_def Let_def cong: if_cong option.case_cong sum.case_cong prod.case_cong CtorSubject.case_cong CXXCtorInitializer.case_cong Capture.case_cong NestedNameSpecifier.case_cong ReceiverKind.case_cong Type_payload.case_cong Type.case_cong)

lemma VisitCXXNamedCastExpr_service [simp]:
  "VisitCXXNamedCastExpr (E\<lparr>deduplicationService := s\<rparr>) = VisitCXXNamedCastExpr E"
  by (simp add: fun_eq_iff VisitCXXNamedCastExpr_def Let_def cong: if_cong option.case_cong sum.case_cong prod.case_cong CtorSubject.case_cong CXXCtorInitializer.case_cong Capture.case_cong NestedNameSpecifier.case_cong ReceiverKind.case_cong Type_payload.case_cong Type.case_cong)

lemma VisitDeclRefExpr_service [simp]:
  "VisitDeclRefExpr (E\<lparr>deduplicationService := s\<rparr>) = VisitDeclRefExpr E"
  by (simp add: fun_eq_iff VisitDeclRefExpr_def Let_def cong: if_cong option.case_cong sum.case_cong prod.case_cong CtorSubject.case_cong CXXCtorInitializer.case_cong Capture.case_cong NestedNameSpecifier.case_cong ReceiverKind.case_cong Type_payload.case_cong Type.case_cong)

lemma VisitOverloadExpr_service [simp]:
  "VisitOverloadExpr (E\<lparr>deduplicationService := s\<rparr>) = VisitOverloadExpr E"
  by (simp add: fun_eq_iff VisitOverloadExpr_def Let_def cong: if_cong option.case_cong sum.case_cong prod.case_cong CtorSubject.case_cong CXXCtorInitializer.case_cong Capture.case_cong NestedNameSpecifier.case_cong ReceiverKind.case_cong Type_payload.case_cong Type.case_cong)

lemma VisitUnresolvedLookupExpr_service [simp]:
  "VisitUnresolvedLookupExpr (E\<lparr>deduplicationService := s\<rparr>) = VisitUnresolvedLookupExpr E"
  by (simp add: fun_eq_iff VisitUnresolvedLookupExpr_def Let_def cong: if_cong option.case_cong sum.case_cong prod.case_cong CtorSubject.case_cong CXXCtorInitializer.case_cong Capture.case_cong NestedNameSpecifier.case_cong ReceiverKind.case_cong Type_payload.case_cong Type.case_cong)

lemma VisitObjCIvarRefExpr_service [simp]:
  "VisitObjCIvarRefExpr (E\<lparr>deduplicationService := s\<rparr>) = VisitObjCIvarRefExpr E"
  by (simp add: fun_eq_iff VisitObjCIvarRefExpr_def Let_def cong: if_cong option.case_cong sum.case_cong prod.case_cong CtorSubject.case_cong CXXCtorInitializer.case_cong Capture.case_cong NestedNameSpecifier.case_cong ReceiverKind.case_cong Type_payload.case_cong Type.case_cong)

lemma VisitPredefinedExpr_service [simp]:
  "VisitPredefinedExpr (E\<lparr>deduplicationService := s\<rparr>) = VisitPredefinedExpr E"
  by (simp add: fun_eq_iff VisitPredefinedExpr_def Let_def cong: if_cong option.case_cong sum.case_cong prod.case_cong CtorSubject.case_cong CXXCtorInitializer.case_cong Capture.case_cong NestedNameSpecifier.case_cong ReceiverKind.case_cong Type_payload.case_cong Type.case_cong)

lemma VisitCharacterLiteral_service [simp]:
  "VisitCharacterLiteral (E\<lparr>deduplicationService := s\<rparr>) = VisitCharacterLiteral E"
  by (simp add: fun_eq_iff VisitCharacterLiteral_def Let_def cong: if_cong option.case_cong sum.case_cong prod.case_cong CtorSubject.case_cong CXXCtorInitializer.case_cong Capture.case_cong NestedNameSpecifier.case_cong ReceiverKind.case_cong Type_payload.case_cong Type.case_cong)

lemma VisitIntegerLiteral_service [simp]:
  "VisitIntegerLiteral (E\<lparr>deduplicationService := s\<rparr>) = VisitIntegerLiteral E"
  by (simp add: fun_eq_iff VisitIntegerLiteral_def Let_def cong: if_cong option.case_cong sum.case_cong prod.case_cong CtorSubject.case_cong CXXCtorInitializer.case_cong Capture.case_cong NestedNameSpecifier.case_cong ReceiverKind.case_cong Type_payload.case_cong Type.case_cong)

lemma VisitFloatingLiteral_service [simp]:
  "VisitFloatingLiteral (E\<lparr>deduplicationService := s\<rparr>) = VisitFloatingLiteral E"
  by (simp add: fun_eq_iff VisitFloatingLiteral_def Let_def cong: if_cong option.case_cong sum.case_cong prod.case_cong CtorSubject.case_cong CXXCtorInitializer.case_cong Capture.case_cong NestedNameSpecifier.case_cong ReceiverKind.case_cong Type_payload.case_cong Type.case_cong)

lemma VisitStringLiteral_service [simp]:
  "VisitStringLiteral (E\<lparr>deduplicationService := s\<rparr>) = VisitStringLiteral E"
  by (simp add: fun_eq_iff VisitStringLiteral_def Let_def cong: if_cong option.case_cong sum.case_cong prod.case_cong CtorSubject.case_cong CXXCtorInitializer.case_cong Capture.case_cong NestedNameSpecifier.case_cong ReceiverKind.case_cong Type_payload.case_cong Type.case_cong)

lemma VisitUnaryOperator_service [simp]:
  "VisitUnaryOperator (E\<lparr>deduplicationService := s\<rparr>) = VisitUnaryOperator E"
  by (simp add: fun_eq_iff VisitUnaryOperator_def Let_def cong: if_cong option.case_cong sum.case_cong prod.case_cong CtorSubject.case_cong CXXCtorInitializer.case_cong Capture.case_cong NestedNameSpecifier.case_cong ReceiverKind.case_cong Type_payload.case_cong Type.case_cong)

lemma VisitUnaryExprOrTypeTraitExpr_service [simp]:
  "VisitUnaryExprOrTypeTraitExpr (E\<lparr>deduplicationService := s\<rparr>) = VisitUnaryExprOrTypeTraitExpr E"
  by (simp add: fun_eq_iff VisitUnaryExprOrTypeTraitExpr_def Let_def cong: if_cong option.case_cong sum.case_cong prod.case_cong CtorSubject.case_cong CXXCtorInitializer.case_cong Capture.case_cong NestedNameSpecifier.case_cong ReceiverKind.case_cong Type_payload.case_cong Type.case_cong)

lemma VisitMemberExpr_service [simp]:
  "VisitMemberExpr (E\<lparr>deduplicationService := s\<rparr>) = VisitMemberExpr E"
  by (simp add: fun_eq_iff VisitMemberExpr_def Let_def cong: if_cong option.case_cong sum.case_cong prod.case_cong CtorSubject.case_cong CXXCtorInitializer.case_cong Capture.case_cong NestedNameSpecifier.case_cong ReceiverKind.case_cong Type_payload.case_cong Type.case_cong)

lemma VisitExtVectorElementExpr_service [simp]:
  "VisitExtVectorElementExpr (E\<lparr>deduplicationService := s\<rparr>) = VisitExtVectorElementExpr E"
  by (simp add: fun_eq_iff VisitExtVectorElementExpr_def Let_def cong: if_cong option.case_cong sum.case_cong prod.case_cong CtorSubject.case_cong CXXCtorInitializer.case_cong Capture.case_cong NestedNameSpecifier.case_cong ReceiverKind.case_cong Type_payload.case_cong Type.case_cong)

lemma VisitBinaryOperator_service [simp]:
  "VisitBinaryOperator (E\<lparr>deduplicationService := s\<rparr>) = VisitBinaryOperator E"
  by (simp add: fun_eq_iff VisitBinaryOperator_def Let_def cong: if_cong option.case_cong sum.case_cong prod.case_cong CtorSubject.case_cong CXXCtorInitializer.case_cong Capture.case_cong NestedNameSpecifier.case_cong ReceiverKind.case_cong Type_payload.case_cong Type.case_cong)

lemma VisitCompoundAssignOperator_service [simp]:
  "VisitCompoundAssignOperator (E\<lparr>deduplicationService := s\<rparr>) = VisitCompoundAssignOperator E"
  by (simp add: fun_eq_iff VisitCompoundAssignOperator_def Let_def cong: if_cong option.case_cong sum.case_cong prod.case_cong CtorSubject.case_cong CXXCtorInitializer.case_cong Capture.case_cong NestedNameSpecifier.case_cong ReceiverKind.case_cong Type_payload.case_cong Type.case_cong)

lemma VisitBlockExpr_service [simp]:
  "VisitBlockExpr (E\<lparr>deduplicationService := s\<rparr>) = VisitBlockExpr E"
  by (simp add: fun_eq_iff VisitBlockExpr_def Let_def cong: if_cong option.case_cong sum.case_cong prod.case_cong CtorSubject.case_cong CXXCtorInitializer.case_cong Capture.case_cong NestedNameSpecifier.case_cong ReceiverKind.case_cong Type_payload.case_cong Type.case_cong)

lemma VisitOpaqueValueExpr_service [simp]:
  "VisitOpaqueValueExpr (E\<lparr>deduplicationService := s\<rparr>) = VisitOpaqueValueExpr E"
  by (simp add: fun_eq_iff VisitOpaqueValueExpr_def Let_def cong: if_cong option.case_cong sum.case_cong prod.case_cong CtorSubject.case_cong CXXCtorInitializer.case_cong Capture.case_cong NestedNameSpecifier.case_cong ReceiverKind.case_cong Type_payload.case_cong Type.case_cong)

lemma VisitAddrLabelExpr_service [simp]:
  "VisitAddrLabelExpr (E\<lparr>deduplicationService := s\<rparr>) = VisitAddrLabelExpr E"
  by (simp add: fun_eq_iff VisitAddrLabelExpr_def Let_def cong: if_cong option.case_cong sum.case_cong prod.case_cong CtorSubject.case_cong CXXCtorInitializer.case_cong Capture.case_cong NestedNameSpecifier.case_cong ReceiverKind.case_cong Type_payload.case_cong Type.case_cong)

lemma VisitCXXBoolLiteralExpr_service [simp]:
  "VisitCXXBoolLiteralExpr (E\<lparr>deduplicationService := s\<rparr>) = VisitCXXBoolLiteralExpr E"
  by (simp add: fun_eq_iff VisitCXXBoolLiteralExpr_def Let_def cong: if_cong option.case_cong sum.case_cong prod.case_cong CtorSubject.case_cong CXXCtorInitializer.case_cong Capture.case_cong NestedNameSpecifier.case_cong ReceiverKind.case_cong Type_payload.case_cong Type.case_cong)

lemma VisitCXXConstructExpr_service [simp]:
  "VisitCXXConstructExpr (E\<lparr>deduplicationService := s\<rparr>) = VisitCXXConstructExpr E"
  by (simp add: fun_eq_iff VisitCXXConstructExpr_def Let_def cong: if_cong option.case_cong sum.case_cong prod.case_cong CtorSubject.case_cong CXXCtorInitializer.case_cong Capture.case_cong NestedNameSpecifier.case_cong ReceiverKind.case_cong Type_payload.case_cong Type.case_cong)

lemma dumpCXXTemporary_service [simp]:
  "dumpCXXTemporary (E\<lparr>deduplicationService := s\<rparr>) = dumpCXXTemporary E"
  by (simp add: fun_eq_iff dumpCXXTemporary_def Let_def cong: if_cong option.case_cong sum.case_cong prod.case_cong CtorSubject.case_cong CXXCtorInitializer.case_cong Capture.case_cong NestedNameSpecifier.case_cong ReceiverKind.case_cong Type_payload.case_cong Type.case_cong)

lemma VisitCXXBindTemporaryExpr_service [simp]:
  "VisitCXXBindTemporaryExpr (E\<lparr>deduplicationService := s\<rparr>) = VisitCXXBindTemporaryExpr E"
  by (simp add: fun_eq_iff VisitCXXBindTemporaryExpr_def Let_def cong: if_cong option.case_cong sum.case_cong prod.case_cong CtorSubject.case_cong CXXCtorInitializer.case_cong Capture.case_cong NestedNameSpecifier.case_cong ReceiverKind.case_cong Type_payload.case_cong Type.case_cong)

lemma VisitMaterializeTemporaryExpr_service [simp]:
  "VisitMaterializeTemporaryExpr (E\<lparr>deduplicationService := s\<rparr>) = VisitMaterializeTemporaryExpr E"
  by (simp add: fun_eq_iff VisitMaterializeTemporaryExpr_def Let_def cong: if_cong option.case_cong sum.case_cong prod.case_cong CtorSubject.case_cong CXXCtorInitializer.case_cong Capture.case_cong NestedNameSpecifier.case_cong ReceiverKind.case_cong Type_payload.case_cong Type.case_cong)

lemma VisitExprWithCleanups_service [simp]:
  "VisitExprWithCleanups (E\<lparr>deduplicationService := s\<rparr>) = VisitExprWithCleanups E"
  by (simp add: fun_eq_iff VisitExprWithCleanups_def Let_def cong: if_cong option.case_cong sum.case_cong prod.case_cong CtorSubject.case_cong CXXCtorInitializer.case_cong Capture.case_cong NestedNameSpecifier.case_cong ReceiverKind.case_cong Type_payload.case_cong Type.case_cong)

lemma VisitLambdaExpr_service [simp]:
  "VisitLambdaExpr (E\<lparr>deduplicationService := s\<rparr>) = VisitLambdaExpr E"
  by (simp add: fun_eq_iff VisitLambdaExpr_def Let_def cong: if_cong option.case_cong sum.case_cong prod.case_cong CtorSubject.case_cong CXXCtorInitializer.case_cong Capture.case_cong NestedNameSpecifier.case_cong ReceiverKind.case_cong Type_payload.case_cong Type.case_cong)

lemma VisitCXXNewExpr_service [simp]:
  "VisitCXXNewExpr (E\<lparr>deduplicationService := s\<rparr>) = VisitCXXNewExpr E"
  by (simp add: fun_eq_iff VisitCXXNewExpr_def Let_def cong: if_cong option.case_cong sum.case_cong prod.case_cong CtorSubject.case_cong CXXCtorInitializer.case_cong Capture.case_cong NestedNameSpecifier.case_cong ReceiverKind.case_cong Type_payload.case_cong Type.case_cong)

lemma VisitCXXDeleteExpr_service [simp]:
  "VisitCXXDeleteExpr (E\<lparr>deduplicationService := s\<rparr>) = VisitCXXDeleteExpr E"
  by (simp add: fun_eq_iff VisitCXXDeleteExpr_def Let_def cong: if_cong option.case_cong sum.case_cong prod.case_cong CtorSubject.case_cong CXXCtorInitializer.case_cong Capture.case_cong NestedNameSpecifier.case_cong ReceiverKind.case_cong Type_payload.case_cong Type.case_cong)

lemma VisitObjCMessageExpr_service [simp]:
  "VisitObjCMessageExpr (E\<lparr>deduplicationService := s\<rparr>) = VisitObjCMessageExpr E"
  by (simp add: fun_eq_iff VisitObjCMessageExpr_def Let_def cong: if_cong option.case_cong sum.case_cong prod.case_cong CtorSubject.case_cong CXXCtorInitializer.case_cong Capture.case_cong NestedNameSpecifier.case_cong ReceiverKind.case_cong Type_payload.case_cong Type.case_cong)

lemma VisitObjCBoxedExpr_service [simp]:
  "VisitObjCBoxedExpr (E\<lparr>deduplicationService := s\<rparr>) = VisitObjCBoxedExpr E"
  by (simp add: fun_eq_iff VisitObjCBoxedExpr_def Let_def cong: if_cong option.case_cong sum.case_cong prod.case_cong CtorSubject.case_cong CXXCtorInitializer.case_cong Capture.case_cong NestedNameSpecifier.case_cong ReceiverKind.case_cong Type_payload.case_cong Type.case_cong)

lemma VisitObjCEncodeExpr_service [simp]:
  "VisitObjCEncodeExpr (E\<lparr>deduplicationService := s\<rparr>) = VisitObjCEncodeExpr E"
  by (simp add: fun_eq_iff VisitObjCEncodeExpr_def Let_def cong: if_cong option.case_cong sum.case_cong prod.case_cong CtorSubject.case_cong CXXCtorInitializer.case_cong Capture.case_cong NestedNameSpecifier.case_cong ReceiverKind.case_cong Type_payload.case_cong Type.case_cong)

lemma VisitObjCSelectorExpr_service [simp]:
  "VisitObjCSelectorExpr (E\<lparr>deduplicationService := s\<rparr>) = VisitObjCSelectorExpr E"
  by (simp add: fun_eq_iff VisitObjCSelectorExpr_def Let_def cong: if_cong option.case_cong sum.case_cong prod.case_cong CtorSubject.case_cong CXXCtorInitializer.case_cong Capture.case_cong NestedNameSpecifier.case_cong ReceiverKind.case_cong Type_payload.case_cong Type.case_cong)

lemma VisitObjCProtocolExpr_service [simp]:
  "VisitObjCProtocolExpr (E\<lparr>deduplicationService := s\<rparr>) = VisitObjCProtocolExpr E"
  by (simp add: fun_eq_iff VisitObjCProtocolExpr_def Let_def cong: if_cong option.case_cong sum.case_cong prod.case_cong CtorSubject.case_cong CXXCtorInitializer.case_cong Capture.case_cong NestedNameSpecifier.case_cong ReceiverKind.case_cong Type_payload.case_cong Type.case_cong)

lemma VisitObjCPropertyRefExpr_service [simp]:
  "VisitObjCPropertyRefExpr (E\<lparr>deduplicationService := s\<rparr>) = VisitObjCPropertyRefExpr E"
  by (simp add: fun_eq_iff VisitObjCPropertyRefExpr_def Let_def cong: if_cong option.case_cong sum.case_cong prod.case_cong CtorSubject.case_cong CXXCtorInitializer.case_cong Capture.case_cong NestedNameSpecifier.case_cong ReceiverKind.case_cong Type_payload.case_cong Type.case_cong)

lemma VisitObjCSubscriptRefExpr_service [simp]:
  "VisitObjCSubscriptRefExpr (E\<lparr>deduplicationService := s\<rparr>) = VisitObjCSubscriptRefExpr E"
  by (simp add: fun_eq_iff VisitObjCSubscriptRefExpr_def Let_def cong: if_cong option.case_cong sum.case_cong prod.case_cong CtorSubject.case_cong CXXCtorInitializer.case_cong Capture.case_cong NestedNameSpecifier.case_cong ReceiverKind.case_cong Type_payload.case_cong Type.case_cong)

lemma VisitObjCBoolLiteralExpr_service [simp]:
  "VisitObjCBoolLiteralExpr (E\<lparr>deduplicationService := s\<rparr>) = VisitObjCBoolLiteralExpr E"
  by (simp add: fun_eq_iff VisitObjCBoolLiteralExpr_def Let_def cong: if_cong option.case_cong sum.case_cong prod.case_cong CtorSubject.case_cong CXXCtorInitializer.case_cong Capture.case_cong NestedNameSpecifier.case_cong ReceiverKind.case_cong Type_payload.case_cong Type.case_cong)

lemma dumpDecl_null_service [simp]:
  "dumpDecl_null (E\<lparr>deduplicationService := s\<rparr>) = dumpDecl_null E"
  by (simp add: dumpDecl_null_def NullPtrDecl_node_def NullPtrDecl_base_def Decl_getKind_def
        Decl_getDeclKindName_def)

lemma dumpStmt_null_service [simp]:
  "dumpStmt_null (E\<lparr>deduplicationService := s\<rparr>) = dumpStmt_null E"
  by (simp add: dumpStmt_null_def NullPtrStmt_node_def NullPtrStmt_base_def Stmt_getStmtClass_def
        Stmt_getStmtClassName_def)

lemma dumpDecl_ptr_service [simp]:
  "dumpDecl_ptr (E\<lparr>deduplicationService := s\<rparr>) = dumpDecl_ptr E"
  by (simp add: fun_eq_iff dumpDecl_ptr_def Let_def cong: if_cong option.case_cong sum.case_cong prod.case_cong CtorSubject.case_cong CXXCtorInitializer.case_cong Capture.case_cong NestedNameSpecifier.case_cong ReceiverKind.case_cong Type_payload.case_cong Type.case_cong)

lemma dumpStmt_ptr_service [simp]:
  "dumpStmt_ptr (E\<lparr>deduplicationService := s\<rparr>) = dumpStmt_ptr E"
  by (simp add: fun_eq_iff dumpStmt_ptr_def Let_def cong: if_cong option.case_cong sum.case_cong prod.case_cong CtorSubject.case_cong CXXCtorInitializer.case_cong Capture.case_cong NestedNameSpecifier.case_cong ReceiverKind.case_cong Type_payload.case_cong Type.case_cong)

lemma length_sequence [simp]: "length (fst (run_state (sequence ms) st)) = length ms"
  by (induction ms arbitrary: st) (simp_all add: split_beta)

text \<open>
  C9.  The test of the deduplication service is made in \<^verbatim>\<open>VisitDeclContext\<close> only: a visitor
  of declarations writes what it would write without a service for the node whose
  \<^verbatim>\<open>DeclContext\<close> lists the retained members only; the visitors of statements and the record
  written for a reference to a declaration do not depend on the service; without a service
  every member is retained.  The array of the listing is opened with the number of retained
  members and holds as many elements, the encodings by value of the retained members in
  their order.  The visitors are total functions: omitting a member is no failure.
\<close>

theorem filter_only_in_listing:
  "ConstDeclVisitor_Visit E D P
     = ConstDeclVisitor_Visit (E\<lparr>deduplicationService := None\<rparr>) D (retain_listed E P)
   \<and> ConstStmtVisitor_Visit (E\<lparr>deduplicationService := s\<rparr>) S children Q
     = ConstStmtVisitor_Visit E S children Q
   \<and> dumpDeclRef (E\<lparr>deduplicationService := s\<rparr>) R = dumpDeclRef E R
   \<and> retained (E\<lparr>deduplicationService := None\<rparr>) members = members
   \<and> hd (fst (run_state (VisitDeclContext E (Some (members, l, v))) st))
     = AArray (Some (length (retained E members)))
         (fst (run_state (sequence (map snd (retained E members))) st))
   \<and> length (fst (run_state (sequence (map snd (retained E members))) st))
     = length (retained E members)"
proof (intro conjI)
  show "ConstDeclVisitor_Visit E D P
     = ConstDeclVisitor_Visit (E\<lparr>deduplicationService := None\<rparr>) D (retain_listed E P)"
    by (cases P) (simp_all add: ConstDeclVisitor_Visit_def retain_listed_def)
  show "ConstStmtVisitor_Visit (E\<lparr>deduplicationService := s\<rparr>) S children Q
     = ConstStmtVisitor_Visit E S children Q"
    by (cases Q) (simp_all add: ConstStmtVisitor_Visit_def)
  show "dumpDeclRef (E\<lparr>deduplicationService := s\<rparr>) R = dumpDeclRef E R"
    by simp
  show "retained (E\<lparr>deduplicationService := None\<rparr>) members = members"
    by (simp add: retained_def)
  show "hd (fst (run_state (VisitDeclContext E (Some (members, l, v))) st))
     = AArray (Some (length (retained E members)))
         (fst (run_state (sequence (map snd (retained E members))) st))"
    by (simp add: VisitDeclContext_def retained_def array_of_def split_beta Let_def)
  show "length (fst (run_state (sequence (map snd (retained E members))) st))
     = length (retained E members)"
    by simp
qed

subsection \<open>Node encoder: the visitor of the base class comes first\<close>

lemma prefix_VisitCapturedDecl:
  "take DeclTupleSize
      (fst (run_state (VisitCapturedDecl E D DC) st))
     = fst (run_state (VisitDecl E D None) st)"
  by (simp add: VisitCapturedDecl_def split_beta Let_def)

lemma prefix_VisitLinkageSpecDecl:
  "take DeclTupleSize
      (fst (run_state (VisitLinkageSpecDecl E D DC) st))
     = fst (run_state (VisitDecl E D None) st)"
  by (simp add: VisitLinkageSpecDecl_def split_beta Let_def)

lemma prefix_VisitNamedDecl:
  "take DeclTupleSize
      (fst (run_state (VisitNamedDecl E D N) st))
     = fst (run_state (VisitDecl E D (Some N)) st)"
  by (simp add: VisitNamedDecl_def split_beta Let_def)

lemma prefix_VisitNamespaceDecl:
  "take NamedDeclTupleSize
      (fst (run_state (VisitNamespaceDecl E D N DC I) st))
     = fst (run_state (VisitNamedDecl E D N) st)"
  by (simp add: VisitNamespaceDecl_def split_beta Let_def)

lemma prefix_VisitObjCContainerDecl:
  "take NamedDeclTupleSize
      (fst (run_state (VisitObjCContainerDecl E D N DC) st))
     = fst (run_state (VisitNamedDecl E D N) st)"
  by (simp add: VisitObjCContainerDecl_def split_beta Let_def)

lemma prefix_VisitTypeDecl:
  "take NamedDeclTupleSize
      (fst (run_state (VisitTypeDecl E D N T) st))
     = fst (run_state (VisitNamedDecl E D N) st)"
  by (simp add: VisitTypeDecl_def split_beta Let_def)

lemma prefix_VisitTagDecl:
  "take TypeDeclTupleSize
      (fst (run_state (VisitTagDecl E D N T DC) st))
     = fst (run_state (VisitTypeDecl E D N T) st)"
  by (simp add: VisitTagDecl_def split_beta Let_def)

lemma prefix_VisitValueDecl:
  "take NamedDeclTupleSize
      (fst (run_state (VisitValueDecl E D N T) st))
     = fst (run_state (VisitNamedDecl E D N) st)"
  by (simp add: VisitValueDecl_def split_beta Let_def)

lemma prefix_VisitTranslationUnitDecl:
  "take DeclTupleSize
      (fst (run_state (VisitTranslationUnitDecl E D DC) st))
     = fst (run_state (VisitDecl E D None) st)"
  by (simp add: VisitTranslationUnitDecl_def split_beta Let_def)

lemma prefix_VisitTypedefDecl:
  "take TypedefNameDeclTupleSize
      (fst (run_state (VisitTypedefDecl E D N T IsModulePrivate) st))
     = fst (run_state (VisitTypedefNameDecl E D N T) st)"
  by (simp add: VisitTypedefDecl_def split_beta Let_def)

lemma prefix_VisitEnumDecl:
  "take TagDeclTupleSize
      (fst (run_state (VisitEnumDecl E D N T DC I) st))
     = fst (run_state (VisitTagDecl E D N T DC) st)"
  by (simp add: VisitEnumDecl_def split_beta Let_def)

lemma prefix_VisitRecordDecl:
  "take TagDeclTupleSize
      (fst (run_state (VisitRecordDecl E D N T DC I) st))
     = fst (run_state (VisitTagDecl E D N T DC) st)"
  by (simp add: VisitRecordDecl_def split_beta Let_def)

lemma prefix_VisitCXXRecordDecl:
  "take RecordDeclTupleSize
      (fst (run_state (VisitCXXRecordDecl E D N T DC I X) st))
     = fst (run_state (VisitRecordDecl E D N T DC I) st)"
  by (simp add: VisitCXXRecordDecl_def split_beta Let_def)

lemma prefix_VisitEnumConstantDecl:
  "take ValueDeclTupleSize
      (fst (run_state (VisitEnumConstantDecl E D N T Init) st))
     = fst (run_state (VisitValueDecl E D N T) st)"
  by (simp add: VisitEnumConstantDecl_def split_beta Let_def)

lemma prefix_VisitIndirectFieldDecl:
  "take ValueDeclTupleSize
      (fst (run_state (VisitIndirectFieldDecl E D N T chain) st))
     = fst (run_state (VisitValueDecl E D N T) st)"
  by (simp add: VisitIndirectFieldDecl_def split_beta Let_def)

lemma prefix_VisitFunctionDecl:
  "take DeclaratorDeclTupleSize
      (fst (run_state (VisitFunctionDecl E D N T I declsInPrototypeScope params inits Body) st))
     = fst (run_state (VisitDeclaratorDecl E D N T) st)"
  by (simp add: VisitFunctionDecl_def split_beta Let_def)

lemma prefix_VisitFieldDecl:
  "take DeclaratorDeclTupleSize
      (fst (run_state (VisitFieldDecl E D N T I BitWidth Init) st))
     = fst (run_state (VisitDeclaratorDecl E D N T) st)"
  by (simp add: VisitFieldDecl_def split_beta Let_def)

lemma prefix_VisitObjCIvarDecl:
  "take FieldDeclTupleSize
      (fst (run_state (VisitObjCIvarDecl E D N T I BitWidth Init X) st))
     = fst (run_state (VisitFieldDecl E D N T I BitWidth Init) st)"
  by (simp add: VisitObjCIvarDecl_def split_beta Let_def)

lemma prefix_VisitVarDecl:
  "take DeclaratorDeclTupleSize
      (fst (run_state (VisitVarDecl E D N T I Init) st))
     = fst (run_state (VisitDeclaratorDecl E D N T) st)"
  by (simp add: VisitVarDecl_def split_beta Let_def)

lemma prefix_VisitFileScopeAsmDecl:
  "take DeclTupleSize
      (fst (run_state (VisitFileScopeAsmDecl E D asmString) st))
     = fst (run_state (VisitDecl E D None) st)"
  by (simp add: VisitFileScopeAsmDecl_def split_beta Let_def)

lemma prefix_VisitImportDecl:
  "take DeclTupleSize
      (fst (run_state (VisitImportDecl E D moduleName) st))
     = fst (run_state (VisitDecl E D None) st)"
  by (simp add: VisitImportDecl_def split_beta Let_def)

lemma prefix_VisitUsingDirectiveDecl:
  "take NamedDeclTupleSize
      (fst (run_state (VisitUsingDirectiveDecl E D N I) st))
     = fst (run_state (VisitNamedDecl E D N) st)"
  by (simp add: VisitUsingDirectiveDecl_def split_beta Let_def)

lemma prefix_VisitNamespaceAliasDecl:
  "take NamedDeclTupleSize
      (fst (run_state (VisitNamespaceAliasDecl E D N I) st))
     = fst (run_state (VisitNamedDecl E D N) st)"
  by (simp add: VisitNamespaceAliasDecl_def split_beta Let_def)

lemma prefix_VisitObjCMethodDecl:
  "take NamedDeclTupleSize
      (fst (run_state (VisitObjCMethodDecl E D N I params Body) st))
     = fst (run_state (VisitNamedDecl E D N) st)"
  by (simp add: VisitObjCMethodDecl_def split_beta Let_def)

lemma prefix_VisitObjCCategoryDecl:
  "take ObjCContainerDeclTupleSize
      (fst (run_state (VisitObjCCategoryDecl E D N DC I) st))
     = fst (run_state (VisitObjCContainerDecl E D N DC) st)"
  by (simp add: VisitObjCCategoryDecl_def split_beta Let_def)

lemma prefix_VisitObjCCategoryImplDecl:
  "take ObjCImplDeclTupleSize
      (fst (run_state (VisitObjCCategoryImplDecl E D N DC I) st))
     = fst (run_state (VisitObjCImplDecl E D N DC) st)"
  by (simp add: VisitObjCCategoryImplDecl_def split_beta Let_def)

lemma prefix_VisitObjCProtocolDecl:
  "take ObjCContainerDeclTupleSize
      (fst (run_state (VisitObjCProtocolDecl E D N DC protocols) st))
     = fst (run_state (VisitObjCContainerDecl E D N DC) st)"
  by (simp add: VisitObjCProtocolDecl_def split_beta Let_def)

lemma prefix_VisitObjCInterfaceDecl:
  "take ObjCContainerDeclTupleSize
      (fst (run_state (VisitObjCInterfaceDecl E D N DC I) st))
     = fst (run_state (VisitObjCContainerDecl E D N DC) st)"
  by (simp add: VisitObjCInterfaceDecl_def split_beta Let_def)

lemma prefix_VisitObjCImplementationDecl:
  "take ObjCImplDeclTupleSize
      (fst (run_state (VisitObjCImplementationDecl E D N DC I inits) st))
     = fst (run_state (VisitObjCImplDecl E D N DC) st)"
  by (simp add: VisitObjCImplementationDecl_def split_beta Let_def)

lemma prefix_VisitObjCCompatibleAliasDecl:
  "take NamedDeclTupleSize
      (fst (run_state (VisitObjCCompatibleAliasDecl E D N CI) st))
     = fst (run_state (VisitNamedDecl E D N) st)"
  by (simp add: VisitObjCCompatibleAliasDecl_def split_beta Let_def)

lemma prefix_VisitObjCPropertyDecl:
  "take NamedDeclTupleSize
      (fst (run_state (VisitObjCPropertyDecl E D N I) st))
     = fst (run_state (VisitNamedDecl E D N) st)"
  by (simp add: VisitObjCPropertyDecl_def split_beta Let_def)

lemma prefix_VisitObjCPropertyImplDecl:
  "take DeclTupleSize
      (fst (run_state (VisitObjCPropertyImplDecl E D I) st))
     = fst (run_state (VisitDecl E D None) st)"
  by (simp add: VisitObjCPropertyImplDecl_def split_beta Let_def)

lemma prefix_VisitBlockDecl:
  "take DeclTupleSize
      (fst (run_state (VisitBlockDecl E D DC I params captures Body) st))
     = fst (run_state (VisitDecl E D None) st)"
  by (simp add: VisitBlockDecl_def split_beta Let_def)

lemma prefix_VisitDeclStmt:
  "take StmtTupleSize
      (fst (run_state (VisitDeclStmt E S children ds) st))
     = fst (run_state (VisitStmt E S children) st)"
  by (simp add: VisitDeclStmt_def split_beta Let_def)

lemma prefix_VisitAttributedStmt:
  "take StmtTupleSize
      (fst (run_state (VisitAttributedStmt E S children attrs) st))
     = fst (run_state (VisitStmt E S children) st)"
  by (simp add: VisitAttributedStmt_def split_beta Let_def)

lemma prefix_VisitLabelStmt:
  "take StmtTupleSize
      (fst (run_state (VisitLabelStmt E S children name) st))
     = fst (run_state (VisitStmt E S children) st)"
  by (simp add: VisitLabelStmt_def split_beta Let_def)

lemma prefix_VisitGotoStmt:
  "take StmtTupleSize
      (fst (run_state (VisitGotoStmt E S children labelName label) st))
     = fst (run_state (VisitStmt E S children) st)"
  by (simp add: VisitGotoStmt_def split_beta Let_def)

lemma prefix_VisitCXXCatchStmt:
  "take StmtTupleSize
      (fst (run_state (VisitCXXCatchStmt E S children decl) st))
     = fst (run_state (VisitStmt E S children) st)"
  by (simp add: VisitCXXCatchStmt_def split_beta Let_def)

lemma prefix_VisitObjCAtCatchStmt:
  "take StmtTupleSize
      (fst (run_state (VisitObjCAtCatchStmt E S children CatchParam) st))
     = fst (run_state (VisitStmt E S children) st)"
  by (simp add: VisitObjCAtCatchStmt_def split_beta Let_def)

lemma prefix_VisitExpr:
  "take StmtTupleSize
      (fst (run_state (VisitExpr E S children Node) st))
     = fst (run_state (VisitStmt E S children) st)"
  by (simp add: VisitExpr_def split_beta Let_def)

lemma prefix_VisitCastExpr:
  "take ExprTupleSize
      (fst (run_state (VisitCastExpr E S children Node C) st))
     = fst (run_state (VisitExpr E S children Node) st)"
  by (simp add: VisitCastExpr_def split_beta Let_def)

lemma prefix_VisitExplicitCastExpr:
  "take CastExprTupleSize
      (fst (run_state (VisitExplicitCastExpr E S children Node C TypeAsWritten) st))
     = fst (run_state (VisitCastExpr E S children Node C) st)"
  by (simp add: VisitExplicitCastExpr_def split_beta Let_def)

lemma prefix_VisitCXXNamedCastExpr:
  "take ExplicitCastExprTupleSize
      (fst (run_state (VisitCXXNamedCastExpr E S children Node C TypeAsWritten CastName) st))
     = fst (run_state (VisitExplicitCastExpr E S children Node C TypeAsWritten) st)"
  by (simp add: VisitCXXNamedCastExpr_def split_beta Let_def)

lemma prefix_VisitDeclRefExpr:
  "take ExprTupleSize
      (fst (run_state (VisitDeclRefExpr E S children Node I) st))
     = fst (run_state (VisitExpr E S children Node) st)"
  by (simp add: VisitDeclRefExpr_def split_beta Let_def)

lemma prefix_VisitOverloadExpr:
  "take ExprTupleSize
      (fst (run_state (VisitOverloadExpr E S children Node I) st))
     = fst (run_state (VisitExpr E S children Node) st)"
  by (simp add: VisitOverloadExpr_def split_beta Let_def)

lemma prefix_VisitUnresolvedLookupExpr:
  "take OverloadExprTupleSize
      (fst (run_state (VisitUnresolvedLookupExpr E S children Node I U) st))
     = fst (run_state (VisitOverloadExpr E S children Node I) st)"
  by (simp add: VisitUnresolvedLookupExpr_def split_beta Let_def)

lemma prefix_VisitObjCIvarRefExpr:
  "take ExprTupleSize
      (fst (run_state (VisitObjCIvarRefExpr E S children Node D IsFreeIvar) st))
     = fst (run_state (VisitExpr E S children Node) st)"
  by (simp add: VisitObjCIvarRefExpr_def split_beta Let_def)

lemma prefix_VisitPredefinedExpr:
  "take ExprTupleSize
      (fst (run_state (VisitPredefinedExpr E S children Node IT) st))
     = fst (run_state (VisitExpr E S children Node) st)"
  by (simp add: VisitPredefinedExpr_def split_beta Let_def)

lemma prefix_VisitCharacterLiteral:
  "take ExprTupleSize
      (fst (run_state (VisitCharacterLiteral E S children Node v) st))
     = fst (run_state (VisitExpr E S children Node) st)"
  by (simp add: VisitCharacterLiteral_def split_beta Let_def)

lemma prefix_VisitIntegerLiteral:
  "take ExprTupleSize
      (fst (run_state (VisitIntegerLiteral E S children Node I) st))
     = fst (run_state (VisitExpr E S children Node) st)"
  by (simp add: VisitIntegerLiteral_def split_beta Let_def)

lemma prefix_VisitFloatingLiteral:
  "take ExprTupleSize
      (fst (run_state (VisitFloatingLiteral E S children Node buf) st))
     = fst (run_state (VisitExpr E S children Node) st)"
  by (simp add: VisitFloatingLiteral_def split_beta Let_def)

lemma prefix_VisitStringLiteral:
  "take ExprTupleSize
      (fst (run_state (VisitStringLiteral E S children Str bytes) st))
     = fst (run_state (VisitExpr E S children Str) st)"
  by (simp add: VisitStringLiteral_def split_beta Let_def)

lemma prefix_VisitUnaryOperator:
  "take ExprTupleSize
      (fst (run_state (VisitUnaryOperator E S children Node Opcode IsPostfix) st))
     = fst (run_state (VisitExpr E S children Node) st)"
  by (simp add: VisitUnaryOperator_def split_beta Let_def)

lemma prefix_VisitUnaryExprOrTypeTraitExpr:
  "take ExprTupleSize
      (fst (run_state (VisitUnaryExprOrTypeTraitExpr E S children Node K ArgumentType) st))
     = fst (run_state (VisitExpr E S children Node) st)"
  by (simp add: VisitUnaryExprOrTypeTraitExpr_def split_beta Let_def)

lemma prefix_VisitMemberExpr:
  "take ExprTupleSize
      (fst (run_state (VisitMemberExpr E S children Node I) st))
     = fst (run_state (VisitExpr E S children Node) st)"
  by (simp add: VisitMemberExpr_def split_beta Let_def)

lemma prefix_VisitExtVectorElementExpr:
  "take ExprTupleSize
      (fst (run_state (VisitExtVectorElementExpr E S children Node accessor) st))
     = fst (run_state (VisitExpr E S children Node) st)"
  by (simp add: VisitExtVectorElementExpr_def split_beta Let_def)

lemma prefix_VisitBinaryOperator:
  "take ExprTupleSize
      (fst (run_state (VisitBinaryOperator E S children Node Opcode) st))
     = fst (run_state (VisitExpr E S children Node) st)"
  by (simp add: VisitBinaryOperator_def split_beta Let_def)

lemma prefix_VisitCompoundAssignOperator:
  "take BinaryOperatorTupleSize
      (fst (run_state (VisitCompoundAssignOperator E S children Node Opcode LHSType ResultType) st))
     = fst (run_state (VisitBinaryOperator E S children Node Opcode) st)"
  by (simp add: VisitCompoundAssignOperator_def split_beta Let_def)

lemma prefix_VisitBlockExpr:
  "take ExprTupleSize
      (fst (run_state (VisitBlockExpr E S children Node BlockDecl) st))
     = fst (run_state (VisitExpr E S children Node) st)"
  by (simp add: VisitBlockExpr_def split_beta Let_def)

lemma prefix_VisitOpaqueValueExpr:
  "take ExprTupleSize
      (fst (run_state (VisitOpaqueValueExpr E S children Node Source) st))
     = fst (run_state (VisitExpr E S children Node) st)"
  by (simp add: VisitOpaqueValueExpr_def split_beta Let_def)

lemma prefix_VisitAddrLabelExpr:
  "take ExprTupleSize
      (fst (run_state (VisitAddrLabelExpr E S children Node labelName label) st))
     = fst (run_state (VisitExpr E S children Node) st)"
  by (simp add: VisitAddrLabelExpr_def split_beta Let_def)

lemma prefix_VisitCXXBoolLiteralExpr:
  "take ExprTupleSize
      (fst (run_state (VisitCXXBoolLiteralExpr E S children Node v) st))
     = fst (run_state (VisitExpr E S children Node) st)"
  by (simp add: VisitCXXBoolLiteralExpr_def split_beta Let_def)

lemma prefix_VisitCXXConstructExpr:
  "take ExprTupleSize
      (fst (run_state (VisitCXXConstructExpr E S children Node I) st))
     = fst (run_state (VisitExpr E S children Node) st)"
  by (simp add: VisitCXXConstructExpr_def split_beta Let_def)

lemma prefix_VisitCXXBindTemporaryExpr:
  "take ExprTupleSize
      (fst (run_state (VisitCXXBindTemporaryExpr E S children Node Temporary) st))
     = fst (run_state (VisitExpr E S children Node) st)"
  by (simp add: VisitCXXBindTemporaryExpr_def split_beta Let_def)

lemma prefix_VisitMaterializeTemporaryExpr:
  "take ExprTupleSize
      (fst (run_state (VisitMaterializeTemporaryExpr E S children Node VD) st))
     = fst (run_state (VisitExpr E S children Node) st)"
  by (simp add: VisitMaterializeTemporaryExpr_def split_beta Let_def)

lemma prefix_VisitExprWithCleanups:
  "take ExprTupleSize
      (fst (run_state (VisitExprWithCleanups E S children Node objects SubExpr) st))
     = fst (run_state (VisitExpr E S children Node) st)"
  by (simp add: VisitExprWithCleanups_def split_beta Let_def)

lemma prefix_VisitLambdaExpr:
  "take ExprTupleSize
      (fst (run_state (VisitLambdaExpr E S children Node LambdaClass) st))
     = fst (run_state (VisitExpr E S children Node) st)"
  by (simp add: VisitLambdaExpr_def split_beta Let_def)

lemma prefix_VisitCXXNewExpr:
  "take ExprTupleSize
      (fst (run_state (VisitCXXNewExpr E S children Node I) st))
     = fst (run_state (VisitExpr E S children Node) st)"
  by (simp add: VisitCXXNewExpr_def split_beta Let_def)

lemma prefix_VisitCXXDeleteExpr:
  "take ExprTupleSize
      (fst (run_state (VisitCXXDeleteExpr E S children Node IsArray) st))
     = fst (run_state (VisitExpr E S children Node) st)"
  by (simp add: VisitCXXDeleteExpr_def split_beta Let_def)

lemma prefix_VisitObjCMessageExpr:
  "take ExprTupleSize
      (fst (run_state (VisitObjCMessageExpr E S children Node I) st))
     = fst (run_state (VisitExpr E S children Node) st)"
  by (simp add: VisitObjCMessageExpr_def split_beta Let_def)

lemma prefix_VisitObjCBoxedExpr:
  "take ExprTupleSize
      (fst (run_state (VisitObjCBoxedExpr E S children Node sel) st))
     = fst (run_state (VisitExpr E S children Node) st)"
  by (simp add: VisitObjCBoxedExpr_def split_beta Let_def)

lemma prefix_VisitObjCEncodeExpr:
  "take ExprTupleSize
      (fst (run_state (VisitObjCEncodeExpr E S children Node EncodedType) st))
     = fst (run_state (VisitExpr E S children Node) st)"
  by (simp add: VisitObjCEncodeExpr_def split_beta Let_def)

lemma prefix_VisitObjCSelectorExpr:
  "take ExprTupleSize
      (fst (run_state (VisitObjCSelectorExpr E S children Node sel) st))
     = fst (run_state (VisitExpr E S children Node) st)"
  by (simp add: VisitObjCSelectorExpr_def split_beta Let_def)

lemma prefix_VisitObjCProtocolExpr:
  "take ExprTupleSize
      (fst (run_state (VisitObjCProtocolExpr E S children Node Protocol) st))
     = fst (run_state (VisitExpr E S children Node) st)"
  by (simp add: VisitObjCProtocolExpr_def split_beta Let_def)

lemma prefix_VisitObjCPropertyRefExpr:
  "take ExprTupleSize
      (fst (run_state (VisitObjCPropertyRefExpr E S children Node I) st))
     = fst (run_state (VisitExpr E S children Node) st)"
  by (simp add: VisitObjCPropertyRefExpr_def split_beta Let_def)

lemma prefix_VisitObjCSubscriptRefExpr:
  "take ExprTupleSize
      (fst (run_state (VisitObjCSubscriptRefExpr E S children Node I) st))
     = fst (run_state (VisitExpr E S children Node) st)"
  by (simp add: VisitObjCSubscriptRefExpr_def split_beta Let_def)

lemma prefix_VisitObjCBoolLiteralExpr:
  "take ExprTupleSize
      (fst (run_state (VisitObjCBoolLiteralExpr E S children Node v) st))
     = fst (run_state (VisitExpr E S children Node) st)"
  by (simp add: VisitObjCBoolLiteralExpr_def split_beta Let_def)

lemmas prefix_Visits =
  prefix_VisitCapturedDecl prefix_VisitLinkageSpecDecl prefix_VisitNamedDecl prefix_VisitNamespaceDecl
  prefix_VisitObjCContainerDecl prefix_VisitTypeDecl prefix_VisitTagDecl prefix_VisitValueDecl
  prefix_VisitTranslationUnitDecl prefix_VisitTypedefDecl prefix_VisitEnumDecl prefix_VisitRecordDecl
  prefix_VisitCXXRecordDecl prefix_VisitEnumConstantDecl prefix_VisitIndirectFieldDecl prefix_VisitFunctionDecl
  prefix_VisitFieldDecl prefix_VisitObjCIvarDecl prefix_VisitVarDecl prefix_VisitFileScopeAsmDecl
  prefix_VisitImportDecl prefix_VisitUsingDirectiveDecl prefix_VisitNamespaceAliasDecl prefix_VisitObjCMethodDecl
  prefix_VisitObjCCategoryDecl prefix_VisitObjCCategoryImplDecl prefix_VisitObjCProtocolDecl prefix_VisitObjCInterfaceDecl
  prefix_VisitObjCImplementationDecl prefix_VisitObjCCompatibleAliasDecl prefix_VisitObjCPropertyDecl prefix_VisitObjCPropertyImplDecl
  prefix_VisitBlockDecl prefix_VisitDeclStmt prefix_VisitAttributedStmt prefix_VisitLabelStmt
  prefix_VisitGotoStmt prefix_VisitCXXCatchStmt prefix_VisitObjCAtCatchStmt prefix_VisitExpr
  prefix_VisitCastExpr prefix_VisitExplicitCastExpr prefix_VisitCXXNamedCastExpr prefix_VisitDeclRefExpr
  prefix_VisitOverloadExpr prefix_VisitUnresolvedLookupExpr prefix_VisitObjCIvarRefExpr prefix_VisitPredefinedExpr
  prefix_VisitCharacterLiteral prefix_VisitIntegerLiteral prefix_VisitFloatingLiteral prefix_VisitStringLiteral
  prefix_VisitUnaryOperator prefix_VisitUnaryExprOrTypeTraitExpr prefix_VisitMemberExpr prefix_VisitExtVectorElementExpr
  prefix_VisitBinaryOperator prefix_VisitCompoundAssignOperator prefix_VisitBlockExpr prefix_VisitOpaqueValueExpr
  prefix_VisitAddrLabelExpr prefix_VisitCXXBoolLiteralExpr prefix_VisitCXXConstructExpr prefix_VisitCXXBindTemporaryExpr
  prefix_VisitMaterializeTemporaryExpr prefix_VisitExprWithCleanups prefix_VisitLambdaExpr prefix_VisitCXXNewExpr
  prefix_VisitCXXDeleteExpr prefix_VisitObjCMessageExpr prefix_VisitObjCBoxedExpr prefix_VisitObjCEncodeExpr
  prefix_VisitObjCSelectorExpr prefix_VisitObjCProtocolExpr prefix_VisitObjCPropertyRefExpr prefix_VisitObjCSubscriptRefExpr
  prefix_VisitObjCBoolLiteralExpr

lemma prefix_ConstDeclVisitor_Visit:
  "Decl_base_Visit E D P = Some V \<Longrightarrow>
     take (length (fst (run_state V st))) (fst (run_state (ConstDeclVisitor_Visit E D P) st))
       = fst (run_state V st)"
  by (cases P) (auto simp add: Decl_base_Visit_def ConstDeclVisitor_Visit_def prefix_Visits)

lemma prefix_ConstStmtVisitor_Visit:
  "Stmt_base_Visit E S children P = Some V \<Longrightarrow>
     take (length (fst (run_state V st))) (fst (run_state (ConstStmtVisitor_Visit E S children P) st))
       = fst (run_state V st)"
  by (cases P) (auto simp add: Stmt_base_Visit_def ConstStmtVisitor_Visit_def prefix_Visits)

text \<open>
  C8, as stated, fails for types (and for comments): \<^verbatim>\<open>dumpType\<close> and \<^verbatim>\<open>dumpComment\<close> open
  the tuple without a size, and \<^verbatim>\<open>VisitObjCInterfaceType\<close> does not call the visitor of its
  base class \<^verbatim>\<open>ObjCObjectType\<close>.  The type \<^verbatim>\<open>NSObject\<close> at address 7, declared at address 8,
  is written as a tuple of no declared size with the fields of \<^verbatim>\<open>VisitType\<close> and the
  pointer to the declaration; the object with \<^verbatim>\<open>base_type\<close> that \<^verbatim>\<open>VisitObjCObjectType\<close>
  writes for the same type is not part of it.
\<close>

theorem dumpType_ObjCInterfaceType:
  "fst (run_state
         (dumpType sample_exporter
            (Some (Type ''ObjCInterface''
               \<lparr>getTypePointer = 7, getTypeAsString = ''NSObject'',
                getUnqualifiedDesugaredType = 7\<rparr>
               (T_ObjCInterfaceType 8))))
         initial_state)
     = AVariant ''ObjCInterfaceType''
         (Some (ATuple None
           [AObject 2 [(''pointer'', AString ''0''), (''raw'', AString ''NSObject'')],
            AString ''1'']))
   \<and> fst (run_state
         (VisitObjCObjectType sample_exporter
            \<lparr>getTypePointer = 7, getTypeAsString = ''NSObject'',
             getUnqualifiedDesugaredType = 7\<rparr> 7 [])
         initial_state)
     = [AObject 2 [(''pointer'', AString ''0''), (''raw'', AString ''NSObject'')],
        AObject 1 [(''base_type'', AString ''0'')]]"
  by (simp add: dumpType_def TypeVisitor_Visit_def VisitObjCInterfaceType_def
        VisitObjCObjectType_def VisitType_def dumpPointerToType_def dumpPointer_def
        writePointer_def sample_exporter_def initial_state_def printf_d_def snprintf20_def
        dec_digits_small split_beta)

text \<open>
  C8, amended, for declarations and statements.  A node is written as one variant, named
  after the kind of the node (followed by \<^verbatim>\<open>Decl\<close> for a declaration), holding one tuple
  opened with the size resolved for the kind, filled by the visitor of the class.  The
  visitor of every class but \<^verbatim>\<open>VisitDecl\<close> and \<^verbatim>\<open>VisitStmt\<close> begins with the visitor of its
  base class, run on the same node from the same state: the fields of the base class come
  first, and so, from the root class down, the fields of every base class.  Types and
  comments are written as a variant holding a tuple of no declared size.
\<close>

theorem variant_tuple_base_first:
  "opened (fst (run_state (dumpDeclNode E N) st))
     = Some (Decl_getDeclKindName N @ ''Decl'', Some (tupleSizeOfDeclKind (Decl_getKind N)),
             fst (run_state (Decl_Visit E N) st))
   \<and> opened (fst (run_state (dumpStmtNode E S) st))
     = Some (Stmt_getStmtClassName S, Some (tupleSizeOfStmtClass (Stmt_getStmtClass S)),
             fst (run_state (Stmt_Visit E S) st))
   \<and> (Decl_base_Visit E D P = Some V \<longrightarrow>
        take (length (fst (run_state V st))) (fst (run_state (ConstDeclVisitor_Visit E D P) st))
          = fst (run_state V st))
   \<and> (Stmt_base_Visit E B children Q = Some W \<longrightarrow>
        take (length (fst (run_state W st)))
          (fst (run_state (ConstStmtVisitor_Visit E B children Q) st))
          = fst (run_state W st))"
proof (intro conjI impI)
  show "opened (fst (run_state (dumpDeclNode E N) st))
     = Some (Decl_getDeclKindName N @ ''Decl'', Some (tupleSizeOfDeclKind (Decl_getKind N)),
             fst (run_state (Decl_Visit E N) st))"
    by (cases N) (simp add: opened_dumpDecl_scopes Decl_Visit_def)
  show "opened (fst (run_state (dumpStmtNode E S) st))
     = Some (Stmt_getStmtClassName S, Some (tupleSizeOfStmtClass (Stmt_getStmtClass S)),
             fst (run_state (Stmt_Visit E S) st))"
    by (cases S) (simp add: opened_dumpStmt_scopes Stmt_Visit_def)
next
  assume "Decl_base_Visit E D P = Some V"
  then show "take (length (fst (run_state V st))) (fst (run_state (ConstDeclVisitor_Visit E D P) st))
          = fst (run_state V st)"
    by (rule prefix_ConstDeclVisitor_Visit)
next
  assume "Stmt_base_Visit E B children Q = Some W"
  then show "take (length (fst (run_state W st)))
          (fst (run_state (ConstStmtVisitor_Visit E B children Q) st))
          = fst (run_state W st)"
    by (rule prefix_ConstStmtVisitor_Visit)
qed

theorem variant_tuple_base_first_witness:
  "Decl_base_Visit sample_exporter (sample_Decl_base 12)
       (P_VarDecl (sample_NamedDecl ''y'') (sample_QualType ''int'' 20) sample_VarDecl_info None)
     = Some (VisitDeclaratorDecl sample_exporter (sample_Decl_base 12) (sample_NamedDecl ''y'')
               (sample_QualType ''int'' 20))
   \<and> take (length (fst (run_state
          (VisitDeclaratorDecl sample_exporter (sample_Decl_base 12) (sample_NamedDecl ''y'')
             (sample_QualType ''int'' 20)) initial_state)))
        (fst (run_state
          (ConstDeclVisitor_Visit sample_exporter (sample_Decl_base 12)
             (P_VarDecl (sample_NamedDecl ''y'') (sample_QualType ''int'' 20) sample_VarDecl_info
                None)) initial_state))
     = fst (run_state
          (VisitDeclaratorDecl sample_exporter (sample_Decl_base 12) (sample_NamedDecl ''y'')
             (sample_QualType ''int'' 20)) initial_state)
   \<and> Stmt_base_Visit sample_exporter (sample_Stmt_base 14) [] (S_DeclStmt [])
     = Some (VisitStmt sample_exporter (sample_Stmt_base 14) [])
   \<and> take (length (fst (run_state (VisitStmt sample_exporter (sample_Stmt_base 14) [])
          initial_state)))
        (fst (run_state
          (ConstStmtVisitor_Visit sample_exporter (sample_Stmt_base 14) [] (S_DeclStmt []))
          initial_state))
     = fst (run_state (VisitStmt sample_exporter (sample_Stmt_base 14) []) initial_state)"
  using variant_tuple_base_first
    [where E = sample_exporter and D = "sample_Decl_base 12"
       and P = "P_VarDecl (sample_NamedDecl ''y'') (sample_QualType ''int'' 20)
                  sample_VarDecl_info None"
       and V = "VisitDeclaratorDecl sample_exporter (sample_Decl_base 12) (sample_NamedDecl ''y'')
                  (sample_QualType ''int'' 20)"
       and B = "sample_Stmt_base 14" and children = "[]" and Q = "S_DeclStmt []"
       and W = "VisitStmt sample_exporter (sample_Stmt_base 14) []" and st = initial_state]
  by (simp add: Decl_base_Visit_def Stmt_base_Visit_def)

subsection \<open>No computation of the encoder removes or changes an entry of the identity table\<close>

lemma table_extends_refl [simp]: "table_extends st st"
  by (simp add: table_extends_def)

lemma table_extends_trans: "table_extends a b \<Longrightarrow> table_extends b c \<Longrightarrow> table_extends a c"
  by (simp add: table_extends_def)

lemma keeps_return [simp]: "keeps (return x)"
  by (simp add: keeps_def)

lemma keeps_bind [simp]: "keeps m \<Longrightarrow> (\<And>x. keeps (f x)) \<Longrightarrow> keeps (m \<bind> f)"
  unfolding keeps_def
proof
  fix st
  assume m: "\<forall>st. table_extends st (snd (run_state m st))"
    and f: "\<And>x. \<forall>st. table_extends st (snd (run_state (f x) st))"
  obtain a s where r: "run_state m st = (a, s)" by (cases "run_state m st")
  from m have "table_extends st (snd (run_state m st))" ..
  with r have 1: "table_extends st s" by simp
  from f have 2: "table_extends s (snd (run_state (f a) s))" ..
  from table_extends_trans [OF 1 2] r show "table_extends st (snd (run_state (m \<bind> f) st))"
    by simp
qed

lemma keeps_dumpPointer [simp]: "keeps (dumpPointer E p)"
  by (auto simp add: keeps_def dumpPointer_def writePointer_def table_extends_def Let_def
        split: option.splits)

lemma keeps_dumpSourceLocationM [simp]: "keeps (dumpSourceLocationM E L)"
  by (auto simp add: keeps_def dumpSourceLocationM_def dumpSourceLocation_def table_extends_def
        Let_def split: option.splits)

lemma keeps_dumpSourceRangeM [simp]: "keeps (dumpSourceRangeM E R)"
  by (auto simp add: keeps_def dumpSourceRangeM_def dumpSourceRange_def dumpSourceLocation_def
        table_extends_def Let_def split_beta split: option.splits)

lemma keeps_sequence [simp]: "\<forall>m\<in>set ms. keeps m \<Longrightarrow> keeps (sequence ms)"
  by (induction ms) simp_all

lemma keeps_field [simp]: "keeps m \<Longrightarrow> keeps (field tag m)"
  by (simp add: field_def)

lemma keeps_opt_field [simp]: "(\<And>x. v = Some x \<Longrightarrow> keeps (f x)) \<Longrightarrow> keeps (opt_field tag f v)"
  by (simp add: opt_field_def split: option.split)

lemma keeps_flag [simp]: "keeps (flag tag v)"
  by (simp add: flag_def)

lemma keeps_fields [simp]: "\<forall>m\<in>set ms. keeps m \<Longrightarrow> keeps (fields ms)"
  by (simp add: fields_def)

lemma keeps_object [simp]: "\<forall>m\<in>set ms. keeps m \<Longrightarrow> keeps (object n ms)"
  by (simp add: object_def)

lemma keeps_array_of [simp]: "\<forall>x\<in>set xs. keeps (f x) \<Longrightarrow> keeps (array_of f xs)"
  by (simp add: array_of_def)

lemma keeps_variant [simp]: "keeps m \<Longrightarrow> keeps (variant tag m)"
  by (simp add: variant_def)

lemma keeps_simple_variant [simp]: "keeps (simple_variant tag)"
  by (simp add: simple_variant_def)

lemma keeps_dumpCommentNode [simp]: "keeps (dumpCommentNode E C)"
  by (induction C) (simp_all add: visitTextComment_def visitComment_def)

lemma keeps_dumpFullComment [simp]: "keeps (dumpFullComment E C)"
  by (simp add: dumpFullComment_def)

lemma keeps_dumpDecl_scopes [simp]: "keeps V \<Longrightarrow> keeps (dumpDecl_scopes name k V)"
  by (simp add: dumpDecl_scopes_def)

lemma keeps_dumpStmt_scopes [simp]: "keeps V \<Longrightarrow> keeps (dumpStmt_scopes name k V)"
  by (simp add: dumpStmt_scopes_def)

lemma keeps_dumpPointerToType [simp]:
  "keeps (dumpPointerToType x1 x2)"
  by (simp add: dumpPointerToType_def Let_def split_beta
        split: option.split ObjCAccessControl.split TLSKind.split PropertyControl.split PropertyImplementation.split ExprValueKind.split ExprObjectKind.split IdentType.split UnaryOperatorKind.split UnaryExprOrTypeTrait.split BinaryOperatorKind.split NameKind.split NestedNameSpecifier.split ReceiverKind.split CtorSubject.split sum.split Type_payload.split Type.split)

lemma keeps_dumpQualType [simp]:
  "keeps (dumpQualType x1 x2)"
  by (simp add: dumpQualType_def Let_def split_beta
        split: option.split ObjCAccessControl.split TLSKind.split PropertyControl.split PropertyImplementation.split ExprValueKind.split ExprObjectKind.split IdentType.split UnaryOperatorKind.split UnaryExprOrTypeTrait.split BinaryOperatorKind.split NameKind.split NestedNameSpecifier.split ReceiverKind.split CtorSubject.split sum.split Type_payload.split Type.split)

lemma keeps_dumpDeclRef [simp]:
  "keeps (dumpDeclRef x1 x2)"
  by (simp add: dumpDeclRef_def Let_def split_beta
        split: option.split ObjCAccessControl.split TLSKind.split PropertyControl.split PropertyImplementation.split ExprValueKind.split ExprObjectKind.split IdentType.split UnaryOperatorKind.split UnaryExprOrTypeTrait.split BinaryOperatorKind.split NameKind.split NestedNameSpecifier.split ReceiverKind.split CtorSubject.split sum.split Type_payload.split Type.split)

lemma keeps_dumpAttr [simp]:
  "keeps (dumpAttr x1 x2)"
  by (simp add: dumpAttr_def Let_def split_beta
        split: option.split ObjCAccessControl.split TLSKind.split PropertyControl.split PropertyImplementation.split ExprValueKind.split ExprObjectKind.split IdentType.split UnaryOperatorKind.split UnaryExprOrTypeTrait.split BinaryOperatorKind.split NameKind.split NestedNameSpecifier.split ReceiverKind.split CtorSubject.split sum.split Type_payload.split Type.split)

lemma keeps_visitComment [simp]:
  "\<forall>s\<in>set x4. keeps s \<Longrightarrow>
   keeps (visitComment x1 x2 x3 x4)"
  by (simp add: visitComment_def Let_def split_beta
        split: option.split ObjCAccessControl.split TLSKind.split PropertyControl.split PropertyImplementation.split ExprValueKind.split ExprObjectKind.split IdentType.split UnaryOperatorKind.split UnaryExprOrTypeTrait.split BinaryOperatorKind.split NameKind.split NestedNameSpecifier.split ReceiverKind.split CtorSubject.split sum.split Type_payload.split Type.split)

lemma keeps_visitTextComment [simp]:
  "\<forall>s\<in>set x4. keeps s \<Longrightarrow>
   keeps (visitTextComment x1 x2 x3 x4 x5)"
  by (simp add: visitTextComment_def Let_def split_beta
        split: option.split ObjCAccessControl.split TLSKind.split PropertyControl.split PropertyImplementation.split ExprValueKind.split ExprObjectKind.split IdentType.split UnaryOperatorKind.split UnaryExprOrTypeTrait.split BinaryOperatorKind.split NameKind.split NestedNameSpecifier.split ReceiverKind.split CtorSubject.split sum.split Type_payload.split Type.split)

lemma keeps_VisitType [simp]:
  "keeps (VisitType x1 x2)"
  by (simp add: VisitType_def Let_def split_beta
        split: option.split ObjCAccessControl.split TLSKind.split PropertyControl.split PropertyImplementation.split ExprValueKind.split ExprObjectKind.split IdentType.split UnaryOperatorKind.split UnaryExprOrTypeTrait.split BinaryOperatorKind.split NameKind.split NestedNameSpecifier.split ReceiverKind.split CtorSubject.split sum.split Type_payload.split Type.split)

lemma keeps_type_with_child [simp]:
  "keeps (type_with_child x1 x2 x3)"
  by (simp add: type_with_child_def Let_def split_beta
        split: option.split ObjCAccessControl.split TLSKind.split PropertyControl.split PropertyImplementation.split ExprValueKind.split ExprObjectKind.split IdentType.split UnaryOperatorKind.split UnaryExprOrTypeTrait.split BinaryOperatorKind.split NameKind.split NestedNameSpecifier.split ReceiverKind.split CtorSubject.split sum.split Type_payload.split Type.split)

lemma keeps_VisitArrayType [simp]:
  "keeps (VisitArrayType x1 x2 x3)"
  by (simp add: VisitArrayType_def Let_def split_beta
        split: option.split ObjCAccessControl.split TLSKind.split PropertyControl.split PropertyImplementation.split ExprValueKind.split ExprObjectKind.split IdentType.split UnaryOperatorKind.split UnaryExprOrTypeTrait.split BinaryOperatorKind.split NameKind.split NestedNameSpecifier.split ReceiverKind.split CtorSubject.split sum.split Type_payload.split Type.split)

lemma keeps_VisitConstantArrayType [simp]:
  "keeps (VisitConstantArrayType x1 x2 x3 x4)"
  by (simp add: VisitConstantArrayType_def Let_def split_beta
        split: option.split ObjCAccessControl.split TLSKind.split PropertyControl.split PropertyImplementation.split ExprValueKind.split ExprObjectKind.split IdentType.split UnaryOperatorKind.split UnaryExprOrTypeTrait.split BinaryOperatorKind.split NameKind.split NestedNameSpecifier.split ReceiverKind.split CtorSubject.split sum.split Type_payload.split Type.split)

lemma keeps_VisitBuiltinType [simp]:
  "keeps (VisitBuiltinType x1 x2 x3)"
  by (simp add: VisitBuiltinType_def Let_def split_beta
        split: option.split ObjCAccessControl.split TLSKind.split PropertyControl.split PropertyImplementation.split ExprValueKind.split ExprObjectKind.split IdentType.split UnaryOperatorKind.split UnaryExprOrTypeTrait.split BinaryOperatorKind.split NameKind.split NestedNameSpecifier.split ReceiverKind.split CtorSubject.split sum.split Type_payload.split Type.split)

lemma keeps_VisitFunctionType [simp]:
  "keeps (VisitFunctionType x1 x2 x3)"
  by (simp add: VisitFunctionType_def Let_def split_beta
        split: option.split ObjCAccessControl.split TLSKind.split PropertyControl.split PropertyImplementation.split ExprValueKind.split ExprObjectKind.split IdentType.split UnaryOperatorKind.split UnaryExprOrTypeTrait.split BinaryOperatorKind.split NameKind.split NestedNameSpecifier.split ReceiverKind.split CtorSubject.split sum.split Type_payload.split Type.split)

lemma keeps_VisitFunctionProtoType [simp]:
  "keeps (VisitFunctionProtoType x1 x2 x3 x4)"
  by (simp add: VisitFunctionProtoType_def Let_def split_beta
        split: option.split ObjCAccessControl.split TLSKind.split PropertyControl.split PropertyImplementation.split ExprValueKind.split ExprObjectKind.split IdentType.split UnaryOperatorKind.split UnaryExprOrTypeTrait.split BinaryOperatorKind.split NameKind.split NestedNameSpecifier.split ReceiverKind.split CtorSubject.split sum.split Type_payload.split Type.split)

lemma keeps_VisitObjCObjectType [simp]:
  "keeps (VisitObjCObjectType x1 x2 x3 x4)"
  by (simp add: VisitObjCObjectType_def Let_def split_beta
        split: option.split ObjCAccessControl.split TLSKind.split PropertyControl.split PropertyImplementation.split ExprValueKind.split ExprObjectKind.split IdentType.split UnaryOperatorKind.split UnaryExprOrTypeTrait.split BinaryOperatorKind.split NameKind.split NestedNameSpecifier.split ReceiverKind.split CtorSubject.split sum.split Type_payload.split Type.split)

lemma keeps_VisitObjCInterfaceType [simp]:
  "keeps (VisitObjCInterfaceType x1 x2 x3)"
  by (simp add: VisitObjCInterfaceType_def Let_def split_beta
        split: option.split ObjCAccessControl.split TLSKind.split PropertyControl.split PropertyImplementation.split ExprValueKind.split ExprObjectKind.split IdentType.split UnaryOperatorKind.split UnaryExprOrTypeTrait.split BinaryOperatorKind.split NameKind.split NestedNameSpecifier.split ReceiverKind.split CtorSubject.split sum.split Type_payload.split Type.split)

lemma keeps_VisitTagType [simp]:
  "keeps (VisitTagType x1 x2 x3)"
  by (simp add: VisitTagType_def Let_def split_beta
        split: option.split ObjCAccessControl.split TLSKind.split PropertyControl.split PropertyImplementation.split ExprValueKind.split ExprObjectKind.split IdentType.split UnaryOperatorKind.split UnaryExprOrTypeTrait.split BinaryOperatorKind.split NameKind.split NestedNameSpecifier.split ReceiverKind.split CtorSubject.split sum.split Type_payload.split Type.split)

lemma keeps_VisitTypedefType [simp]:
  "keeps (VisitTypedefType x1 x2 x3 x4)"
  by (simp add: VisitTypedefType_def Let_def split_beta
        split: option.split ObjCAccessControl.split TLSKind.split PropertyControl.split PropertyImplementation.split ExprValueKind.split ExprObjectKind.split IdentType.split UnaryOperatorKind.split UnaryExprOrTypeTrait.split BinaryOperatorKind.split NameKind.split NestedNameSpecifier.split ReceiverKind.split CtorSubject.split sum.split Type_payload.split Type.split)

lemma keeps_TypeVisitor_Visit [simp]:
  "keeps (TypeVisitor_Visit x1 x2 x3)"
  by (simp add: TypeVisitor_Visit_def Let_def split_beta
        split: option.split ObjCAccessControl.split TLSKind.split PropertyControl.split PropertyImplementation.split ExprValueKind.split ExprObjectKind.split IdentType.split UnaryOperatorKind.split UnaryExprOrTypeTrait.split BinaryOperatorKind.split NameKind.split NestedNameSpecifier.split ReceiverKind.split CtorSubject.split sum.split Type_payload.split Type.split)

lemma keeps_dumpType [simp]:
  "keeps (dumpType x1 x2)"
  by (simp add: dumpType_def Let_def split_beta
        split: option.split ObjCAccessControl.split TLSKind.split PropertyControl.split PropertyImplementation.split ExprValueKind.split ExprObjectKind.split IdentType.split UnaryOperatorKind.split UnaryExprOrTypeTrait.split BinaryOperatorKind.split NameKind.split NestedNameSpecifier.split ReceiverKind.split CtorSubject.split sum.split Type_payload.split Type.split)

lemma keeps_dumpPreviousDeclOptionallyWithTag [simp]:
  "keeps (dumpPreviousDeclOptionallyWithTag)"
  by (simp add: dumpPreviousDeclOptionallyWithTag_def Let_def split_beta
        split: option.split ObjCAccessControl.split TLSKind.split PropertyControl.split PropertyImplementation.split ExprValueKind.split ExprObjectKind.split IdentType.split UnaryOperatorKind.split UnaryExprOrTypeTrait.split BinaryOperatorKind.split NameKind.split NestedNameSpecifier.split ReceiverKind.split CtorSubject.split sum.split Type_payload.split Type.split)

lemma keeps_VisitDecl [simp]:
  "keeps (VisitDecl x1 x2 x3)"
  by (simp add: VisitDecl_def Let_def split_beta
        split: option.split ObjCAccessControl.split TLSKind.split PropertyControl.split PropertyImplementation.split ExprValueKind.split ExprObjectKind.split IdentType.split UnaryOperatorKind.split UnaryExprOrTypeTrait.split BinaryOperatorKind.split NameKind.split NestedNameSpecifier.split ReceiverKind.split CtorSubject.split sum.split Type_payload.split Type.split)

lemma keeps_VisitDeclContext [simp]:
  "\<forall>DC. x2 = Some DC \<longrightarrow> (\<forall>d\<in>set (fst DC). keeps (snd d)) \<Longrightarrow>
   keeps (VisitDeclContext x1 x2)"
  by (simp add: VisitDeclContext_def Let_def split_beta
        split: option.split ObjCAccessControl.split TLSKind.split PropertyControl.split PropertyImplementation.split ExprValueKind.split ExprObjectKind.split IdentType.split UnaryOperatorKind.split UnaryExprOrTypeTrait.split BinaryOperatorKind.split NameKind.split NestedNameSpecifier.split ReceiverKind.split CtorSubject.split sum.split Type_payload.split Type.split)

lemma keeps_VisitCapturedDecl [simp]:
  "\<forall>d\<in>set (fst x3). keeps (snd d) \<Longrightarrow>
   keeps (VisitCapturedDecl x1 x2 x3)"
  by (simp add: VisitCapturedDecl_def Let_def split_beta
        split: option.split ObjCAccessControl.split TLSKind.split PropertyControl.split PropertyImplementation.split ExprValueKind.split ExprObjectKind.split IdentType.split UnaryOperatorKind.split UnaryExprOrTypeTrait.split BinaryOperatorKind.split NameKind.split NestedNameSpecifier.split ReceiverKind.split CtorSubject.split sum.split Type_payload.split Type.split)

lemma keeps_VisitLinkageSpecDecl [simp]:
  "\<forall>d\<in>set (fst x3). keeps (snd d) \<Longrightarrow>
   keeps (VisitLinkageSpecDecl x1 x2 x3)"
  by (simp add: VisitLinkageSpecDecl_def Let_def split_beta
        split: option.split ObjCAccessControl.split TLSKind.split PropertyControl.split PropertyImplementation.split ExprValueKind.split ExprObjectKind.split IdentType.split UnaryOperatorKind.split UnaryExprOrTypeTrait.split BinaryOperatorKind.split NameKind.split NestedNameSpecifier.split ReceiverKind.split CtorSubject.split sum.split Type_payload.split Type.split)

lemma keeps_VisitNamedDecl [simp]:
  "keeps (VisitNamedDecl x1 x2 x3)"
  by (simp add: VisitNamedDecl_def Let_def split_beta
        split: option.split ObjCAccessControl.split TLSKind.split PropertyControl.split PropertyImplementation.split ExprValueKind.split ExprObjectKind.split IdentType.split UnaryOperatorKind.split UnaryExprOrTypeTrait.split BinaryOperatorKind.split NameKind.split NestedNameSpecifier.split ReceiverKind.split CtorSubject.split sum.split Type_payload.split Type.split)

lemma keeps_VisitNamespaceDecl [simp]:
  "\<forall>d\<in>set (fst x4). keeps (snd d) \<Longrightarrow>
   keeps (VisitNamespaceDecl x1 x2 x3 x4 x5)"
  by (simp add: VisitNamespaceDecl_def Let_def split_beta
        split: option.split ObjCAccessControl.split TLSKind.split PropertyControl.split PropertyImplementation.split ExprValueKind.split ExprObjectKind.split IdentType.split UnaryOperatorKind.split UnaryExprOrTypeTrait.split BinaryOperatorKind.split NameKind.split NestedNameSpecifier.split ReceiverKind.split CtorSubject.split sum.split Type_payload.split Type.split)

lemma keeps_VisitObjCContainerDecl [simp]:
  "\<forall>d\<in>set (fst x4). keeps (snd d) \<Longrightarrow>
   keeps (VisitObjCContainerDecl x1 x2 x3 x4)"
  by (simp add: VisitObjCContainerDecl_def Let_def split_beta
        split: option.split ObjCAccessControl.split TLSKind.split PropertyControl.split PropertyImplementation.split ExprValueKind.split ExprObjectKind.split IdentType.split UnaryOperatorKind.split UnaryExprOrTypeTrait.split BinaryOperatorKind.split NameKind.split NestedNameSpecifier.split ReceiverKind.split CtorSubject.split sum.split Type_payload.split Type.split)

lemma keeps_VisitTypeDecl [simp]:
  "keeps (VisitTypeDecl x1 x2 x3 x4)"
  by (simp add: VisitTypeDecl_def Let_def split_beta
        split: option.split ObjCAccessControl.split TLSKind.split PropertyControl.split PropertyImplementation.split ExprValueKind.split ExprObjectKind.split IdentType.split UnaryOperatorKind.split UnaryExprOrTypeTrait.split BinaryOperatorKind.split NameKind.split NestedNameSpecifier.split ReceiverKind.split CtorSubject.split sum.split Type_payload.split Type.split)

lemma keeps_VisitTagDecl [simp]:
  "\<forall>d\<in>set (fst x5). keeps (snd d) \<Longrightarrow>
   keeps (VisitTagDecl x1 x2 x3 x4 x5)"
  by (simp add: VisitTagDecl_def Let_def split_beta
        split: option.split ObjCAccessControl.split TLSKind.split PropertyControl.split PropertyImplementation.split ExprValueKind.split ExprObjectKind.split IdentType.split UnaryOperatorKind.split UnaryExprOrTypeTrait.split BinaryOperatorKind.split NameKind.split NestedNameSpecifier.split ReceiverKind.split CtorSubject.split sum.split Type_payload.split Type.split)

lemma keeps_VisitValueDecl [simp]:
  "keeps (VisitValueDecl x1 x2 x3 x4)"
  by (simp add: VisitValueDecl_def Let_def split_beta
        split: option.split ObjCAccessControl.split TLSKind.split PropertyControl.split PropertyImplementation.split ExprValueKind.split ExprObjectKind.split IdentType.split UnaryOperatorKind.split UnaryExprOrTypeTrait.split BinaryOperatorKind.split NameKind.split NestedNameSpecifier.split ReceiverKind.split CtorSubject.split sum.split Type_payload.split Type.split)

lemma keeps_VisitTranslationUnitDecl [simp]:
  "\<forall>d\<in>set (fst x3). keeps (snd d) \<Longrightarrow>
   keeps (VisitTranslationUnitDecl x1 x2 x3)"
  by (simp add: VisitTranslationUnitDecl_def Let_def split_beta
        split: option.split ObjCAccessControl.split TLSKind.split PropertyControl.split PropertyImplementation.split ExprValueKind.split ExprObjectKind.split IdentType.split UnaryOperatorKind.split UnaryExprOrTypeTrait.split BinaryOperatorKind.split NameKind.split NestedNameSpecifier.split ReceiverKind.split CtorSubject.split sum.split Type_payload.split Type.split)

lemma keeps_VisitTypedefNameDecl [simp]:
  "keeps (VisitTypedefNameDecl x1 x2 x3 x4)"
  by (simp add: VisitTypedefNameDecl_def Let_def split_beta
        split: option.split ObjCAccessControl.split TLSKind.split PropertyControl.split PropertyImplementation.split ExprValueKind.split ExprObjectKind.split IdentType.split UnaryOperatorKind.split UnaryExprOrTypeTrait.split BinaryOperatorKind.split NameKind.split NestedNameSpecifier.split ReceiverKind.split CtorSubject.split sum.split Type_payload.split Type.split)

lemma keeps_VisitDeclaratorDecl [simp]:
  "keeps (VisitDeclaratorDecl x1 x2 x3 x4)"
  by (simp add: VisitDeclaratorDecl_def Let_def split_beta
        split: option.split ObjCAccessControl.split TLSKind.split PropertyControl.split PropertyImplementation.split ExprValueKind.split ExprObjectKind.split IdentType.split UnaryOperatorKind.split UnaryExprOrTypeTrait.split BinaryOperatorKind.split NameKind.split NestedNameSpecifier.split ReceiverKind.split CtorSubject.split sum.split Type_payload.split Type.split)

lemma keeps_VisitObjCImplDecl [simp]:
  "\<forall>d\<in>set (fst x4). keeps (snd d) \<Longrightarrow>
   keeps (VisitObjCImplDecl x1 x2 x3 x4)"
  by (simp add: VisitObjCImplDecl_def Let_def split_beta
        split: option.split ObjCAccessControl.split TLSKind.split PropertyControl.split PropertyImplementation.split ExprValueKind.split ExprObjectKind.split IdentType.split UnaryOperatorKind.split UnaryExprOrTypeTrait.split BinaryOperatorKind.split NameKind.split NestedNameSpecifier.split ReceiverKind.split CtorSubject.split sum.split Type_payload.split Type.split)

lemma keeps_VisitTypedefDecl [simp]:
  "keeps (VisitTypedefDecl x1 x2 x3 x4 x5)"
  by (simp add: VisitTypedefDecl_def Let_def split_beta
        split: option.split ObjCAccessControl.split TLSKind.split PropertyControl.split PropertyImplementation.split ExprValueKind.split ExprObjectKind.split IdentType.split UnaryOperatorKind.split UnaryExprOrTypeTrait.split BinaryOperatorKind.split NameKind.split NestedNameSpecifier.split ReceiverKind.split CtorSubject.split sum.split Type_payload.split Type.split)

lemma keeps_VisitEnumDecl [simp]:
  "\<forall>d\<in>set (fst x5). keeps (snd d) \<Longrightarrow>
   keeps (VisitEnumDecl x1 x2 x3 x4 x5 x6)"
  by (simp add: VisitEnumDecl_def Let_def split_beta
        split: option.split ObjCAccessControl.split TLSKind.split PropertyControl.split PropertyImplementation.split ExprValueKind.split ExprObjectKind.split IdentType.split UnaryOperatorKind.split UnaryExprOrTypeTrait.split BinaryOperatorKind.split NameKind.split NestedNameSpecifier.split ReceiverKind.split CtorSubject.split sum.split Type_payload.split Type.split)

lemma keeps_VisitRecordDecl [simp]:
  "\<forall>d\<in>set (fst x5). keeps (snd d) \<Longrightarrow>
   keeps (VisitRecordDecl x1 x2 x3 x4 x5 x6)"
  by (simp add: VisitRecordDecl_def Let_def split_beta
        split: option.split ObjCAccessControl.split TLSKind.split PropertyControl.split PropertyImplementation.split ExprValueKind.split ExprObjectKind.split IdentType.split UnaryOperatorKind.split UnaryExprOrTypeTrait.split BinaryOperatorKind.split NameKind.split NestedNameSpecifier.split ReceiverKind.split CtorSubject.split sum.split Type_payload.split Type.split)

lemma keeps_VisitCXXRecordDecl [simp]:
  "\<forall>d\<in>set (fst x5). keeps (snd d) \<Longrightarrow>
   keeps (VisitCXXRecordDecl x1 x2 x3 x4 x5 x6 x7)"
  by (simp add: VisitCXXRecordDecl_def Let_def split_beta
        split: option.split ObjCAccessControl.split TLSKind.split PropertyControl.split PropertyImplementation.split ExprValueKind.split ExprObjectKind.split IdentType.split UnaryOperatorKind.split UnaryExprOrTypeTrait.split BinaryOperatorKind.split NameKind.split NestedNameSpecifier.split ReceiverKind.split CtorSubject.split sum.split Type_payload.split Type.split)

lemma keeps_VisitEnumConstantDecl [simp]:
  "\<forall>s. x5 = Some s \<longrightarrow> keeps s \<Longrightarrow>
   keeps (VisitEnumConstantDecl x1 x2 x3 x4 x5)"
  by (simp add: VisitEnumConstantDecl_def Let_def split_beta
        split: option.split ObjCAccessControl.split TLSKind.split PropertyControl.split PropertyImplementation.split ExprValueKind.split ExprObjectKind.split IdentType.split UnaryOperatorKind.split UnaryExprOrTypeTrait.split BinaryOperatorKind.split NameKind.split NestedNameSpecifier.split ReceiverKind.split CtorSubject.split sum.split Type_payload.split Type.split)

lemma keeps_VisitIndirectFieldDecl [simp]:
  "keeps (VisitIndirectFieldDecl x1 x2 x3 x4 x5)"
  by (simp add: VisitIndirectFieldDecl_def Let_def split_beta
        split: option.split ObjCAccessControl.split TLSKind.split PropertyControl.split PropertyImplementation.split ExprValueKind.split ExprObjectKind.split IdentType.split UnaryOperatorKind.split UnaryExprOrTypeTrait.split BinaryOperatorKind.split NameKind.split NestedNameSpecifier.split ReceiverKind.split CtorSubject.split sum.split Type_payload.split Type.split)

lemma keeps_dumpCXXCtorInitializer [simp]:
  "\<forall>s\<in>set_CXXCtorInitializer x2. keeps s \<Longrightarrow>
   keeps (dumpCXXCtorInitializer x1 x2)"
  by (cases x2) (simp add: dumpCXXCtorInitializer_def Let_def split_beta
        split: option.split ObjCAccessControl.split TLSKind.split PropertyControl.split PropertyImplementation.split ExprValueKind.split ExprObjectKind.split IdentType.split UnaryOperatorKind.split UnaryExprOrTypeTrait.split BinaryOperatorKind.split NameKind.split NestedNameSpecifier.split ReceiverKind.split CtorSubject.split sum.split Type_payload.split Type.split)

lemma keeps_VisitFunctionDecl [simp]:
  "\<forall>d\<in>set x6. keeps (snd d) \<Longrightarrow>
   \<forall>d\<in>set x7. keeps (snd d) \<Longrightarrow>
   \<forall>i\<in>set x8. \<forall>s\<in>set_CXXCtorInitializer i. keeps s \<Longrightarrow>
   \<forall>s. x9 = Some s \<longrightarrow> keeps s \<Longrightarrow>
   keeps (VisitFunctionDecl x1 x2 x3 x4 x5 x6 x7 x8 x9)"
  by (simp add: VisitFunctionDecl_def Let_def split_beta
        split: option.split ObjCAccessControl.split TLSKind.split PropertyControl.split PropertyImplementation.split ExprValueKind.split ExprObjectKind.split IdentType.split UnaryOperatorKind.split UnaryExprOrTypeTrait.split BinaryOperatorKind.split NameKind.split NestedNameSpecifier.split ReceiverKind.split CtorSubject.split sum.split Type_payload.split Type.split)

lemma keeps_VisitFieldDecl [simp]:
  "\<forall>s. x6 = Some s \<longrightarrow> keeps s \<Longrightarrow>
   \<forall>s. x7 = Some s \<longrightarrow> keeps s \<Longrightarrow>
   keeps (VisitFieldDecl x1 x2 x3 x4 x5 x6 x7)"
  by (simp add: VisitFieldDecl_def Let_def split_beta
        split: option.split ObjCAccessControl.split TLSKind.split PropertyControl.split PropertyImplementation.split ExprValueKind.split ExprObjectKind.split IdentType.split UnaryOperatorKind.split UnaryExprOrTypeTrait.split BinaryOperatorKind.split NameKind.split NestedNameSpecifier.split ReceiverKind.split CtorSubject.split sum.split Type_payload.split Type.split)

lemma keeps_VisitObjCIvarDecl [simp]:
  "\<forall>s. x6 = Some s \<longrightarrow> keeps s \<Longrightarrow>
   \<forall>s. x7 = Some s \<longrightarrow> keeps s \<Longrightarrow>
   keeps (VisitObjCIvarDecl x1 x2 x3 x4 x5 x6 x7 x8)"
  by (simp add: VisitObjCIvarDecl_def Let_def split_beta
        split: option.split ObjCAccessControl.split TLSKind.split PropertyControl.split PropertyImplementation.split ExprValueKind.split ExprObjectKind.split IdentType.split UnaryOperatorKind.split UnaryExprOrTypeTrait.split BinaryOperatorKind.split NameKind.split NestedNameSpecifier.split ReceiverKind.split CtorSubject.split sum.split Type_payload.split Type.split)

lemma keeps_VisitVarDecl [simp]:
  "\<forall>s. x6 = Some s \<longrightarrow> keeps s \<Longrightarrow>
   keeps (VisitVarDecl x1 x2 x3 x4 x5 x6)"
  by (simp add: VisitVarDecl_def Let_def split_beta
        split: option.split ObjCAccessControl.split TLSKind.split PropertyControl.split PropertyImplementation.split ExprValueKind.split ExprObjectKind.split IdentType.split UnaryOperatorKind.split UnaryExprOrTypeTrait.split BinaryOperatorKind.split NameKind.split NestedNameSpecifier.split ReceiverKind.split CtorSubject.split sum.split Type_payload.split Type.split)

lemma keeps_VisitFileScopeAsmDecl [simp]:
  "keeps (VisitFileScopeAsmDecl x1 x2 x3)"
  by (simp add: VisitFileScopeAsmDecl_def Let_def split_beta
        split: option.split ObjCAccessControl.split TLSKind.split PropertyControl.split PropertyImplementation.split ExprValueKind.split ExprObjectKind.split IdentType.split UnaryOperatorKind.split UnaryExprOrTypeTrait.split BinaryOperatorKind.split NameKind.split NestedNameSpecifier.split ReceiverKind.split CtorSubject.split sum.split Type_payload.split Type.split)

lemma keeps_VisitImportDecl [simp]:
  "keeps (VisitImportDecl x1 x2 x3)"
  by (simp add: VisitImportDecl_def Let_def split_beta
        split: option.split ObjCAccessControl.split TLSKind.split PropertyControl.split PropertyImplementation.split ExprValueKind.split ExprObjectKind.split IdentType.split UnaryOperatorKind.split UnaryExprOrTypeTrait.split BinaryOperatorKind.split NameKind.split NestedNameSpecifier.split ReceiverKind.split CtorSubject.split sum.split Type_payload.split Type.split)

lemma keeps_dumpNestedNameSpecifierLoc [simp]:
  "keeps (dumpNestedNameSpecifierLoc x1 x2)"
  by (simp add: dumpNestedNameSpecifierLoc_def Let_def split_beta
        split: option.split ObjCAccessControl.split TLSKind.split PropertyControl.split PropertyImplementation.split ExprValueKind.split ExprObjectKind.split IdentType.split UnaryOperatorKind.split UnaryExprOrTypeTrait.split BinaryOperatorKind.split NameKind.split NestedNameSpecifier.split ReceiverKind.split CtorSubject.split sum.split Type_payload.split Type.split)

lemma keeps_VisitUsingDirectiveDecl [simp]:
  "keeps (VisitUsingDirectiveDecl x1 x2 x3 x4)"
  by (simp add: VisitUsingDirectiveDecl_def Let_def split_beta
        split: option.split ObjCAccessControl.split TLSKind.split PropertyControl.split PropertyImplementation.split ExprValueKind.split ExprObjectKind.split IdentType.split UnaryOperatorKind.split UnaryExprOrTypeTrait.split BinaryOperatorKind.split NameKind.split NestedNameSpecifier.split ReceiverKind.split CtorSubject.split sum.split Type_payload.split Type.split)

lemma keeps_VisitNamespaceAliasDecl [simp]:
  "keeps (VisitNamespaceAliasDecl x1 x2 x3 x4)"
  by (simp add: VisitNamespaceAliasDecl_def Let_def split_beta
        split: option.split ObjCAccessControl.split TLSKind.split PropertyControl.split PropertyImplementation.split ExprValueKind.split ExprObjectKind.split IdentType.split UnaryOperatorKind.split UnaryExprOrTypeTrait.split BinaryOperatorKind.split NameKind.split NestedNameSpecifier.split ReceiverKind.split CtorSubject.split sum.split Type_payload.split Type.split)

lemma keeps_VisitObjCMethodDecl [simp]:
  "\<forall>d\<in>set x5. keeps (snd d) \<Longrightarrow>
   \<forall>s. x6 = Some s \<longrightarrow> keeps s \<Longrightarrow>
   keeps (VisitObjCMethodDecl x1 x2 x3 x4 x5 x6)"
  by (simp add: VisitObjCMethodDecl_def Let_def split_beta
        split: option.split ObjCAccessControl.split TLSKind.split PropertyControl.split PropertyImplementation.split ExprValueKind.split ExprObjectKind.split IdentType.split UnaryOperatorKind.split UnaryExprOrTypeTrait.split BinaryOperatorKind.split NameKind.split NestedNameSpecifier.split ReceiverKind.split CtorSubject.split sum.split Type_payload.split Type.split)

lemma keeps_dumpProtocols [simp]:
  "keeps (dumpProtocols x1 x2)"
  by (simp add: dumpProtocols_def Let_def split_beta
        split: option.split ObjCAccessControl.split TLSKind.split PropertyControl.split PropertyImplementation.split ExprValueKind.split ExprObjectKind.split IdentType.split UnaryOperatorKind.split UnaryExprOrTypeTrait.split BinaryOperatorKind.split NameKind.split NestedNameSpecifier.split ReceiverKind.split CtorSubject.split sum.split Type_payload.split Type.split)

lemma keeps_VisitObjCCategoryDecl [simp]:
  "\<forall>d\<in>set (fst x4). keeps (snd d) \<Longrightarrow>
   keeps (VisitObjCCategoryDecl x1 x2 x3 x4 x5)"
  by (simp add: VisitObjCCategoryDecl_def Let_def split_beta
        split: option.split ObjCAccessControl.split TLSKind.split PropertyControl.split PropertyImplementation.split ExprValueKind.split ExprObjectKind.split IdentType.split UnaryOperatorKind.split UnaryExprOrTypeTrait.split BinaryOperatorKind.split NameKind.split NestedNameSpecifier.split ReceiverKind.split CtorSubject.split sum.split Type_payload.split Type.split)

lemma keeps_VisitObjCCategoryImplDecl [simp]:
  "\<forall>d\<in>set (fst x4). keeps (snd d) \<Longrightarrow>
   keeps (VisitObjCCategoryImplDecl x1 x2 x3 x4 x5)"
  by (simp add: VisitObjCCategoryImplDecl_def Let_def split_beta
        split: option.split ObjCAccessControl.split TLSKind.split PropertyControl.split PropertyImplementation.split ExprValueKind.split ExprObjectKind.split IdentType.split UnaryOperatorKind.split UnaryExprOrTypeTrait.split BinaryOperatorKind.split NameKind.split NestedNameSpecifier.split ReceiverKind.split CtorSubject.split sum.split Type_payload.split Type.split)

lemma keeps_VisitObjCProtocolDecl [simp]:
  "\<forall>d\<in>set (fst x4). keeps (snd d) \<Longrightarrow>
   keeps (VisitObjCProtocolDecl x1 x2 x3 x4 x5)"
  by (simp add: VisitObjCProtocolDecl_def Let_def split_beta
        split: option.split ObjCAccessControl.split TLSKind.split PropertyControl.split PropertyImplementation.split ExprValueKind.split ExprObjectKind.split IdentType.split UnaryOperatorKind.split UnaryExprOrTypeTrait.split BinaryOperatorKind.split NameKind.split NestedNameSpecifier.split ReceiverKind.split CtorSubject.split sum.split Type_payload.split Type.split)

lemma keeps_VisitObjCInterfaceDecl [simp]:
  "\<forall>d\<in>set (fst x4). keeps (snd d) \<Longrightarrow>
   keeps (VisitObjCInterfaceDecl x1 x2 x3 x4 x5)"
  by (simp add: VisitObjCInterfaceDecl_def Let_def split_beta
        split: option.split ObjCAccessControl.split TLSKind.split PropertyControl.split PropertyImplementation.split ExprValueKind.split ExprObjectKind.split IdentType.split UnaryOperatorKind.split UnaryExprOrTypeTrait.split BinaryOperatorKind.split NameKind.split NestedNameSpecifier.split ReceiverKind.split CtorSubject.split sum.split Type_payload.split Type.split)

lemma keeps_VisitObjCImplementationDecl [simp]:
  "\<forall>d\<in>set (fst x4). keeps (snd d) \<Longrightarrow>
   \<forall>i\<in>set x6. \<forall>s\<in>set_CXXCtorInitializer i. keeps s \<Longrightarrow>
   keeps (VisitObjCImplementationDecl x1 x2 x3 x4 x5 x6)"
  by (simp add: VisitObjCImplementationDecl_def Let_def split_beta
        split: option.split ObjCAccessControl.split TLSKind.split PropertyControl.split PropertyImplementation.split ExprValueKind.split ExprObjectKind.split IdentType.split UnaryOperatorKind.split UnaryExprOrTypeTrait.split BinaryOperatorKind.split NameKind.split NestedNameSpecifier.split ReceiverKind.split CtorSubject.split sum.split Type_payload.split Type.split)

lemma keeps_VisitObjCCompatibleAliasDecl [simp]:
  "keeps (VisitObjCCompatibleAliasDecl x1 x2 x3 x4)"
  by (simp add: VisitObjCCompatibleAliasDecl_def Let_def split_beta
        split: option.split ObjCAccessControl.split TLSKind.split PropertyControl.split PropertyImplementation.split ExprValueKind.split ExprObjectKind.split IdentType.split UnaryOperatorKind.split UnaryExprOrTypeTrait.split BinaryOperatorKind.split NameKind.split NestedNameSpecifier.split ReceiverKind.split CtorSubject.split sum.split Type_payload.split Type.split)

lemma keeps_VisitObjCPropertyDecl [simp]:
  "keeps (VisitObjCPropertyDecl x1 x2 x3 x4)"
  by (simp add: VisitObjCPropertyDecl_def Let_def split_beta
        split: option.split ObjCAccessControl.split TLSKind.split PropertyControl.split PropertyImplementation.split ExprValueKind.split ExprObjectKind.split IdentType.split UnaryOperatorKind.split UnaryExprOrTypeTrait.split BinaryOperatorKind.split NameKind.split NestedNameSpecifier.split ReceiverKind.split CtorSubject.split sum.split Type_payload.split Type.split)

lemma keeps_VisitObjCPropertyImplDecl [simp]:
  "keeps (VisitObjCPropertyImplDecl x1 x2 x3)"
  by (simp add: VisitObjCPropertyImplDecl_def Let_def split_beta
        split: option.split ObjCAccessControl.split TLSKind.split PropertyControl.split PropertyImplementation.split ExprValueKind.split ExprObjectKind.split IdentType.split UnaryOperatorKind.split UnaryExprOrTypeTrait.split BinaryOperatorKind.split NameKind.split NestedNameSpecifier.split ReceiverKind.split CtorSubject.split sum.split Type_payload.split Type.split)

lemma keeps_dumpCapture [simp]:
  "\<forall>s\<in>set_Capture x2. keeps s \<Longrightarrow>
   keeps (dumpCapture x1 x2)"
  by (cases x2) (simp add: dumpCapture_def Let_def split_beta
        split: option.split ObjCAccessControl.split TLSKind.split PropertyControl.split PropertyImplementation.split ExprValueKind.split ExprObjectKind.split IdentType.split UnaryOperatorKind.split UnaryExprOrTypeTrait.split BinaryOperatorKind.split NameKind.split NestedNameSpecifier.split ReceiverKind.split CtorSubject.split sum.split Type_payload.split Type.split)

lemma keeps_VisitBlockDecl [simp]:
  "\<forall>d\<in>set (fst x3). keeps (snd d) \<Longrightarrow>
   \<forall>d\<in>set x5. keeps (snd d) \<Longrightarrow>
   \<forall>c\<in>set x6. \<forall>s\<in>set_Capture c. keeps s \<Longrightarrow>
   \<forall>s. x7 = Some s \<longrightarrow> keeps s \<Longrightarrow>
   keeps (VisitBlockDecl x1 x2 x3 x4 x5 x6 x7)"
  by (simp add: VisitBlockDecl_def Let_def split_beta
        split: option.split ObjCAccessControl.split TLSKind.split PropertyControl.split PropertyImplementation.split ExprValueKind.split ExprObjectKind.split IdentType.split UnaryOperatorKind.split UnaryExprOrTypeTrait.split BinaryOperatorKind.split NameKind.split NestedNameSpecifier.split ReceiverKind.split CtorSubject.split sum.split Type_payload.split Type.split)

lemma keeps_VisitStmt [simp]:
  "\<forall>s\<in>set x3. keeps s \<Longrightarrow>
   keeps (VisitStmt x1 x2 x3)"
  by (simp add: VisitStmt_def Let_def split_beta
        split: option.split ObjCAccessControl.split TLSKind.split PropertyControl.split PropertyImplementation.split ExprValueKind.split ExprObjectKind.split IdentType.split UnaryOperatorKind.split UnaryExprOrTypeTrait.split BinaryOperatorKind.split NameKind.split NestedNameSpecifier.split ReceiverKind.split CtorSubject.split sum.split Type_payload.split Type.split)

lemma keeps_VisitDeclStmt [simp]:
  "\<forall>s\<in>set x3. keeps s \<Longrightarrow>
   \<forall>d\<in>set x4. keeps (snd d) \<Longrightarrow>
   keeps (VisitDeclStmt x1 x2 x3 x4)"
  by (simp add: VisitDeclStmt_def Let_def split_beta
        split: option.split ObjCAccessControl.split TLSKind.split PropertyControl.split PropertyImplementation.split ExprValueKind.split ExprObjectKind.split IdentType.split UnaryOperatorKind.split UnaryExprOrTypeTrait.split BinaryOperatorKind.split NameKind.split NestedNameSpecifier.split ReceiverKind.split CtorSubject.split sum.split Type_payload.split Type.split)

lemma keeps_VisitAttributedStmt [simp]:
  "\<forall>s\<in>set x3. keeps s \<Longrightarrow>
   keeps (VisitAttributedStmt x1 x2 x3 x4)"
  by (simp add: VisitAttributedStmt_def Let_def split_beta
        split: option.split ObjCAccessControl.split TLSKind.split PropertyControl.split PropertyImplementation.split ExprValueKind.split ExprObjectKind.split IdentType.split UnaryOperatorKind.split UnaryExprOrTypeTrait.split BinaryOperatorKind.split NameKind.split NestedNameSpecifier.split ReceiverKind.split CtorSubject.split sum.split Type_payload.split Type.split)

lemma keeps_VisitLabelStmt [simp]:
  "\<forall>s\<in>set x3. keeps s \<Longrightarrow>
   keeps (VisitLabelStmt x1 x2 x3 x4)"
  by (simp add: VisitLabelStmt_def Let_def split_beta
        split: option.split ObjCAccessControl.split TLSKind.split PropertyControl.split PropertyImplementation.split ExprValueKind.split ExprObjectKind.split IdentType.split UnaryOperatorKind.split UnaryExprOrTypeTrait.split BinaryOperatorKind.split NameKind.split NestedNameSpecifier.split ReceiverKind.split CtorSubject.split sum.split Type_payload.split Type.split)

lemma keeps_VisitGotoStmt [simp]:
  "\<forall>s\<in>set x3. keeps s \<Longrightarrow>
   keeps (VisitGotoStmt x1 x2 x3 x4 x5)"
  by (simp add: VisitGotoStmt_def Let_def split_beta
        split: option.split ObjCAccessControl.split TLSKind.split PropertyControl.split PropertyImplementation.split ExprValueKind.split ExprObjectKind.split IdentType.split UnaryOperatorKind.split UnaryExprOrTypeTrait.split BinaryOperatorKind.split NameKind.split NestedNameSpecifier.split ReceiverKind.split CtorSubject.split sum.split Type_payload.split Type.split)

lemma keeps_VisitCXXCatchStmt [simp]:
  "\<forall>s\<in>set x3. keeps s \<Longrightarrow>
   \<forall>d. x4 = Some d \<longrightarrow> keeps (snd d) \<Longrightarrow>
   keeps (VisitCXXCatchStmt x1 x2 x3 x4)"
  by (cases x4) (simp_all add: opt_field_def add: VisitCXXCatchStmt_def Let_def split_beta
        split: option.split ObjCAccessControl.split TLSKind.split PropertyControl.split PropertyImplementation.split ExprValueKind.split ExprObjectKind.split IdentType.split UnaryOperatorKind.split UnaryExprOrTypeTrait.split BinaryOperatorKind.split NameKind.split NestedNameSpecifier.split ReceiverKind.split CtorSubject.split sum.split Type_payload.split Type.split)

lemma keeps_VisitObjCAtCatchStmt [simp]:
  "\<forall>s\<in>set x3. keeps s \<Longrightarrow>
   \<forall>d. x4 = Some d \<longrightarrow> keeps (snd d) \<Longrightarrow>
   keeps (VisitObjCAtCatchStmt x1 x2 x3 x4)"
  by (simp add: VisitObjCAtCatchStmt_def Let_def split_beta
        split: option.split ObjCAccessControl.split TLSKind.split PropertyControl.split PropertyImplementation.split ExprValueKind.split ExprObjectKind.split IdentType.split UnaryOperatorKind.split UnaryExprOrTypeTrait.split BinaryOperatorKind.split NameKind.split NestedNameSpecifier.split ReceiverKind.split CtorSubject.split sum.split Type_payload.split Type.split)

lemma keeps_VisitExpr [simp]:
  "\<forall>s\<in>set x3. keeps s \<Longrightarrow>
   keeps (VisitExpr x1 x2 x3 x4)"
  by (simp add: VisitExpr_def Let_def split_beta
        split: option.split ObjCAccessControl.split TLSKind.split PropertyControl.split PropertyImplementation.split ExprValueKind.split ExprObjectKind.split IdentType.split UnaryOperatorKind.split UnaryExprOrTypeTrait.split BinaryOperatorKind.split NameKind.split NestedNameSpecifier.split ReceiverKind.split CtorSubject.split sum.split Type_payload.split Type.split)

lemma keeps_dumpCXXBaseSpecifier [simp]:
  "keeps (dumpCXXBaseSpecifier x1)"
  by (simp add: dumpCXXBaseSpecifier_def Let_def split_beta
        split: option.split ObjCAccessControl.split TLSKind.split PropertyControl.split PropertyImplementation.split ExprValueKind.split ExprObjectKind.split IdentType.split UnaryOperatorKind.split UnaryExprOrTypeTrait.split BinaryOperatorKind.split NameKind.split NestedNameSpecifier.split ReceiverKind.split CtorSubject.split sum.split Type_payload.split Type.split)

lemma keeps_VisitCastExpr [simp]:
  "\<forall>s\<in>set x3. keeps s \<Longrightarrow>
   keeps (VisitCastExpr x1 x2 x3 x4 x5)"
  by (simp add: VisitCastExpr_def Let_def split_beta
        split: option.split ObjCAccessControl.split TLSKind.split PropertyControl.split PropertyImplementation.split ExprValueKind.split ExprObjectKind.split IdentType.split UnaryOperatorKind.split UnaryExprOrTypeTrait.split BinaryOperatorKind.split NameKind.split NestedNameSpecifier.split ReceiverKind.split CtorSubject.split sum.split Type_payload.split Type.split)

lemma keeps_VisitExplicitCastExpr [simp]:
  "\<forall>s\<in>set x3. keeps s \<Longrightarrow>
   keeps (VisitExplicitCastExpr x1 x2 x3 x4 x5 x6)"
  by (simp add: VisitExplicitCastExpr_def Let_def split_beta
        split: option.split ObjCAccessControl.split TLSKind.split PropertyControl.split PropertyImplementation.split ExprValueKind.split ExprObjectKind.split IdentType.split UnaryOperatorKind.split UnaryExprOrTypeTrait.split BinaryOperatorKind.split NameKind.split NestedNameSpecifier.split ReceiverKind.split CtorSubject.split sum.split Type_payload.split Type.split)

lemma keeps_VisitCXXNamedCastExpr [simp]:
  "\<forall>s\<in>set x3. keeps s \<Longrightarrow>
   keeps (VisitCXXNamedCastExpr x1 x2 x3 x4 x5 x6 x7)"
  by (simp add: VisitCXXNamedCastExpr_def Let_def split_beta
        split: option.split ObjCAccessControl.split TLSKind.split PropertyControl.split PropertyImplementation.split ExprValueKind.split ExprObjectKind.split IdentType.split UnaryOperatorKind.split UnaryExprOrTypeTrait.split BinaryOperatorKind.split NameKind.split NestedNameSpecifier.split ReceiverKind.split CtorSubject.split sum.split Type_payload.split Type.split)

lemma keeps_VisitDeclRefExpr [simp]:
  "\<forall>s\<in>set x3. keeps s \<Longrightarrow>
   keeps (VisitDeclRefExpr x1 x2 x3 x4 x5)"
  by (simp add: VisitDeclRefExpr_def Let_def split_beta
        split: option.split ObjCAccessControl.split TLSKind.split PropertyControl.split PropertyImplementation.split ExprValueKind.split ExprObjectKind.split IdentType.split UnaryOperatorKind.split UnaryExprOrTypeTrait.split BinaryOperatorKind.split NameKind.split NestedNameSpecifier.split ReceiverKind.split CtorSubject.split sum.split Type_payload.split Type.split)

lemma keeps_dumpDeclarationName [simp]:
  "keeps (dumpDeclarationName x1 x2)"
  by (simp add: dumpDeclarationName_def Let_def split_beta
        split: option.split ObjCAccessControl.split TLSKind.split PropertyControl.split PropertyImplementation.split ExprValueKind.split ExprObjectKind.split IdentType.split UnaryOperatorKind.split UnaryExprOrTypeTrait.split BinaryOperatorKind.split NameKind.split NestedNameSpecifier.split ReceiverKind.split CtorSubject.split sum.split Type_payload.split Type.split)

lemma keeps_VisitOverloadExpr [simp]:
  "\<forall>s\<in>set x3. keeps s \<Longrightarrow>
   keeps (VisitOverloadExpr x1 x2 x3 x4 x5)"
  by (simp add: VisitOverloadExpr_def Let_def split_beta
        split: option.split ObjCAccessControl.split TLSKind.split PropertyControl.split PropertyImplementation.split ExprValueKind.split ExprObjectKind.split IdentType.split UnaryOperatorKind.split UnaryExprOrTypeTrait.split BinaryOperatorKind.split NameKind.split NestedNameSpecifier.split ReceiverKind.split CtorSubject.split sum.split Type_payload.split Type.split)

lemma keeps_VisitUnresolvedLookupExpr [simp]:
  "\<forall>s\<in>set x3. keeps s \<Longrightarrow>
   keeps (VisitUnresolvedLookupExpr x1 x2 x3 x4 x5 x6)"
  by (simp add: VisitUnresolvedLookupExpr_def Let_def split_beta
        split: option.split ObjCAccessControl.split TLSKind.split PropertyControl.split PropertyImplementation.split ExprValueKind.split ExprObjectKind.split IdentType.split UnaryOperatorKind.split UnaryExprOrTypeTrait.split BinaryOperatorKind.split NameKind.split NestedNameSpecifier.split ReceiverKind.split CtorSubject.split sum.split Type_payload.split Type.split)

lemma keeps_VisitObjCIvarRefExpr [simp]:
  "\<forall>s\<in>set x3. keeps s \<Longrightarrow>
   keeps (VisitObjCIvarRefExpr x1 x2 x3 x4 x5 x6)"
  by (simp add: VisitObjCIvarRefExpr_def Let_def split_beta
        split: option.split ObjCAccessControl.split TLSKind.split PropertyControl.split PropertyImplementation.split ExprValueKind.split ExprObjectKind.split IdentType.split UnaryOperatorKind.split UnaryExprOrTypeTrait.split BinaryOperatorKind.split NameKind.split NestedNameSpecifier.split ReceiverKind.split CtorSubject.split sum.split Type_payload.split Type.split)

lemma keeps_VisitPredefinedExpr [simp]:
  "\<forall>s\<in>set x3. keeps s \<Longrightarrow>
   keeps (VisitPredefinedExpr x1 x2 x3 x4 x5)"
  by (simp add: VisitPredefinedExpr_def Let_def split_beta
        split: option.split ObjCAccessControl.split TLSKind.split PropertyControl.split PropertyImplementation.split ExprValueKind.split ExprObjectKind.split IdentType.split UnaryOperatorKind.split UnaryExprOrTypeTrait.split BinaryOperatorKind.split NameKind.split NestedNameSpecifier.split ReceiverKind.split CtorSubject.split sum.split Type_payload.split Type.split)

lemma keeps_VisitCharacterLiteral [simp]:
  "\<forall>s\<in>set x3. keeps s \<Longrightarrow>
   keeps (VisitCharacterLiteral x1 x2 x3 x4 x5)"
  by (simp add: VisitCharacterLiteral_def Let_def split_beta
        split: option.split ObjCAccessControl.split TLSKind.split PropertyControl.split PropertyImplementation.split ExprValueKind.split ExprObjectKind.split IdentType.split UnaryOperatorKind.split UnaryExprOrTypeTrait.split BinaryOperatorKind.split NameKind.split NestedNameSpecifier.split ReceiverKind.split CtorSubject.split sum.split Type_payload.split Type.split)

lemma keeps_VisitIntegerLiteral [simp]:
  "\<forall>s\<in>set x3. keeps s \<Longrightarrow>
   keeps (VisitIntegerLiteral x1 x2 x3 x4 x5)"
  by (simp add: VisitIntegerLiteral_def Let_def split_beta
        split: option.split ObjCAccessControl.split TLSKind.split PropertyControl.split PropertyImplementation.split ExprValueKind.split ExprObjectKind.split IdentType.split UnaryOperatorKind.split UnaryExprOrTypeTrait.split BinaryOperatorKind.split NameKind.split NestedNameSpecifier.split ReceiverKind.split CtorSubject.split sum.split Type_payload.split Type.split)

lemma keeps_VisitFloatingLiteral [simp]:
  "\<forall>s\<in>set x3. keeps s \<Longrightarrow>
   keeps (VisitFloatingLiteral x1 x2 x3 x4 x5)"
  by (simp add: VisitFloatingLiteral_def Let_def split_beta
        split: option.split ObjCAccessControl.split TLSKind.split PropertyControl.split PropertyImplementation.split ExprValueKind.split ExprObjectKind.split IdentType.split UnaryOperatorKind.split UnaryExprOrTypeTrait.split BinaryOperatorKind.split NameKind.split NestedNameSpecifier.split ReceiverKind.split CtorSubject.split sum.split Type_payload.split Type.split)

lemma keeps_VisitStringLiteral [simp]:
  "\<forall>s\<in>set x3. keeps s \<Longrightarrow>
   keeps (VisitStringLiteral x1 x2 x3 x4 x5)"
  by (simp add: VisitStringLiteral_def Let_def split_beta
        split: option.split ObjCAccessControl.split TLSKind.split PropertyControl.split PropertyImplementation.split ExprValueKind.split ExprObjectKind.split IdentType.split UnaryOperatorKind.split UnaryExprOrTypeTrait.split BinaryOperatorKind.split NameKind.split NestedNameSpecifier.split ReceiverKind.split CtorSubject.split sum.split Type_payload.split Type.split)

lemma keeps_VisitUnaryOperator [simp]:
  "\<forall>s\<in>set x3. keeps s \<Longrightarrow>
   keeps (VisitUnaryOperator x1 x2 x3 x4 x5 x6)"
  by (simp add: VisitUnaryOperator_def Let_def split_beta
        split: option.split ObjCAccessControl.split TLSKind.split PropertyControl.split PropertyImplementation.split ExprValueKind.split ExprObjectKind.split IdentType.split UnaryOperatorKind.split UnaryExprOrTypeTrait.split BinaryOperatorKind.split NameKind.split NestedNameSpecifier.split ReceiverKind.split CtorSubject.split sum.split Type_payload.split Type.split)

lemma keeps_VisitUnaryExprOrTypeTraitExpr [simp]:
  "\<forall>s\<in>set x3. keeps s \<Longrightarrow>
   keeps (VisitUnaryExprOrTypeTraitExpr x1 x2 x3 x4 x5 x6)"
  by (simp add: VisitUnaryExprOrTypeTraitExpr_def Let_def split_beta
        split: option.split ObjCAccessControl.split TLSKind.split PropertyControl.split PropertyImplementation.split ExprValueKind.split ExprObjectKind.split IdentType.split UnaryOperatorKind.split UnaryExprOrTypeTrait.split BinaryOperatorKind.split NameKind.split NestedNameSpecifier.split ReceiverKind.split CtorSubject.split sum.split Type_payload.split Type.split)

lemma keeps_VisitMemberExpr [simp]:
  "\<forall>s\<in>set x3. keeps s \<Longrightarrow>
   keeps (VisitMemberExpr x1 x2 x3 x4 x5)"
  by (simp add: VisitMemberExpr_def Let_def split_beta
        split: option.split ObjCAccessControl.split TLSKind.split PropertyControl.split PropertyImplementation.split ExprValueKind.split ExprObjectKind.split IdentType.split UnaryOperatorKind.split UnaryExprOrTypeTrait.split BinaryOperatorKind.split NameKind.split NestedNameSpecifier.split ReceiverKind.split CtorSubject.split sum.split Type_payload.split Type.split)

lemma keeps_VisitExtVectorElementExpr [simp]:
  "\<forall>s\<in>set x3. keeps s \<Longrightarrow>
   keeps (VisitExtVectorElementExpr x1 x2 x3 x4 x5)"
  by (simp add: VisitExtVectorElementExpr_def Let_def split_beta
        split: option.split ObjCAccessControl.split TLSKind.split PropertyControl.split PropertyImplementation.split ExprValueKind.split ExprObjectKind.split IdentType.split UnaryOperatorKind.split UnaryExprOrTypeTrait.split BinaryOperatorKind.split NameKind.split NestedNameSpecifier.split ReceiverKind.split CtorSubject.split sum.split Type_payload.split Type.split)

lemma keeps_VisitBinaryOperator [simp]:
  "\<forall>s\<in>set x3. keeps s \<Longrightarrow>
   keeps (VisitBinaryOperator x1 x2 x3 x4 x5)"
  by (simp add: VisitBinaryOperator_def Let_def split_beta
        split: option.split ObjCAccessControl.split TLSKind.split PropertyControl.split PropertyImplementation.split ExprValueKind.split ExprObjectKind.split IdentType.split UnaryOperatorKind.split UnaryExprOrTypeTrait.split BinaryOperatorKind.split NameKind.split NestedNameSpecifier.split ReceiverKind.split CtorSubject.split sum.split Type_payload.split Type.split)

lemma keeps_VisitCompoundAssignOperator [simp]:
  "\<forall>s\<in>set x3. keeps s \<Longrightarrow>
   keeps (VisitCompoundAssignOperator x1 x2 x3 x4 x5 x6 x7)"
  by (simp add: VisitCompoundAssignOperator_def Let_def split_beta
        split: option.split ObjCAccessControl.split TLSKind.split PropertyControl.split PropertyImplementation.split ExprValueKind.split ExprObjectKind.split IdentType.split UnaryOperatorKind.split UnaryExprOrTypeTrait.split BinaryOperatorKind.split NameKind.split NestedNameSpecifier.split ReceiverKind.split CtorSubject.split sum.split Type_payload.split Type.split)

lemma keeps_VisitBlockExpr [simp]:
  "\<forall>s\<in>set x3. keeps s \<Longrightarrow>
   keeps x5 \<Longrightarrow>
   keeps (VisitBlockExpr x1 x2 x3 x4 x5)"
  by (simp add: VisitBlockExpr_def Let_def split_beta
        split: option.split ObjCAccessControl.split TLSKind.split PropertyControl.split PropertyImplementation.split ExprValueKind.split ExprObjectKind.split IdentType.split UnaryOperatorKind.split UnaryExprOrTypeTrait.split BinaryOperatorKind.split NameKind.split NestedNameSpecifier.split ReceiverKind.split CtorSubject.split sum.split Type_payload.split Type.split)

lemma keeps_VisitOpaqueValueExpr [simp]:
  "\<forall>s\<in>set x3. keeps s \<Longrightarrow>
   \<forall>s. x5 = Some s \<longrightarrow> keeps s \<Longrightarrow>
   keeps (VisitOpaqueValueExpr x1 x2 x3 x4 x5)"
  by (simp add: VisitOpaqueValueExpr_def Let_def split_beta
        split: option.split ObjCAccessControl.split TLSKind.split PropertyControl.split PropertyImplementation.split ExprValueKind.split ExprObjectKind.split IdentType.split UnaryOperatorKind.split UnaryExprOrTypeTrait.split BinaryOperatorKind.split NameKind.split NestedNameSpecifier.split ReceiverKind.split CtorSubject.split sum.split Type_payload.split Type.split)

lemma keeps_VisitAddrLabelExpr [simp]:
  "\<forall>s\<in>set x3. keeps s \<Longrightarrow>
   keeps (VisitAddrLabelExpr x1 x2 x3 x4 x5 x6)"
  by (simp add: VisitAddrLabelExpr_def Let_def split_beta
        split: option.split ObjCAccessControl.split TLSKind.split PropertyControl.split PropertyImplementation.split ExprValueKind.split ExprObjectKind.split IdentType.split UnaryOperatorKind.split UnaryExprOrTypeTrait.split BinaryOperatorKind.split NameKind.split NestedNameSpecifier.split ReceiverKind.split CtorSubject.split sum.split Type_payload.split Type.split)

lemma keeps_VisitCXXBoolLiteralExpr [simp]:
  "\<forall>s\<in>set x3. keeps s \<Longrightarrow>
   keeps (VisitCXXBoolLiteralExpr x1 x2 x3 x4 x5)"
  by (simp add: VisitCXXBoolLiteralExpr_def Let_def split_beta
        split: option.split ObjCAccessControl.split TLSKind.split PropertyControl.split PropertyImplementation.split ExprValueKind.split ExprObjectKind.split IdentType.split UnaryOperatorKind.split UnaryExprOrTypeTrait.split BinaryOperatorKind.split NameKind.split NestedNameSpecifier.split ReceiverKind.split CtorSubject.split sum.split Type_payload.split Type.split)

lemma keeps_VisitCXXConstructExpr [simp]:
  "\<forall>s\<in>set x3. keeps s \<Longrightarrow>
   keeps (VisitCXXConstructExpr x1 x2 x3 x4 x5)"
  by (simp add: VisitCXXConstructExpr_def Let_def split_beta
        split: option.split ObjCAccessControl.split TLSKind.split PropertyControl.split PropertyImplementation.split ExprValueKind.split ExprObjectKind.split IdentType.split UnaryOperatorKind.split UnaryExprOrTypeTrait.split BinaryOperatorKind.split NameKind.split NestedNameSpecifier.split ReceiverKind.split CtorSubject.split sum.split Type_payload.split Type.split)

lemma keeps_dumpCXXTemporary [simp]:
  "keeps (dumpCXXTemporary x1 x2)"
  by (simp add: dumpCXXTemporary_def Let_def split_beta
        split: option.split ObjCAccessControl.split TLSKind.split PropertyControl.split PropertyImplementation.split ExprValueKind.split ExprObjectKind.split IdentType.split UnaryOperatorKind.split UnaryExprOrTypeTrait.split BinaryOperatorKind.split NameKind.split NestedNameSpecifier.split ReceiverKind.split CtorSubject.split sum.split Type_payload.split Type.split)

lemma keeps_VisitCXXBindTemporaryExpr [simp]:
  "\<forall>s\<in>set x3. keeps s \<Longrightarrow>
   keeps (VisitCXXBindTemporaryExpr x1 x2 x3 x4 x5)"
  by (simp add: VisitCXXBindTemporaryExpr_def Let_def split_beta
        split: option.split ObjCAccessControl.split TLSKind.split PropertyControl.split PropertyImplementation.split ExprValueKind.split ExprObjectKind.split IdentType.split UnaryOperatorKind.split UnaryExprOrTypeTrait.split BinaryOperatorKind.split NameKind.split NestedNameSpecifier.split ReceiverKind.split CtorSubject.split sum.split Type_payload.split Type.split)

lemma keeps_VisitMaterializeTemporaryExpr [simp]:
  "\<forall>s\<in>set x3. keeps s \<Longrightarrow>
   keeps (VisitMaterializeTemporaryExpr x1 x2 x3 x4 x5)"
  by (simp add: VisitMaterializeTemporaryExpr_def Let_def split_beta
        split: option.split ObjCAccessControl.split TLSKind.split PropertyControl.split PropertyImplementation.split ExprValueKind.split ExprObjectKind.split IdentType.split UnaryOperatorKind.split UnaryExprOrTypeTrait.split BinaryOperatorKind.split NameKind.split NestedNameSpecifier.split ReceiverKind.split CtorSubject.split sum.split Type_payload.split Type.split)

lemma keeps_VisitExprWithCleanups [simp]:
  "\<forall>s\<in>set x3. keeps s \<Longrightarrow>
   keeps x6 \<Longrightarrow>
   keeps (VisitExprWithCleanups x1 x2 x3 x4 x5 x6)"
  by (simp add: VisitExprWithCleanups_def Let_def split_beta
        split: option.split ObjCAccessControl.split TLSKind.split PropertyControl.split PropertyImplementation.split ExprValueKind.split ExprObjectKind.split IdentType.split UnaryOperatorKind.split UnaryExprOrTypeTrait.split BinaryOperatorKind.split NameKind.split NestedNameSpecifier.split ReceiverKind.split CtorSubject.split sum.split Type_payload.split Type.split)

lemma keeps_VisitLambdaExpr [simp]:
  "\<forall>s\<in>set x3. keeps s \<Longrightarrow>
   keeps x5 \<Longrightarrow>
   keeps (VisitLambdaExpr x1 x2 x3 x4 x5)"
  by (simp add: VisitLambdaExpr_def Let_def split_beta
        split: option.split ObjCAccessControl.split TLSKind.split PropertyControl.split PropertyImplementation.split ExprValueKind.split ExprObjectKind.split IdentType.split UnaryOperatorKind.split UnaryExprOrTypeTrait.split BinaryOperatorKind.split NameKind.split NestedNameSpecifier.split ReceiverKind.split CtorSubject.split sum.split Type_payload.split Type.split)

lemma keeps_VisitCXXNewExpr [simp]:
  "\<forall>s\<in>set x3. keeps s \<Longrightarrow>
   keeps (VisitCXXNewExpr x1 x2 x3 x4 x5)"
  by (simp add: VisitCXXNewExpr_def Let_def split_beta
        split: option.split ObjCAccessControl.split TLSKind.split PropertyControl.split PropertyImplementation.split ExprValueKind.split ExprObjectKind.split IdentType.split UnaryOperatorKind.split UnaryExprOrTypeTrait.split BinaryOperatorKind.split NameKind.split NestedNameSpecifier.split ReceiverKind.split CtorSubject.split sum.split Type_payload.split Type.split)

lemma keeps_VisitCXXDeleteExpr [simp]:
  "\<forall>s\<in>set x3. keeps s \<Longrightarrow>
   keeps (VisitCXXDeleteExpr x1 x2 x3 x4 x5)"
  by (simp add: VisitCXXDeleteExpr_def Let_def split_beta
        split: option.split ObjCAccessControl.split TLSKind.split PropertyControl.split PropertyImplementation.split ExprValueKind.split ExprObjectKind.split IdentType.split UnaryOperatorKind.split UnaryExprOrTypeTrait.split BinaryOperatorKind.split NameKind.split NestedNameSpecifier.split ReceiverKind.split CtorSubject.split sum.split Type_payload.split Type.split)

lemma keeps_VisitObjCMessageExpr [simp]:
  "\<forall>s\<in>set x3. keeps s \<Longrightarrow>
   keeps (VisitObjCMessageExpr x1 x2 x3 x4 x5)"
  by (simp add: VisitObjCMessageExpr_def Let_def split_beta
        split: option.split ObjCAccessControl.split TLSKind.split PropertyControl.split PropertyImplementation.split ExprValueKind.split ExprObjectKind.split IdentType.split UnaryOperatorKind.split UnaryExprOrTypeTrait.split BinaryOperatorKind.split NameKind.split NestedNameSpecifier.split ReceiverKind.split CtorSubject.split sum.split Type_payload.split Type.split)

lemma keeps_dumpSelector [simp]:
  "keeps (dumpSelector x1)"
  by (simp add: dumpSelector_def Let_def split_beta
        split: option.split ObjCAccessControl.split TLSKind.split PropertyControl.split PropertyImplementation.split ExprValueKind.split ExprObjectKind.split IdentType.split UnaryOperatorKind.split UnaryExprOrTypeTrait.split BinaryOperatorKind.split NameKind.split NestedNameSpecifier.split ReceiverKind.split CtorSubject.split sum.split Type_payload.split Type.split)

lemma keeps_VisitObjCBoxedExpr [simp]:
  "\<forall>s\<in>set x3. keeps s \<Longrightarrow>
   keeps (VisitObjCBoxedExpr x1 x2 x3 x4 x5)"
  by (simp add: VisitObjCBoxedExpr_def Let_def split_beta
        split: option.split ObjCAccessControl.split TLSKind.split PropertyControl.split PropertyImplementation.split ExprValueKind.split ExprObjectKind.split IdentType.split UnaryOperatorKind.split UnaryExprOrTypeTrait.split BinaryOperatorKind.split NameKind.split NestedNameSpecifier.split ReceiverKind.split CtorSubject.split sum.split Type_payload.split Type.split)

lemma keeps_VisitObjCEncodeExpr [simp]:
  "\<forall>s\<in>set x3. keeps s \<Longrightarrow>
   keeps (VisitObjCEncodeExpr x1 x2 x3 x4 x5)"
  by (simp add: VisitObjCEncodeExpr_def Let_def split_beta
        split: option.split ObjCAccessControl.split TLSKind.split PropertyControl.split PropertyImplementation.split ExprValueKind.split ExprObjectKind.split IdentType.split UnaryOperatorKind.split UnaryExprOrTypeTrait.split BinaryOperatorKind.split NameKind.split NestedNameSpecifier.split ReceiverKind.split CtorSubject.split sum.split Type_payload.split Type.split)

lemma keeps_VisitObjCSelectorExpr [simp]:
  "\<forall>s\<in>set x3. keeps s \<Longrightarrow>
   keeps (VisitObjCSelectorExpr x1 x2 x3 x4 x5)"
  by (simp add: VisitObjCSelectorExpr_def Let_def split_beta
        split: option.split ObjCAccessControl.split TLSKind.split PropertyControl.split PropertyImplementation.split ExprValueKind.split ExprObjectKind.split IdentType.split UnaryOperatorKind.split UnaryExprOrTypeTrait.split BinaryOperatorKind.split NameKind.split NestedNameSpecifier.split ReceiverKind.split CtorSubject.split sum.split Type_payload.split Type.split)

lemma keeps_VisitObjCProtocolExpr [simp]:
  "\<forall>s\<in>set x3. keeps s \<Longrightarrow>
   keeps (VisitObjCProtocolExpr x1 x2 x3 x4 x5)"
  by (simp add: VisitObjCProtocolExpr_def Let_def split_beta
        split: option.split ObjCAccessControl.split TLSKind.split PropertyControl.split PropertyImplementation.split ExprValueKind.split ExprObjectKind.split IdentType.split UnaryOperatorKind.split UnaryExprOrTypeTrait.split BinaryOperatorKind.split NameKind.split NestedNameSpecifier.split ReceiverKind.split CtorSubject.split sum.split Type_payload.split Type.split)

lemma keeps_VisitObjCPropertyRefExpr [simp]:
  "\<forall>s\<in>set x3. keeps s \<Longrightarrow>
   keeps (VisitObjCPropertyRefExpr x1 x2 x3 x4 x5)"
  by (simp add: VisitObjCPropertyRefExpr_def Let_def split_beta
        split: option.split ObjCAccessControl.split TLSKind.split PropertyControl.split PropertyImplementation.split ExprValueKind.split ExprObjectKind.split IdentType.split UnaryOperatorKind.split UnaryExprOrTypeTrait.split BinaryOperatorKind.split NameKind.split NestedNameSpecifier.split ReceiverKind.split CtorSubject.split sum.split Type_payload.split Type.split)

lemma keeps_VisitObjCSubscriptRefExpr [simp]:
  "\<forall>s\<in>set x3. keeps s \<Longrightarrow>
   keeps (VisitObjCSubscriptRefExpr x1 x2 x3 x4 x5)"
  by (simp add: VisitObjCSubscriptRefExpr_def Let_def split_beta
        split: option.split ObjCAccessControl.split TLSKind.split PropertyControl.split PropertyImplementation.split ExprValueKind.split ExprObjectKind.split IdentType.split UnaryOperatorKind.split UnaryExprOrTypeTrait.split BinaryOperatorKind.split NameKind.split NestedNameSpecifier.split ReceiverKind.split CtorSubject.split sum.split Type_payload.split Type.split)

lemma keeps_VisitObjCBoolLiteralExpr [simp]:
  "\<forall>s\<in>set x3. keeps s \<Longrightarrow>
   keeps (VisitObjCBoolLiteralExpr x1 x2 x3 x4 x5)"
  by (simp add: VisitObjCBoolLiteralExpr_def Let_def split_beta
        split: option.split ObjCAccessControl.split TLSKind.split PropertyControl.split PropertyImplementation.split ExprValueKind.split ExprObjectKind.split IdentType.split UnaryOperatorKind.split UnaryExprOrTypeTrait.split BinaryOperatorKind.split NameKind.split NestedNameSpecifier.split ReceiverKind.split CtorSubject.split sum.split Type_payload.split Type.split)

lemma keeps_dumpStmt_null [simp]:
  "keeps (dumpStmt_null x1)"
  by (simp add: dumpStmt_null_def Let_def split_beta
        split: option.split ObjCAccessControl.split TLSKind.split PropertyControl.split PropertyImplementation.split ExprValueKind.split ExprObjectKind.split IdentType.split UnaryOperatorKind.split UnaryExprOrTypeTrait.split BinaryOperatorKind.split NameKind.split NestedNameSpecifier.split ReceiverKind.split CtorSubject.split sum.split Type_payload.split Type.split)

lemma keeps_dumpDecl_null [simp]:
  "keeps (dumpDecl_null x1)"
  by (simp add: dumpDecl_null_def Let_def split_beta
        split: option.split ObjCAccessControl.split TLSKind.split PropertyControl.split PropertyImplementation.split ExprValueKind.split ExprObjectKind.split IdentType.split UnaryOperatorKind.split UnaryExprOrTypeTrait.split BinaryOperatorKind.split NameKind.split NestedNameSpecifier.split ReceiverKind.split CtorSubject.split sum.split Type_payload.split Type.split)

lemma keeps_dumpStmt_ptr [simp]:
  "\<forall>s. x2 = Some s \<longrightarrow> keeps s \<Longrightarrow>
   keeps (dumpStmt_ptr x1 x2)"
  by (simp add: dumpStmt_ptr_def Let_def split_beta
        split: option.split ObjCAccessControl.split TLSKind.split PropertyControl.split PropertyImplementation.split ExprValueKind.split ExprObjectKind.split IdentType.split UnaryOperatorKind.split UnaryExprOrTypeTrait.split BinaryOperatorKind.split NameKind.split NestedNameSpecifier.split ReceiverKind.split CtorSubject.split sum.split Type_payload.split Type.split)

lemma keeps_dumpDecl_ptr [simp]:
  "\<forall>d. x2 = Some d \<longrightarrow> keeps (snd d) \<Longrightarrow>
   keeps (dumpDecl_ptr x1 x2)"
  by (simp add: dumpDecl_ptr_def Let_def split_beta
        split: option.split ObjCAccessControl.split TLSKind.split PropertyControl.split PropertyImplementation.split ExprValueKind.split ExprObjectKind.split IdentType.split UnaryOperatorKind.split UnaryExprOrTypeTrait.split BinaryOperatorKind.split NameKind.split NestedNameSpecifier.split ReceiverKind.split CtorSubject.split sum.split Type_payload.split Type.split)
lemma keeps_ConstDeclVisitor_Visit:
  "\<forall>d\<in>set1_Decl_payload P. keeps (snd d) \<Longrightarrow> \<forall>s\<in>set2_Decl_payload P. keeps s \<Longrightarrow>
   keeps (ConstDeclVisitor_Visit E D P)"
  by (cases P)
     (auto simp add: ConstDeclVisitor_Visit_def intro!: keeps_VisitFunctionDecl keeps_VisitBlockDecl)

lemma keeps_ConstStmtVisitor_Visit:
  "\<forall>s\<in>set children. keeps s \<Longrightarrow>
   \<forall>d\<in>set1_Stmt_payload P. keeps (snd d) \<Longrightarrow> \<forall>s\<in>set2_Stmt_payload P. keeps s \<Longrightarrow>
   keeps (ConstStmtVisitor_Visit E S children P)"
  by (cases P) (auto simp add: ConstStmtVisitor_Visit_def dumpDecl_ptr_def dumpStmt_ptr_def
        split: option.splits)

lemma keeps_nodes: "keeps (dumpDeclNode E N)" "keeps (dumpStmtNode E S)"
proof (induction N and S)
  case (Decl derived D P)
  show ?case
    by (simp add: Decl_payload.set_map Decl keeps_ConstDeclVisitor_Visit)
next
  case (Stmt derived B children P)
  have "keeps (ConstStmtVisitor_Visit E B
          (map (dumpStmt_ptr E) (map (map_option (dumpStmtNode E)) children))
          (map_Stmt_payload (\<lambda>d. (d, dumpDeclNode E d)) (dumpStmtNode E) P))"
    by (rule keeps_ConstStmtVisitor_Visit)
       (auto simp add: Stmt_payload.set_map Stmt dumpStmt_ptr_def split: option.splits)
  then show ?case
    by simp
qed

subsection \<open>Lifetime of the identity table\<close>

text \<open>
  C6, as stated, fails: nothing resets the table between two exporters of one process.
  After a first exporter has tokenised the pointer 5 as "0", a second exporter gives a new
  pointer the token "1", and still "0" to the pointer 5.
\<close>

theorem identity_table_carries_over:
  "fst (writePointer (\<lambda>p. []) False 5 initial_state) = AString ''0''
   \<and> fst (writePointer (\<lambda>p. []) False 7
            (ASTExporter_ctor (snd (writePointer (\<lambda>p. []) False 5 initial_state)))) = AString ''1''
   \<and> fst (writePointer (\<lambda>p. []) False 5
            (ASTExporter_ctor (snd (writePointer (\<lambda>p. []) False 5 initial_state)))) = AString ''0''"
  by (simp add: writePointer_def initial_state_def ASTExporter_ctor_def printf_d_def snprintf20_def
        dec_digits_small)

text \<open>
  C6, amended: the table lives as long as the process.  The constructor of an exporter
  leaves \<^verbatim>\<open>pointerMap\<close> and \<^verbatim>\<open>pointerCounter\<close> as they are, \<^verbatim>\<open>writePointer\<close> never removes or
  changes an entry, \<^verbatim>\<open>dumpSourceLocation\<close> does not touch the table, and a pointer tokenised
  by one exporter keeps its token under the next one.  Across the whole traversal, the
  encoding of a declaration or of a statement, with everything below it, leads to a later
  state of the table: no entry is removed or changed.
\<close>

theorem identity_table_persists:
  "pointerMap (ASTExporter_ctor st) = pointerMap st
   \<and> pointerCounter (ASTExporter_ctor st) = pointerCounter st
   \<and> (pointerMap st p = Some v \<longrightarrow> pointerMap (snd (writePointer fmt_p wp q st)) p = Some v)
   \<and> pointerMap (snd (dumpSourceLocation nsp l st)) = pointerMap st
   \<and> pointerCounter (snd (dumpSourceLocation nsp l st)) = pointerCounter st
   \<and> (pointerMap st p = Some v \<longrightarrow>
        fst (writePointer fmt_p False p (ASTExporter_ctor st)) = fst (writePointer fmt_p False p st))
   \<and> table_extends st (snd (run_state (dumpDeclNode E N) st))
   \<and> table_extends st (snd (run_state (dumpStmtNode E S) st))"
  using keeps_nodes(1) [of E N] keeps_nodes(2) [of E S]
  by (auto simp: ASTExporter_ctor_def writePointer_def dumpSourceLocation_def keeps_def
        split: option.splits)

theorem identity_table_persists_witness:
  "pointerMap (snd (writePointer (\<lambda>p. []) False 7 (snd (writePointer (\<lambda>p. []) False 5 initial_state)))) 5 = Some 0"
proof -
  have "pointerMap (snd (writePointer (\<lambda>p. []) False 5 initial_state)) 5 = Some 0"
    by (simp add: writePointer_def initial_state_def)
  with identity_table_persists [of "snd (writePointer (\<lambda>p. []) False 5 initial_state)" 5 0 "\<lambda>p. []" False 7]
  show ?thesis by blast
qed

subsection \<open>The token of a declaration written by value and by reference\<close>

lemma starts_with_refl [simp]: "starts_with m (m \<bind> f)"
  by (auto simp add: starts_with_def)

lemma starts_with_bind [simp]: "starts_with m0 m \<Longrightarrow> starts_with m0 (m \<bind> g)"
  by (auto simp add: starts_with_def bind_assoc)

lemma starts_with_object [simp]: "starts_with m0 (object n (field tag m0 # ms))"
  by (simp add: object_def fields_def field_def)

lemmas DeclTupleSizes =
  BlockDeclTupleSize_def CXXRecordDeclTupleSize_def CapturedDeclTupleSize_def
  DeclContextTupleSize_def DeclTupleSize_def DeclVisitor_TupleSize_def
  DeclaratorDeclTupleSize_def EnumConstantDeclTupleSize_def EnumDeclTupleSize_def
  FieldDeclTupleSize_def FileScopeAsmDeclTupleSize_def FunctionDeclTupleSize_def
  ImportDeclTupleSize_def IndirectFieldDeclTupleSize_def LinkageSpecDeclTupleSize_def
  NamedDeclTupleSize_def NamespaceAliasDeclTupleSize_def NamespaceDeclTupleSize_def
  ObjCCategoryDeclTupleSize_def ObjCCategoryImplDeclTupleSize_def ObjCCompatibleAliasDeclTupleSize_def
  ObjCContainerDeclTupleSize_def ObjCImplDeclTupleSize_def ObjCImplementationDeclTupleSize_def
  ObjCInterfaceDeclTupleSize_def ObjCIvarDeclTupleSize_def ObjCMethodDeclTupleSize_def
  ObjCPropertyDeclTupleSize_def ObjCPropertyImplDeclTupleSize_def ObjCProtocolDeclTupleSize_def
  RecordDeclTupleSize_def TagDeclTupleSize_def TranslationUnitDeclTupleSize_def
  TypeDeclTupleSize_def TypedefDeclTupleSize_def TypedefNameDeclTupleSize_def
  UsingDirectiveDeclTupleSize_def ValueDeclTupleSize_def VarDeclTupleSize_def

lemma run_object_field:
  "fst (run_state (object n (field tag m # ms)) st)
     = AObject n ((tag, fst (run_state m st))
         # fst (run_state (fields ms) (snd (run_state m st))))"
  by (simp add: object_def fields_def field_def split_beta)

lemma pointer_VisitDecl [simp]:
  "field_of ''pointer'' (fst (run_state (VisitDecl E D ND) st) ! 0)
     = Some (fst (run_state (dumpPointer E (getPointer D)) st))"
  by (simp add: VisitDecl_def Let_def split_beta run_object_field field_of_def)

lemma starts_with_VisitDecl [simp]:
  "starts_with (dumpPointer E (getPointer D)) (VisitDecl E D ND)"
  by (simp add: VisitDecl_def Let_def)

lemma pointer_VisitCapturedDecl [simp]:
  "field_of ''pointer'' (fst (run_state (VisitCapturedDecl E D DC) st) ! 0)
     = Some (fst (run_state (dumpPointer E (getPointer D)) st))"
  by (simp add: VisitCapturedDecl_def Let_def split_beta nth_append DeclTupleSizes)

lemma starts_with_VisitCapturedDecl [simp]:
  "starts_with (dumpPointer E (getPointer D)) (VisitCapturedDecl E D DC)"
  by (simp add: VisitCapturedDecl_def Let_def)

lemma pointer_VisitLinkageSpecDecl [simp]:
  "field_of ''pointer'' (fst (run_state (VisitLinkageSpecDecl E D DC) st) ! 0)
     = Some (fst (run_state (dumpPointer E (getPointer D)) st))"
  by (simp add: VisitLinkageSpecDecl_def Let_def split_beta nth_append DeclTupleSizes)

lemma starts_with_VisitLinkageSpecDecl [simp]:
  "starts_with (dumpPointer E (getPointer D)) (VisitLinkageSpecDecl E D DC)"
  by (simp add: VisitLinkageSpecDecl_def Let_def)

lemma pointer_VisitNamedDecl [simp]:
  "field_of ''pointer'' (fst (run_state (VisitNamedDecl E D N) st) ! 0)
     = Some (fst (run_state (dumpPointer E (getPointer D)) st))"
  by (simp add: VisitNamedDecl_def Let_def split_beta nth_append DeclTupleSizes)

lemma starts_with_VisitNamedDecl [simp]:
  "starts_with (dumpPointer E (getPointer D)) (VisitNamedDecl E D N)"
  by (simp add: VisitNamedDecl_def Let_def)

lemma pointer_VisitNamespaceDecl [simp]:
  "field_of ''pointer'' (fst (run_state (VisitNamespaceDecl E D N DC I) st) ! 0)
     = Some (fst (run_state (dumpPointer E (getPointer D)) st))"
  by (simp add: VisitNamespaceDecl_def Let_def split_beta nth_append DeclTupleSizes)

lemma starts_with_VisitNamespaceDecl [simp]:
  "starts_with (dumpPointer E (getPointer D)) (VisitNamespaceDecl E D N DC I)"
  by (simp add: VisitNamespaceDecl_def Let_def)

lemma pointer_VisitObjCContainerDecl [simp]:
  "field_of ''pointer'' (fst (run_state (VisitObjCContainerDecl E D N DC) st) ! 0)
     = Some (fst (run_state (dumpPointer E (getPointer D)) st))"
  by (simp add: VisitObjCContainerDecl_def Let_def split_beta nth_append DeclTupleSizes)

lemma starts_with_VisitObjCContainerDecl [simp]:
  "starts_with (dumpPointer E (getPointer D)) (VisitObjCContainerDecl E D N DC)"
  by (simp add: VisitObjCContainerDecl_def Let_def)

lemma pointer_VisitTypeDecl [simp]:
  "field_of ''pointer'' (fst (run_state (VisitTypeDecl E D N T) st) ! 0)
     = Some (fst (run_state (dumpPointer E (getPointer D)) st))"
  by (simp add: VisitTypeDecl_def Let_def split_beta nth_append DeclTupleSizes)

lemma starts_with_VisitTypeDecl [simp]:
  "starts_with (dumpPointer E (getPointer D)) (VisitTypeDecl E D N T)"
  by (simp add: VisitTypeDecl_def Let_def)

lemma pointer_VisitTagDecl [simp]:
  "field_of ''pointer'' (fst (run_state (VisitTagDecl E D N T DC) st) ! 0)
     = Some (fst (run_state (dumpPointer E (getPointer D)) st))"
  by (simp add: VisitTagDecl_def Let_def split_beta nth_append DeclTupleSizes)

lemma starts_with_VisitTagDecl [simp]:
  "starts_with (dumpPointer E (getPointer D)) (VisitTagDecl E D N T DC)"
  by (simp add: VisitTagDecl_def Let_def)

lemma pointer_VisitValueDecl [simp]:
  "field_of ''pointer'' (fst (run_state (VisitValueDecl E D N T) st) ! 0)
     = Some (fst (run_state (dumpPointer E (getPointer D)) st))"
  by (simp add: VisitValueDecl_def Let_def split_beta nth_append DeclTupleSizes)

lemma starts_with_VisitValueDecl [simp]:
  "starts_with (dumpPointer E (getPointer D)) (VisitValueDecl E D N T)"
  by (simp add: VisitValueDecl_def Let_def)

lemma pointer_VisitTranslationUnitDecl [simp]:
  "field_of ''pointer'' (fst (run_state (VisitTranslationUnitDecl E D DC) st) ! 0)
     = Some (fst (run_state (dumpPointer E (getPointer D)) st))"
  by (simp add: VisitTranslationUnitDecl_def Let_def split_beta nth_append DeclTupleSizes)

lemma starts_with_VisitTranslationUnitDecl [simp]:
  "starts_with (dumpPointer E (getPointer D)) (VisitTranslationUnitDecl E D DC)"
  by (simp add: VisitTranslationUnitDecl_def Let_def)

lemma pointer_VisitTypedefNameDecl [simp]:
  "field_of ''pointer'' (fst (run_state (VisitTypedefNameDecl E D x1 x2) st) ! 0)
     = Some (fst (run_state (dumpPointer E (getPointer D)) st))"
  by (simp add: VisitTypedefNameDecl_def)

lemma starts_with_VisitTypedefNameDecl [simp]:
  "starts_with (dumpPointer E (getPointer D)) (VisitTypedefNameDecl E D x1 x2)"
  by (simp add: VisitTypedefNameDecl_def)

lemma pointer_VisitDeclaratorDecl [simp]:
  "field_of ''pointer'' (fst (run_state (VisitDeclaratorDecl E D x1 x2) st) ! 0)
     = Some (fst (run_state (dumpPointer E (getPointer D)) st))"
  by (simp add: VisitDeclaratorDecl_def)

lemma starts_with_VisitDeclaratorDecl [simp]:
  "starts_with (dumpPointer E (getPointer D)) (VisitDeclaratorDecl E D x1 x2)"
  by (simp add: VisitDeclaratorDecl_def)

lemma pointer_VisitObjCImplDecl [simp]:
  "field_of ''pointer'' (fst (run_state (VisitObjCImplDecl E D x1 x2) st) ! 0)
     = Some (fst (run_state (dumpPointer E (getPointer D)) st))"
  by (simp add: VisitObjCImplDecl_def)

lemma starts_with_VisitObjCImplDecl [simp]:
  "starts_with (dumpPointer E (getPointer D)) (VisitObjCImplDecl E D x1 x2)"
  by (simp add: VisitObjCImplDecl_def)

lemma pointer_VisitTypedefDecl [simp]:
  "field_of ''pointer'' (fst (run_state (VisitTypedefDecl E D N T IsModulePrivate) st) ! 0)
     = Some (fst (run_state (dumpPointer E (getPointer D)) st))"
  by (simp add: VisitTypedefDecl_def Let_def split_beta nth_append DeclTupleSizes)

lemma starts_with_VisitTypedefDecl [simp]:
  "starts_with (dumpPointer E (getPointer D)) (VisitTypedefDecl E D N T IsModulePrivate)"
  by (simp add: VisitTypedefDecl_def Let_def)

lemma pointer_VisitEnumDecl [simp]:
  "field_of ''pointer'' (fst (run_state (VisitEnumDecl E D N T DC I) st) ! 0)
     = Some (fst (run_state (dumpPointer E (getPointer D)) st))"
  by (simp add: VisitEnumDecl_def Let_def split_beta nth_append DeclTupleSizes)

lemma starts_with_VisitEnumDecl [simp]:
  "starts_with (dumpPointer E (getPointer D)) (VisitEnumDecl E D N T DC I)"
  by (simp add: VisitEnumDecl_def Let_def)

lemma pointer_VisitRecordDecl [simp]:
  "field_of ''pointer'' (fst (run_state (VisitRecordDecl E D N T DC I) st) ! 0)
     = Some (fst (run_state (dumpPointer E (getPointer D)) st))"
  by (simp add: VisitRecordDecl_def Let_def split_beta nth_append DeclTupleSizes)

lemma starts_with_VisitRecordDecl [simp]:
  "starts_with (dumpPointer E (getPointer D)) (VisitRecordDecl E D N T DC I)"
  by (simp add: VisitRecordDecl_def Let_def)

lemma pointer_VisitCXXRecordDecl [simp]:
  "field_of ''pointer'' (fst (run_state (VisitCXXRecordDecl E D N T DC I X) st) ! 0)
     = Some (fst (run_state (dumpPointer E (getPointer D)) st))"
  by (simp add: VisitCXXRecordDecl_def Let_def split_beta nth_append DeclTupleSizes)

lemma starts_with_VisitCXXRecordDecl [simp]:
  "starts_with (dumpPointer E (getPointer D)) (VisitCXXRecordDecl E D N T DC I X)"
  by (simp add: VisitCXXRecordDecl_def Let_def)

lemma pointer_VisitEnumConstantDecl [simp]:
  "field_of ''pointer'' (fst (run_state (VisitEnumConstantDecl E D N T Init) st) ! 0)
     = Some (fst (run_state (dumpPointer E (getPointer D)) st))"
  by (simp add: VisitEnumConstantDecl_def Let_def split_beta nth_append DeclTupleSizes)

lemma starts_with_VisitEnumConstantDecl [simp]:
  "starts_with (dumpPointer E (getPointer D)) (VisitEnumConstantDecl E D N T Init)"
  by (simp add: VisitEnumConstantDecl_def Let_def)

lemma pointer_VisitIndirectFieldDecl [simp]:
  "field_of ''pointer'' (fst (run_state (VisitIndirectFieldDecl E D N T chain) st) ! 0)
     = Some (fst (run_state (dumpPointer E (getPointer D)) st))"
  by (simp add: VisitIndirectFieldDecl_def Let_def split_beta nth_append DeclTupleSizes)

lemma starts_with_VisitIndirectFieldDecl [simp]:
  "starts_with (dumpPointer E (getPointer D)) (VisitIndirectFieldDecl E D N T chain)"
  by (simp add: VisitIndirectFieldDecl_def Let_def)

lemma pointer_VisitFunctionDecl [simp]:
  "field_of ''pointer'' (fst (run_state (VisitFunctionDecl E D N T I declsInPrototypeScope params inits Body) st) ! 0)
     = Some (fst (run_state (dumpPointer E (getPointer D)) st))"
  by (simp add: VisitFunctionDecl_def Let_def split_beta nth_append DeclTupleSizes)

lemma starts_with_VisitFunctionDecl [simp]:
  "starts_with (dumpPointer E (getPointer D)) (VisitFunctionDecl E D N T I declsInPrototypeScope params inits Body)"
  by (simp add: VisitFunctionDecl_def Let_def)

lemma pointer_VisitFieldDecl [simp]:
  "field_of ''pointer'' (fst (run_state (VisitFieldDecl E D N T I BitWidth Init) st) ! 0)
     = Some (fst (run_state (dumpPointer E (getPointer D)) st))"
  by (simp add: VisitFieldDecl_def Let_def split_beta nth_append DeclTupleSizes)

lemma starts_with_VisitFieldDecl [simp]:
  "starts_with (dumpPointer E (getPointer D)) (VisitFieldDecl E D N T I BitWidth Init)"
  by (simp add: VisitFieldDecl_def Let_def)

lemma pointer_VisitObjCIvarDecl [simp]:
  "field_of ''pointer'' (fst (run_state (VisitObjCIvarDecl E D N T I BitWidth Init X) st) ! 0)
     = Some (fst (run_state (dumpPointer E (getPointer D)) st))"
  by (simp add: VisitObjCIvarDecl_def Let_def split_beta nth_append DeclTupleSizes)

lemma starts_with_VisitObjCIvarDecl [simp]:
  "starts_with (dumpPointer E (getPointer D)) (VisitObjCIvarDecl E D N T I BitWidth Init X)"
  by (simp add: VisitObjCIvarDecl_def Let_def)

lemma pointer_VisitVarDecl [simp]:
  "field_of ''pointer'' (fst (run_state (VisitVarDecl E D N T I Init) st) ! 0)
     = Some (fst (run_state (dumpPointer E (getPointer D)) st))"
  by (simp add: VisitVarDecl_def Let_def split_beta nth_append DeclTupleSizes)

lemma starts_with_VisitVarDecl [simp]:
  "starts_with (dumpPointer E (getPointer D)) (VisitVarDecl E D N T I Init)"
  by (simp add: VisitVarDecl_def Let_def)

lemma pointer_VisitFileScopeAsmDecl [simp]:
  "field_of ''pointer'' (fst (run_state (VisitFileScopeAsmDecl E D asmString) st) ! 0)
     = Some (fst (run_state (dumpPointer E (getPointer D)) st))"
  by (simp add: VisitFileScopeAsmDecl_def Let_def split_beta nth_append DeclTupleSizes)

lemma starts_with_VisitFileScopeAsmDecl [simp]:
  "starts_with (dumpPointer E (getPointer D)) (VisitFileScopeAsmDecl E D asmString)"
  by (simp add: VisitFileScopeAsmDecl_def Let_def)

lemma pointer_VisitImportDecl [simp]:
  "field_of ''pointer'' (fst (run_state (VisitImportDecl E D moduleName) st) ! 0)
     = Some (fst (run_state (dumpPointer E (getPointer D)) st))"
  by (simp add: VisitImportDecl_def Let_def split_beta nth_append DeclTupleSizes)

lemma starts_with_VisitImportDecl [simp]:
  "starts_with (dumpPointer E (getPointer D)) (VisitImportDecl E D moduleName)"
  by (simp add: VisitImportDecl_def Let_def)

lemma pointer_VisitUsingDirectiveDecl [simp]:
  "field_of ''pointer'' (fst (run_state (VisitUsingDirectiveDecl E D N I) st) ! 0)
     = Some (fst (run_state (dumpPointer E (getPointer D)) st))"
  by (simp add: VisitUsingDirectiveDecl_def Let_def split_beta nth_append DeclTupleSizes)

lemma starts_with_VisitUsingDirectiveDecl [simp]:
  "starts_with (dumpPointer E (getPointer D)) (VisitUsingDirectiveDecl E D N I)"
  by (simp add: VisitUsingDirectiveDecl_def Let_def)

lemma pointer_VisitNamespaceAliasDecl [simp]:
  "field_of ''pointer'' (fst (run_state (VisitNamespaceAliasDecl E D N I) st) ! 0)
     = Some (fst (run_state (dumpPointer E (getPointer D)) st))"
  by (simp add: VisitNamespaceAliasDecl_def Let_def split_beta nth_append DeclTupleSizes)

lemma starts_with_VisitNamespaceAliasDecl [simp]:
  "starts_with (dumpPointer E (getPointer D)) (VisitNamespaceAliasDecl E D N I)"
  by (simp add: VisitNamespaceAliasDecl_def Let_def)

lemma pointer_VisitObjCMethodDecl [simp]:
  "field_of ''pointer'' (fst (run_state (VisitObjCMethodDecl E D N I params Body) st) ! 0)
     = Some (fst (run_state (dumpPointer E (getPointer D)) st))"
  by (simp add: VisitObjCMethodDecl_def Let_def split_beta nth_append DeclTupleSizes)

lemma starts_with_VisitObjCMethodDecl [simp]:
  "starts_with (dumpPointer E (getPointer D)) (VisitObjCMethodDecl E D N I params Body)"
  by (simp add: VisitObjCMethodDecl_def Let_def)

lemma pointer_VisitObjCCategoryDecl [simp]:
  "field_of ''pointer'' (fst (run_state (VisitObjCCategoryDecl E D N DC I) st) ! 0)
     = Some (fst (run_state (dumpPointer E (getPointer D)) st))"
  by (simp add: VisitObjCCategoryDecl_def Let_def split_beta nth_append DeclTupleSizes)

lemma starts_with_VisitObjCCategoryDecl [simp]:
  "starts_with (dumpPointer E (getPointer D)) (VisitObjCCategoryDecl E D N DC I)"
  by (simp add: VisitObjCCategoryDecl_def Let_def)

lemma pointer_VisitObjCCategoryImplDecl [simp]:
  "field_of ''pointer'' (fst (run_state (VisitObjCCategoryImplDecl E D N DC I) st) ! 0)
     = Some (fst (run_state (dumpPointer E (getPointer D)) st))"
  by (simp add: VisitObjCCategoryImplDecl_def Let_def split_beta nth_append DeclTupleSizes)

lemma starts_with_VisitObjCCategoryImplDecl [simp]:
  "starts_with (dumpPointer E (getPointer D)) (VisitObjCCategoryImplDecl E D N DC I)"
  by (simp add: VisitObjCCategoryImplDecl_def Let_def)

lemma pointer_VisitObjCProtocolDecl [simp]:
  "field_of ''pointer'' (fst (run_state (VisitObjCProtocolDecl E D N DC protocols) st) ! 0)
     = Some (fst (run_state (dumpPointer E (getPointer D)) st))"
  by (simp add: VisitObjCProtocolDecl_def Let_def split_beta nth_append DeclTupleSizes)

lemma starts_with_VisitObjCProtocolDecl [simp]:
  "starts_with (dumpPointer E (getPointer D)) (VisitObjCProtocolDecl E D N DC protocols)"
  by (simp add: VisitObjCProtocolDecl_def Let_def)

lemma pointer_VisitObjCInterfaceDecl [simp]:
  "field_of ''pointer'' (fst (run_state (VisitObjCInterfaceDecl E D N DC I) st) ! 0)
     = Some (fst (run_state (dumpPointer E (getPointer D)) st))"
  by (simp add: VisitObjCInterfaceDecl_def Let_def split_beta nth_append DeclTupleSizes)

lemma starts_with_VisitObjCInterfaceDecl [simp]:
  "starts_with (dumpPointer E (getPointer D)) (VisitObjCInterfaceDecl E D N DC I)"
  by (simp add: VisitObjCInterfaceDecl_def Let_def)

lemma pointer_VisitObjCImplementationDecl [simp]:
  "field_of ''pointer'' (fst (run_state (VisitObjCImplementationDecl E D N DC I inits) st) ! 0)
     = Some (fst (run_state (dumpPointer E (getPointer D)) st))"
  by (simp add: VisitObjCImplementationDecl_def Let_def split_beta nth_append DeclTupleSizes)

lemma starts_with_VisitObjCImplementationDecl [simp]:
  "starts_with (dumpPointer E (getPointer D)) (VisitObjCImplementationDecl E D N DC I inits)"
  by (simp add: VisitObjCImplementationDecl_def Let_def)

lemma pointer_VisitObjCCompatibleAliasDecl [simp]:
  "field_of ''pointer'' (fst (run_state (VisitObjCCompatibleAliasDecl E D N CI) st) ! 0)
     = Some (fst (run_state (dumpPointer E (getPointer D)) st))"
  by (simp add: VisitObjCCompatibleAliasDecl_def Let_def split_beta nth_append DeclTupleSizes)

lemma starts_with_VisitObjCCompatibleAliasDecl [simp]:
  "starts_with (dumpPointer E (getPointer D)) (VisitObjCCompatibleAliasDecl E D N CI)"
  by (simp add: VisitObjCCompatibleAliasDecl_def Let_def)

lemma pointer_VisitObjCPropertyDecl [simp]:
  "field_of ''pointer'' (fst (run_state (VisitObjCPropertyDecl E D N I) st) ! 0)
     = Some (fst (run_state (dumpPointer E (getPointer D)) st))"
  by (simp add: VisitObjCPropertyDecl_def Let_def split_beta nth_append DeclTupleSizes)

lemma starts_with_VisitObjCPropertyDecl [simp]:
  "starts_with (dumpPointer E (getPointer D)) (VisitObjCPropertyDecl E D N I)"
  by (simp add: VisitObjCPropertyDecl_def Let_def)

lemma pointer_VisitObjCPropertyImplDecl [simp]:
  "field_of ''pointer'' (fst (run_state (VisitObjCPropertyImplDecl E D I) st) ! 0)
     = Some (fst (run_state (dumpPointer E (getPointer D)) st))"
  by (simp add: VisitObjCPropertyImplDecl_def Let_def split_beta nth_append DeclTupleSizes)

lemma starts_with_VisitObjCPropertyImplDecl [simp]:
  "starts_with (dumpPointer E (getPointer D)) (VisitObjCPropertyImplDecl E D I)"
  by (simp add: VisitObjCPropertyImplDecl_def Let_def)

lemma pointer_VisitBlockDecl [simp]:
  "field_of ''pointer'' (fst (run_state (VisitBlockDecl E D DC I params captures Body) st) ! 0)
     = Some (fst (run_state (dumpPointer E (getPointer D)) st))"
  by (simp add: VisitBlockDecl_def Let_def split_beta nth_append DeclTupleSizes)

lemma starts_with_VisitBlockDecl [simp]:
  "starts_with (dumpPointer E (getPointer D)) (VisitBlockDecl E D DC I params captures Body)"
  by (simp add: VisitBlockDecl_def Let_def)
lemma token_stable:
  "table_extends (snd (run_state (dumpPointer E p) st)) st' \<Longrightarrow>
   fst (run_state (dumpPointer E p) st') = fst (run_state (dumpPointer E p) st)"
  by (auto simp add: dumpPointer_def writePointer_def table_extends_def Let_def
        split: option.splits if_splits)

lemma dumpPointer_idem:
  "run_state (dumpPointer E p) (snd (run_state (dumpPointer E p) st))
     = (fst (run_state (dumpPointer E p) st), snd (run_state (dumpPointer E p) st))"
  by (auto simp add: dumpPointer_def writePointer_def Let_def split: option.splits)

lemma starts_with_extends:
  assumes s: "starts_with (dumpPointer E p) m" and k: "keeps m"
  shows "table_extends (snd (run_state (dumpPointer E p) st)) (snd (run_state m st))"
proof -
  from s obtain f where m: "m = dumpPointer E p \<bind> f"
    by (auto simp add: starts_with_def)
  let ?sa = "snd (run_state (dumpPointer E p) st)"
  have "run_state m ?sa = run_state m st"
    by (simp add: m split_beta dumpPointer_idem)
  moreover from k have "table_extends ?sa (snd (run_state m ?sa))"
    by (simp add: keeps_def)
  ultimately show ?thesis by simp
qed

lemma token_after:
  assumes s: "starts_with (dumpPointer E p) m" and k: "keeps m"
    and e: "table_extends (snd (run_state m st)) st'"
  shows "fst (run_state (dumpPointer E p) st') = fst (run_state (dumpPointer E p) st)"
  by (rule token_stable) (rule table_extends_trans [OF starts_with_extends [OF s k] e])

lemma DeclVisitor_TupleSize_pos: "0 < DeclVisitor_TupleSize c"
  by (cases c) (simp_all add: DeclVisitor_TupleSize_def DeclTupleSizes)

lemma case_list_nth:
  "0 < length fs \<Longrightarrow> (case fs of [] \<Rightarrow> a | x # xs \<Rightarrow> g x) = g (fs ! 0)"
  by (cases fs) simp_all

lemma pointer_ConstDeclVisitor_Visit:
  "field_of ''pointer'' (fst (run_state (ConstDeclVisitor_Visit E D P) st) ! 0)
     = Some (fst (run_state (dumpPointer E (getPointer D)) st))"
  by (cases P) (simp_all add: ConstDeclVisitor_Visit_def)

lemma starts_with_ConstDeclVisitor_Visit:
  "starts_with (dumpPointer E (getPointer D)) (ConstDeclVisitor_Visit E D P)"
  by (cases P) (simp_all add: ConstDeclVisitor_Visit_def)

lemma by_value_pointer_dumpDeclNode:
  "by_value_pointer (fst (run_state (dumpDeclNode E N) st))
     = Some (fst (run_state (dumpPointer E (Decl_getPointer N)) st))"
  by (cases N)
     (simp add: by_value_pointer_def opened_dumpDecl_scopes Decl_getPointer_def case_list_nth
        length_ConstDeclVisitor_Visit DeclVisitor_TupleSize_pos pointer_ConstDeclVisitor_Visit)

lemma starts_with_dumpDeclNode:
  "starts_with (dumpPointer E (Decl_getPointer N)) (dumpDeclNode E N)"
  by (cases N)
     (simp add: dumpDecl_scopes_def Decl_getPointer_def starts_with_ConstDeclVisitor_Visit)

lemma decl_pointer_dumpDeclRef:
  "field_of ''decl_pointer'' (fst (run_state (dumpDeclRef E R) st))
     = Some (fst (run_state (dumpPointer E (getDeclPointer R)) st))"
  by (simp add: dumpDeclRef_def Let_def split_beta field_of_def)

lemma starts_with_dumpDeclRef:
  "starts_with (dumpPointer E (getDeclPointer R)) (dumpDeclRef E R)"
  by (simp add: dumpDeclRef_def Let_def)

text \<open>
  C5, as stated, fails: a declaration is also written by value where no \<^verbatim>\<open>DeclContext\<close> is
  listed.  In the translation unit \<^verbatim>\<open>void f() { int y; }\<close> the listing of the translation
  unit holds \<^verbatim>\<open>f\<close> only; \<^verbatim>\<open>VisitFunctionDecl\<close> does not list the \<^verbatim>\<open>DeclContext\<close> of \<^verbatim>\<open>f\<close>, and
  the variable \<^verbatim>\<open>y\<close> is written by value by the \<^verbatim>\<open>DeclStmt\<close> in the body of \<^verbatim>\<open>f\<close>.
\<close>

theorem by_value_in_DeclStmt:
  "fst (run_state (dumpDecl sample_exporter (Some sample_tu)) initial_state)
     = AVariant ''TranslationUnitDecl'' (Some (ATuple (Some 4)
         [AObject 4
            [(''pointer'', AString ''0''),
             (''source_range'', ATuple (Some 2) [AObject 0 [], AObject 0 []]),
             (''attributes'', AArray (Some 0) [])],
          AArray (Some 1)
            [AVariant ''FunctionDecl'' (Some (ATuple (Some 4)
               [AObject 4
                  [(''pointer'', AString ''1''),
                   (''source_range'', ATuple (Some 2) [AObject 0 [], AObject 0 []]),
                   (''attributes'', AArray (Some 0) [])],
                AObject 2
                  [(''name'', AString ''f''), (''qual_name'', AArray (Some 1) [AString ''f''])],
                AObject 2 [(''raw'', AString ''void ()''), (''type_ptr'', AString ''2'')],
                AObject 3
                  [(''body'',
                    AVariant ''CompoundStmt'' (Some (ATuple (Some 2)
                      [AObject 2
                         [(''pointer'', AString ''3''),
                          (''source_range'', ATuple (Some 2) [AObject 0 [], AObject 0 []])],
                       AArray (Some 1)
                         [AVariant ''DeclStmt'' (Some (ATuple (Some 3)
                            [AObject 2
                               [(''pointer'', AString ''4''),
                                (''source_range'',
                                 ATuple (Some 2) [AObject 0 [], AObject 0 []])],
                             AArray (Some 0) [],
                             AArray (Some 1)
                               [AVariant ''VarDecl'' (Some (ATuple (Some 4)
                                  [AObject 4
                                     [(''pointer'', AString ''5''),
                                      (''source_range'',
                                       ATuple (Some 2) [AObject 0 [], AObject 0 []]),
                                      (''attributes'', AArray (Some 0) [])],
                                   AObject 2
                                     [(''name'', AString ''y''),
                                      (''qual_name'', AArray (Some 1) [AString ''y''])],
                                   AObject 2
                                     [(''raw'', AString ''int''), (''type_ptr'', AString ''6'')],
                                   AObject 1 []]))]]))]])))]]))],
          AObject 0 [],
          AArray (Some 1)
            [AVariant ''NoneType'' (Some (ATuple None
               [AObject 2 [(''pointer'', AString ''7''), (''raw'', AString ''NULL TYPE'')]]))]]))"
  by code_simp

text \<open>
  C5, amended.  A declaration written by value carries, in the \<^verbatim>\<open>pointer\<close> field of its first
  tuple field, the token of its address; the record written for a reference to a
  declaration carries the token of the address in its \<^verbatim>\<open>decl_pointer\<close> field.  Whatever the
  encoder does between the two, a reference written after the declaration was written by
  value carries the same token, and so does a declaration written by value after a
  reference to it: the encoding of a declaration, of a statement and of a reference leads
  to a later state of the identity table.  The listing of a \<^verbatim>\<open>DeclContext\<close> holds the
  encodings by value of its retained members, in order, each once; a \<^verbatim>\<open>DeclStmt\<close> holds the
  encodings by value of its declarations, which are in no listing.
\<close>

theorem by_reference_same_token:
  "by_value_pointer (fst (run_state (dumpDeclNode E N) st))
     = Some (fst (run_state (dumpPointer E (Decl_getPointer N)) st))
   \<and> field_of ''decl_pointer'' (fst (run_state (dumpDeclRef E R) st))
     = Some (fst (run_state (dumpPointer E (getDeclPointer R)) st))
   \<and> (getDeclPointer R = Decl_getPointer N
        \<and> table_extends (snd (run_state (dumpDeclNode E N) st)) st' \<longrightarrow>
      field_of ''decl_pointer'' (fst (run_state (dumpDeclRef E R) st'))
        = by_value_pointer (fst (run_state (dumpDeclNode E N) st)))
   \<and> (getDeclPointer R = Decl_getPointer N
        \<and> table_extends (snd (run_state (dumpDeclRef E R) st)) st' \<longrightarrow>
      by_value_pointer (fst (run_state (dumpDeclNode E N) st'))
        = field_of ''decl_pointer'' (fst (run_state (dumpDeclRef E R) st)))
   \<and> table_extends st (snd (run_state (dumpDeclNode E N) st))
   \<and> table_extends st (snd (run_state (dumpStmtNode E S) st))
   \<and> table_extends st (snd (run_state (dumpDeclRef E R) st))
   \<and> fst (run_state (VisitDeclContext E (Some (members, l, v))) st) ! 0
     = fst (run_state (array_of snd (retained E members)) st)
   \<and> fst (run_state (VisitDeclStmt E B children ds) st) ! 2
     = fst (run_state (array_of snd ds) (snd (run_state (VisitStmt E B children) st)))"
proof (intro conjI impI)
  show "by_value_pointer (fst (run_state (dumpDeclNode E N) st))
     = Some (fst (run_state (dumpPointer E (Decl_getPointer N)) st))"
    by (rule by_value_pointer_dumpDeclNode)
  show "field_of ''decl_pointer'' (fst (run_state (dumpDeclRef E R) st))
     = Some (fst (run_state (dumpPointer E (getDeclPointer R)) st))"
    by (rule decl_pointer_dumpDeclRef)
  show "table_extends st (snd (run_state (dumpDeclNode E N) st))"
    using keeps_nodes(1) [of E N] by (simp add: keeps_def)
  show "table_extends st (snd (run_state (dumpStmtNode E S) st))"
    using keeps_nodes(2) [of E S] by (simp add: keeps_def)
  show "table_extends st (snd (run_state (dumpDeclRef E R) st))"
    using keeps_dumpDeclRef [of E R] by (simp add: keeps_def)
  show "fst (run_state (VisitDeclContext E (Some (members, l, v))) st) ! 0
     = fst (run_state (array_of snd (retained E members)) st)"
    by (simp add: VisitDeclContext_def retained_def split_beta Let_def)
  show "fst (run_state (VisitDeclStmt E B children ds) st) ! 2
     = fst (run_state (array_of snd ds) (snd (run_state (VisitStmt E B children) st)))"
    by (simp add: VisitDeclStmt_def VisitStmt_def split_beta)
next
  assume a: "getDeclPointer R = Decl_getPointer N
    \<and> table_extends (snd (run_state (dumpDeclNode E N) st)) st'"
  from a have "fst (run_state (dumpPointer E (Decl_getPointer N)) st')
      = fst (run_state (dumpPointer E (Decl_getPointer N)) st)"
    by (intro token_after [OF starts_with_dumpDeclNode keeps_nodes(1)]) simp
  with a show "field_of ''decl_pointer'' (fst (run_state (dumpDeclRef E R) st'))
        = by_value_pointer (fst (run_state (dumpDeclNode E N) st))"
    by (simp add: by_value_pointer_dumpDeclNode decl_pointer_dumpDeclRef)
next
  assume a: "getDeclPointer R = Decl_getPointer N
    \<and> table_extends (snd (run_state (dumpDeclRef E R) st)) st'"
  from a have "fst (run_state (dumpPointer E (getDeclPointer R)) st')
      = fst (run_state (dumpPointer E (getDeclPointer R)) st)"
    by (intro token_after [OF starts_with_dumpDeclRef keeps_dumpDeclRef]) simp
  with a show "by_value_pointer (fst (run_state (dumpDeclNode E N) st'))
        = field_of ''decl_pointer'' (fst (run_state (dumpDeclRef E R) st))"
    by (simp add: by_value_pointer_dumpDeclNode decl_pointer_dumpDeclRef)
qed

theorem by_reference_same_token_witness:
  "field_of ''decl_pointer''
     (fst (run_state (dumpDeclRef sample_exporter sample_y_ref)
        (snd (run_state (dumpDeclNode sample_exporter sample_y) initial_state))))
     = by_value_pointer (fst (run_state (dumpDeclNode sample_exporter sample_y) initial_state))
   \<and> by_value_pointer
       (fst (run_state (dumpDeclNode sample_exporter sample_y)
          (snd (run_state (dumpDeclRef sample_exporter sample_y_ref) initial_state))))
     = field_of ''decl_pointer''
         (fst (run_state (dumpDeclRef sample_exporter sample_y_ref) initial_state))
   \<and> by_value_pointer (fst (run_state (dumpDeclNode sample_exporter sample_y) initial_state))
     = Some (AString ''0'')"
proof -
  have p: "getDeclPointer sample_y_ref = Decl_getPointer sample_y"
    by (simp add: sample_y_ref_def sample_y_def Decl_getPointer_def sample_Decl_base_def)
  have t: "fst (run_state (dumpPointer sample_exporter (Decl_getPointer sample_y)) initial_state)
      = AString ''0''"
    by (simp add: sample_y_def Decl_getPointer_def sample_Decl_base_def dumpPointer_def
          writePointer_def sample_exporter_def initial_state_def printf_d_def snprintf20_def
          dec_digits_small)
  from by_reference_same_token
         [of sample_exporter sample_y initial_state sample_y_ref
             "snd (run_state (dumpDeclNode sample_exporter sample_y) initial_state)"]
       by_reference_same_token
         [of sample_exporter sample_y initial_state sample_y_ref
             "snd (run_state (dumpDeclRef sample_exporter sample_y_ref) initial_state)"]
  show ?thesis
    by (simp add: p t)
qed

subsection \<open>Null pointers\<close>

lemma dumpDecl_None:
  "fst (run_state (dumpDecl E None) st)
     = AVariant ''EmptyDecl'' (Some (ATuple (Some 1)
         [AObject 4
            [(''pointer'', fst (run_state (dumpPointer E (NullPtrDecl E)) st)),
             (''source_range'', ATuple (Some 2) [AObject 0 [], AObject 0 []]),
             (''attributes'', AArray (Some 0) [])]]))"
  by (simp add: dumpDecl_def NullPtrDecl_node_def NullPtrDecl_base_def Decl_getDeclKindName_def
        Decl_getKind_def dumpDecl_scopes_def ConstDeclVisitor_Visit_def DeclVisitor_of_def
        DeclVisitor_TupleSize_def DeclTupleSize_def VisitDecl_def Let_def split_beta
        object_def fields_def opt_field_def field_def flag_def emitFlag_def is_some_def
        dumpPreviousDeclOptionallyWithTag_def array_of_def dumpSourceRangeM_def
        dumpSourceRange_def dumpSourceLocation_def)

lemma dumpStmt_None:
  "fst (run_state (dumpStmt E None) st)
     = AVariant ''NullStmt'' (Some (ATuple (Some 2)
         [AObject 2
            [(''pointer'', fst (run_state (dumpPointer E (NullPtrStmt E)) st)),
             (''source_range'', ATuple (Some 2) [AObject 0 [], AObject 0 []])],
          AArray (Some 0) []]))"
  by (simp add: dumpStmt_def NullPtrStmt_node_def NullPtrStmt_base_def Stmt_getStmtClassName_def
        Stmt_getStmtClass_def dumpStmt_scopes_def ConstStmtVisitor_Visit_def StmtVisitor_of_def
        StmtVisitor_TupleSize_def StmtTupleSize_def VisitStmt_def Let_def split_beta
        object_def fields_def field_def array_of_def dumpSourceRangeM_def
        dumpSourceRange_def dumpSourceLocation_def)

lemma dumpType_None:
  "fst (run_state (dumpType E None) st)
     = AVariant ''NoneType'' (Some (ATuple None
         [AObject 2
            [(''pointer'', fst (run_state (dumpPointer E 0) st)),
             (''raw'', AString ''NULL TYPE'')]]))"
  by (simp add: dumpType_def VisitType_def null_type_string_def split_beta)

lemma starts_with_dumpDecl_None:
  "starts_with (dumpPointer E (NullPtrDecl E)) (dumpDecl E None)"
  using starts_with_dumpDeclNode [of E "NullPtrDecl_node E"]
  by (simp add: dumpDecl_def NullPtrDecl_node_def NullPtrDecl_base_def Decl_getPointer_def)

lemma starts_with_dumpStmt_None:
  "starts_with (dumpPointer E (NullPtrStmt E)) (dumpStmt E None)"
  by (simp add: dumpStmt_def NullPtrStmt_node_def NullPtrStmt_base_def dumpStmt_scopes_def
        ConstStmtVisitor_Visit_def VisitStmt_def)

lemma starts_with_dumpType_None: "starts_with (dumpPointer E 0) (dumpType E None)"
  by (simp add: dumpType_def VisitType_def)

text \<open>
  Null declarations, statements and types.  A null declaration is written as the
  \<^verbatim>\<open>EmptyDecl\<close> made by the constructor, a null statement as the \<^verbatim>\<open>NullStmt\<close> made by the
  constructor; for a null type no node is made, it is written as the variant \<^verbatim>\<open>NoneType\<close>
  with the token of the null pointer.  In each of the three the encoding is fixed but for
  the token, and at every later state of the identity table the encoding is the same as at
  the first: same tag, same fields, same token.
\<close>

theorem sentinel_stability:
  "fst (run_state (dumpDecl E None) st)
     = AVariant ''EmptyDecl'' (Some (ATuple (Some 1)
         [AObject 4
            [(''pointer'', fst (run_state (dumpPointer E (NullPtrDecl E)) st)),
             (''source_range'', ATuple (Some 2) [AObject 0 [], AObject 0 []]),
             (''attributes'', AArray (Some 0) [])]]))
   \<and> fst (run_state (dumpStmt E None) st)
     = AVariant ''NullStmt'' (Some (ATuple (Some 2)
         [AObject 2
            [(''pointer'', fst (run_state (dumpPointer E (NullPtrStmt E)) st)),
             (''source_range'', ATuple (Some 2) [AObject 0 [], AObject 0 []])],
          AArray (Some 0) []]))
   \<and> fst (run_state (dumpType E None) st)
     = AVariant ''NoneType'' (Some (ATuple None
         [AObject 2
            [(''pointer'', fst (run_state (dumpPointer E 0) st)),
             (''raw'', AString ''NULL TYPE'')]]))
   \<and> (table_extends (snd (run_state (dumpDecl E None) st)) st' \<longrightarrow>
        fst (run_state (dumpDecl E None) st') = fst (run_state (dumpDecl E None) st))
   \<and> (table_extends (snd (run_state (dumpStmt E None) st)) st' \<longrightarrow>
        fst (run_state (dumpStmt E None) st') = fst (run_state (dumpStmt E None) st))
   \<and> (table_extends (snd (run_state (dumpType E None) st)) st' \<longrightarrow>
        fst (run_state (dumpType E None) st') = fst (run_state (dumpType E None) st))"
proof (intro conjI impI)
  show "fst (run_state (dumpDecl E None) st)
     = AVariant ''EmptyDecl'' (Some (ATuple (Some 1)
         [AObject 4
            [(''pointer'', fst (run_state (dumpPointer E (NullPtrDecl E)) st)),
             (''source_range'', ATuple (Some 2) [AObject 0 [], AObject 0 []]),
             (''attributes'', AArray (Some 0) [])]]))"
    by (rule dumpDecl_None)
  show "fst (run_state (dumpStmt E None) st)
     = AVariant ''NullStmt'' (Some (ATuple (Some 2)
         [AObject 2
            [(''pointer'', fst (run_state (dumpPointer E (NullPtrStmt E)) st)),
             (''source_range'', ATuple (Some 2) [AObject 0 [], AObject 0 []])],
          AArray (Some 0) []]))"
    by (rule dumpStmt_None)
  show "fst (run_state (dumpType E None) st)
     = AVariant ''NoneType'' (Some (ATuple None
         [AObject 2
            [(''pointer'', fst (run_state (dumpPointer E 0) st)),
             (''raw'', AString ''NULL TYPE'')]]))"
    by (rule dumpType_None)
next
  assume "table_extends (snd (run_state (dumpDecl E None) st)) st'"
  then have "fst (run_state (dumpPointer E (NullPtrDecl E)) st')
      = fst (run_state (dumpPointer E (NullPtrDecl E)) st)"
    by (intro token_after [OF starts_with_dumpDecl_None]) (simp_all add: dumpDecl_def keeps_nodes)
  then show "fst (run_state (dumpDecl E None) st') = fst (run_state (dumpDecl E None) st)"
    by (simp add: dumpDecl_None)
next
  assume "table_extends (snd (run_state (dumpStmt E None) st)) st'"
  then have "fst (run_state (dumpPointer E (NullPtrStmt E)) st')
      = fst (run_state (dumpPointer E (NullPtrStmt E)) st)"
    by (intro token_after [OF starts_with_dumpStmt_None]) (simp_all add: dumpStmt_def keeps_nodes)
  then show "fst (run_state (dumpStmt E None) st') = fst (run_state (dumpStmt E None) st)"
    by (simp add: dumpStmt_None)
next
  assume "table_extends (snd (run_state (dumpType E None) st)) st'"
  then have "fst (run_state (dumpPointer E 0) st') = fst (run_state (dumpPointer E 0) st)"
    by (intro token_after [OF starts_with_dumpType_None]) simp_all
  then show "fst (run_state (dumpType E None) st') = fst (run_state (dumpType E None) st)"
    by (simp add: dumpType_None)
qed

theorem sentinel_stability_witness:
  "fst (run_state (dumpDecl sample_exporter None)
          (snd (run_state (dumpDeclNode sample_exporter sample_tu)
             (snd (run_state (dumpDecl sample_exporter None) initial_state)))))
     = fst (run_state (dumpDecl sample_exporter None) initial_state)
   \<and> fst (run_state (dumpStmt sample_exporter None)
          (snd (run_state (dumpDeclNode sample_exporter sample_tu)
             (snd (run_state (dumpStmt sample_exporter None) initial_state)))))
     = fst (run_state (dumpStmt sample_exporter None) initial_state)
   \<and> fst (run_state (dumpType sample_exporter None)
          (snd (run_state (dumpDeclNode sample_exporter sample_tu)
             (snd (run_state (dumpType sample_exporter None) initial_state)))))
     = fst (run_state (dumpType sample_exporter None) initial_state)"
proof -
  have k: "\<And>s. table_extends s (snd (run_state (dumpDeclNode sample_exporter sample_tu) s))"
    using keeps_nodes(1) [of sample_exporter sample_tu] by (simp add: keeps_def)
  from sentinel_stability
         [of sample_exporter initial_state
             "snd (run_state (dumpDeclNode sample_exporter sample_tu)
                (snd (run_state (dumpDecl sample_exporter None) initial_state)))"]
       sentinel_stability
         [of sample_exporter initial_state
             "snd (run_state (dumpDeclNode sample_exporter sample_tu)
                (snd (run_state (dumpStmt sample_exporter None) initial_state)))"]
       sentinel_stability
         [of sample_exporter initial_state
             "snd (run_state (dumpDeclNode sample_exporter sample_tu)
                (snd (run_state (dumpType sample_exporter None) initial_state)))"]
  show ?thesis
    by (simp add: k)
qed

lemma dumpComment_ClassComment:
  "dumpComment E unknown_kind (Some (ClassComment c))
     = do { a \<leftarrow> dumpCommentNode E c; return (Inr a) }"
  by (cases c)
     (simp_all add: dumpComment_def ConstCommentVisitor_visit_def getCommentKindName_def Let_def)

text \<open>
  C4: a null comment.  \<^verbatim>\<open>dumpComment\<close> replaces the null pointer by the node
  \<^verbatim>\<open>NullPtrComment\<close>, opens the variant under the name of its kind, \<^verbatim>\<open>NoCommentKind\<close>, and in
  it a tuple with no size.  The kind is none of the classes that the \<^verbatim>\<open>switch\<close> of clang's
  \<^verbatim>\<open>CommentVisitor::visit\<close> has a case for, so that what follows is the \<^verbatim>\<open>default\<close> case of the
  \<^verbatim>\<open>switch\<close>, whatever it is.  In clang it is \<^verbatim>\<open>llvm_unreachable("Unknown comment kind!")\<close>:
  the run ends there with the two scopes open, at every state and for every exporter, and
  no encoding of the null comment is written, unlike those of the null declaration and of
  the null statement.
\<close>

theorem dumpComment_nullptr:
  "run_state (dumpComment E unknown_kind None) st
     = (case run_state (unknown_kind (NoCommentKind (NullPtrComment E) (None, None))) st of
          (Inl (scopes, e), st') \<Rightarrow>
            (Inl (VariantScope ''NoCommentKind'' # TupleScope None # scopes, e), st')
        | (Inr fs, st') \<Rightarrow>
            (Inr (AVariant ''NoCommentKind'' (Some (ATuple None fs))), st'))
   \<and> run_state
         (dumpComment E (\<lambda>C. return (Inl ([], llvm_unreachable ''Unknown comment kind!''))) None) st
     = (Inl ([VariantScope ''NoCommentKind'', TupleScope None],
             llvm_unreachable ''Unknown comment kind!''), st)"
proof (intro conjI)
  obtain r st' where u: "run_state (unknown_kind (NoCommentKind (NullPtrComment E) (None, None))) st = (r, st')"
    by (cases "run_state (unknown_kind (NoCommentKind (NullPtrComment E) (None, None))) st")
  show "run_state (dumpComment E unknown_kind None) st
     = (case run_state (unknown_kind (NoCommentKind (NullPtrComment E) (None, None))) st of
          (Inl (scopes, e), st') \<Rightarrow>
            (Inl (VariantScope ''NoCommentKind'' # TupleScope None # scopes, e), st')
        | (Inr fs, st') \<Rightarrow>
            (Inr (AVariant ''NoCommentKind'' (Some (ATuple None fs))), st'))"
    by (cases r)
       (simp_all add: u dumpComment_def NullPtrComment_node_def ConstCommentVisitor_visit_def
          getCommentKindName_def Let_def split_beta)
  show "run_state
         (dumpComment E (\<lambda>C. return (Inl ([], llvm_unreachable ''Unknown comment kind!''))) None) st
     = (Inl ([VariantScope ''NoCommentKind'', TupleScope None],
             llvm_unreachable ''Unknown comment kind!''), st)"
    by (simp add: dumpComment_def NullPtrComment_node_def ConstCommentVisitor_visit_def
          getCommentKindName_def Let_def)
qed
end
